(* ===== verification/Js_Prelude.thy ===== *)
theory Js_Prelude
  imports Main "HOL-Library.Sublist"
begin

text \<open>
  The fragment of JavaScript's standard library that the console uses, and the generic
  lemmas the component theories share.

  A JavaScript string is represented by its UTF-8 bytes (\<^typ>\<open>string\<close>, a list of
  \<^typ>\<open>char\<close>).  All the string operations of the console search for, split at or cut
  after ASCII text, and both percent-encoders work on the UTF-8 bytes, so they mean the same on
  bytes as on UTF-16 code units; \<open>trim\<close> knows the byte sequences of the non-ASCII white space.
  Unpaired surrogates have no UTF-8 form and are outside the model.

  A thrown value is an element of \<open>js_error\<close>; a computation that may throw returns
  \<open>js_error + 'a\<close>.  A value of unknown shape (the result of \<open>JSON.parse\<close>) is a \<open>jval\<close>.
\<close>

named_theorems store_simps \<open>unfolding rules of the store operations\<close>
named_theorems step_simps \<open>unfolding rules of the step functions of the state machines\<close>

section \<open>Errors and JSON values\<close>

datatype js_error =
    TypeError
  | SyntaxError
  | RangeError
  | URIError
  | AbortError
  | NetworkError
  | Error string

datatype jval =
    JUndef
  | JNull
  | JBool bool
  | JNum int
  | JStr string
  | JArr "jval list"
  | JObj "(string \<times> jval) list"

text \<open>Truthiness, and the property read \<open>v.k\<close>: it throws on \<open>undefined\<close> and \<open>null\<close>
  and is \<open>undefined\<close> where there is no such property.\<close>

fun truthy :: "jval \<Rightarrow> bool" where
  "truthy JUndef = False"
| "truthy JNull = False"
| "truthy (JBool b) = b"
| "truthy (JNum n) = (n \<noteq> 0)"
| "truthy (JStr s) = (s \<noteq> [])"
| "truthy (JArr xs) = True"
| "truthy (JObj ps) = True"

definition own :: "(string \<times> jval) list \<Rightarrow> string \<Rightarrow> jval" where
  "own ps k = (case map_of ps k of Some v \<Rightarrow> v | None \<Rightarrow> JUndef)"

fun get_prop :: "jval \<Rightarrow> string \<Rightarrow> js_error + jval" where
  "get_prop JUndef k = Inl TypeError"
| "get_prop JNull k = Inl TypeError"
| "get_prop (JObj ps) k = Inr (own ps k)"
| "get_prop v k = Inr JUndef"

text \<open>\<open>v?.k\<close> and \<open>v ?? d\<close>.\<close>

fun opt_prop :: "jval \<Rightarrow> string \<Rightarrow> jval" where
  "opt_prop (JObj ps) k = own ps k"
| "opt_prop v k = JUndef"

fun nullish :: "jval \<Rightarrow> bool" where
  "nullish JUndef = True"
| "nullish JNull = True"
| "nullish v = False"

definition coalesce :: "jval \<Rightarrow> jval \<Rightarrow> jval" where
  "coalesce v d = (if nullish v then d else v)"

lemma own_Cons [simp]: "own ((k, v) # ps) k' = (if k' = k then v else own ps k')"
  by (simp add: own_def)

lemma own_Nil [simp]: "own [] k = JUndef"
  by (simp add: own_def)

section \<open>Strings\<close>

abbreviation startsWith :: "string \<Rightarrow> string \<Rightarrow> bool" where
  "startsWith s p \<equiv> prefix p s"

abbreviation str_includes :: "string \<Rightarrow> string \<Rightarrow> bool" where
  "str_includes s t \<equiv> sublist t s"

text \<open>\<open>s.split(c)\<close> for a one-character separator: always at least one part.\<close>

fun split_on :: "'a \<Rightarrow> 'a list \<Rightarrow> 'a list list" where
  "split_on c [] = [[]]"
| "split_on c (x # xs) =
     (if x = c then [] # split_on c xs
      else (x # hd (split_on c xs)) # tl (split_on c xs))"

lemma split_on_nonempty [simp]: "split_on c xs \<noteq> []"
  by (cases xs) auto

lemma split_on_parts_free: "w \<in> set (split_on c xs) \<Longrightarrow> c \<notin> set w"
proof (induction xs arbitrary: w)
  case (Cons x xs)
  then show ?case by (cases "split_on c xs") (auto split: if_splits)
qed simp

lemma split_on_free: "c \<notin> set xs \<Longrightarrow> split_on c xs = [xs]"
  by (induction xs) auto

lemma split_on_append_sep:
  "split_on c (xs @ c # ys) = split_on c xs @ split_on c ys"
  by (induction xs) auto

lemma split_on_append_free:
  "c \<notin> set ys \<Longrightarrow> split_on c (xs @ ys) = butlast (split_on c xs) @ [last (split_on c xs) @ ys]"
proof (induction xs)
  case Nil
  then show ?case by (simp add: split_on_free)
next
  case (Cons x xs)
  then show ?case by (cases "split_on c xs") auto
qed

text \<open>\<open>xs.join(sep)\<close>.\<close>

fun join :: "string \<Rightarrow> string list \<Rightarrow> string" where
  "join sep [] = []"
| "join sep [w] = w"
| "join sep (w # ws) = w @ sep @ join sep ws"

lemma join_Cons: "ws \<noteq> [] \<Longrightarrow> join sep (w # ws) = w @ sep @ join sep ws"
  by (cases ws) auto

lemma join_split_on: "join [c] (split_on c s) = s"
proof (induction s)
  case (Cons x s)
  then show ?case by (cases "split_on c s"; cases "tl (split_on c s)") (auto simp: join_Cons)
qed simp

lemma split_on_join:
  "ws \<noteq> [] \<Longrightarrow> \<forall>w \<in> set ws. c \<notin> set w \<Longrightarrow> split_on c (join [c] ws) = ws"
  by (induction "[c]" ws rule: join.induct) (auto simp: split_on_free split_on_append_sep)


text \<open>
  \<open>s.trim()\<close> removes the white space and line terminators of the language from both ends:
  tab, line feed, vertical tab, form feed, carriage return and space, then the no-break spaces,
  the separators of Unicode's category Zs, the line and paragraph separators and the byte order
  mark, each by its UTF-8 bytes.
\<close>

definition js_ws :: "string list" where
  "js_ws =
     [[CHR 0x09], [CHR 0x0A], [CHR 0x0B], [CHR 0x0C], [CHR 0x0D], [CHR 0x20],
      [CHR 0xC2, CHR 0xA0], [CHR 0xE1, CHR 0x9A, CHR 0x80],
      [CHR 0xE2, CHR 0x80, CHR 0x80], [CHR 0xE2, CHR 0x80, CHR 0x81],
      [CHR 0xE2, CHR 0x80, CHR 0x82], [CHR 0xE2, CHR 0x80, CHR 0x83],
      [CHR 0xE2, CHR 0x80, CHR 0x84], [CHR 0xE2, CHR 0x80, CHR 0x85],
      [CHR 0xE2, CHR 0x80, CHR 0x86], [CHR 0xE2, CHR 0x80, CHR 0x87],
      [CHR 0xE2, CHR 0x80, CHR 0x88], [CHR 0xE2, CHR 0x80, CHR 0x89],
      [CHR 0xE2, CHR 0x80, CHR 0x8A], [CHR 0xE2, CHR 0x80, CHR 0xA8],
      [CHR 0xE2, CHR 0x80, CHR 0xA9], [CHR 0xE2, CHR 0x80, CHR 0xAF],
      [CHR 0xE2, CHR 0x81, CHR 0x9F], [CHR 0xE3, CHR 0x80, CHR 0x80],
      [CHR 0xEF, CHR 0xBB, CHR 0xBF]]"

fun strip_prefix :: "string list \<Rightarrow> string \<Rightarrow> string option" where
  "strip_prefix [] s = None"
| "strip_prefix (w # ws) s =
     (if w \<noteq> [] \<and> prefix w s then Some (drop (length w) s) else strip_prefix ws s)"

lemma strip_prefix_Some:
  "strip_prefix ws s = Some t \<Longrightarrow> \<exists>w \<in> set ws. w \<noteq> [] \<and> s = w @ t"
  by (induction ws) (auto simp: prefix_def split: if_splits)

lemma strip_prefix_shorter: "strip_prefix ws s = Some t \<Longrightarrow> length t < length s"
  by (auto dest!: strip_prefix_Some)

lemma strip_prefix_None:
  "strip_prefix ws s = None \<longleftrightarrow> (\<forall>w \<in> set ws. w \<noteq> [] \<longrightarrow> \<not> prefix w s)"
  by (induction ws) auto

function strip_start :: "string list \<Rightarrow> string \<Rightarrow> string" where
  "strip_start ws s = (case strip_prefix ws s of None \<Rightarrow> s | Some t \<Rightarrow> strip_start ws t)"
  by pat_completeness auto
termination
  by (relation "measure (\<lambda>(ws, s). length s)") (auto dest: strip_prefix_shorter)

declare strip_start.simps [simp del]

definition trim_start :: "string \<Rightarrow> string" where
  "trim_start s = strip_start js_ws s"

definition trim_end :: "string \<Rightarrow> string" where
  "trim_end s = rev (strip_start (map rev js_ws) (rev s))"

definition trim :: "string \<Rightarrow> string" where
  "trim s = trim_end (trim_start s)"

lemma strip_start_fixed: "strip_prefix ws (strip_start ws s) = None"
proof (induction ws s rule: strip_start.induct)
  case (1 ws s)
  then show ?case by (cases "strip_prefix ws s") (auto simp: strip_start.simps [of ws s])
qed

lemma strip_start_id: "strip_prefix ws s = None \<Longrightarrow> strip_start ws s = s"
  by (simp add: strip_start.simps)

lemma strip_start_suffix: "suffix (strip_start ws s) s"
proof (induction ws s rule: strip_start.induct)
  case (1 ws s)
  show ?case
  proof (cases "strip_prefix ws s")
    case (Some t)
    then have "suffix t s" by (auto dest!: strip_prefix_Some simp: suffix_def)
    with 1 Some show ?thesis
      by (simp add: strip_start.simps [of ws s] suffix_order.trans [OF _ \<open>suffix t s\<close>])
  qed (simp add: strip_start.simps)
qed

lemma trim_end_prefix: "prefix (trim_end s) s"
  using strip_start_suffix [of "map rev js_ws" "rev s"]
  by (simp add: trim_end_def suffix_to_prefix)

lemma trim_sublist: "sublist (trim s) s"
proof -
  have "sublist (trim_end (trim_start s)) (trim_start s)"
    using trim_end_prefix by (rule prefix_imp_sublist)
  moreover have "sublist (trim_start s) s"
    unfolding trim_start_def using strip_start_suffix by (rule suffix_imp_sublist)
  ultimately show ?thesis
    unfolding trim_def by (rule sublist_order.order.trans)
qed

lemma trim_no_ws_start: "strip_prefix js_ws (trim s) = None"
proof -
  have "strip_prefix js_ws (trim_start s) = None"
    by (simp add: trim_start_def strip_start_fixed)
  with trim_end_prefix [of "trim_start s"] show ?thesis
    unfolding strip_prefix_None trim_def by (blast intro: prefix_order.trans)
qed

lemma trim_idem [simp]: "trim (trim s) = trim s"
proof -
  have "trim_start (trim s) = trim s"
    using trim_no_ws_start by (simp add: trim_start_def strip_start_id)
  moreover have "trim_end (trim_end t) = trim_end t" for t
    by (simp add: trim_end_def strip_start_id strip_start_fixed)
  ultimately show ?thesis by (simp add: trim_def)
qed

text \<open>\<open>String(n)\<close> for an integer.\<close>

fun digits :: "nat \<Rightarrow> string" where
  "digits n = (if n < 10 then [char_of (48 + n)] else digits (n div 10) @ [char_of (48 + n mod 10)])"

declare digits.simps [simp del]

definition string_of_int :: "int \<Rightarrow> string" where
  "string_of_int n = (if n < 0 then CHR ''-'' # digits (nat (- n)) else digits (nat n))"

definition string_of_bool :: "bool \<Rightarrow> string" where
  "string_of_bool b = (if b then ''true'' else ''false'')"

definition is_digit :: "char \<Rightarrow> bool" where
  "is_digit c \<longleftrightarrow> 48 \<le> (of_char c :: nat) \<and> (of_char c :: nat) \<le> 57"

lemma digits_nonempty [simp]: "digits n \<noteq> []"
  by (subst digits.simps) simp

lemma digits_are_digits: "c \<in> set (digits n) \<Longrightarrow> is_digit c"
proof (induction n rule: digits.induct)
  case (1 n)
  have "is_digit (char_of (48 + n mod 10))"
    by (simp add: is_digit_def)
  with 1 show ?case
    by (subst (asm) (2) digits.simps) (auto simp: is_digit_def split: if_splits)
qed

section \<open>Lists, sets and objects\<close>

text \<open>\<open>xs.findIndex(p)\<close> (\<open>None\<close> for the result \<open>-1\<close>), the members of \<open>new Set(xs)\<close> in insertion
  order, \<open>xs.at\<close> the end of the array (\<open>undefined\<close> when it is empty) and the object spread
  \<open>{...a, ...b}\<close>, in which a later entry replaces the value of an earlier one in its place.\<close>

fun findIndex :: "('a \<Rightarrow> bool) \<Rightarrow> 'a list \<Rightarrow> nat option" where
  "findIndex p [] = None"
| "findIndex p (x # xs) = (if p x then Some 0 else map_option Suc (findIndex p xs))"

lemma findIndex_Some:
  "findIndex p xs = Some i \<longleftrightarrow> i < length xs \<and> p (xs ! i) \<and> (\<forall>j < i. \<not> p (xs ! j))"
proof (induction xs arbitrary: i)
  case (Cons x xs)
  then show ?case by (cases i) (auto simp: less_Suc_eq_0_disj)
qed simp

lemma findIndex_None: "findIndex p xs = None \<longleftrightarrow> (\<forall>x \<in> set xs. \<not> p x)"
  by (induction xs) auto

fun set_order :: "'a list \<Rightarrow> 'a list" where
  "set_order [] = []"
| "set_order (x # xs) = x # filter (\<lambda>y. y \<noteq> x) (set_order xs)"

lemma set_set_order [simp]: "set (set_order xs) = set xs"
  by (induction xs) auto

lemma distinct_set_order [simp]: "distinct (set_order xs)"
  by (induction xs) auto

definition last_opt :: "'a list \<Rightarrow> 'a option" where
  "last_opt xs = (if xs = [] then None else Some (last xs))"

fun put :: "string \<Rightarrow> 'v \<Rightarrow> (string \<times> 'v) list \<Rightarrow> (string \<times> 'v) list" where
  "put k v [] = [(k, v)]"
| "put k v ((k', v') # ps) = (if k = k' then (k, v) # ps else (k', v') # put k v ps)"

definition spread :: "(string \<times> 'v) list \<Rightarrow> (string \<times> 'v) list \<Rightarrow> (string \<times> 'v) list" where
  "spread a b = fold (\<lambda>(k, v) ps. put k v ps) b a"

lemma map_of_put: "map_of (put k v ps) = (map_of ps)(k \<mapsto> v)"
  by (induction k v ps rule: put.induct) auto

lemma fst_set_put: "fst ` set (put k v ps) = insert k (fst ` set ps)"
  by (induction k v ps rule: put.induct) auto

lemma spread_Nil [simp]: "spread a [] = a"
  by (simp add: spread_def)

lemma spread_Cons: "spread a ((k, v) # b) = spread (put k v a) b"
  by (simp add: spread_def)

lemma fst_set_spread: "fst ` set (spread a b) = fst ` set a \<union> fst ` set b"
proof (induction b arbitrary: a)
  case (Cons p b)
  then show ?case by (cases p) (simp add: spread_Cons fst_set_put)
qed simp

section \<open>Object literals used as tables\<close>

text \<open>
  A lookup \<open>table[k] ?? d\<close> in an object literal also finds the members that every object inherits
  from \<open>Object.prototype\<close>.  The result of such a lookup is a text of the table or an inherited
  member, which is not a string; converting that to a string gives the texts below.
\<close>

datatype js_text = Text string | Inherited string

definition object_prototype :: "string list" where
  "object_prototype =
     [''constructor'', ''__defineGetter__'', ''__defineSetter__'', ''hasOwnProperty'',
      ''__lookupGetter__'', ''__lookupSetter__'', ''isPrototypeOf'', ''propertyIsEnumerable'',
      ''toString'', ''valueOf'', ''__proto__'', ''toLocaleString'']"

definition table_lookup :: "(string \<times> string) list \<Rightarrow> string \<Rightarrow> js_text option" where
  "table_lookup tab k =
     (case map_of tab k of
        Some v \<Rightarrow> Some (Text v)
      | None \<Rightarrow> if k \<in> set object_prototype then Some (Inherited k) else None)"

definition table_or_key :: "(string \<times> string) list \<Rightarrow> string \<Rightarrow> js_text" where
  "table_or_key tab k = (case table_lookup tab k of Some t \<Rightarrow> t | None \<Rightarrow> Text k)"

fun text_string :: "js_text \<Rightarrow> string" where
  "text_string (Text s) = s"
| "text_string (Inherited k) =
     (if k = ''__proto__'' then ''[object Object]''
      else ''function '' @ (if k = ''constructor'' then ''Object'' else k) @ ''() { [native code] }'')"

lemma table_or_key_hit: "map_of tab k = Some v \<Longrightarrow> table_or_key tab k = Text v"
  by (simp add: table_or_key_def table_lookup_def)

lemma table_or_key_miss:
  "map_of tab k = None \<Longrightarrow> k \<notin> set object_prototype \<Longrightarrow> table_or_key tab k = Text k"
  by (simp add: table_or_key_def table_lookup_def)

lemma table_or_key_cases:
  obtains (hit) v where "(k, v) \<in> set tab" "table_or_key tab k = Text v"
  | (inherited) "k \<in> set object_prototype" "table_or_key tab k = Inherited k"
  | (raw) "k \<notin> fst ` set tab" "table_or_key tab k = Text k"
proof (cases "map_of tab k")
  case (Some v)
  then show ?thesis
    using hit [of v] by (auto dest: map_of_SomeD simp: table_or_key_hit)
next
  case None
  then have notin: "k \<notin> fst ` set tab" by (simp add: map_of_eq_None_iff)
  show ?thesis
  proof (cases "k \<in> set object_prototype")
    case True
    then show ?thesis using inherited None by (simp add: table_or_key_def table_lookup_def)
  next
    case False
    then show ?thesis using raw notin None by (simp add: table_or_key_miss)
  qed
qed

lemma distinct_snd_key:
  "distinct (map snd ps) \<Longrightarrow> (a, v) \<in> set ps \<Longrightarrow> (b, v) \<in> set ps \<Longrightarrow> a = b"
  by (induction ps) (auto simp: image_iff)

text \<open>A table without repeated labels tells keys apart, unless a key is spelled like a label.\<close>

lemma table_or_key_inj:
  assumes "distinct (map snd tab)" "k \<notin> snd ` set tab" "k' \<notin> snd ` set tab"
    and eq: "table_or_key tab k = table_or_key tab k'"
  shows "k = k'"
proof (cases rule: table_or_key_cases [where k = k and tab = tab])
  case (hit v)
  then have "v \<in> snd ` set tab" by force
  with hit eq assms(3) have "(k', v) \<in> set tab"
    by (cases rule: table_or_key_cases [where k = k' and tab = tab]) auto
  with hit(1) show ?thesis by (rule distinct_snd_key [OF assms(1)])
next
  case inherited
  with eq show ?thesis
    by (cases rule: table_or_key_cases [where k = k' and tab = tab]) auto
next
  case raw
  then have "(k', k) \<in> set tab \<Longrightarrow> False" using assms(2) by force
  with raw eq show ?thesis
    by (cases rule: table_or_key_cases [where k = k' and tab = tab]) auto
qed

text \<open>Non-ASCII characters of the source's texts, by their UTF-8 bytes.\<close>

definition em_dash :: string where
  "em_dash = [CHR 0xE2, CHR 0x80, CHR 0x94]"

definition ellipsis :: string where
  "ellipsis = [CHR 0xE2, CHR 0x80, CHR 0xA6]"

definition middle_dot :: string where
  "middle_dot = [CHR 0xC2, CHR 0xB7]"

end
