(* ===== verification/Taxonomy.thy ===== *)
theory Taxonomy
  imports Js_Prelude
begin

text \<open>
  The event taxonomy of \<open>src/src/types/index.ts\<close>: the union types of event types, severities and
  categories, the label and category tables, and the list of OAuth 2.1 signals.

  A string-literal union becomes a \<^theory_text>\<open>datatype\<close> with one constructor per literal (capitalised,
  since the literals are also names of variables and operations), together with the function that
  returns the literal.  A \<open>Record\<close> keyed by the union is a function on the datatype; a
  \<open>Record<string, string>\<close> is an association list keyed by strings.
\<close>

section \<open>Event types, severities and categories\<close>

datatype SecurityEventType =
    Login_success | Login_failed | Logout | Account_locked | Account_unlocked |
    Password_changed | Password_reset_requested | Password_reset_used | Email_verified |
    Email_change_requested | Email_changed | User_registered | User_invited | Invite_accepted |
    Email_send_failed | Token_issued | Token_refreshed | Token_revoked | All_tokens_revoked |
    Invalid_token_used | Expired_token_used | Revoked_token_used | Refresh_token_reuse |
    Client_auth_failed | Auth_code_issued | Auth_code_exchanged | Auth_code_failed |
    Pkce_validation_failed | Scope_denied | Token_exchange | Dpop_validation_failed |
    Client_created | Client_updated | Client_deleted | Client_secret_rotated |
    Mfa_policy_violation | Mfa_recovery_code_used | Admin_app_signin | Admin_api_audience |
    Custom_claim_missing | Custom_claims_dropped | Suspicious_activity | Rate_limit_exceeded |
    Brute_force_detected | Audit_integrity_violation

datatype Severity = Info | Warning | ErrorSeverity | Critical

datatype EventCategory =
    Authentication | Account | Token | Oauth | Delegation | Client | Mfa | Threat | Integrity

primrec event_type_string :: "SecurityEventType \<Rightarrow> string" where
  "event_type_string Login_success = ''login_success''"
| "event_type_string Login_failed = ''login_failed''"
| "event_type_string Logout = ''logout''"
| "event_type_string Account_locked = ''account_locked''"
| "event_type_string Account_unlocked = ''account_unlocked''"
| "event_type_string Password_changed = ''password_changed''"
| "event_type_string Password_reset_requested = ''password_reset_requested''"
| "event_type_string Password_reset_used = ''password_reset_used''"
| "event_type_string Email_verified = ''email_verified''"
| "event_type_string Email_change_requested = ''email_change_requested''"
| "event_type_string Email_changed = ''email_changed''"
| "event_type_string User_registered = ''user_registered''"
| "event_type_string User_invited = ''user_invited''"
| "event_type_string Invite_accepted = ''invite_accepted''"
| "event_type_string Email_send_failed = ''email_send_failed''"
| "event_type_string Token_issued = ''token_issued''"
| "event_type_string Token_refreshed = ''token_refreshed''"
| "event_type_string Token_revoked = ''token_revoked''"
| "event_type_string All_tokens_revoked = ''all_tokens_revoked''"
| "event_type_string Invalid_token_used = ''invalid_token_used''"
| "event_type_string Expired_token_used = ''expired_token_used''"
| "event_type_string Revoked_token_used = ''revoked_token_used''"
| "event_type_string Refresh_token_reuse = ''refresh_token_reuse''"
| "event_type_string Client_auth_failed = ''client_auth_failed''"
| "event_type_string Auth_code_issued = ''auth_code_issued''"
| "event_type_string Auth_code_exchanged = ''auth_code_exchanged''"
| "event_type_string Auth_code_failed = ''auth_code_failed''"
| "event_type_string Pkce_validation_failed = ''pkce_validation_failed''"
| "event_type_string Scope_denied = ''scope_denied''"
| "event_type_string Token_exchange = ''token_exchange''"
| "event_type_string Dpop_validation_failed = ''dpop_validation_failed''"
| "event_type_string Client_created = ''client_created''"
| "event_type_string Client_updated = ''client_updated''"
| "event_type_string Client_deleted = ''client_deleted''"
| "event_type_string Client_secret_rotated = ''client_secret_rotated''"
| "event_type_string Mfa_policy_violation = ''mfa_policy_violation''"
| "event_type_string Mfa_recovery_code_used = ''mfa_recovery_code_used''"
| "event_type_string Admin_app_signin = ''admin_app_signin''"
| "event_type_string Admin_api_audience = ''admin_api_audience''"
| "event_type_string Custom_claim_missing = ''custom_claim_missing''"
| "event_type_string Custom_claims_dropped = ''custom_claims_dropped''"
| "event_type_string Suspicious_activity = ''suspicious_activity''"
| "event_type_string Rate_limit_exceeded = ''rate_limit_exceeded''"
| "event_type_string Brute_force_detected = ''brute_force_detected''"
| "event_type_string Audit_integrity_violation = ''audit_integrity_violation''"

primrec severity_string :: "Severity \<Rightarrow> string" where
  "severity_string Info = ''info''"
| "severity_string Warning = ''warning''"
| "severity_string ErrorSeverity = ''error''"
| "severity_string Critical = ''critical''"

definition all_event_types :: "SecurityEventType list" where
  "all_event_types =
     [Login_success, Login_failed, Logout, Account_locked, Account_unlocked, Password_changed,
      Password_reset_requested, Password_reset_used, Email_verified, Email_change_requested,
      Email_changed, User_registered, User_invited, Invite_accepted, Email_send_failed,
      Token_issued, Token_refreshed, Token_revoked, All_tokens_revoked, Invalid_token_used,
      Expired_token_used, Revoked_token_used, Refresh_token_reuse, Client_auth_failed,
      Auth_code_issued, Auth_code_exchanged, Auth_code_failed, Pkce_validation_failed,
      Scope_denied, Token_exchange, Dpop_validation_failed, Client_created, Client_updated,
      Client_deleted, Client_secret_rotated, Mfa_policy_violation, Mfa_recovery_code_used,
      Admin_app_signin, Admin_api_audience, Custom_claim_missing, Custom_claims_dropped,
      Suspicious_activity, Rate_limit_exceeded, Brute_force_detected, Audit_integrity_violation]"

lemma all_event_types_complete [simp]: "e \<in> set all_event_types"
  by (cases e) (simp_all add: all_event_types_def)

lemma UNIV_event_types: "UNIV = set all_event_types"
  by auto

instantiation SecurityEventType :: enum
begin

definition enum_SecurityEventType :: "SecurityEventType list" where
  "enum_SecurityEventType = all_event_types"

definition enum_all_SecurityEventType :: "(SecurityEventType \<Rightarrow> bool) \<Rightarrow> bool" where
  "enum_all_SecurityEventType P = list_all P all_event_types"

definition enum_ex_SecurityEventType :: "(SecurityEventType \<Rightarrow> bool) \<Rightarrow> bool" where
  "enum_ex_SecurityEventType P = list_ex P all_event_types"

instance
proof
  show "UNIV = set (enum_class.enum :: SecurityEventType list)"
    by (simp add: enum_SecurityEventType_def UNIV_event_types)
  show "distinct (enum_class.enum :: SecurityEventType list)"
    by (simp add: enum_SecurityEventType_def all_event_types_def)
  show "enum_class.enum_all P = Ball UNIV P" for P :: "SecurityEventType \<Rightarrow> bool"
    by (simp add: enum_all_SecurityEventType_def list_all_iff flip: UNIV_event_types)
  show "enum_class.enum_ex P = Bex UNIV P" for P :: "SecurityEventType \<Rightarrow> bool"
    by (simp add: enum_ex_SecurityEventType_def list_ex_iff flip: UNIV_event_types)
qed

end

text \<open>Distinct event types have distinct names, so the datatype stands for the union of strings.\<close>

lemma distinct_event_strings: "distinct (map event_type_string all_event_types)"
  by (simp add: all_event_types_def)

lemma event_type_string_inj: "event_type_string a = event_type_string b \<longleftrightarrow> a = b"
proof -
  have "inj_on event_type_string (set all_event_types)"
    using distinct_event_strings by (simp add: distinct_map)
  then show ?thesis by (rule inj_on_eq_iff) (rule all_event_types_complete)+
qed

section \<open>Labels and categories\<close>

definition EVENT_TYPE_LABELS :: "(string \<times> string) list" where
  "EVENT_TYPE_LABELS =
     [(''login_success'', ''Login Success''),
      (''login_failed'', ''Login Failed''),
      (''logout'', ''Logout''),
      (''account_locked'', ''Account Locked''),
      (''account_unlocked'', ''Account Unlocked''),
      (''password_changed'', ''Password Changed''),
      (''password_reset_requested'', ''Password Reset Requested''),
      (''password_reset_used'', ''Password Reset Used''),
      (''email_verified'', ''Email Verified''),
      (''email_change_requested'', ''Email Change Requested''),
      (''email_changed'', ''Email Changed''),
      (''user_registered'', ''User Registered''),
      (''user_invited'', ''User Invited''),
      (''invite_accepted'', ''Invite Accepted''),
      (''email_send_failed'', ''Email Send Failed''),
      (''token_issued'', ''Token Issued''),
      (''token_refreshed'', ''Token Refreshed''),
      (''token_revoked'', ''Token Revoked''),
      (''all_tokens_revoked'', ''All Tokens Revoked''),
      (''invalid_token_used'', ''Invalid Token Used''),
      (''expired_token_used'', ''Expired Token Used''),
      (''revoked_token_used'', ''Revoked Token Used''),
      (''refresh_token_reuse'', ''Refresh Token Reuse''),
      (''client_auth_failed'', ''Client Auth Failed''),
      (''auth_code_issued'', ''Auth Code Issued''),
      (''auth_code_exchanged'', ''Auth Code Exchanged''),
      (''auth_code_failed'', ''Auth Code Failed''),
      (''pkce_validation_failed'', ''PKCE Validation Failed''),
      (''token_exchange'', ''Token Exchange''),
      (''dpop_validation_failed'', ''DPoP Validation Failed''),
      (''client_created'', ''Client Created''),
      (''client_updated'', ''Client Updated''),
      (''client_deleted'', ''Client Deleted''),
      (''client_secret_rotated'', ''Client Secret Rotated''),
      (''mfa_policy_violation'', ''MFA Policy Violation''),
      (''mfa_recovery_code_used'', ''MFA Recovery Code Used''),
      (''scope_denied'', ''Scope Denied''),
      (''admin_app_signin'', ''Admin Sign-in to an App''),
      (''admin_api_audience'', ''Admin API: Non-console Token''),
      (''custom_claim_missing'', ''Custom Claim Missing''),
      (''custom_claims_dropped'', ''Custom Claims Dropped''),
      (''suspicious_activity'', ''Suspicious Activity''),
      (''rate_limit_exceeded'', ''Rate Limit Exceeded''),
      (''brute_force_detected'', ''Brute Force Detected''),
      (''audit_integrity_violation'', ''Audit Integrity Violation'')]"

primrec EVENT_CATEGORY_LABELS :: "EventCategory \<Rightarrow> string" where
  "EVENT_CATEGORY_LABELS Authentication = ''Authentication''"
| "EVENT_CATEGORY_LABELS Account = ''Account & Provisioning''"
| "EVENT_CATEGORY_LABELS Token = ''Token Lifecycle''"
| "EVENT_CATEGORY_LABELS Oauth = ''OAuth 2.1 Flow''"
| "EVENT_CATEGORY_LABELS Delegation = ''Delegation''"
| "EVENT_CATEGORY_LABELS Client = ''Client Lifecycle''"
| "EVENT_CATEGORY_LABELS Mfa = ''Multi-Factor Auth''"
| "EVENT_CATEGORY_LABELS Threat = ''Threat Detection''"
| "EVENT_CATEGORY_LABELS Integrity = ''Audit Integrity''"

primrec EVENT_TYPE_CATEGORIES :: "SecurityEventType \<Rightarrow> EventCategory" where
  "EVENT_TYPE_CATEGORIES Login_success = Authentication"
| "EVENT_TYPE_CATEGORIES Login_failed = Authentication"
| "EVENT_TYPE_CATEGORIES Logout = Authentication"
| "EVENT_TYPE_CATEGORIES Account_locked = Authentication"
| "EVENT_TYPE_CATEGORIES Account_unlocked = Authentication"
| "EVENT_TYPE_CATEGORIES Password_changed = Account"
| "EVENT_TYPE_CATEGORIES Password_reset_requested = Account"
| "EVENT_TYPE_CATEGORIES Password_reset_used = Account"
| "EVENT_TYPE_CATEGORIES Email_verified = Account"
| "EVENT_TYPE_CATEGORIES Email_change_requested = Account"
| "EVENT_TYPE_CATEGORIES Email_changed = Account"
| "EVENT_TYPE_CATEGORIES User_registered = Account"
| "EVENT_TYPE_CATEGORIES User_invited = Account"
| "EVENT_TYPE_CATEGORIES Invite_accepted = Account"
| "EVENT_TYPE_CATEGORIES Email_send_failed = Account"
| "EVENT_TYPE_CATEGORIES Token_issued = Token"
| "EVENT_TYPE_CATEGORIES Token_refreshed = Token"
| "EVENT_TYPE_CATEGORIES Token_revoked = Token"
| "EVENT_TYPE_CATEGORIES All_tokens_revoked = Token"
| "EVENT_TYPE_CATEGORIES Invalid_token_used = Token"
| "EVENT_TYPE_CATEGORIES Expired_token_used = Token"
| "EVENT_TYPE_CATEGORIES Revoked_token_used = Token"
| "EVENT_TYPE_CATEGORIES Refresh_token_reuse = Token"
| "EVENT_TYPE_CATEGORIES Client_auth_failed = Oauth"
| "EVENT_TYPE_CATEGORIES Auth_code_issued = Oauth"
| "EVENT_TYPE_CATEGORIES Auth_code_exchanged = Oauth"
| "EVENT_TYPE_CATEGORIES Auth_code_failed = Oauth"
| "EVENT_TYPE_CATEGORIES Pkce_validation_failed = Oauth"
| "EVENT_TYPE_CATEGORIES Token_exchange = Delegation"
| "EVENT_TYPE_CATEGORIES Dpop_validation_failed = Oauth"
| "EVENT_TYPE_CATEGORIES Client_created = Client"
| "EVENT_TYPE_CATEGORIES Client_updated = Client"
| "EVENT_TYPE_CATEGORIES Client_deleted = Client"
| "EVENT_TYPE_CATEGORIES Client_secret_rotated = Client"
| "EVENT_TYPE_CATEGORIES Mfa_policy_violation = Mfa"
| "EVENT_TYPE_CATEGORIES Mfa_recovery_code_used = Mfa"
| "EVENT_TYPE_CATEGORIES Scope_denied = Oauth"
| "EVENT_TYPE_CATEGORIES Admin_app_signin = Authentication"
| "EVENT_TYPE_CATEGORIES Admin_api_audience = Token"
| "EVENT_TYPE_CATEGORIES Custom_claim_missing = Token"
| "EVENT_TYPE_CATEGORIES Custom_claims_dropped = Token"
| "EVENT_TYPE_CATEGORIES Suspicious_activity = Threat"
| "EVENT_TYPE_CATEGORIES Rate_limit_exceeded = Threat"
| "EVENT_TYPE_CATEGORIES Brute_force_detected = Threat"
| "EVENT_TYPE_CATEGORIES Audit_integrity_violation = Integrity"

section \<open>OAuth 2.1 signals\<close>

record OAuth21Signal =
  sig_event_type :: SecurityEventType
  sig_label :: string
  sig_rationale :: string
  sig_spec :: string

definition OAUTH21_SIGNALS :: "OAuth21Signal list" where
  "OAUTH21_SIGNALS =
     [\<lparr>sig_event_type = Refresh_token_reuse,
        sig_label = ''Refresh Token Replay'',
        sig_rationale =
          ''A rotated single-use refresh token was presented again '' @ [CHR 0xE2, CHR 0x80, CHR 0x94] @ '' strong token-theft signal; family revoked in enforce mode.'',
        sig_spec = ''RFC 9700 '' @ [CHR 0xC2, CHR 0xA7] @ ''4.14.2''\<rparr>,
      \<lparr>sig_event_type = Revoked_token_used,
        sig_label = ''Revoked Token Use'',
        sig_rationale =
          ''A token that was explicitly revoked is still being presented '' @ [CHR 0xE2, CHR 0x80, CHR 0x94] @ '' stolen or stale credential.'',
        sig_spec = ''RFC 7009''\<rparr>,
      \<lparr>sig_event_type = Client_auth_failed,
        sig_label = ''Client Authentication Failure'',
        sig_rationale =
          ''A confidential client failed authentication at the token endpoint '' @ [CHR 0xE2, CHR 0x80, CHR 0x94] @ '' credential stuffing / client-secret brute force.'',
        sig_spec = ''RFC 6749 '' @ [CHR 0xC2, CHR 0xA7] @ ''3.2.1''\<rparr>,
      \<lparr>sig_event_type = Pkce_validation_failed,
        sig_label = ''PKCE Validation Failure'',
        sig_rationale =
          ''A code_verifier failed to match its challenge '' @ [CHR 0xE2, CHR 0x80, CHR 0x94] @ '' auth-code interception / injection attempt.'',
        sig_spec = ''OAuth 2.1 / RFC 7636''\<rparr>,
      \<lparr>sig_event_type = Token_exchange,
        sig_label = ''Token Exchange (Delegation)'',
        sig_rationale =
          ''A delegation / impersonation token-exchange was processed '' @ [CHR 0xE2, CHR 0x80, CHR 0x94] @ '' monitor for privilege escalation.'',
        sig_spec = ''RFC 8693''\<rparr>,
      \<lparr>sig_event_type = Dpop_validation_failed,
        sig_label = ''DPoP Proof Failure'',
        sig_rationale =
          ''A sender-constraint proof at the token endpoint was present but invalid (bad signature, replay, or htm/htu/iat mismatch) '' @ [CHR 0xE2, CHR 0x80, CHR 0x94] @ '' stolen-token replay against a DPoP-bound client, or client misconfiguration.'',
        sig_spec = ''RFC 9449''\<rparr>,
      \<lparr>sig_event_type = Mfa_policy_violation,
        sig_label = ''MFA Policy Violation'',
        sig_rationale =
          ''A subject under the MFA policy authenticated (or was denied) without enrolled MFA.'',
        sig_spec = ''RFC-011''\<rparr>,
      \<lparr>sig_event_type = Mfa_recovery_code_used,
        sig_label = ''MFA Recovery Code Used'',
        sig_rationale =
          ''A one-time recovery code was redeemed in place of TOTP '' @ [CHR 0xE2, CHR 0x80, CHR 0x94] @ '' verify it was the legitimate user.'',
        sig_spec = ''RFC-011''\<rparr>,
      \<lparr>sig_event_type = Audit_integrity_violation,
        sig_label = ''Audit Integrity Violation'',
        sig_rationale =
          ''A stored audit row failed HMAC / hash-chain verification '' @ [CHR 0xE2, CHR 0x80, CHR 0x94] @ '' tampering or corruption of the security log.'',
        sig_spec = ''RFC-007''\<rparr>,
      \<lparr>sig_event_type = Expired_token_used,
        sig_label = ''Expired Token Use'',
        sig_rationale =
          ''Repeated use of expired tokens can indicate replay attempts or a misconfigured / malicious client.'',
        sig_spec = ''RFC 6749''\<rparr>,
      \<lparr>sig_event_type = Invalid_token_used,
        sig_label = ''Invalid Token Use'',
        sig_rationale =
          ''Malformed or forged tokens presented to protected resources '' @ [CHR 0xE2, CHR 0x80, CHR 0x94] @ '' probing / forgery attempt.'',
        sig_spec = ''RFC 6749''\<rparr>]"

definition OAUTH21_SIGNAL_EVENTS :: "SecurityEventType list" where
  "OAUTH21_SIGNAL_EVENTS = map sig_event_type OAUTH21_SIGNALS"

section \<open>Severity tables\<close>

primrec SEVERITY_COLORS :: "Severity \<Rightarrow> string" where
  "SEVERITY_COLORS Info = ''#3b82f6''"
| "SEVERITY_COLORS Warning = ''#f59e0b''"
| "SEVERITY_COLORS ErrorSeverity = ''#ef4444''"
| "SEVERITY_COLORS Critical = ''#dc2626''"

primrec SEVERITY_LABELS :: "Severity \<Rightarrow> string" where
  "SEVERITY_LABELS Info = ''Info''"
| "SEVERITY_LABELS Warning = ''Warning''"
| "SEVERITY_LABELS ErrorSeverity = ''Error''"
| "SEVERITY_LABELS Critical = ''Critical''"

section \<open>The labels cover the event types\<close>

text \<open>The types in the order of the table.\<close>

definition labelled_types :: "SecurityEventType list" where
  "labelled_types =
     [Login_success, Login_failed, Logout, Account_locked, Account_unlocked, Password_changed,
      Password_reset_requested, Password_reset_used, Email_verified, Email_change_requested,
      Email_changed, User_registered, User_invited, Invite_accepted, Email_send_failed,
      Token_issued, Token_refreshed, Token_revoked, All_tokens_revoked, Invalid_token_used,
      Expired_token_used, Revoked_token_used, Refresh_token_reuse, Client_auth_failed,
      Auth_code_issued, Auth_code_exchanged, Auth_code_failed, Pkce_validation_failed,
      Token_exchange, Dpop_validation_failed, Client_created, Client_updated, Client_deleted,
      Client_secret_rotated, Mfa_policy_violation, Mfa_recovery_code_used, Scope_denied,
      Admin_app_signin, Admin_api_audience, Custom_claim_missing, Custom_claims_dropped,
      Suspicious_activity, Rate_limit_exceeded, Brute_force_detected, Audit_integrity_violation]"

lemma labelled_types_all: "set labelled_types = UNIV"
proof -
  have "t \<in> set labelled_types" for t
    by (cases t) (simp_all add: labelled_types_def)
  then show ?thesis by auto
qed

lemma distinct_labelled_types: "distinct labelled_types"
  by (simp add: labelled_types_def)

lemma label_keys: "map fst EVENT_TYPE_LABELS = map event_type_string labelled_types"
  by (simp add: EVENT_TYPE_LABELS_def labelled_types_def)

lemma label_known: "map_of EVENT_TYPE_LABELS (event_type_string t) \<noteq> None"
proof -
  have "event_type_string t \<in> set (map fst EVENT_TYPE_LABELS)"
    unfolding label_keys by (simp add: labelled_types_all)
  then show ?thesis unfolding map_of_eq_None_iff by simp
qed

text \<open>C40: the label table covers the event types and nothing else: every type has exactly one
  label, and no key of the table is the name of no type.\<close>

theorem labels_cover_event_types:
  "(\<exists>!l. (event_type_string t, l) \<in> set EVENT_TYPE_LABELS)
    \<and> set (map fst EVENT_TYPE_LABELS) = range event_type_string"
proof -
  obtain l where l: "map_of EVENT_TYPE_LABELS (event_type_string t) = Some l"
    using label_known [of t] by blast
  have d: "distinct (map fst EVENT_TYPE_LABELS)"
    unfolding label_keys distinct_map
    using distinct_labelled_types event_type_string_inj by (simp add: inj_on_def)
  have "\<exists>!l. (event_type_string t, l) \<in> set EVENT_TYPE_LABELS"
  proof (rule ex1I)
    show "(event_type_string t, l) \<in> set EVENT_TYPE_LABELS" using l by (rule map_of_SomeD)
    show "k = l" if "(event_type_string t, k) \<in> set EVENT_TYPE_LABELS" for k
      using map_of_is_SomeI [OF d that] l by simp
  qed
  moreover have "set (map fst EVENT_TYPE_LABELS) = range event_type_string"
    unfolding label_keys by (simp add: labelled_types_all)
  ultimately show ?thesis by blast
qed

text \<open>No event type is listed twice among the OAuth 2.1 signals.\<close>

lemma distinct_signal_events: "distinct OAUTH21_SIGNAL_EVENTS"
  by (simp add: OAUTH21_SIGNAL_EVENTS_def OAUTH21_SIGNALS_def)

end
