(* ===== verification/Api_Types.thy ===== *)
theory Api_Types
  imports Taxonomy Complex_Main
begin

text \<open>
  The data types of \<open>src/src/types/index.ts\<close>: what the admin API sends and receives.  An interface is a
  record whose fields carry the interface's prefix; an optional member is an \<open>option\<close>, and so are the
  lists and totals of the responses, which the API layer reads with a default.  A union of literals
  is a datatype.  Numbers are integers, except coordinates, scores and percentages, which are
  rational.  The interface \<open>SSEEvent\<close> is used by no code; events of the stream are JSON values.
\<close>

section \<open>Security events\<close>

record SecurityEvent =
  se_id :: int
  se_user_id :: "int option"
  se_user_email :: "string option"
  se_app_id :: "int option"
  se_app_name :: "string option"
  se_event_type :: SecurityEventType
  se_severity :: Severity
  se_ip_address :: string
  se_user_agent :: "string option"
  se_correlation_id :: "string option"
  se_details :: "((string \<times> jval) list) option"
  se_success :: bool
  se_created_at :: string

section \<open>Dashboard\<close>

record DashboardStats =
  ds_total_users :: int
  ds_active_users :: int
  ds_total_apps :: int
  ds_active_apps :: int
  ds_today_logins :: int
  ds_today_signups :: int
  ds_failed_logins_24h :: int
  ds_locked_accounts :: int

record Activity =
  act_id :: int
  act_type :: string
  act_description :: string
  act_user_id :: "int option"
  act_user_email :: "string option"
  act_app_id :: "int option"
  act_app_name :: "string option"
  act_ip_address :: string
  act_success :: bool
  act_metadata :: "((string \<times> jval) list) option"
  act_created_at :: string

record ActivityResponse =
  actr_activities :: "(Activity list) option"
  actr_total :: "int option"

record LoginTrend =
  lt_date :: string
  lt_success_count :: int
  lt_failure_count :: int
  lt_unique_users :: int

record LoginTrendsResponse =
  ltr_trends :: "(LoginTrend list) option"
  ltr_period :: string

record AppUsage =
  au_app_id :: int
  au_app_name :: string
  au_client_id :: string
  au_total_users :: int
  au_active_users :: int
  au_total_logins :: int
  au_last_activity :: string

record AppUsageResponse =
  aur_apps :: "(AppUsage list) option"
  aur_total :: "int option"

datatype HealthStatus = Healthy | Degraded | Unhealthy

record HealthDatabase =
  hdb_status :: string
  hdb_latency :: string

record HealthDetails =
  hd_go_version :: "string option"
  hd_started_at :: "string option"

record SystemHealth =
  sh_status :: HealthStatus
  sh_database :: HealthDatabase
  sh_uptime :: string
  sh_version :: string
  sh_details :: "HealthDetails option"

record SecurityEventsResponse =
  ser_events :: "(SecurityEvent list) option"
  ser_total :: "int option"
  ser_page :: int
  ser_page_size :: int

section \<open>Threat intelligence\<close>

record ThreatSummary =
  ts_total_events :: int
  ts_critical_events :: int
  ts_error_events :: int
  ts_warning_events :: int
  ts_unique_attackers :: int

record TopThreat =
  tt_type :: string
  tt_count :: int
  tt_unique_ips :: int
  tt_affected_users :: "int option"
  tt_affected_apps :: "int option"

record SuspiciousIP =
  sip_ip_address :: string
  sip_event_count :: int
  sip_event_types :: "string list"
  sip_first_seen :: string
  sip_last_seen :: string

record LockedAccount =
  la_user_id :: int
  la_email :: string
  la_locked_at :: string
  la_locked_until :: string
  la_failed_attempts :: int

record ThreatMetrics =
  tm_time_range :: string
  tm_summary :: ThreatSummary
  tm_top_threats :: "TopThreat list"
  tm_suspicious_ips :: "SuspiciousIP list"
  tm_locked_accounts :: "LockedAccount list"

section \<open>Sessions and tokens\<close>

record Session =
  ses_id :: string
  ses_user_id :: int
  ses_user_email :: string
  ses_app_id :: int
  ses_app_name :: string
  ses_ip_address :: string
  ses_user_agent :: "string option"
  ses_created_at :: string
  ses_last_activity :: string
  ses_expires_at :: string

record SessionsResponse =
  sesr_sessions :: "(Session list) option"
  sesr_total :: "int option"
  sesr_page :: int
  sesr_page_size :: int

record TokensIssued =
  ti_access_tokens :: int
  ti_refresh_tokens :: int
  ti_id_tokens :: int

record TokensByApp =
  tba_app_id :: int
  tba_app_name :: string
  tba_issued :: int
  tba_refreshed :: int
  tba_revoked :: int

record TokensByHour =
  tbh_hour :: string
  tbh_issued :: int
  tbh_refreshed :: int
  tbh_revoked :: int

record TokenStats =
  tst_period :: string
  tst_issued :: TokensIssued
  tst_refreshed :: int
  tst_revoked :: int
  tst_expired_usage_attempts :: int
  tst_invalid_usage_attempts :: int
  tst_by_app :: "TokensByApp list"
  tst_by_hour :: "(TokensByHour list) option"

section \<open>Geographic analytics\<close>

record GeoCountry =
  gco_country_code :: string
  gco_country_name :: string
  gco_login_count :: int
  gco_unique_users :: int
  gco_failed_count :: int

record GeoCity =
  gci_city :: string
  gci_country_code :: string
  gci_latitude :: rat
  gci_longitude :: rat
  gci_login_count :: int
  gci_failed_count :: int

record GeoAnomaly =
  gan_user_id :: int
  gan_user_email :: string
  gan_description :: string
  gan_usual_country :: string
  gan_login_country :: string
  gan_created_at :: string

record GeoAnalytics =
  geo_period :: string
  geo_geo_configured :: bool
  geo_by_country :: "GeoCountry list"
  geo_by_city :: "GeoCity list"
  geo_anomalies :: "GeoAnomaly list"

section \<open>Alerts\<close>

datatype GroupBy = By_ip_address | By_user_id | By_app_id

datatype AlertAction = Email | Webhook | Slack

record AlertCondition =
  ac_threshold :: int
  ac_window_minutes :: int
  ac_group_by :: "GroupBy option"
  ac_count_distinct :: "string option"

record AlertRule =
  ar_id :: int
  ar_name :: string
  ar_description :: string
  ar_event_type :: string
  ar_condition :: AlertCondition
  ar_severity :: Severity
  ar_enabled :: bool
  ar_actions :: "AlertAction list"
  ar_recipients :: "(string list) option"
  ar_webhook_url :: "string option"
  ar_created_at :: string
  ar_updated_at :: "string option"

record AlertRulesResponse =
  arr_rules :: "(AlertRule list) option"

record AlertDetails =
  ad_ip_address :: "string option"
  ad_affected_users :: "(int list) option"
  ad_event_count :: "int option"

record TriggeredAlert =
  ta_id :: int
  ta_rule_id :: int
  ta_rule_name :: string
  ta_severity :: Severity
  ta_message :: string
  ta_details :: "AlertDetails option"
  ta_acknowledged :: bool
  ta_acknowledged_by :: "int option"
  ta_acknowledged_at :: "string option"
  ta_acknowledge_note :: "string option"
  ta_triggered_at :: string

record AlertHistoryResponse =
  ahr_alerts :: "(TriggeredAlert list) option"
  ahr_total :: "int option"
  ahr_unacknowledged :: "int option"

section \<open>Blocked addresses\<close>

record BlockedIP =
  bip_id :: int
  bip_ip_address :: string
  bip_reason :: string
  bip_blocked_by :: "int option"
  bip_blocked_by_email :: "string option"
  bip_blocked_at :: string
  bip_expires_at :: "string option"
  bip_permanent :: bool

record BlockedIPsResponse =
  bipr_blocked_ips :: "(BlockedIP list) option"
  bipr_total :: "int option"

record IPRecentEvent =
  ire_event_type :: string
  ire_user_email :: "string option"
  ire_created_at :: string

record IPReputation =
  ipr_ip_address :: string
  ipr_is_blocked :: bool
  ipr_risk_score :: rat
  ipr_events_24h :: int
  ipr_events_7d :: int
  ipr_failed_logins_24h :: int
  ipr_unique_users_targeted :: int
  ipr_first_seen :: string
  ipr_last_seen :: string
  ipr_recent_events :: "IPRecentEvent list"

section \<open>Audit integrity and the administrators' audit log\<close>

datatype ViolationKind = Hmac | Chain | Unknown_violation

datatype IntegrityStatus = Verified | Violations_detected | Not_configured

record AuditIntegrityViolation =
  aiv_event_id :: int
  aiv_kind :: ViolationKind
  aiv_details :: "((string \<times> jval) list) option"
  aiv_detected_at :: string

record AuditIntegrity =
  ai_period :: string
  ai_configured :: bool
  ai_status :: IntegrityStatus
  ai_total_events :: int
  ai_stamped_events :: int
  ai_chained_events :: int
  ai_coverage_percent :: rat
  ai_violations :: int
  ai_last_violation_at :: "string option"
  ai_recent_violations :: "AuditIntegrityViolation list"

record AdminAuditLog =
  aal_id :: int
  aal_admin_id :: int
  aal_admin_email :: string
  aal_action :: string
  aal_target_type :: string
  aal_target_id :: "int option"
  aal_target_name :: "string option"
  aal_changes :: "((string \<times> jval) list) option"
  aal_ip_address :: "string option"
  aal_created_at :: string

record AdminAuditLogsResponse =
  aalr_logs :: "(AdminAuditLog list) option"
  aalr_total_count :: "int option"
  aalr_page :: int
  aalr_page_size :: int

section \<open>Reports\<close>

datatype ReportFormat = Format_csv | Format_json

datatype ReportState = Generating | Completed | Failed

record ReportPeriod =
  rp_from :: string
  rp_to :: string

record ReportRequest =
  rr_period :: ReportPeriod
  rr_format :: ReportFormat
  rr_sections :: "(string list) option"

record ReportStatus =
  rs_report_id :: string
  rs_status :: ReportState
  rs_download_url :: "string option"
  rs_expires_at :: "string option"
  rs_created_at :: string
  rs_error :: "string option"

section \<open>Identity\<close>

record UserInfo =
  ui_sub :: string
  ui_name :: "string option"
  ui_email :: "string option"
  ui_roles :: "(string list) option"

section \<open>The access-policy decision log\<close>

record PolicyDecisionRecord =
  pd_id :: int
  pd_created_at :: string
  pd_correlation_id :: "string option"
  pd_source :: string
  pd_mode :: string
  pd_enforced :: bool
  pd_allow :: bool
  pd_divergence :: "string option"
  pd_action :: string
  pd_rule :: "string option"
  pd_reason :: string
  pd_policy_version :: int
  pd_principal_kind :: "string option"
  pd_principal_id :: "int option"
  pd_client_id :: "string option"
  pd_resource_type :: "string option"
  pd_resource_id :: "string option"
  pd_ip_address :: "string option"
  pd_status_code :: "int option"
  pd_obligations :: "(string list) option"

record PolicyDecisionFilter =
  pf_correlation_id :: "string option"
  pf_allow :: "bool option"
  pf_divergence :: "bool option"
  pf_source :: "string option"
  pf_client_id :: "string option"
  pf_since :: "string option"
  pf_before_id :: "int option"
  pf_limit :: "int option"

record PolicyDecisionsResponse =
  pdr_decisions :: "(PolicyDecisionRecord list) option"
  pdr_mode :: "string option"

record PolicyDecisionSummary =
  ps_since :: string
  ps_denials :: int
  ps_enforced_denials :: int
  ps_divergences :: "(string \<times> int) list"
  ps_denials_by_source :: "(string \<times> int) list"

record PolicySummaryResponse =
  psr_mode :: string
  psr_policy_version :: int
  psr_summary :: PolicyDecisionSummary

end
