(* ===== verification/Js_Date.thy ===== *)
theory Js_Date
  imports Js_Prelude
begin

text \<open>
  The part of JavaScript's \<open>Date\<close> that the console computes with: an instant is a number of
  milliseconds since 1970-01-01T00:00:00Z, written out by \<open>toISOString\<close>, which throws
  \<open>RangeError\<close> outside the range of dates.  The civil date of a day number is taken in the
  proleptic Gregorian calendar by splitting it into eras of 400 years, centuries, four-year
  cycles and years that begin on the first of March, so that a leap day is the last of its year.

  The main results: \<open>day_of_civil\<close> inverts \<open>civil_of_day\<close> on every day, and \<open>from_iso\<close> reads back
  the instant that \<open>to_iso\<close> wrote, for the years 0 to 9999, whose form is fixed-width.
\<close>

section \<open>Civil dates\<close>

definition split_era :: "int \<Rightarrow> int \<times> int" where
  "split_era doe =
     (let c = min 3 (doe div 36524);
          r1 = doe - c * 36524;
          q = r1 div 1461;
          r2 = r1 - q * 1461;
          a = min 3 (r2 div 365)
      in (100 * c + 4 * q + a, r2 - a * 365))"

definition split_year :: "int \<Rightarrow> int \<times> int" where
  "split_year doy =
     (let mp = (5 * doy + 2) div 153
      in (if mp < 10 then mp + 3 else mp - 9, doy - (153 * mp + 2) div 5 + 1))"

definition civil_of_day :: "int \<Rightarrow> int \<times> int \<times> int" where
  "civil_of_day day =
     (let z = day + 719468;
          (yoe, doy) = split_era (z mod 146097);
          (m, d) = split_year doy;
          y = yoe + z div 146097 * 400
      in (if m \<le> 2 then y + 1 else y, m, d))"

definition day_of_year :: "int \<times> int \<Rightarrow> int" where
  "day_of_year = (\<lambda>(m, d). (153 * (if m > 2 then m - 3 else m + 9) + 2) div 5 + d - 1)"

definition day_of_civil :: "int \<times> int \<times> int \<Rightarrow> int" where
  "day_of_civil = (\<lambda>(y, m, d).
     let y' = (if m \<le> 2 then y - 1 else y);
         yoe = y' mod 400;
         doe = 365 * yoe + yoe div 4 - yoe div 100 + day_of_year (m, d)
     in y' div 400 * 146097 + doe - 719468)"

lemma split_era_bounds:
  assumes "0 \<le> doe" "doe < 146097" "split_era doe = (yoe, doy)"
  shows "0 \<le> yoe \<and> yoe < 400 \<and> 0 \<le> doy \<and> doy \<le> 365
    \<and> doe = 365 * yoe + yoe div 4 - yoe div 100 + doy"
proof -
  define c where "c = min 3 (doe div 36524)"
  define r1 where "r1 = doe - c * 36524"
  define q where "q = r1 div 1461"
  define r2 where "r2 = r1 - q * 1461"
  define a where "a = min 3 (r2 div 365)"
  have y: "yoe = 100 * c + 4 * q + a" and d: "doy = r2 - a * 365"
    using assms(3) by (simp_all add: split_era_def Let_def c_def r1_def q_def r2_def a_def)
  have c: "0 \<le> c" "c \<le> 3" and r1: "0 \<le> r1" "r1 \<le> 36524"
    using assms(1,2) by (auto simp: c_def r1_def min_def)
  have q: "0 \<le> q" "q \<le> 24" and r2: "0 \<le> r2" "r2 \<le> 1460"
    using r1 by (auto simp: q_def r2_def)
  have a: "0 \<le> a" "a \<le> 3" and doy: "0 \<le> doy" "doy \<le> 365"
    using r2 by (auto simp: a_def d min_def)
  have "yoe div 4 = 25 * c + q" "yoe div 100 = c"
    using q a by (auto simp: y)
  moreover have "doe = c * 36524 + q * 1461 + a * 365 + doy"
    by (simp add: d r2_def r1_def)
  ultimately show ?thesis using c q a doy by (simp add: y)
qed

lemma split_year_bounds:
  assumes "0 \<le> doy" "doy \<le> 365" "split_year doy = (m, d)"
  shows "1 \<le> m \<and> m \<le> 12 \<and> 1 \<le> d \<and> d \<le> 31 \<and> day_of_year (m, d) = doy"
proof -
  define mp where "mp = (5 * doy + 2) div 153"
  have md: "m = (if mp < 10 then mp + 3 else mp - 9)" "d = doy - (153 * mp + 2) div 5 + 1"
    using assms(3) unfolding split_year_def Let_def mp_def by auto
  have doy: "153 * mp \<le> 5 * doy + 2" "5 * doy + 2 < 153 * mp + 153" and mp: "0 \<le> mp" "mp \<le> 11"
    using assms(1,2) by (auto simp: mp_def)
  have "mp = 0 \<or> mp = 1 \<or> mp = 2 \<or> mp = 3 \<or> mp = 4 \<or> mp = 5 \<or> mp = 6 \<or> mp = 7 \<or> mp = 8
    \<or> mp = 9 \<or> mp = 10 \<or> mp = 11"
    using mp by arith
  then have "1 \<le> d \<and> d \<le> 31"
    using doy assms(1,2) by (auto simp: md)
  then show ?thesis using mp by (auto simp: md day_of_year_def)
qed

lemma civil_of_day_parts:
  assumes "civil_of_day day = (y, m, d)"
  shows "1 \<le> m \<and> m \<le> 12 \<and> 1 \<le> d \<and> d \<le> 31 \<and> day_of_civil (y, m, d) = day"
proof -
  define z where "z = day + 719468"
  define e where "e = z div 146097"
  obtain yoe doy where s: "split_era (z mod 146097) = (yoe, doy)" by fastforce
  obtain m' d' where md: "split_year doy = (m', d')" by fastforce
  have e: "0 \<le> yoe" "yoe < 400" "0 \<le> doy" "doy \<le> 365"
    "z mod 146097 = 365 * yoe + yoe div 4 - yoe div 100 + doy"
    using split_era_bounds [OF _ _ s] by simp_all
  have eqs: "m = m'" "d = d'" "y = (if m \<le> 2 then yoe + e * 400 + 1 else yoe + e * 400)"
    using assms by (auto simp: civil_of_day_def Let_def s md e_def simp flip: z_def)
  have "(if m \<le> 2 then y - 1 else y) = yoe + e * 400" by (simp add: eqs)
  then have "day_of_civil (y, m, d) = e * 146097 + z mod 146097 - 719468"
    using split_year_bounds [OF e(3,4) md] e by (simp add: day_of_civil_def eqs(1,2))
  also have "\<dots> = day" by (simp add: e_def z_def)
  finally show ?thesis using split_year_bounds [OF e(3,4) md] eqs by simp
qed

lemma day_of_civil_of_day [simp]: "day_of_civil (civil_of_day day) = day"
  using civil_of_day_parts by (cases "civil_of_day day") simp

section \<open>The ISO format\<close>

text \<open>\<open>pad k n\<close> writes the last \<open>k\<close> decimal digits of \<open>n\<close>; \<open>read_digits\<close> reads a number back.\<close>

primrec pad :: "nat \<Rightarrow> nat \<Rightarrow> string" where
  "pad 0 n = []"
| "pad (Suc k) n = pad k (n div 10) @ [char_of (48 + n mod 10)]"

definition read_digits :: "string \<Rightarrow> nat" where
  "read_digits s = foldl (\<lambda>n c. 10 * n + (of_char c - 48)) 0 s"

definition pad_int :: "nat \<Rightarrow> int \<Rightarrow> string" where
  "pad_int k n = pad k (nat n)"

definition iso_year :: "int \<Rightarrow> string" where
  "iso_year y =
     (if 0 \<le> y \<and> y \<le> 9999 then pad_int 4 y
      else if y < 0 then CHR ''-'' # pad_int 6 (- y) else CHR ''+'' # pad_int 6 y)"

definition iso_string :: "int \<Rightarrow> string" where
  "iso_string t =
     (let (y, m, d) = civil_of_day (t div 86400000); ms = t mod 86400000
      in iso_year y @ ''-'' @ pad_int 2 m @ ''-'' @ pad_int 2 d @ ''T'' @
         pad_int 2 (ms div 3600000) @ '':'' @ pad_int 2 (ms div 60000 mod 60) @ '':'' @
         pad_int 2 (ms div 1000 mod 60) @ ''.'' @ pad_int 3 (ms mod 1000) @ ''Z'')"

text \<open>\<open>new Date(t).toISOString()\<close>; the largest time value is \<open>8.64e15\<close>.\<close>

definition to_iso :: "int \<Rightarrow> js_error + string" where
  "to_iso t = (if \<bar>t\<bar> \<le> 8640000000000000 then Inr (iso_string t) else Inl RangeError)"

text \<open>The instant that a string of the fixed-width form denotes.\<close>

definition from_iso :: "string \<Rightarrow> int" where
  "from_iso s =
     (let num = (\<lambda>i k. int (read_digits (take k (drop i s))))
      in day_of_civil (num 0 4, num 5 2, num 8 2) * 86400000 + num 11 2 * 3600000
         + num 14 2 * 60000 + num 17 2 * 1000 + num 20 3)"

lemma length_pad [simp]: "length (pad k n) = k"
  by (induction k arbitrary: n) auto

lemma read_digits_snoc: "read_digits (s @ [c]) = 10 * read_digits s + (of_char c - 48)"
  by (simp add: read_digits_def)

lemma read_pad: "n < 10 ^ k \<Longrightarrow> read_digits (pad k n) = n"
proof (induction k arbitrary: n)
  case 0
  then show ?case by (simp add: read_digits_def)
next
  case (Suc k)
  then have "n div 10 < 10 ^ k" by (simp add: less_mult_imp_div_less mult.commute)
  with Suc.IH show ?case by (simp add: read_digits_snoc)
qed

lemma length_pad_int [simp]: "length (pad_int k n) = k"
  by (simp add: pad_int_def)

lemma read_pad_int: "0 \<le> n \<Longrightarrow> n < 10 ^ k \<Longrightarrow> int (read_digits (pad_int k n)) = n"
  using read_pad [of "nat n" k] by (simp add: pad_int_def nat_less_iff)

lemma iso_ms_split:
  fixes ms :: int
  shows "ms div 3600000 * 3600000 + ms div 60000 mod 60 * 60000 + ms div 1000 mod 60 * 1000
      + ms mod 1000 = ms"
proof -
  have h: "ms div 3600000 = ms div 60000 div 60" and m: "ms div 60000 = ms div 1000 div 60"
    using zdiv_zmult2_eq [of 60 ms 60000] zdiv_zmult2_eq [of 60 ms 1000] by simp_all
  have "ms div 60000 div 60 * 60 + ms div 60000 mod 60 = ms div 60000"
    "ms div 1000 div 60 * 60 + ms div 1000 mod 60 = ms div 1000"
    "ms div 1000 * 1000 + ms mod 1000 = ms"
    by (rule div_mult_mod_eq)+
  then show ?thesis using h m by linarith
qed

definition iso_four_digit :: "int \<Rightarrow> bool" where
  "iso_four_digit t \<longleftrightarrow> (let (y, m, d) = civil_of_day (t div 86400000) in 0 \<le> y \<and> y \<le> 9999)"

lemma from_iso_string: "iso_four_digit t \<Longrightarrow> from_iso (iso_string t) = t"
proof -
  assume four: "iso_four_digit t"
  obtain y m d where c: "civil_of_day (t div 86400000) = (y, m, d)" by (metis prod_cases3)
  define ms where "ms = t mod 86400000"
  have y: "0 \<le> y" "y \<le> 9999" using four by (auto simp: iso_four_digit_def c)
  have md: "1 \<le> m" "m \<le> 12" "1 \<le> d" "d \<le> 31" "day_of_civil (y, m, d) = t div 86400000"
    using civil_of_day_parts [OF c] by simp_all
  have ms: "0 \<le> ms" "ms < 86400000" by (simp_all add: ms_def)
  have h: "ms div 3600000 < 100" using ms by simp
  define H M S L where "H = pad_int 2 (ms div 3600000)" and "M = pad_int 2 (ms div 60000 mod 60)"
    and "S = pad_int 2 (ms div 1000 mod 60)" and "L = pad_int 3 (ms mod 1000)"
  have len: "length H = 2" "length M = 2" "length S = 2" "length L = 3"
    by (simp_all add: H_def M_def S_def L_def)
  have rng: "0 \<le> ms div 3600000" "ms div 3600000 < 10 ^ 2"
    "0 \<le> ms div 60000 mod 60" "ms div 60000 mod 60 < 10 ^ 2"
    "0 \<le> ms div 1000 mod 60" "ms div 1000 mod 60 < 10 ^ 2"
    "0 \<le> ms mod 1000" "ms mod 1000 < 10 ^ 3"
    using ms pos_mod_bound [of 60 "ms div 60000"] pos_mod_bound [of 60 "ms div 1000"] h
    by (simp_all add: pos_imp_zdiv_nonneg_iff)
  have reads: "int (read_digits H) = ms div 3600000" "int (read_digits M) = ms div 60000 mod 60"
    "int (read_digits S) = ms div 1000 mod 60" "int (read_digits L) = ms mod 1000"
    unfolding H_def M_def S_def L_def by (rule read_pad_int, fact, fact)+
  define Y Mo D where "Y = pad_int 4 y" and "Mo = pad_int 2 m" and "D = pad_int 2 d"
  have len': "length Y = 4" "length Mo = 2" "length D = 2"
    by (simp_all add: Y_def Mo_def D_def)
  have reads': "int (read_digits Y) = y" "int (read_digits Mo) = m" "int (read_digits D) = d"
    using y md unfolding Y_def Mo_def D_def by (intro read_pad_int; simp)+
  define s where "s = iso_string t"
  have s: "s = Y @ ''-'' @ Mo @ ''-'' @ D @ ''T'' @ H @ '':'' @ M @ '':'' @ S @ ''.'' @ L @ ''Z''"
    using y unfolding s_def iso_string_def c iso_year_def Let_def ms_def [symmetric]
    by (simp add: Y_def Mo_def D_def H_def M_def S_def L_def)
  have segs: "take 4 (drop 0 s) = Y" "take 2 (drop 5 s) = Mo" "take 2 (drop 8 s) = D"
    "take 2 (drop 11 s) = H" "take 2 (drop 14 s) = M" "take 2 (drop 17 s) = S"
    "take 3 (drop 20 s) = L"
    unfolding s by (simp_all add: len len')
  have "from_iso s = t div 86400000 * 86400000 + ms"
    unfolding from_iso_def Let_def segs reads reads' md(5) using iso_ms_split [of ms] by linarith
  then have "from_iso (iso_string t) = t div 86400000 * 86400000 + ms" by (simp add: s_def)
  then show ?thesis by (simp add: ms_def)
qed

end
