(* ===== verification/Url_Encoding.thy ===== *)
theory Url_Encoding
  imports Js_Prelude
begin

text \<open>
  Percent-encoding as the console uses it: \<open>encodeURIComponent\<close> for the return path of a login,
  the addresses of reputation lookups and the start of a policy summary, and \<open>URLSearchParams\<close> for
  query strings.  Both encode the UTF-8 bytes of a string; they differ in the bytes they keep and
  in the space, which \<open>URLSearchParams\<close> writes as a plus sign.

  The decoders are the specification side: what a server that follows the two formats reads.
\<close>

section \<open>Hexadecimal digits\<close>

definition hex_digit :: "nat \<Rightarrow> char" where
  "hex_digit n = (if n < 10 then char_of (48 + n) else char_of (55 + n))"

definition hex_value :: "char \<Rightarrow> nat" where
  "hex_value c = (let n = of_char c in if n < 58 then n - 48 else n - 55)"

definition percent :: "char \<Rightarrow> string" where
  "percent c = [CHR ''%'', hex_digit (of_char c div 16), hex_digit (of_char c mod 16)]"

lemma hex_value_digit: "n < 16 \<Longrightarrow> hex_value (hex_digit n) = n"
  by (auto simp: hex_value_def hex_digit_def Let_def)

lemma high_digit_less [simp]: "(of_char c :: nat) div 16 < 16"
proof -
  have "(of_char c :: nat) < 16 * 16" using nat_of_char_less_256 [of c] by simp
  then show ?thesis by (rule less_mult_imp_div_less)
qed

lemma char_of_hex: "char_of (16 * (of_char c div 16) + of_char c mod 16 :: nat) = c"
  by (simp add: mult.commute)

section \<open>The two encoders\<close>

definition alnum :: "char \<Rightarrow> bool" where
  "alnum c \<longleftrightarrow> (let n = of_char c :: nat
               in 48 \<le> n \<and> n \<le> 57 \<or> 65 \<le> n \<and> n \<le> 90 \<or> 97 \<le> n \<and> n \<le> 122)"

definition uri_unreserved :: "char \<Rightarrow> bool" where
  "uri_unreserved c \<longleftrightarrow> alnum c \<or> c \<in> set ''-_.!~*'' \<or> c = CHR 0x27 \<or> c = CHR ''('' \<or> c = CHR '')''"

definition form_kept :: "char \<Rightarrow> bool" where
  "form_kept c \<longleftrightarrow> alnum c \<or> c \<in> set ''*-._''"

definition encodeURIComponent :: "string \<Rightarrow> string" where
  "encodeURIComponent s = concat (map (\<lambda>c. if uri_unreserved c then [c] else percent c) s)"

definition form_char :: "char \<Rightarrow> string" where
  "form_char c = (if form_kept c then [c] else if c = CHR '' '' then ''+'' else percent c)"

definition form_encode :: "string \<Rightarrow> string" where
  "form_encode s = concat (map form_char s)"

text \<open>\<open>String(searchParams)\<close>: the pairs in order, joined by \<open>&\<close>.\<close>

definition params_string :: "(string \<times> string) list \<Rightarrow> string" where
  "params_string ps = join ''&'' (map (\<lambda>(k, v). form_encode k @ ''='' @ form_encode v) ps)"

text \<open>\<open>searchParams.set(k, v)\<close> replaces the value of the first pair with that name and drops the
  others; \<open>append\<close> adds a pair at the end.\<close>

definition params_append :: "string \<Rightarrow> string \<Rightarrow> (string \<times> string) list \<Rightarrow> (string \<times> string) list" where
  "params_append k v ps = ps @ [(k, v)]"

fun params_set :: "string \<Rightarrow> string \<Rightarrow> (string \<times> string) list \<Rightarrow> (string \<times> string) list" where
  "params_set k v [] = [(k, v)]"
| "params_set k v ((k', v') # ps) =
     (if k' = k then (k, v) # filter (\<lambda>p. fst p \<noteq> k) ps else (k', v') # params_set k v ps)"

section \<open>Decoding\<close>

fun percent_decode :: "(char \<Rightarrow> char) \<Rightarrow> string \<Rightarrow> string" where
  "percent_decode f (c # h # l # s) =
     (if c = CHR ''%'' then char_of (16 * hex_value h + hex_value l) # percent_decode f s
      else f c # percent_decode f (h # l # s))"
| "percent_decode f (c # s) = f c # percent_decode f s"
| "percent_decode f [] = []"

definition decodeURIComponent :: "string \<Rightarrow> string" where
  "decodeURIComponent s = percent_decode (\<lambda>c. c) s"

definition form_decode :: "string \<Rightarrow> string" where
  "form_decode s = percent_decode (\<lambda>c. if c = CHR ''+'' then CHR '' '' else c) s"

definition split_pair :: "string \<Rightarrow> string \<times> string" where
  "split_pair s = (takeWhile (\<lambda>c. c \<noteq> CHR ''='') s, drop 1 (dropWhile (\<lambda>c. c \<noteq> CHR ''='') s))"

definition params_parse :: "string \<Rightarrow> (string \<times> string) list" where
  "params_parse s =
     map (\<lambda>p. case split_pair p of (k, v) \<Rightarrow> (form_decode k, form_decode v))
       (filter (\<lambda>p. p \<noteq> []) (split_on (CHR ''&'') s))"

lemma percent_decode_percent:
  "percent_decode f (percent c @ s) = c # percent_decode f s"
proof -
  have "16 * hex_value (hex_digit (of_char c div 16)) + hex_value (hex_digit (of_char c mod 16))
    = of_char c"
    by (simp add: hex_value_digit)
  then show ?thesis by (simp add: percent_def)
qed

lemma percent_decode_plain:
  "c \<noteq> CHR ''%'' \<Longrightarrow> percent_decode f (c # s) = f c # percent_decode f s"
  by (cases "(f, c # s)" rule: percent_decode.cases) auto

text \<open>Also: decoding an encoded component gives it back.\<close>

theorem decode_encodeURIComponent: "decodeURIComponent (encodeURIComponent s) = s"
proof -
  have "percent_decode (\<lambda>c. c) (encodeURIComponent s) = s"
  proof (induction s)
    case (Cons c s)
    have "uri_unreserved c \<Longrightarrow> c \<noteq> CHR ''%''"
      by (auto simp: uri_unreserved_def alnum_def)
    with Cons show ?case
      by (auto simp: encodeURIComponent_def percent_decode_percent percent_decode_plain)
  qed (simp add: encodeURIComponent_def)
  then show ?thesis by (simp add: decodeURIComponent_def)
qed

lemma form_decode_encode: "form_decode (form_encode s) = s"
proof -
  have "percent_decode (\<lambda>c. if c = CHR ''+'' then CHR '' '' else c) (form_encode s) = s"
  proof (induction s)
    case (Cons c s)
    have "form_kept c \<Longrightarrow> c \<noteq> CHR ''%'' \<and> c \<noteq> CHR ''+''"
      by (auto simp: form_kept_def alnum_def)
    with Cons show ?case
      by (auto simp: form_encode_def form_char_def percent_decode_percent percent_decode_plain)
  qed (simp add: form_encode_def)
  then show ?thesis by (simp add: form_decode_def)
qed

section \<open>What an encoded text cannot contain\<close>

definition form_safe :: "char \<Rightarrow> bool" where
  "form_safe c \<longleftrightarrow> form_kept c \<or> c = CHR ''+'' \<or> c = CHR ''%''"

definition uri_safe :: "char \<Rightarrow> bool" where
  "uri_safe c \<longleftrightarrow> uri_unreserved c \<or> c = CHR ''%''"

lemma hex_alnum: "n < 16 \<Longrightarrow> alnum (hex_digit n)"
  by (auto simp: alnum_def hex_digit_def)

lemma percent_chars: "x \<in> set (percent c) \<Longrightarrow> alnum x \<or> x = CHR ''%''"
  by (auto simp: percent_def intro!: hex_alnum)

lemma form_encode_safe: "c \<in> set (form_encode s) \<Longrightarrow> form_safe c"
  by (auto simp: form_encode_def form_char_def form_safe_def form_kept_def
      split: if_splits dest!: percent_chars)

lemma encodeURIComponent_safe: "c \<in> set (encodeURIComponent s) \<Longrightarrow> uri_safe c"
  by (auto simp: encodeURIComponent_def uri_safe_def uri_unreserved_def
      split: if_splits dest!: percent_chars)

lemma form_safe_not_separator: "form_safe c \<Longrightarrow> c \<noteq> CHR ''&'' \<and> c \<noteq> CHR ''='' \<and> c \<noteq> CHR ''#''"
  by (auto simp: form_safe_def form_kept_def alnum_def)

lemma uri_safe_not_delimiter:
  "uri_safe c \<Longrightarrow> c \<notin> set ''/?#&='' \<and> c \<noteq> CHR '' ''"
  by (auto simp: uri_safe_def uri_unreserved_def alnum_def)

lemma split_pair_encode: "split_pair (form_encode k @ ''='' @ form_encode v) = (form_encode k, form_encode v)"
proof -
  have "\<forall>c \<in> set (form_encode k). c \<noteq> CHR ''=''"
    using form_encode_safe form_safe_not_separator by blast
  then show ?thesis by (simp add: split_pair_def takeWhile_append2 dropWhile_append2)
qed

lemma split_on_params:
  "ps \<noteq> [] \<Longrightarrow> split_on (CHR ''&'') (params_string ps)
    = map (\<lambda>(k, v). form_encode k @ ''='' @ form_encode v) ps"
  unfolding params_string_def
proof (rule split_on_join)
  show "\<forall>w \<in> set (map (\<lambda>(k, v). form_encode k @ ''='' @ form_encode v) ps). CHR ''&'' \<notin> set w"
    using form_encode_safe form_safe_not_separator by fastforce
qed simp

text \<open>Also: a server that parses the query string reads the pairs that were put in.\<close>

theorem params_parse_string: "params_parse (params_string ps) = ps"
proof (cases "ps = []")
  case True
  then show ?thesis by (simp add: params_parse_def params_string_def)
next
  case False
  have "filter (\<lambda>p. p \<noteq> []) (map (\<lambda>(k, v). form_encode k @ ''='' @ form_encode v) ps)
    = map (\<lambda>(k, v). form_encode k @ ''='' @ form_encode v) ps"
    by (rule filter_True) auto
  moreover have "(\<lambda>p. case split_pair (case p of (k, v) \<Rightarrow> form_encode k @ ''='' @ form_encode v)
      of (k, v) \<Rightarrow> (form_decode k, form_decode v)) = (\<lambda>p. p)"
    unfolding fun_eq_iff by (simp add: split_paired_all split_pair_encode [simplified] form_decode_encode)
  ultimately show ?thesis
    using False by (simp add: params_parse_def split_on_params comp_def)
qed

end
