(* ===== verification/Http.thy ===== *)
theory Http
  imports Url_Encoding
begin

text \<open>
  What the console sees of the network and of the window: \<open>fetch\<close>, the response it may get, the
  text that \<open>JSON.stringify\<close> makes of a request body, and \<open>window.location\<close>.

  The server is not part of the repository: it is a parameter \<open>net\<close> of every operation that
  fetches, a function from the number of requests sent before and the request to the outcome.
  A body is what \<open>response.json()\<close> makes of it: an exception, \<open>null\<close>, or a value of the type that
  the operation declares for it.  \<open>resp_error\<close> is the \<open>error\<close> member of the body where the body is
  an object, the only part of a body that the API layer reads whatever the operation.
\<close>

section \<open>Request bodies\<close>

definition hex_low :: "nat \<Rightarrow> char" where
  "hex_low n = (if n < 10 then char_of (48 + n) else char_of (87 + n))"

definition json_char :: "char \<Rightarrow> string" where
  "json_char c =
     (if c = CHR 0x22 then [CHR 0x5C, CHR 0x22]
      else if c = CHR 0x5C then [CHR 0x5C, CHR 0x5C]
      else if c = CHR 0x08 then [CHR 0x5C, CHR ''b'']
      else if c = CHR 0x0C then [CHR 0x5C, CHR ''f'']
      else if c = CHR 0x0A then [CHR 0x5C, CHR ''n'']
      else if c = CHR 0x0D then [CHR 0x5C, CHR ''r'']
      else if c = CHR 0x09 then [CHR 0x5C, CHR ''t'']
      else if (of_char c :: nat) < 32
        then [CHR 0x5C, CHR ''u'', CHR ''0'', CHR ''0'',
              hex_low (of_char c div 16), hex_low (of_char c mod 16)]
      else [c])"

definition json_quote :: "string \<Rightarrow> string" where
  "json_quote s = [CHR 0x22] @ concat (map json_char s) @ [CHR 0x22]"

lemma size_member: "(k, v) \<in> set ps \<Longrightarrow> size v < Suc (size_list (size_prod (\<lambda>_. 0) size) ps)"
  by (induction ps) auto

function stringify :: "jval \<Rightarrow> string" where
  "stringify JUndef = ''null''"
| "stringify JNull = ''null''"
| "stringify (JBool b) = string_of_bool b"
| "stringify (JNum n) = string_of_int n"
| "stringify (JStr s) = json_quote s"
| "stringify (JArr xs) = ''['' @ join '','' (map stringify xs) @ '']''"
| "stringify (JObj ps) =
     [CHR 0x7B]
     @ join '','' (map (\<lambda>p. json_quote (fst p) @ '':'' @ stringify (snd p))
                     (filter (\<lambda>p. snd p \<noteq> JUndef) ps))
     @ [CHR 0x7D]"
  by pat_completeness auto

termination
  by (relation "measure size")
    (auto simp: less_Suc_eq_le size_list_estimation' dest!: size_member)

section \<open>Requests and responses\<close>

record request =
  req_url :: string
  req_method :: string
  req_credentials :: string
  req_headers :: "(string \<times> string) list"
  req_body :: "string option"

datatype 'b body = BadJson | JsonNull | Json 'b

record 'b response =
  resp_status :: nat
  resp_error :: "string option"
  resp_body :: "'b body"

datatype 'b fetch_outcome = Rejected js_error | Responded "'b response"

definition resp_ok :: "'b response \<Rightarrow> bool" where
  "resp_ok r \<longleftrightarrow> 200 \<le> resp_status r \<and> resp_status r \<le> 299"

section \<open>The window\<close>

record browser =
  br_pathname :: string
  br_search :: string
  br_assigned :: "string list"
  br_sent :: "request list"

type_synonym 'b net = "nat \<Rightarrow> request \<Rightarrow> 'b fetch_outcome"

definition fetch :: "'b net \<Rightarrow> request \<Rightarrow> browser \<Rightarrow> 'b fetch_outcome \<times> browser" where
  "fetch net r b = (net (length (br_sent b)) r, b\<lparr>br_sent := br_sent b @ [r]\<rparr>)"

definition assign_location :: "string \<Rightarrow> browser \<Rightarrow> browser" where
  "assign_location href b = b\<lparr>br_assigned := br_assigned b @ [href]\<rparr>"

end
