(* ===== verification/Machines.thy ===== *)
theory Machines
  imports Main
begin

text \<open>
  Transition systems: the states that a program can reach, and the interface of an invariant.
  The state machines of the console (the session, the step-up dialog, the event stream, the
  polling of reports) interpret \<open>invariant_system\<close> on their own initial states, steps and
  invariants, and take what holds in every reachable state from it.
\<close>

inductive reachable :: "('s \<Rightarrow> bool) \<Rightarrow> ('s \<Rightarrow> 's \<Rightarrow> bool) \<Rightarrow> 's \<Rightarrow> bool"
  for init step where
  start: "init s \<Longrightarrow> reachable init step s"
| step: "reachable init step s \<Longrightarrow> step s t \<Longrightarrow> reachable init step t"

lemma reachable_init: "reachable (\<lambda>s. s = s0) step s0"
  by (simp add: reachable.start)

locale invariant_system =
  fixes init :: "'s \<Rightarrow> bool"
    and step :: "'s \<Rightarrow> 's \<Rightarrow> bool"
    and inv :: "'s \<Rightarrow> bool"
  assumes inv_init: "init s \<Longrightarrow> inv s"
    and inv_step: "inv s \<Longrightarrow> step s t \<Longrightarrow> inv t"
begin

lemma reachable_inv: "reachable init step s \<Longrightarrow> inv s"
  by (induction rule: reachable.induct) (blast intro: inv_init inv_step)+

lemma reachable_consequence: "reachable init step s \<Longrightarrow> (\<And>t. inv t \<Longrightarrow> P t) \<Longrightarrow> P s"
  by (blast dest: reachable_inv)

end

text \<open>A run of a deterministic machine over a list of actions, where an action may be impossible.\<close>

fun run :: "('a \<Rightarrow> 's \<Rightarrow> 's option) \<Rightarrow> 'a list \<Rightarrow> 's \<Rightarrow> 's option" where
  "run f [] s = Some s"
| "run f (a # as) s = (case f a s of None \<Rightarrow> None | Some t \<Rightarrow> run f as t)"

definition action_step :: "('a \<Rightarrow> 's \<Rightarrow> 's option) \<Rightarrow> 's \<Rightarrow> 's \<Rightarrow> bool" where
  "action_step f s t \<longleftrightarrow> (\<exists>a. f a s = Some t)"

lemma run_append: "run f (as @ bs) s = (case run f as s of None \<Rightarrow> None | Some t \<Rightarrow> run f bs t)"
  by (induction as arbitrary: s) (auto split: option.splits)

lemma run_reachable:
  "reachable init (action_step f) s \<Longrightarrow> run f as s = Some t \<Longrightarrow> reachable init (action_step f) t"
proof (induction as arbitrary: s)
  case (Cons a as)
  then obtain u where u: "f a s = Some u" "run f as u = Some t" by (auto split: option.splits)
  then have "action_step f s u" by (auto simp: action_step_def)
  with Cons.prems(1) have "reachable init (action_step f) u" by (rule reachable.step)
  then show ?case using u(2) by (rule Cons.IH)
qed simp

end
