(* ===== verification/Logger.thy ===== *)
theory Logger
  imports Js_Prelude Machines
begin

text \<open>
  \<open>src/src/utils/logger.ts\<close>: the root level, the purge of levels that earlier builds persisted,
  the prefixed loggers and the run-time override.

  The logging library is a parameter: \<open>level_of\<close> is its reading of a level's name (none for a name
  it rejects with an exception) and \<open>raw\<close> its own method factory, what a method of a logger writes
  for its arguments.  A logger holds its current factory and level; its method writes through the
  factory when the method's rank is at least the level, and does nothing otherwise.  \<open>localStorage\<close> is the list
  of its keys in index order, or absent where reading it throws.
\<close>

section \<open>Persisted levels\<close>

definition loglevel_key :: "string \<Rightarrow> bool" where
  "loglevel_key key \<longleftrightarrow> key = ''loglevel'' \<or> startsWith key ''loglevel:''"

definition storage_key :: "string list \<Rightarrow> nat \<Rightarrow> string option" where
  "storage_key keys i = (if i < length keys then Some (keys ! i) else None)"

definition removeItem :: "string \<Rightarrow> string list \<Rightarrow> string list" where
  "removeItem key keys = filter (\<lambda>k. k \<noteq> key) keys"

text \<open>\<open>purge_loop i\<close> runs the indices \<open>i - 1\<close> down to 0.\<close>

fun purge_loop :: "nat \<Rightarrow> string list \<Rightarrow> string list" where
  "purge_loop 0 keys = keys"
| "purge_loop (Suc i) keys =
     purge_loop i
       (case storage_key keys i of
          Some key \<Rightarrow> if loglevel_key key then removeItem key keys else keys
        | None \<Rightarrow> keys)"

definition purgePersistedLevels :: "string list option \<Rightarrow> string list option" where
  "purgePersistedLevels storage =
     (case storage of
        Some keys \<Rightarrow> Some (purge_loop (length keys) keys)
      | None \<Rightarrow> None)"

section \<open>Loggers\<close>

type_synonym factory = "string \<Rightarrow> nat \<Rightarrow> string \<Rightarrow> string list \<Rightarrow> string list"

record logger =
  lg_factory :: factory
  lg_level :: nat

record logger_state =
  ls_root :: nat
  ls_loggers :: "(string \<times> logger) list"
  ls_prefixed :: "string list"

definition ROOT_LEVEL :: "bool \<Rightarrow> string" where
  "ROOT_LEVEL dev = (if dev then ''debug'' else ''warn'')"

definition logger_init :: "(string \<Rightarrow> nat option) \<Rightarrow> bool \<Rightarrow> logger_state option" where
  "logger_init level_of dev =
     (case level_of (ROOT_LEVEL dev) of
        None \<Rightarrow> None
      | Some l \<Rightarrow> Some \<lparr>ls_root = l, ls_loggers = [], ls_prefixed = []\<rparr>)"

text \<open>\<open>log.getLogger\<close>: the logger of that name, made with the library's factory and the root's level
  the first time.\<close>

definition getLogger :: "factory \<Rightarrow> string \<Rightarrow> logger_state \<Rightarrow> logger_state" where
  "getLogger raw name s =
     (case map_of (ls_loggers s) name of
        Some _ \<Rightarrow> s
      | None \<Rightarrow> s\<lparr>ls_loggers := put name \<lparr>lg_factory = raw, lg_level = ls_root s\<rparr> (ls_loggers s)\<rparr>)"

definition with_prefix :: "string \<Rightarrow> factory \<Rightarrow> factory" where
  "with_prefix name base =
     (\<lambda>methodName level loggerName args. base methodName level loggerName ((''['' @ name @ '']'') # args))"

definition useLogger ::
    "(string \<Rightarrow> nat option) \<Rightarrow> factory \<Rightarrow> bool \<Rightarrow> string \<Rightarrow> logger_state \<Rightarrow> logger_state option" where
  "useLogger level_of raw dev name s =
     (let s1 = getLogger raw name s in
      if name \<in> set (ls_prefixed s1) then Some s1
      else
        (let s2 = s1\<lparr>ls_prefixed := ls_prefixed s1 @ [name]\<rparr>;
             logger = the (map_of (ls_loggers s2) name);
             wrapped = logger\<lparr>lg_factory := with_prefix name (lg_factory logger)\<rparr>
         in case level_of (ROOT_LEVEL dev) of
              None \<Rightarrow> None
            | Some l \<Rightarrow> Some (s2\<lparr>ls_loggers := put name (wrapped\<lparr>lg_level := l\<rparr>) (ls_loggers s2)\<rparr>)))"

text \<open>\<open>window.__setLogLevel\<close>: a level that the library rejects throws at the root, before any named
  logger is touched.  The result pairs the new state with the line written to the console.\<close>

definition setLogLevel ::
    "(string \<Rightarrow> nat option) \<Rightarrow> string \<Rightarrow> logger_state \<Rightarrow> (js_error + string) \<times> logger_state" where
  "setLogLevel level_of level s =
     (case level_of level of
        None \<Rightarrow> (Inl TypeError, s)
      | Some l \<Rightarrow>
          (Inr (''[logger] level set to '' @ [CHR 0x22] @ level @ [CHR 0x22]),
           s\<lparr>ls_root := l,
             ls_loggers := map (\<lambda>(n, lg). (n, lg\<lparr>lg_level := l\<rparr>)) (ls_loggers s)\<rparr>))"

text \<open>Calling the method of rank \<open>rank\<close> of the logger \<open>name\<close>.\<close>

definition log_call :: "string \<Rightarrow> string \<times> nat \<Rightarrow> string list \<Rightarrow> logger_state \<Rightarrow> string list" where
  "log_call name meth args s =
     (case map_of (ls_loggers s) name of
        None \<Rightarrow> []
      | Some lg \<Rightarrow> if lg_level lg \<le> snd meth
                    then lg_factory lg (fst meth) (lg_level lg) name args else [])"

section \<open>The purge removes exactly the persisted levels\<close>

lemma filter_fresh: "k \<notin> set xs \<Longrightarrow> filter (\<lambda>x. x \<noteq> k) xs = xs"
  by (auto intro: filter_True)

lemma purge_loop_filter:
  assumes "distinct keys" "n \<le> length keys"
  shows "purge_loop n keys = filter (\<lambda>k. \<not> loglevel_key k) (take n keys) @ drop n keys"
  using assms
proof (induction n arbitrary: keys)
  case (Suc n)
  define k where "k = keys ! n"
  have split: "keys = take n keys @ k # drop (Suc n) keys"
    using Suc.prems(2) by (simp add: k_def id_take_nth_drop)
  have fresh: "k \<notin> set (take n keys)" "k \<notin> set (drop (Suc n) keys)"
    using Suc.prems(1) by (subst (asm) split, simp)+
  have t: "take (Suc n) keys = take n keys @ [k]"
    using Suc.prems(2) by (simp add: k_def take_Suc_conv_app_nth)
  show ?case
  proof (cases "loglevel_key k")
    case True
    have "removeItem k (take n keys @ k # drop (Suc n) keys) = take n keys @ drop (Suc n) keys"
      by (simp add: removeItem_def filter_fresh fresh)
    then have rm: "removeItem k keys = take n keys @ drop (Suc n) keys"
      using split by simp
    have d: "distinct (removeItem k keys)" using Suc.prems(1) by (simp add: removeItem_def)
    have n: "length (take n keys) = n" using Suc.prems(2) by simp
    have "purge_loop n (removeItem k keys)
        = filter (\<lambda>k. \<not> loglevel_key k) (take n keys) @ drop (Suc n) keys"
      using Suc.IH [OF d] n by (simp add: rm)
    then show ?thesis
      using Suc.prems(2) True t by (simp add: storage_key_def k_def)
  next
    case False
    have "drop n keys = k # drop (Suc n) keys"
      using Suc.prems(2) by (simp add: k_def Cons_nth_drop_Suc)
    then show ?thesis
      using Suc.IH [OF Suc.prems(1)] Suc.prems(2) False t by (simp add: storage_key_def k_def)
  qed
qed simp

text \<open>Also: the purge, which removes keys from the storage while it walks it by index, removes every
  key a level was persisted under and keeps every other key, in order.\<close>

theorem purge_removes_exactly_levels:
  assumes "distinct keys"
  shows "purgePersistedLevels (Some keys) = Some (filter (\<lambda>k. \<not> loglevel_key k) keys)"
  using purge_loop_filter [OF assms, of "length keys"] by (simp add: purgePersistedLevels_def)

theorem purge_removes_exactly_levels_witness:
  "purgePersistedLevels (Some [''loglevel'', ''loglevel:auth'', ''theme'', ''loglevels''])
    = Some [''theme'', ''loglevels'']"
  using purge_removes_exactly_levels [of "[''loglevel'', ''loglevel:auth'', ''theme'', ''loglevels'']"]
  by (simp add: loglevel_key_def)

section \<open>Every message has its prefix once\<close>

text \<open>The life of the module: any order of \<open>useLogger\<close> calls and of level changes, rejected ones
  included.\<close>

inductive logger_step ::
    "(string \<Rightarrow> nat option) \<Rightarrow> factory \<Rightarrow> bool \<Rightarrow> logger_state \<Rightarrow> logger_state \<Rightarrow> bool"
  for level_of raw dev where
  use: "useLogger level_of raw dev name s = Some t \<Longrightarrow> logger_step level_of raw dev s t"
| level: "logger_step level_of raw dev s (snd (setLogLevel level_of l s))"

inductive_cases logger_stepE: "logger_step level_of raw dev s t"

definition logger_inv :: "factory \<Rightarrow> logger_state \<Rightarrow> bool" where
  "logger_inv raw s \<longleftrightarrow>
     (\<forall>n. n \<in> set (ls_prefixed s) \<longleftrightarrow> map_of (ls_loggers s) n \<noteq> None)
     \<and> (\<forall>n lg. map_of (ls_loggers s) n = Some lg \<longrightarrow> lg_factory lg = with_prefix n raw)"

lemma map_of_relevel:
  "map_of (map (\<lambda>(n, lg). (n, lg\<lparr>lg_level := l\<rparr>)) ps) n = map_option (lg_level_update (\<lambda>_. l)) (map_of ps n)"
  by (induction ps) auto

lemma logger_inv_init: "logger_init level_of dev = Some s \<Longrightarrow> logger_inv raw s"
  by (auto simp: logger_init_def logger_inv_def split: option.splits)

lemma logger_inv_level: "logger_inv raw s \<Longrightarrow> logger_inv raw (snd (setLogLevel level_of l s))"
  by (auto simp: setLogLevel_def logger_inv_def map_of_relevel split: option.splits)

lemma useLogger_cases:
  assumes "logger_inv raw s" "level_of (ROOT_LEVEL dev) = Some l"
  shows "useLogger level_of raw dev name s =
    Some (if name \<in> set (ls_prefixed s) then s
          else s\<lparr>ls_prefixed := ls_prefixed s @ [name],
                 ls_loggers := put name \<lparr>lg_factory = with_prefix name raw, lg_level = l\<rparr>
                   (put name \<lparr>lg_factory = raw, lg_level = ls_root s\<rparr> (ls_loggers s))\<rparr>)"
proof (cases "map_of (ls_loggers s) name")
  case None
  moreover have "name \<notin> set (ls_prefixed s)" using assms(1) None by (simp add: logger_inv_def)
  ultimately show ?thesis
    using assms(2) by (simp add: useLogger_def getLogger_def Let_def map_of_put)
next
  case (Some lg)
  moreover have "name \<in> set (ls_prefixed s)" using assms(1) Some by (simp add: logger_inv_def)
  ultimately show ?thesis
    by (simp add: useLogger_def getLogger_def Let_def)
qed

lemma logger_inv_use:
  assumes "logger_inv raw s" "useLogger level_of raw dev name s = Some t"
  shows "logger_inv raw t"
proof (cases "level_of (ROOT_LEVEL dev)")
  case (Some l)
  then show ?thesis
    using assms(2) useLogger_cases [of raw s level_of dev l name, OF assms(1) Some] assms(1)
    by (auto simp: logger_inv_def map_of_put split: if_splits)
next
  case None
  then show ?thesis
    using assms
    by (auto simp: useLogger_def Let_def getLogger_def logger_inv_def
        split: if_splits option.splits)
qed

interpretation logging: invariant_system "\<lambda>s. logger_init level_of dev = Some s"
    "logger_step level_of raw dev" "logger_inv raw" for level_of raw dev
  by unfold_locales (auto elim!: logger_stepE intro: logger_inv_init logger_inv_use logger_inv_level)

text \<open>Also: however often a module asks for its logger and however often the levels change, a call
  of a logger writes, when its level lets it, what the library writes for the same arguments with
  the bracketed name put in front once.\<close>

theorem prefix_exactly_once:
  assumes "reachable (\<lambda>s. logger_init level_of dev = Some s) (logger_step level_of raw dev) s"
    and "name \<in> set (ls_prefixed s)"
  shows "\<exists>l. \<forall>meth args. log_call name meth args s =
    (if l \<le> snd meth then raw (fst meth) l name ((''['' @ name @ '']'') # args) else [])"
proof -
  have inv: "logger_inv raw s" using assms(1) by (rule logging.reachable_inv)
  then obtain lg where lg: "map_of (ls_loggers s) name = Some lg" "lg_factory lg = with_prefix name raw"
    using assms(2) by (auto simp: logger_inv_def)
  then have "\<forall>meth args. log_call name meth args s =
      (if lg_level lg \<le> snd meth
       then raw (fst meth) (lg_level lg) name ((''['' @ name @ '']'') # args) else [])"
    by (simp add: log_call_def with_prefix_def)
  then show ?thesis by blast
qed

text \<open>A library for the witness: five ranks by name, and a line of the arguments.\<close>

definition sample_level_of :: "string \<Rightarrow> nat option" where
  "sample_level_of = map_of [(''trace'', 0), (''debug'', 1), (''info'', 2), (''warn'', 3), (''error'', 4), (''silent'', 5)]"

definition sample_raw :: factory where
  "sample_raw methodName level loggerName args = [join '' '' args]"

theorem prefix_exactly_once_witness:
  "\<exists>s. useLogger sample_level_of sample_raw False ''auth''
         \<lparr>ls_root = 3, ls_loggers = [], ls_prefixed = []\<rparr> = Some s
     \<and> log_call ''auth'' (''warn'', 3) [''refresh failed''] s = [''[auth] refresh failed'']"
proof -
  define s0 where "s0 = \<lparr>ls_root = 3, ls_loggers = [], ls_prefixed = []\<rparr>"
  have i: "logger_init sample_level_of False = Some s0"
    by (simp add: logger_init_def ROOT_LEVEL_def sample_level_of_def s0_def)
  obtain s where s: "useLogger sample_level_of sample_raw False ''auth'' s0 = Some s"
    and m: "''auth'' \<in> set (ls_prefixed s)" and on: "log_call ''auth'' (''warn'', 3) [] s \<noteq> []"
    by (simp add: useLogger_def getLogger_def Let_def s0_def ROOT_LEVEL_def
        sample_level_of_def log_call_def with_prefix_def sample_raw_def)
  have "reachable (\<lambda>s. logger_init sample_level_of False = Some s)
      (logger_step sample_level_of sample_raw False) s"
    using i s by (blast intro: reachable.intros logger_step.use)
  from prefix_exactly_once [OF this m] obtain l where
    l: "\<And>meth args. log_call ''auth'' meth args s =
      (if l \<le> snd meth then sample_raw (fst meth) l ''auth'' ((''['' @ ''auth'' @ '']'') # args) else [])"
    by blast
  have "l \<le> 3" using on unfolding l by (simp split: if_splits)
  then have "log_call ''auth'' (''warn'', 3) [''refresh failed''] s = [''[auth] refresh failed'']"
    unfolding l by (simp add: sample_raw_def)
  then show ?thesis using s by (auto simp: s0_def)
qed

end
