(* ===== verification/Theme_Store.thy ===== *)
theory Theme_Store
  imports Js_Prelude Machines
begin

text \<open>
  \<open>src/src/stores/themeStore.ts\<close> and \<open>src/src/composables/useChartTheme.ts\<close>: the colour scheme, the
  cookie that remembers it, the class and the meta colour of the document, and the chart colours.

  The document is a record: the text of \<open>document.cookie\<close> is made from a jar of named values, and an
  assignment to it changes the jar as browsers do (the attributes after the first semicolon say
  where the cookie is sent and how long it lives, not what is read back).
\<close>

section \<open>Reading the cookie\<close>

datatype theme = Light | Dark

primrec theme_string :: "theme \<Rightarrow> string" where
  "theme_string Light = ''light''"
| "theme_string Dark = ''dark''"

definition THEME_COOKIE :: string where
  "THEME_COOKIE = ''theme''"

definition ONE_YEAR :: int where
  "ONE_YEAR = 60 * 60 * 24 * 365"

primrec THEME_COLOR :: "theme \<Rightarrow> string" where
  "THEME_COLOR Light = ''#f1f5f9''"
| "THEME_COLOR Dark = ''#0f172a''"

text \<open>The regular expression: \<open>match_here\<close> is \<open>theme=(light|dark)(?:;|$)\<close> at the head of the text;
  the search tries the start of the text first, then every semicolon from the left, with the white
  space after it skipped.\<close>

definition value_end :: "string \<Rightarrow> bool" where
  "value_end s \<longleftrightarrow> s = [] \<or> hd s = CHR '';''"

definition match_literal :: "string \<Rightarrow> string \<Rightarrow> bool" where
  "match_literal w s \<longleftrightarrow> startsWith s w \<and> value_end (drop (length w) s)"

definition match_here :: "string \<Rightarrow> theme option" where
  "match_here s =
     (if match_literal ''theme=light'' s then Some Light
      else if match_literal ''theme=dark'' s then Some Dark
      else None)"

fun match_after :: "string \<Rightarrow> theme option" where
  "match_after [] = None"
| "match_after (c # s) =
     (if c = CHR '';''
      then (case match_here (trim_start s) of Some t \<Rightarrow> Some t | None \<Rightarrow> match_after s)
      else match_after s)"

definition readCookie :: "string \<Rightarrow> theme option" where
  "readCookie cookie =
     (case match_here cookie of Some t \<Rightarrow> Some t | None \<Rightarrow> match_after cookie)"

section \<open>The document\<close>

record document =
  doc_jar :: "(string \<times> string) list"
  doc_protocol :: string
  doc_dark_class :: bool
  doc_theme_color :: "string option option"

text \<open>\<open>doc_theme_color\<close> is absent when the page has no such meta element, else its \<open>content\<close>.\<close>

definition cookie_text :: "(string \<times> string) list \<Rightarrow> string" where
  "cookie_text jar = join ''; '' (map (\<lambda>(n, v). n @ ''='' @ v) jar)"

text \<open>The assignment \<open>document.cookie = s\<close>.\<close>

definition set_cookie :: "string \<Rightarrow> document \<Rightarrow> document" where
  "set_cookie s d =
     (let nv = takeWhile (\<lambda>c. c \<noteq> CHR '';'') s
      in d\<lparr>doc_jar := put (takeWhile (\<lambda>c. c \<noteq> CHR ''='') nv)
                           (drop 1 (dropWhile (\<lambda>c. c \<noteq> CHR ''='') nv)) (doc_jar d)\<rparr>)"

definition writeCookie :: "theme \<Rightarrow> document \<Rightarrow> document" where
  "writeCookie value d =
     (let secure = (if doc_protocol d = ''https:'' then ''; Secure'' else [])
      in set_cookie (THEME_COOKIE @ ''='' @ theme_string value @ ''; Path=/; Max-Age=''
           @ string_of_int ONE_YEAR @ ''; SameSite=Strict'' @ secure) d)"

text \<open>\<open>window.matchMedia\<close> may be missing; else what it says of the dark preference.\<close>

definition systemPrefersDark :: "bool option \<Rightarrow> bool" where
  "systemPrefersDark matchMedia = (case matchMedia of Some m \<Rightarrow> m | None \<Rightarrow> False)"

definition apply_theme :: "bool \<Rightarrow> document \<Rightarrow> document" where
  "apply_theme dark d =
     (let d1 = d\<lparr>doc_dark_class := dark\<rparr> in
      case doc_theme_color d1 of
        None \<Rightarrow> d1
      | Some _ \<Rightarrow> d1\<lparr>doc_theme_color := Some (Some (THEME_COLOR (if dark then Dark else Light)))\<rparr>)"

section \<open>The store\<close>

record theme_state =
  th_isDark :: bool
  th_doc :: document

text \<open>Creating the store reads the cookie, else the system setting, and applies the scheme at once.\<close>

definition useThemeStore :: "bool option \<Rightarrow> document \<Rightarrow> theme_state" where
  "useThemeStore matchMedia d =
     (let saved = readCookie (cookie_text (doc_jar d));
          dark = (case saved of Some t \<Rightarrow> t = Dark | None \<Rightarrow> systemPrefersDark matchMedia)
      in \<lparr>th_isDark = dark, th_doc = apply_theme dark d\<rparr>)"

text \<open>The watcher runs in the assignment, and only when the value changes.\<close>

definition set_isDark :: "bool \<Rightarrow> theme_state \<Rightarrow> theme_state" where
  "set_isDark dark s =
     (if dark = th_isDark s then s
      else s\<lparr>th_isDark := dark, th_doc := apply_theme dark (th_doc s)\<rparr>)"

definition setTheme :: "bool \<Rightarrow> theme_state \<Rightarrow> theme_state" where
  "setTheme dark s =
     (let s1 = set_isDark dark s
      in s1\<lparr>th_doc := writeCookie (if dark then Dark else Light) (th_doc s1)\<rparr>)"

definition toggleTheme :: "theme_state \<Rightarrow> theme_state" where
  "toggleTheme s = setTheme (\<not> th_isDark s) s"

section \<open>Chart colours\<close>

record chart_colors =
  cc_legend :: string
  cc_tick :: string
  cc_grid :: string

text \<open>\<open>css dark name\<close> is the computed value of the variable under the scheme.\<close>

definition css_value :: "(bool \<Rightarrow> string \<Rightarrow> string) \<Rightarrow> bool \<Rightarrow> string \<Rightarrow> string \<Rightarrow> string" where
  "css_value css dark name fallback =
     (let v = trim (css dark name) in if v = [] then fallback else v)"

definition useChartTheme :: "(bool \<Rightarrow> string \<Rightarrow> string) \<Rightarrow> theme_state \<Rightarrow> chart_colors" where
  "useChartTheme css s =
     (let dark = th_isDark s; class = doc_dark_class (th_doc s) in
      \<lparr>cc_legend = css_value css class ''--color-text-secondary'' (if dark then ''#cbd5e1'' else ''#475569''),
       cc_tick = css_value css class ''--color-text-muted'' (if dark then ''#94a3b8'' else ''#64748b''),
       cc_grid = css_value css class ''--color-border-subtle'' (if dark then ''#273449'' else ''#e2e8f0'')\<rparr>)"

section \<open>The expression finds the cookie\<close>

text \<open>A piece of the cookie text: no semicolon, no white space in front.\<close>

definition cookie_piece :: "string \<Rightarrow> bool" where
  "cookie_piece p \<longleftrightarrow> CHR '';'' \<notin> set p \<and> strip_prefix js_ws p = None"

definition piece_theme :: "string \<Rightarrow> theme option" where
  "piece_theme p =
     (if p = ''theme=light'' then Some Light else if p = ''theme=dark'' then Some Dark else None)"

fun first_theme :: "string list \<Rightarrow> theme option" where
  "first_theme [] = None"
| "first_theme (p # ps) = (case piece_theme p of Some t \<Rightarrow> Some t | None \<Rightarrow> first_theme ps)"

lemma prefix_within:
  assumes "prefix w (p @ r)" "CHR '';'' \<notin> set w" "value_end r"
  shows "prefix w p"
proof (cases "length w \<le> length p")
  case True
  then show ?thesis using assms(1) by (auto simp: prefix_def append_eq_append_conv2)
next
  case False
  then obtain x where "w = p @ x" "x \<noteq> []" "prefix x r"
    using assms(1) by (auto simp: prefix_def append_eq_append_conv2)
  then show ?thesis using assms(2,3) by (cases x; cases r) (auto simp: value_end_def)
qed

lemma piece_match:
  assumes "CHR '';'' \<notin> set p" "CHR '';'' \<notin> set w" "value_end r"
  shows "match_literal w (p @ r) \<longleftrightarrow> p = w"
proof
  assume l: "match_literal w (p @ r)"
  then have "prefix w (p @ r)" by (simp add: match_literal_def)
  then have "prefix w p" using assms(2,3) by (rule prefix_within)
  then obtain x where x: "p = w @ x" by (auto simp: prefix_def)
  then have "x = []"
    using l assms(1) by (cases x) (auto simp: match_literal_def value_end_def)
  then show "p = w" using x by simp
qed (use assms(3) in \<open>simp add: match_literal_def\<close>)

lemma match_here_piece:
  assumes "CHR '';'' \<notin> set p" "value_end r"
  shows "match_here (p @ r) = piece_theme p"
  by (simp add: match_here_def piece_theme_def piece_match [OF assms(1) _ assms(2)])

lemma match_after_free: "CHR '';'' \<notin> set p \<Longrightarrow> match_after (p @ r) = match_after r"
  by (induction p) auto

lemma js_ws_no_semicolon: "w \<in> set js_ws \<Longrightarrow> CHR '';'' \<notin> set w"
  by (auto simp: js_ws_def)

lemma trim_start_piece:
  assumes "cookie_piece p" "value_end r"
  shows "trim_start (CHR '' '' # p @ r) = p @ r"
proof -
  have "strip_prefix js_ws (p @ r) = None"
    using assms prefix_within js_ws_no_semicolon
    unfolding strip_prefix_None cookie_piece_def by blast
  moreover have "strip_prefix js_ws (CHR '' '' # x) = Some x" for x
    by (simp add: js_ws_def)
  ultimately show ?thesis
    by (simp add: trim_start_def strip_start.simps [of _ "CHR '' '' # p @ r"] strip_start_id)
qed

definition rest_text :: "string list \<Rightarrow> string" where
  "rest_text ps = (if ps = [] then [] else ''; '' @ join ''; '' ps)"

lemma rest_text_simps:
  "rest_text [] = []" "rest_text (p # ps) = CHR '';'' # CHR '' '' # p @ rest_text ps"
  "join ''; '' (p # ps) = p @ rest_text ps" "value_end (rest_text ps)"
  by (cases ps; simp add: rest_text_def value_end_def)+

lemma match_after_rest:
  "\<forall>p \<in> set ps. cookie_piece p \<Longrightarrow> match_after (rest_text ps) = first_theme ps"
proof (induction ps)
  case (Cons p ps)
  then have p: "cookie_piece p" "CHR '';'' \<notin> set p" by (auto simp: cookie_piece_def)
  have "match_after (CHR '' '' # p @ rest_text ps) = match_after (rest_text ps)"
    using match_after_free [OF p(2)] by simp
  then show ?case
    using Cons trim_start_piece [OF p(1) rest_text_simps(4)] match_here_piece [OF p(2) rest_text_simps(4)]
    by (simp add: rest_text_simps split: option.splits)
qed (simp add: rest_text_simps)

lemma readCookie_join:
  assumes "\<forall>p \<in> set ps. cookie_piece p"
  shows "readCookie (join ''; '' ps) = first_theme ps"
proof (cases ps)
  case (Cons p qs)
  then have "CHR '';'' \<notin> set p" using assms by (auto simp: cookie_piece_def)
  with Cons assms show ?thesis
    using match_here_piece [of p "rest_text qs"] match_after_free [of p "rest_text qs"]
    by (simp add: readCookie_def rest_text_simps match_after_rest split: option.splits)
qed (simp add: readCookie_def match_here_def match_literal_def)

text \<open>A jar that a browser can hold: its texts are pieces, a name has no equals sign.\<close>

definition jar_ok :: "(string \<times> string) list \<Rightarrow> bool" where
  "jar_ok jar \<longleftrightarrow> distinct (map fst jar) \<and>
     (\<forall>(n, v) \<in> set jar. cookie_piece (n @ ''='' @ v) \<and> CHR ''='' \<notin> set n)"

lemma sep_unique: "c \<notin> set n \<Longrightarrow> c \<notin> set m \<Longrightarrow> n @ c # v = m @ c # w \<longleftrightarrow> n = m \<and> v = w"
proof (induction n arbitrary: m)
  case Nil
  then show ?case by (cases m) auto
next
  case (Cons x n)
  then show ?case by (cases m) auto
qed

lemma piece_theme_pair:
  assumes "CHR ''='' \<notin> set n"
  shows "piece_theme (n @ ''='' @ v) =
    (if n = THEME_COOKIE then (if v = ''light'' then Some Light else if v = ''dark'' then Some Dark else None)
     else None)"
proof -
  have split: "n @ ''='' @ v = ''theme'' @ ''='' @ w \<longleftrightarrow> n = ''theme'' \<and> v = w" for w
    using sep_unique [of "CHR ''=''" n "''theme''" v w] assms by simp
  from split [of "''light''"] split [of "''dark''"] show ?thesis
    by (simp add: piece_theme_def THEME_COOKIE_def)
qed

definition theme_of :: "string option \<Rightarrow> theme option" where
  "theme_of v = (if v = Some ''light'' then Some Light else if v = Some ''dark'' then Some Dark else None)"

lemma first_theme_jar:
  "distinct (map fst jar) \<Longrightarrow> \<forall>(n, v) \<in> set jar. CHR ''='' \<notin> set n \<Longrightarrow>
    first_theme (map (\<lambda>(n, v). n @ ''='' @ v) jar) = theme_of (map_of jar THEME_COOKIE)"
proof (induction jar)
  case (Cons x jar)
  obtain n v where x: "x = (n, v)" by force
  show ?case
  proof (cases "n = THEME_COOKIE")
    case True
    then have "map_of jar THEME_COOKIE = None"
      using Cons.prems(1) x by (auto simp: map_of_eq_None_iff)
    then show ?thesis
      using Cons True x piece_theme_pair [of n v] by (auto simp: theme_of_def)
  next
    case False
    then show ?thesis using Cons x piece_theme_pair [of n v] by (auto simp: theme_of_def)
  qed
qed (simp add: theme_of_def)

lemma readCookie_jar:
  "jar_ok jar \<Longrightarrow> readCookie (cookie_text jar) = theme_of (map_of jar THEME_COOKIE)"
  unfolding cookie_text_def jar_ok_def
  by (subst readCookie_join, force) (rule first_theme_jar, simp, force)

section \<open>The choice is remembered and shown\<close>

lemma jar_ok_put:
  "jar_ok jar \<Longrightarrow> cookie_piece (n @ ''='' @ v) \<Longrightarrow> CHR ''='' \<notin> set n \<Longrightarrow> jar_ok (put n v jar)"
proof (induction n v jar rule: put.induct)
  case (2 k v k' v' ps)
  have "fst ` set (put k v ps) = insert k (fst ` set ps)" by (rule fst_set_put)
  with 2 show ?case by (auto simp: jar_ok_def)
qed (simp add: jar_ok_def)

lemma theme_piece: "cookie_piece (THEME_COOKIE @ ''='' @ theme_string t)"
  by (cases t) (simp_all add: cookie_piece_def THEME_COOKIE_def js_ws_def)

lemma writeCookie_jar: "doc_jar (writeCookie t d) = put THEME_COOKIE (theme_string t) (doc_jar d)"
  by (cases t) (simp_all add: writeCookie_def set_cookie_def Let_def THEME_COOKIE_def)

lemma writeCookie_parts:
  "doc_dark_class (writeCookie t d) = doc_dark_class d"
  "doc_theme_color (writeCookie t d) = doc_theme_color d"
  by (simp_all add: writeCookie_def set_cookie_def Let_def)

lemma apply_theme_parts:
  "doc_jar (apply_theme b d) = doc_jar d" "doc_dark_class (apply_theme b d) = b"
  "doc_theme_color (apply_theme b d) =
    map_option (\<lambda>_. Some (THEME_COLOR (if b then Dark else Light))) (doc_theme_color d)"
  by (simp_all add: apply_theme_def Let_def split: option.splits)

lemmas theme_parts = writeCookie_jar writeCookie_parts apply_theme_parts

lemma theme_of_string [simp]: "theme_of (Some (theme_string t)) = Some t"
  by (cases t) (simp_all add: theme_of_def)

inductive theme_step :: "theme_state \<Rightarrow> theme_state \<Rightarrow> bool" where
  set_theme: "theme_step s (setTheme dark s)"
| toggle: "theme_step s (toggleTheme s)"

inductive_cases theme_stepE: "theme_step s t"

text \<open>What is shown is what the store holds.\<close>

definition theme_shown :: "theme_state \<Rightarrow> bool" where
  "theme_shown s \<longleftrightarrow>
     jar_ok (doc_jar (th_doc s)) \<and> doc_dark_class (th_doc s) = th_isDark s \<and>
     (doc_theme_color (th_doc s) \<noteq> None \<longrightarrow>
        doc_theme_color (th_doc s) = Some (Some (THEME_COLOR (if th_isDark s then Dark else Light))))"

lemma theme_shown_setTheme: "theme_shown s \<Longrightarrow> theme_shown (setTheme dark s)"
  using jar_ok_put [OF _ theme_piece]
  by (auto simp: theme_shown_def setTheme_def set_isDark_def Let_def theme_parts THEME_COOKIE_def
      split: if_splits)

lemma theme_shown_init: "jar_ok (doc_jar d) \<Longrightarrow> theme_shown (useThemeStore m d)"
  by (simp add: theme_shown_def useThemeStore_def Let_def theme_parts)

interpretation themes: invariant_system
    "\<lambda>s. \<exists>d. jar_ok (doc_jar d) \<and> s = useThemeStore m d" theme_step theme_shown for m
  by unfold_locales
    (auto elim!: theme_stepE intro: theme_shown_init theme_shown_setTheme simp: toggleTheme_def)

text \<open>Also: the regular expression reads the theme cookie and nothing else: of any jar of cookies it
  returns the scheme that the cookie named \<open>theme\<close> holds, and nothing when there is no such cookie
  or it holds another value, whatever the other cookies are called or hold.\<close>

theorem readCookie_reads_theme:
  assumes "jar_ok jar"
  shows "readCookie (cookie_text jar) =
    (if map_of jar ''theme'' = Some ''light'' then Some Light
     else if map_of jar ''theme'' = Some ''dark'' then Some Dark else None)"
  using readCookie_jar [OF assms] by (simp add: theme_of_def THEME_COOKIE_def)

theorem readCookie_reads_theme_witness:
  "readCookie (cookie_text [(''sid'', ''a''), (''my-theme'', ''light''), (''theme'', ''dark'')]) = Some Dark"
proof -
  have "jar_ok [(''sid'', ''a''), (''my-theme'', ''light''), (''theme'', ''dark'')]"
    by (simp add: jar_ok_def cookie_piece_def js_ws_def)
  from readCookie_reads_theme [OF this] show ?thesis by simp
qed

text \<open>C38: the page always shows the scheme that the store holds, and a choice survives a reload:
  after \<open>setTheme\<close> a new store comes up with that scheme, whatever the system prefers.\<close>

theorem theme_choice_shown_and_kept:
  assumes "reachable (\<lambda>s. \<exists>d. jar_ok (doc_jar d) \<and> s = useThemeStore m d) theme_step s"
  shows "doc_dark_class (th_doc s) = th_isDark s
    \<and> th_isDark (setTheme dark s) = dark \<and> doc_dark_class (th_doc (setTheme dark s)) = dark
    \<and> th_isDark (useThemeStore m' (th_doc (setTheme dark s))) = dark"
proof -
  have shown: "theme_shown s" using assms by (rule themes.reachable_inv)
  define t where "t = (if dark then Dark else Light)"
  have jar: "doc_jar (th_doc (setTheme dark s)) = put THEME_COOKIE (theme_string t) (doc_jar (th_doc s))"
    by (simp add: setTheme_def set_isDark_def Let_def theme_parts t_def)
  have "jar_ok (put THEME_COOKIE (theme_string t) (doc_jar (th_doc s)))"
    using shown jar_ok_put [OF _ theme_piece] by (simp add: theme_shown_def THEME_COOKIE_def)
  then have "readCookie (cookie_text (doc_jar (th_doc (setTheme dark s)))) = Some t"
    by (simp add: jar readCookie_jar map_of_put)
  moreover have "th_isDark (setTheme dark s) = dark"
    by (simp add: setTheme_def set_isDark_def Let_def)
  moreover have "theme_shown (setTheme dark s)" using shown by (rule theme_shown_setTheme)
  ultimately show ?thesis
    using shown by (simp add: useThemeStore_def Let_def t_def theme_shown_def)
qed

definition sample_document :: document where
  "sample_document = \<lparr>doc_jar = [(''sid'', ''a'')], doc_protocol = ''https:'', doc_dark_class = False,
     doc_theme_color = Some None\<rparr>"

theorem theme_choice_shown_and_kept_witness:
  "th_isDark (useThemeStore (Some True) sample_document)
    \<and> \<not> th_isDark (useThemeStore (Some True)
          (th_doc (setTheme False (useThemeStore (Some True) sample_document))))"
proof -
  have ok: "jar_ok (doc_jar sample_document)"
    by (simp add: sample_document_def jar_ok_def cookie_piece_def js_ws_def)
  then have "reachable (\<lambda>s. \<exists>d. jar_ok (doc_jar d) \<and> s = useThemeStore (Some True) d) theme_step
      (useThemeStore (Some True) sample_document)"
    by (blast intro: reachable.start)
  moreover have "readCookie (cookie_text (doc_jar sample_document)) = None"
    using readCookie_jar [OF ok] by (simp add: sample_document_def theme_of_def THEME_COOKIE_def)
  then have "th_isDark (useThemeStore (Some True) sample_document)"
    by (simp add: useThemeStore_def Let_def systemPrefersDark_def)
  ultimately show ?thesis using theme_choice_shown_and_kept by blast
qed

text \<open>A chart colour is never empty, so a chart is readable before the style sheet has loaded.\<close>

lemma useChartTheme_nonempty:
  "cc_legend (useChartTheme css s) \<noteq> [] \<and> cc_tick (useChartTheme css s) \<noteq> []
    \<and> cc_grid (useChartTheme css s) \<noteq> []"
  by (simp add: useChartTheme_def css_value_def Let_def)

end
