(* ===== verification/Version_Info.thy ===== *)
theory Version_Info
  imports Http
begin

text \<open>
  \<open>src/src/stores/version.ts\<close>, \<open>src/src/composables/useVersionInfo.ts\<close>,
  \<open>src/src/composables/useVersionCheck.ts\<close> and the script of \<open>src/src/components/VersionBadge.vue\<close>: the
  version of the server, the texts that show it, and the check that tells an open tab of a new
  deployment.  The build-time constants are the record \<open>build_info\<close>.
\<close>

section \<open>The version store\<close>

record BackendVersion =
  bv_version :: "string option"
  bv_commit :: "string option"
  bv_branch :: "string option"
  bv_build_time :: "string option"
  bv_go_version :: "string option"

record version_state =
  vs_backend :: "BackendVersion option"
  vs_fetchError :: bool

definition version_init :: version_state where
  "version_init = \<lparr>vs_backend = None, vs_fetchError = False\<rparr>"

record build_info =
  app_version :: string
  app_build_date :: string
  app_build_node :: string
  app_build_vite :: string

definition clientToolchain :: "build_info \<Rightarrow> string" where
  "clientToolchain b =
     ''Node '' @ app_build_node b @ '' '' @ middle_dot @ '' Vite '' @ app_build_vite b"

definition version_request :: request where
  "version_request =
     \<lparr>req_url = ''/api/version'', req_method = ''GET'', req_credentials = ''same-origin'',
      req_headers = [], req_body = None\<rparr>"

text \<open>After the response: a \<open>null\<close> body is stored, and then reading its version throws.\<close>

definition receiveBackend :: "BackendVersion fetch_outcome \<Rightarrow> version_state \<Rightarrow> version_state" where
  "receiveBackend out s =
     (case out of
        Rejected _ \<Rightarrow> s\<lparr>vs_fetchError := True\<rparr>
      | Responded r \<Rightarrow>
          if \<not> resp_ok r then s\<lparr>vs_fetchError := True\<rparr>
          else (case resp_body r of
                  BadJson \<Rightarrow> s\<lparr>vs_fetchError := True\<rparr>
                | JsonNull \<Rightarrow> s\<lparr>vs_backend := None, vs_fetchError := True\<rparr>
                | Json d \<Rightarrow> s\<lparr>vs_backend := Some d\<rparr>))"

definition fetchBackend ::
    "BackendVersion net \<Rightarrow> version_state \<times> browser \<Rightarrow> version_state \<times> browser" where
  "fetchBackend net = (\<lambda>(s, b).
     let (out, b1) = fetch net version_request b in (receiveBackend out s, b1))"

section \<open>The texts\<close>

text \<open>\<open>/^v\d/i\<close>\<close>

definition has_v_prefix :: "string \<Rightarrow> bool" where
  "has_v_prefix version \<longleftrightarrow>
     (case version of
        c # d # _ \<Rightarrow> (c = CHR ''v'' \<or> c = CHR ''V'') \<and> is_digit d
      | _ \<Rightarrow> False)"

definition withVPrefix :: "string \<Rightarrow> string" where
  "withVPrefix version = (if has_v_prefix version then version else CHR ''v'' # version)"

definition backend_field ::
    "(BackendVersion \<Rightarrow> string option) \<Rightarrow> string \<Rightarrow> version_state \<Rightarrow> string" where
  "backend_field f dflt s =
     (case vs_backend s of
        Some b \<Rightarrow> (case f b of Some v \<Rightarrow> v | None \<Rightarrow> dflt)
      | None \<Rightarrow> dflt)"

record version_info =
  vi_clientVersion :: string
  vi_clientBuildDate :: string
  vi_clientBuildNode :: string
  vi_clientBuildVite :: string
  vi_clientToolchain :: string
  vi_backendVersion :: string
  vi_backendCommit :: string
  vi_backendDate :: string
  vi_backendBranch :: string
  vi_backendBuildTime :: string
  vi_backendGoVersion :: string
  vi_backendLoaded :: bool
  vi_fetchError :: bool

definition useVersionInfo :: "build_info \<Rightarrow> version_state \<Rightarrow> version_info" where
  "useVersionInfo b s =
     \<lparr>vi_clientVersion = app_version b,
      vi_clientBuildDate = app_build_date b,
      vi_clientBuildNode = app_build_node b,
      vi_clientBuildVite = app_build_vite b,
      vi_clientToolchain = clientToolchain b,
      vi_backendVersion = backend_field bv_version ellipsis s,
      vi_backendCommit = backend_field bv_commit ellipsis s,
      vi_backendDate = backend_field bv_build_time ellipsis s,
      vi_backendBranch = backend_field bv_branch [] s,
      vi_backendBuildTime = backend_field bv_build_time [] s,
      vi_backendGoVersion = backend_field bv_go_version [] s,
      vi_backendLoaded = (vs_backend s \<noteq> None),
      vi_fetchError = vs_fetchError s\<rparr>"

definition consoleLine :: "version_info \<Rightarrow> string" where
  "consoleLine i =
     ''Console '' @ withVPrefix (vi_clientVersion i) @ '' '' @ em_dash @ '' built '' @ vi_clientBuildDate i
     @ '' with Node '' @ vi_clientBuildNode i @ '', Vite '' @ vi_clientBuildVite i"

definition serverLine :: "version_info \<Rightarrow> string" where
  "serverLine i =
     (if vi_fetchError i then ''Server version unavailable''
      else if \<not> vi_backendLoaded i then ''Server version loading'' @ ellipsis
      else
        (let line = ''Server '' @ withVPrefix (vi_backendVersion i);
             ref = join '', '' (filter (\<lambda>v. v \<noteq> [] \<and> v \<noteq> ellipsis) [vi_backendCommit i, vi_backendBranch i]);
             line1 = (if ref \<noteq> [] then line @ '' ('' @ ref @ '')'' else line)
         in if vi_backendBuildTime i \<noteq> [] \<or> vi_backendGoVersion i \<noteq> [] then
              (let line2 = line1 @ '' '' @ em_dash @ '' built'';
                   line3 = (if vi_backendBuildTime i \<noteq> [] then line2 @ '' '' @ vi_backendBuildTime i else line2)
               in if vi_backendGoVersion i \<noteq> [] then line3 @ '' with '' @ vi_backendGoVersion i else line3)
            else line1))"

definition version_tooltip :: "version_info \<Rightarrow> string" where
  "version_tooltip i = consoleLine i @ [CHR 0x0A] @ serverLine i"

section \<open>The stale-tab check\<close>

text \<open>The snapshot and the number of notices shown.\<close>

record version_check =
  vc_snapshot :: "string option"
  vc_toasts :: nat

definition version_check_init :: version_check where
  "version_check_init = \<lparr>vc_snapshot = None, vc_toasts = 0\<rparr>"

text \<open>After the first \<open>fetchBackend\<close>, which never fails.\<close>

definition take_snapshot :: "version_state \<Rightarrow> version_check \<Rightarrow> version_check" where
  "take_snapshot s c =
     c\<lparr>vc_snapshot := (case vs_backend s of Some b \<Rightarrow> bv_version b | None \<Rightarrow> None)\<rparr>"

definition notifyUpdateAvailable :: "version_check \<Rightarrow> version_check" where
  "notifyUpdateAvailable c = c\<lparr>vc_toasts := Suc (vc_toasts c)\<rparr>"

definition check_request :: "int \<Rightarrow> request" where
  "check_request now =
     \<lparr>req_url = ''/api/version?t='' @ string_of_int now, req_method = ''GET'',
      req_credentials = ''same-origin'', req_headers = [], req_body = None\<rparr>"

text \<open>One poll.  With no snapshot, or an empty one, the version is not even read.\<close>

definition check :: "BackendVersion fetch_outcome \<Rightarrow> version_check \<Rightarrow> version_check" where
  "check out c =
     (case out of
        Rejected _ \<Rightarrow> c
      | Responded r \<Rightarrow>
          if \<not> resp_ok r then c
          else (case resp_body r of
                  BadJson \<Rightarrow> c
                | JsonNull \<Rightarrow> c
                | Json d \<Rightarrow>
                    (case vc_snapshot c of
                       None \<Rightarrow> c
                     | Some snap \<Rightarrow>
                         if snap \<noteq> [] \<and> bv_version d \<noteq> Some snap
                         then (notifyUpdateAvailable c)\<lparr>vc_snapshot := bv_version d\<rparr>
                         else c)))"

section \<open>What the check notices\<close>

text \<open>The version that a poll reads, and the number of changes in a list of versions.\<close>

definition polled :: "BackendVersion fetch_outcome \<Rightarrow> string option" where
  "polled out =
     (case out of
        Responded r \<Rightarrow> if resp_ok r then (case resp_body r of Json d \<Rightarrow> bv_version d | _ \<Rightarrow> None) else None
      | Rejected _ \<Rightarrow> None)"

fun changes :: "string \<Rightarrow> string list \<Rightarrow> nat" where
  "changes v [] = 0"
| "changes v (w # ws) = (if v = w then 0 else 1) + changes w ws"

definition answers_version :: "BackendVersion fetch_outcome \<Rightarrow> bool" where
  "answers_version out \<longleftrightarrow>
     (case out of
        Responded r \<Rightarrow> resp_ok r \<longrightarrow>
          (case resp_body r of Json d \<Rightarrow> bv_version d \<noteq> None \<and> bv_version d \<noteq> Some [] | _ \<Rightarrow> True)
      | Rejected _ \<Rightarrow> True)"

lemma check_polled:
  assumes "vc_snapshot c = Some snap" "snap \<noteq> []" "answers_version out"
  shows "check out c =
    (case polled out of
       None \<Rightarrow> c
     | Some v \<Rightarrow> if v = snap then c else (notifyUpdateAvailable c)\<lparr>vc_snapshot := Some v\<rparr>)
    \<and> polled out \<noteq> Some []"
  using assms
  by (auto simp: check_def polled_def answers_version_def split: fetch_outcome.splits body.splits)

text \<open>Also: a tab that has taken its snapshot notices every new deployment exactly once: over any
  sequence of polls, failed ones included, the number of notices is the number of times the
  polled version changed.\<close>

theorem one_notice_per_deployment:
  assumes "vc_snapshot c = Some snap" "snap \<noteq> []" "list_all answers_version outs"
  shows "vc_toasts (fold check outs c) = vc_toasts c + changes snap (List.map_filter polled outs)"
  using assms
proof (induction outs arbitrary: c snap)
  case (Cons out outs)
  note step = check_polled [OF Cons.prems(1,2), of out]
  show ?case
  proof (cases "polled out")
    case None
    then show ?thesis using Cons step by (simp add: map_filter_simps)
  next
    case (Some v)
    then show ?thesis
      using Cons.prems step Cons.IH [of "check out c" v] Some
      by (auto simp: map_filter_simps notifyUpdateAvailable_def split: if_splits)
  qed
qed (simp add: map_filter_simps)

text \<open>Also: a tab whose first request for the version failed never notices anything: without a snapshot
  no poll takes one, so no sequence of polls shows a notice.\<close>

theorem no_snapshot_no_notice:
  assumes "vc_snapshot c = None"
  shows "fold check outs c = c"
proof -
  have "check out c = c" for out
    using assms by (simp add: check_def split: fetch_outcome.splits body.splits)
  then show ?thesis by (induction outs) simp_all
qed

text \<open>Also: a failed request for the version is never forgiven: after a later success the store holds
  the version, but its text still says that it is unavailable.\<close>

theorem fetch_error_sticks:
  assumes "vs_fetchError s"
  shows "vs_fetchError (receiveBackend out s)
    \<and> serverLine (useVersionInfo b (receiveBackend out s)) = ''Server version unavailable''"
  using assms
  by (simp add: receiveBackend_def serverLine_def useVersionInfo_def split: fetch_outcome.splits body.splits)

definition sample_version :: "string \<Rightarrow> BackendVersion fetch_outcome" where
  "sample_version v = Responded \<lparr>resp_status = 200, resp_error = None, resp_body = Json
     \<lparr>bv_version = Some v, bv_commit = Some ''abc'', bv_branch = None, bv_build_time = None,
      bv_go_version = None\<rparr>\<rparr>"

theorem one_notice_per_deployment_witness:
  "vc_toasts (fold check [sample_version ''v1'', Rejected NetworkError, sample_version ''v2'', sample_version ''v2'']
     \<lparr>vc_snapshot = Some ''v1'', vc_toasts = 0\<rparr>) = 1"
proof -
  have "list_all answers_version
      [sample_version ''v1'', Rejected NetworkError, sample_version ''v2'', sample_version ''v2'']"
    by (simp add: answers_version_def sample_version_def)
  from one_notice_per_deployment [OF _ _ this, of "\<lparr>vc_snapshot = Some ''v1'', vc_toasts = 0\<rparr>" "''v1''"]
  show ?thesis by (simp add: polled_def sample_version_def resp_ok_def List.map_filter_simps)
qed

theorem no_snapshot_no_notice_witness:
  "fold check [sample_version ''v1'', sample_version ''v2'']
     (take_snapshot (receiveBackend (Rejected NetworkError) version_init) version_check_init) = version_check_init"
  using no_snapshot_no_notice [of version_check_init "[sample_version ''v1'', sample_version ''v2'']"]
  by (simp add: take_snapshot_def receiveBackend_def version_init_def version_check_init_def)

theorem fetch_error_sticks_witness:
  "vs_backend (receiveBackend (sample_version ''v2'') (receiveBackend (Rejected NetworkError) version_init)) \<noteq> None
    \<and> serverLine (useVersionInfo \<lparr>app_version = ''1.0.0'', app_build_date = [], app_build_node = [], app_build_vite = []\<rparr>
        (receiveBackend (sample_version ''v2'') (receiveBackend (Rejected NetworkError) version_init)))
      = ''Server version unavailable''"
proof -
  have "vs_fetchError (receiveBackend (Rejected NetworkError) version_init)"
    by (simp add: receiveBackend_def)
  from fetch_error_sticks [OF this, of "sample_version ''v2''"]
  show ?thesis by (simp add: receiveBackend_def sample_version_def resp_ok_def)
qed

text \<open>The prefix is put in front once.\<close>

lemma withVPrefix_once:
  "is_digit c \<Longrightarrow> withVPrefix (c # v) = CHR ''v'' # c # v \<and> withVPrefix (CHR ''v'' # c # v) = CHR ''v'' # c # v"
  by (cases v) (auto simp: withVPrefix_def has_v_prefix_def is_digit_def)

end
