(* ===== verification/Policy_Labels.thy ===== *)
theory Policy_Labels
  imports Js_Date Api_Types
begin

text \<open>
  \<open>src/src/utils/policy.ts\<close>: the labels of the access-policy decision log.  The four tables are
  association lists; a label is a \<open>js_text\<close> because a lookup may also find an inherited member of
  the table object.
\<close>

definition REASONS :: "(string \<times> string) list" where
  "REASONS =
     [(''allowed_by_rule'', ''Allowed by rule''),
      (''denied_by_rule'', ''Denied by rule''),
      (''deny_rule_indeterminate'',
        ''Denied '' @ em_dash @ '' a deny rule could not be evaluated (missing attribute)''),
      (''no_applicable_rule'', ''Denied '' @ em_dash @ '' no rule applies (default deny)''),
      (''policy_unavailable'', ''No policy could be loaded''),
      (''subject_locked'', ''Denied '' @ em_dash @ '' the account is locked'')]"

definition obligation_prefix :: string where
  "obligation_prefix = ''obligation_unmet:''"

definition reasonLabel :: "string \<Rightarrow> js_text" where
  "reasonLabel reason =
     (if startsWith reason obligation_prefix
      then Text (''Denied '' @ em_dash @ '' obligation not met (''
                 @ drop (length obligation_prefix) reason @ '')'')
      else table_or_key REASONS reason)"

definition OBLIGATIONS :: "(string \<times> string) list" where
  "OBLIGATIONS = [(''require_mfa'', ''MFA''), (''require_fresh_auth'', ''recent sign-in'')]"

definition obligationsLabel :: "string list option \<Rightarrow> string" where
  "obligationsLabel obligations =
     join '', '' (map (text_string \<circ> table_or_key OBLIGATIONS)
                    (case obligations of Some os \<Rightarrow> os | None \<Rightarrow> []))"

definition DIVERGENCES :: "(string \<times> string) list" where
  "DIVERGENCES =
     [(''pdp_deny_code_allow'', ''Policy stricter than the built-in checks''),
      (''pdp_allow_code_deny'', ''Policy looser than the built-in checks'')]"

definition divergenceLabel :: "string option \<Rightarrow> js_text" where
  "divergenceLabel kind =
     (case kind of
        None \<Rightarrow> Text []
      | Some k \<Rightarrow> if k = [] then Text [] else table_or_key DIVERGENCES k)"

definition SOURCES :: "(string \<times> string) list" where
  "SOURCES = [(''admin_pep'', ''Admin API''), (''decide_api'', ''Application'')]"

definition sourceLabel :: "string \<Rightarrow> js_text" where
  "sourceLabel source = table_or_key SOURCES source"

section \<open>Outcome and principal\<close>

datatype TagSeverity = Danger | Warn | Success | Secondary

record Outcome =
  out_label :: string
  out_severity :: TagSeverity

definition outcome :: "PolicyDecisionRecord \<Rightarrow> Outcome" where
  "outcome d =
     (if pd_allow d then \<lparr>out_label = ''Allowed'', out_severity = Success\<rparr>
      else if pd_reason d = ''policy_unavailable''
        then \<lparr>out_label = ''No policy'', out_severity = Secondary\<rparr>
      else if pd_enforced d then \<lparr>out_label = ''Refused'', out_severity = Danger\<rparr>
      else \<lparr>out_label = ''Would deny'', out_severity = Warn\<rparr>)"

definition principalLabel :: "PolicyDecisionRecord \<Rightarrow> string" where
  "principalLabel d =
     (let client = pd_client_id d;
          who =
            (if pd_principal_kind d = Some ''client''
             then trim (''client '' @ (case client of Some c \<Rightarrow> c | None \<Rightarrow> []))
             else (case pd_principal_id d of
                     Some n \<Rightarrow> if n \<noteq> 0 then ''user #'' @ string_of_int n else em_dash
                   | None \<Rightarrow> em_dash))
      in case client of
           Some c \<Rightarrow>
             if pd_source d = ''decide_api'' \<and> c \<noteq> [] \<and> pd_principal_kind d \<noteq> Some ''client''
             then who @ '' via '' @ c else who
         | None \<Rightarrow> who)"

section \<open>The start of a period\<close>

definition period_hours :: "(string \<times> int) list" where
  "period_hours = [(''1h'', 1), (''24h'', 24), (''7d'', 24 * 7), (''30d'', 24 * 30)]"

text \<open>
  \<open>hours[period]\<close>, then \<open>new Date(now.getTime() - h * 3600 * 1000).toISOString()\<close>: an inherited
  member is truthy and not a number, so the date is invalid and \<open>toISOString\<close> throws.
\<close>

definition sinceFromPeriod :: "string \<Rightarrow> int \<Rightarrow> js_error + string option" where
  "sinceFromPeriod period now =
     (case map_of period_hours period of
        Some h \<Rightarrow> (case to_iso (now - h * 3600 * 1000) of Inl e \<Rightarrow> Inl e | Inr s \<Rightarrow> Inr (Some s))
      | None \<Rightarrow> if period \<in> set object_prototype then Inl RangeError else Inr None)"

section \<open>What the labels say\<close>

lemma reasonLabel_obligation:
  "startsWith r obligation_prefix \<Longrightarrow>
    reasonLabel r = Text (''Denied '' @ em_dash @ '' obligation not met (''
                          @ drop (length obligation_prefix) r @ '')'')"
  by (simp add: reasonLabel_def)

lemma reasonLabel_table:
  "\<not> startsWith r obligation_prefix \<Longrightarrow> reasonLabel r = table_or_key REASONS r"
  by (simp add: reasonLabel_def)

text \<open>A text that reads like a label: one of the table's, or one of an unmet obligation.\<close>

definition obligation_label :: "string \<Rightarrow> bool" where
  "obligation_label t \<longleftrightarrow> startsWith t (''Denied '' @ em_dash @ '' obligation not met ('')"

definition label_like :: "string \<Rightarrow> bool" where
  "label_like r \<longleftrightarrow> r \<in> set (map snd REASONS) \<or> obligation_label r"

lemma REASONS_values_distinct: "distinct (map snd REASONS)"
  by (simp add: REASONS_def em_dash_def)

lemma REASONS_values_no_obligation: "v \<in> snd ` set REASONS \<Longrightarrow> \<not> obligation_label v"
  by (auto simp: REASONS_def obligation_label_def em_dash_def)

lemma reasonLabel_obligation_not_table:
  assumes "startsWith r obligation_prefix" "\<not> startsWith r' obligation_prefix" "\<not> label_like r'"
  shows "reasonLabel r \<noteq> reasonLabel r'"
proof
  assume eq: "reasonLabel r = reasonLabel r'"
  obtain t where t: "reasonLabel r = Text t" "obligation_label t"
    using assms(1) by (simp add: reasonLabel_obligation obligation_label_def)
  from eq have "table_or_key REASONS r' = Text t"
    using assms(2) t(1) by (simp add: reasonLabel_table)
  then show False
    using t(2) assms(3) REASONS_values_no_obligation
    by (cases rule: table_or_key_cases [where k = r' and tab = REASONS])
      (force simp: label_like_def)+
qed

text \<open>Also: two reasons that do not read like labels are shown by different labels.\<close>

theorem reasonLabel_injective:
  assumes "\<not> label_like r" "\<not> label_like r'" "reasonLabel r = reasonLabel r'"
  shows "r = r'"
proof (cases "startsWith r obligation_prefix")
  case True
  show ?thesis
  proof (cases "startsWith r' obligation_prefix")
    case True': True
    with True assms(3) have "drop (length obligation_prefix) r = drop (length obligation_prefix) r'"
      by (simp add: reasonLabel_obligation)
    with True True' show ?thesis by (auto simp: prefix_def)
  next
    case False
    with True assms(2,3) reasonLabel_obligation_not_table show ?thesis by blast
  qed
next
  case False
  show ?thesis
  proof (cases "startsWith r' obligation_prefix")
    case True
    with False assms(1,3) reasonLabel_obligation_not_table [of r' r] show ?thesis by simp
  next
    case False': False
    have "table_or_key REASONS r = table_or_key REASONS r'"
      using assms(3) False False' by (simp add: reasonLabel_table)
    with assms(1,2) show ?thesis
      by (intro table_or_key_inj [OF REASONS_values_distinct]) (simp_all add: label_like_def)
  qed
qed

theorem reasonLabel_injective_witness:
  "\<not> label_like ''denied_by_rule'' \<and> \<not> label_like ''rate_limited''
    \<and> reasonLabel ''denied_by_rule'' \<noteq> reasonLabel ''rate_limited''"
proof -
  have a: "\<not> label_like ''denied_by_rule''" and b: "\<not> label_like ''rate_limited''"
    by (simp_all add: label_like_def REASONS_def obligation_label_def em_dash_def)
  show ?thesis using reasonLabel_injective [OF a b] a b by auto
qed

text \<open>Also: the start of a period is the instant that many hours before now.\<close>

theorem sinceFromPeriod_instant:
  assumes "map_of period_hours period = Some h" "\<bar>now - h * 3600 * 1000\<bar> \<le> 8640000000000000"
    and "iso_four_digit (now - h * 3600 * 1000)"
  shows "\<exists>s. sinceFromPeriod period now = Inr (Some s) \<and> from_iso s = now - h * 3600 * 1000"
  using assms(1,2) from_iso_string [OF assms(3)]
  by (simp add: sinceFromPeriod_def to_iso_def)

theorem sinceFromPeriod_instant_witness:
  "\<exists>s. sinceFromPeriod ''24h'' 1790510400000 = Inr (Some s)
    \<and> s = ''2026-09-26T12:00:00.000Z'' \<and> from_iso s = 1790510400000 - 24 * 3600 * 1000"
proof -
  have h: "map_of period_hours ''24h'' = Some 24" by code_simp
  have r: "\<bar>1790510400000 - 24 * 3600 * 1000 :: int\<bar> \<le> 8640000000000000" by simp
  have f: "iso_four_digit (1790510400000 - 24 * 3600 * 1000)" by code_simp
  have s: "sinceFromPeriod ''24h'' 1790510400000 = Inr (Some ''2026-09-26T12:00:00.000Z'')"
    by code_simp
  show ?thesis using sinceFromPeriod_instant [OF h r f] s by auto
qed

end
