(* ===== verification/Auth_Store.thy ===== *)
theory Auth_Store
  imports Http Api_Types Machines
begin

text \<open>
  \<open>src/src/stores/authStore.ts\<close>: the identity of the signed-in user, the role checks that gate the
  user interface, and the calls to the BFF (\<open>/bff/session\<close>, \<open>/bff/login\<close>, \<open>/bff/logout\<close>,
  \<open>/bff/elevate\<close>).  The role lists are computed once from the build environment.
\<close>

section \<open>Role lists\<close>

definition parse_roles :: "string option \<Rightarrow> string \<Rightarrow> string list" where
  "parse_roles env dflt =
     filter (\<lambda>r. r \<noteq> [])
       (map trim (split_on (CHR '','')
          (case env of Some e \<Rightarrow> if e = [] then dflt else e | None \<Rightarrow> dflt)))"

record role_config =
  ADMIN_ROLES :: "string list"
  VIEWER_ROLES :: "string list"

definition role_config_of_env :: "string option \<Rightarrow> string option \<Rightarrow> role_config" where
  "role_config_of_env admin viewer =
     \<lparr>ADMIN_ROLES = parse_roles admin ''admin,monitor_admin'',
      VIEWER_ROLES = parse_roles viewer ''monitor_viewer''\<rparr>"

section \<open>State and computed values\<close>

record auth_state =
  auth_user :: "UserInfo option"
  auth_csrf :: "string option"
  auth_authenticated :: bool
  auth_ready :: bool
  auth_isLoading :: bool
  auth_error :: "string option"

definition auth_init :: auth_state where
  "auth_init = \<lparr>auth_user = None, auth_csrf = None, auth_authenticated = False,
                auth_ready = False, auth_isLoading = False, auth_error = None\<rparr>"

definition isAuthenticated :: "auth_state \<Rightarrow> bool" where
  "isAuthenticated s \<longleftrightarrow> auth_authenticated s \<and> auth_user s \<noteq> None"

text \<open>\<open>user.value?.roles ?? []\<close>\<close>

definition roles_of :: "auth_state \<Rightarrow> string list" where
  "roles_of s =
     (case auth_user s of
        Some u \<Rightarrow> (case ui_roles u of Some rs \<Rightarrow> rs | None \<Rightarrow> [])
      | None \<Rightarrow> [])"

definition isAdmin :: "role_config \<Rightarrow> auth_state \<Rightarrow> bool" where
  "isAdmin cfg s \<longleftrightarrow>
     ADMIN_ROLES cfg = [] \<or> list_ex (\<lambda>r. r \<in> set (ADMIN_ROLES cfg)) (roles_of s)"

definition isViewer :: "role_config \<Rightarrow> auth_state \<Rightarrow> bool" where
  "isViewer cfg s \<longleftrightarrow>
     (if isAdmin cfg s then True
      else VIEWER_ROLES cfg = [] \<or> list_ex (\<lambda>r. r \<in> set (VIEWER_ROLES cfg)) (roles_of s))"

definition csrfHeaders :: "auth_state \<Rightarrow> (string \<times> string) list" where
  "csrfHeaders s =
     (case auth_csrf s of
        Some c \<Rightarrow> if c \<noteq> [] then [(''X-CSRF-Token'', c)] else []
      | None \<Rightarrow> [])"

section \<open>Operations\<close>

definition setUnauthenticated :: "auth_state \<Rightarrow> auth_state" where
  "setUnauthenticated s = s\<lparr>auth_authenticated := False, auth_user := None, auth_csrf := None\<rparr>"

text \<open>The body of \<open>/bff/session\<close>: \<open>authenticated\<close> is read for its truthiness, the others with
  \<open>?? null\<close>.\<close>

record session_body =
  sb_authenticated :: bool
  sb_user :: "UserInfo option"
  sb_csrf :: "string option"

definition session_request :: request where
  "session_request =
     \<lparr>req_url = ''/bff/session'', req_method = ''GET'', req_credentials = ''include'',
      req_headers = [(''Accept'', ''application/json'')], req_body = None\<rparr>"

definition receiveSession :: "session_body fetch_outcome \<Rightarrow> auth_state \<Rightarrow> auth_state" where
  "receiveSession out s =
     (case out of
        Rejected e \<Rightarrow> setUnauthenticated s
      | Responded r \<Rightarrow>
          if \<not> resp_ok r then setUnauthenticated s
          else (case resp_body r of
                  BadJson \<Rightarrow> setUnauthenticated s
                | JsonNull \<Rightarrow> setUnauthenticated s
                | Json d \<Rightarrow>
                    if sb_authenticated d
                    then s\<lparr>auth_authenticated := True, auth_user := sb_user d,
                           auth_csrf := sb_csrf d\<rparr>
                    else setUnauthenticated s))"

definition fetchSession ::
    "session_body net \<Rightarrow> auth_state \<times> browser \<Rightarrow> auth_state \<times> browser" where
  "fetchSession net = (\<lambda>(s, b).
     let s1 = s\<lparr>auth_isLoading := True\<rparr>;
         (out, b1) = fetch net session_request b
     in ((receiveSession out s1)\<lparr>auth_ready := True, auth_isLoading := False\<rparr>, b1))"

definition login :: "string option \<Rightarrow> browser \<Rightarrow> browser" where
  "login returnTo b =
     (let rt = (case returnTo of Some r \<Rightarrow> r | None \<Rightarrow> br_pathname b @ br_search b)
      in assign_location (''/bff/login?return_to='' @ encodeURIComponent rt) b)"

definition logout_request :: "auth_state \<Rightarrow> request" where
  "logout_request s =
     \<lparr>req_url = ''/bff/logout'', req_method = ''POST'', req_credentials = ''include'',
      req_headers = csrfHeaders s, req_body = None\<rparr>"

text \<open>The request goes out with the current CSRF token; whatever becomes of it, the local identity
  is dropped, but only after the request has settled.\<close>

definition logout_send :: "unit net \<Rightarrow> auth_state \<times> browser \<Rightarrow> auth_state \<times> browser" where
  "logout_send net = (\<lambda>(s, b). (s, snd (fetch net (logout_request s) b)))"

definition logout_settle :: "auth_state \<times> browser \<Rightarrow> auth_state \<times> browser" where
  "logout_settle = (\<lambda>(s, b). (setUnauthenticated s, b))"

definition logout :: "unit net \<Rightarrow> auth_state \<times> browser \<Rightarrow> auth_state \<times> browser" where
  "logout net sb = logout_settle (logout_send net sb)"

definition elevate_request :: "auth_state \<Rightarrow> string \<Rightarrow> string option \<Rightarrow> request" where
  "elevate_request s password mfaCode =
     \<lparr>req_url = ''/bff/elevate'', req_method = ''POST'', req_credentials = ''include'',
      req_headers = spread [(''Content-Type'', ''application/json'')] (csrfHeaders s),
      req_body = Some (stringify (JObj
        [(''password'', JStr password),
         (''mfa_code'', case mfaCode of Some m \<Rightarrow> JStr m | None \<Rightarrow> JUndef)]))\<rparr>"

definition elevate_result :: "unit fetch_outcome \<Rightarrow> js_error + unit" where
  "elevate_result out =
     (case out of
        Rejected e \<Rightarrow> Inl e
      | Responded r \<Rightarrow>
          if resp_ok r then Inr ()
          else (case resp_body r of
                  BadJson \<Rightarrow> Inl (Error ''Step-up failed'')
                | JsonNull \<Rightarrow> Inl TypeError
                | Json _ \<Rightarrow>
                    (case resp_error r of
                       Some e \<Rightarrow> if e \<noteq> [] then Inl (Error e) else Inl (Error ''Step-up failed'')
                     | None \<Rightarrow> Inl (Error ''Step-up failed''))))"

definition elevate ::
    "unit net \<Rightarrow> string \<Rightarrow> string option \<Rightarrow> auth_state \<times> browser
      \<Rightarrow> (js_error + unit) \<times> auth_state \<times> browser" where
  "elevate net password mfaCode = (\<lambda>(s, b).
     let (out, b1) = fetch net (elevate_request s password mfaCode) b
     in (elevate_result out, s, b1))"

section \<open>Roles\<close>

lemma set_trim: "set (trim s) \<subseteq> set s"
  using trim_sublist by (rule set_mono_sublist)

text \<open>Whatever the environment holds, a role of a list is non-empty, trimmed and free of commas.\<close>

lemma parse_roles_clean:
  assumes "r \<in> set (parse_roles env dflt)"
  shows "r \<noteq> [] \<and> trim r = r \<and> CHR '','' \<notin> set r"
proof -
  obtain w e where w: "w \<in> set (split_on (CHR '','') e)" "r = trim w" "r \<noteq> []"
    using assms by (auto simp: parse_roles_def)
  have "CHR '','' \<notin> set w" using w(1) by (rule split_on_parts_free)
  with w set_trim [of w] show ?thesis by auto
qed

lemma isViewer_iff:
  "isViewer cfg s \<longleftrightarrow> ADMIN_ROLES cfg = [] \<or> VIEWER_ROLES cfg = []
     \<or> (\<exists>r \<in> set (roles_of s). r \<in> set (ADMIN_ROLES cfg) \<union> set (VIEWER_ROLES cfg))"
  by (auto simp: isViewer_def isAdmin_def list_ex_iff)

lemma isAdmin_isViewer: "isAdmin cfg s \<Longrightarrow> isViewer cfg s"
  by (simp add: isViewer_def)

section \<open>The session\<close>

text \<open>No identity and no token without a session.\<close>

definition auth_wf :: "auth_state \<Rightarrow> bool" where
  "auth_wf s \<longleftrightarrow> (\<not> auth_authenticated s \<longrightarrow> auth_user s = None \<and> auth_csrf s = None)"

lemma auth_wf_init [simp]: "auth_wf auth_init"
  by (simp add: auth_wf_def auth_init_def)

lemma auth_wf_setUnauthenticated [simp]: "auth_wf (setUnauthenticated s)"
  by (simp add: auth_wf_def setUnauthenticated_def)

lemma auth_wf_receiveSession [simp]: "auth_wf (receiveSession out s)"
  by (auto simp: receiveSession_def auth_wf_def setUnauthenticated_def
      split: fetch_outcome.splits body.splits)

lemma auth_wf_flags [simp]: "auth_wf (s\<lparr>auth_ready := x\<rparr>) = auth_wf s"
  "auth_wf (s\<lparr>auth_isLoading := y\<rparr>) = auth_wf s"
  by (simp_all add: auth_wf_def)

text \<open>The steps of the session over time: the start and the end of a session lookup, the end of a
  logout, and the reset that the API layer does on a 401.\<close>

inductive auth_step :: "auth_state \<Rightarrow> auth_state \<Rightarrow> bool" where
  lookup: "auth_step s (s\<lparr>auth_isLoading := True\<rparr>)"
| lookup_done: "auth_step s ((receiveSession out s)\<lparr>auth_ready := True, auth_isLoading := False\<rparr>)"
| signed_out: "auth_step s (setUnauthenticated s)"

inductive_cases auth_stepE: "auth_step s t"

interpretation session: invariant_system "\<lambda>s. s = auth_init" auth_step auth_wf
  by unfold_locales (auto elim!: auth_stepE)

text \<open>Also: in every state the session can reach, a request carries a CSRF token, and the page
  knows a user, only while the session is authenticated.\<close>

theorem csrf_only_with_session:
  assumes "reachable (\<lambda>s. s = auth_init) auth_step s" "csrfHeaders s \<noteq> [] \<or> auth_user s \<noteq> None"
  shows "auth_authenticated s"
proof -
  have "auth_wf s" using assms(1) by (rule session.reachable_inv)
  then show ?thesis using assms(2) by (auto simp: auth_wf_def csrfHeaders_def)
qed

theorem csrf_only_with_session_witness:
  "\<exists>s. reachable (\<lambda>s. s = auth_init) auth_step s \<and> csrfHeaders s = [(''X-CSRF-Token'', ''csrf-1'')]
     \<and> auth_authenticated s"
proof -
  define u where "u = \<lparr>ui_sub = ''u1'', ui_name = None, ui_email = None, ui_roles = Some [''admin'']\<rparr>"
  define d where "d = \<lparr>sb_authenticated = True, sb_user = Some u, sb_csrf = Some ''csrf-1''\<rparr>"
  define s where "s = (receiveSession
      (Responded \<lparr>resp_status = 200, resp_error = None, resp_body = Json d\<rparr>) auth_init)
      \<lparr>auth_ready := True, auth_isLoading := False\<rparr>"
  have "auth_step auth_init s" unfolding s_def by (rule lookup_done)
  with reachable_init have r: "reachable (\<lambda>s. s = auth_init) auth_step s"
    by (rule reachable.step)
  have h: "csrfHeaders s = [(''X-CSRF-Token'', ''csrf-1'')]"
    by (simp add: s_def receiveSession_def resp_ok_def d_def csrfHeaders_def)
  show ?thesis using csrf_only_with_session [OF r] r h by auto
qed

text \<open>Also: a session lookup signs the user in exactly when the BFF answered with a success status
  and an authenticated body that names a user; in every other case, failures included, the page is
  signed out.  Either way the store is ready and no longer loading.\<close>

theorem fetchSession_fails_closed:
  "auth_ready (fst (fetchSession net (s, b))) \<and> \<not> auth_isLoading (fst (fetchSession net (s, b)))
    \<and> (isAuthenticated (fst (fetchSession net (s, b))) \<longleftrightarrow>
        (\<exists>r d u. net (length (br_sent b)) session_request = Responded r \<and> resp_ok r
           \<and> resp_body r = Json d \<and> sb_authenticated d \<and> sb_user d = Some u))"
  by (auto simp: fetchSession_def fetch_def receiveSession_def setUnauthenticated_def
      isAuthenticated_def Let_def split: fetch_outcome.splits body.splits if_splits)

text \<open>Also: the login navigation carries the place to come back to, whole: the BFF decodes exactly
  the current path and query (or the given target) from the one parameter of the address.\<close>

theorem login_returns_whole_path:
  "\<exists>q. br_assigned (login returnTo b) = br_assigned b @ [''/bff/login?return_to='' @ q]
     \<and> decodeURIComponent q = (case returnTo of Some r \<Rightarrow> r | None \<Rightarrow> br_pathname b @ br_search b)
     \<and> set q \<inter> set ''/?#&= '' = {}"
proof -
  define rt where "rt = (case returnTo of Some r \<Rightarrow> r | None \<Rightarrow> br_pathname b @ br_search b)"
  have "set (encodeURIComponent rt) \<inter> set ''/?#&= '' = {}"
    using encodeURIComponent_safe uri_safe_not_delimiter by fastforce
  then show ?thesis
    by (auto simp: login_def assign_location_def Let_def rt_def [symmetric]
        decode_encodeURIComponent)
qed

text \<open>Logging out drops the identity whatever the server answers.\<close>

lemma logout_signs_out:
  "fst (logout net (s, b)) = setUnauthenticated s \<and> \<not> isAuthenticated (fst (logout net (s, b)))
    \<and> csrfHeaders (fst (logout net (s, b))) = []"
  by (simp add: logout_def logout_send_def logout_settle_def setUnauthenticated_def
      isAuthenticated_def csrfHeaders_def)

lemma logout_not_yet:
  "fst (logout_send net (s, b)) = s"
  by (simp add: logout_send_def)

text \<open>Step-up failures report the server's code where there is one.\<close>

lemma elevate_result_error:
  "elevate_result out = Inl (Error e) \<Longrightarrow> out \<noteq> Rejected (Error e) \<Longrightarrow>
    e = ''Step-up failed'' \<or> (\<exists>r. out = Responded r \<and> resp_error r = Some e)"
  by (auto simp: elevate_result_def split: fetch_outcome.splits body.splits if_splits option.splits)

end
