(* ===== verification/Monitor_Store.thy ===== *)
theory Monitor_Store
  imports Api_Types Machines "HOL-Library.Multiset"
begin

text \<open>
  \<open>src/src/stores/monitorStore.ts\<close>: the store behind every view.  Its state is one record; each
  action of the store is a function on it.  The live events come from the event stream as untyped
  JSON, so they are \<open>jval\<close>s; everything else has the declared type of \<open>types/index.ts\<close>.

  The collections that are edited in place (alert rules, blocked addresses, reports) share the
  contracts \<open>keyed_list\<close>, \<open>updatable_list\<close> and \<open>removable_list\<close>.
\<close>

section \<open>State\<close>

record monitor_state =
  m_stats :: "DashboardStats option"
  m_recentActivity :: "Activity list"
  m_loginTrends :: "LoginTrend list"
  m_appUsage :: "AppUsage list"
  m_health :: "SystemHealth option"
  m_securityEvents :: "SecurityEvent list"
  m_securityEventsTotal :: "int"
  m_threatMetrics :: "ThreatMetrics option"
  m_blockedIPs :: "BlockedIP list"
  m_geoAnalytics :: "GeoAnalytics option"
  m_sessions :: "Session list"
  m_sessionsTotal :: "int"
  m_tokenStats :: "TokenStats option"
  m_alertRules :: "AlertRule list"
  m_alertHistory :: "TriggeredAlert list"
  m_alertsTotal :: "int"
  m_unacknowledgedAlerts :: "int"
  m_reports :: "ReportStatus list"
  m_auditLogs :: "AdminAuditLog list"
  m_auditLogsTotal :: "int"
  m_liveEvents :: "jval list"
  m_isSSEConnected :: "bool"
  m_isLoading :: "string \<rightharpoonup> bool"
  m_errors :: "string \<rightharpoonup> string option"

definition monitor_init :: monitor_state where
  "monitor_init =
     \<lparr>m_stats = None,
      m_recentActivity = [],
      m_loginTrends = [],
      m_appUsage = [],
      m_health = None,
      m_securityEvents = [],
      m_securityEventsTotal = 0,
      m_threatMetrics = None,
      m_blockedIPs = [],
      m_geoAnalytics = None,
      m_sessions = [],
      m_sessionsTotal = 0,
      m_tokenStats = None,
      m_alertRules = [],
      m_alertHistory = [],
      m_alertsTotal = 0,
      m_unacknowledgedAlerts = 0,
      m_reports = [],
      m_auditLogs = [],
      m_auditLogsTotal = 0,
      m_liveEvents = [],
      m_isSSEConnected = False,
      m_isLoading = Map.empty,
      m_errors = Map.empty\<rparr>"

section \<open>Computed values\<close>

definition criticalAlerts :: "monitor_state \<Rightarrow> TriggeredAlert list" where
  "criticalAlerts s =
     filter (\<lambda>a. ta_severity a = Critical \<and> \<not> ta_acknowledged a) (m_alertHistory s)"

datatype ThreatLevel = Level_unknown | Level_low | Level_medium | Level_high | Level_critical

definition summary_level :: "int \<Rightarrow> int \<Rightarrow> ThreatLevel" where
  "summary_level critical_events error_events =
     (if critical_events > 0 then Level_critical
      else if error_events > 5 then Level_high
      else if error_events > 0 then Level_medium
      else Level_low)"

definition threatLevel :: "monitor_state \<Rightarrow> ThreatLevel" where
  "threatLevel s =
     (case m_threatMetrics s of
        None \<Rightarrow> Level_unknown
      | Some t \<Rightarrow> summary_level (ts_critical_events (tm_summary t)) (ts_error_events (tm_summary t)))"

section \<open>Actions\<close>

definition setLoading :: "string \<Rightarrow> bool \<Rightarrow> monitor_state \<Rightarrow> monitor_state" where
  "setLoading key value s = s\<lparr>m_isLoading := (m_isLoading s)(key \<mapsto> value)\<rparr>"

definition setError :: "string \<Rightarrow> string option \<Rightarrow> monitor_state \<Rightarrow> monitor_state" where
  "setError key err s = s\<lparr>m_errors := (m_errors s)(key \<mapsto> err)\<rparr>"

definition setStats :: "DashboardStats \<Rightarrow> monitor_state \<Rightarrow> monitor_state" where
  "setStats data s = s\<lparr>m_stats := Some data\<rparr>"

definition setRecentActivity :: "Activity list \<Rightarrow> monitor_state \<Rightarrow> monitor_state" where
  "setRecentActivity data s = s\<lparr>m_recentActivity := data\<rparr>"

definition setLoginTrends :: "LoginTrend list \<Rightarrow> monitor_state \<Rightarrow> monitor_state" where
  "setLoginTrends data s = s\<lparr>m_loginTrends := data\<rparr>"

definition setAppUsage :: "AppUsage list \<Rightarrow> monitor_state \<Rightarrow> monitor_state" where
  "setAppUsage data s = s\<lparr>m_appUsage := data\<rparr>"

definition setHealth :: "SystemHealth \<Rightarrow> monitor_state \<Rightarrow> monitor_state" where
  "setHealth data s = s\<lparr>m_health := Some data\<rparr>"

definition setSecurityEvents :: "SecurityEvent list \<Rightarrow> int \<Rightarrow> monitor_state \<Rightarrow> monitor_state" where
  "setSecurityEvents data n s = s\<lparr>m_securityEvents := data, m_securityEventsTotal := n\<rparr>"

definition setThreatMetrics :: "ThreatMetrics \<Rightarrow> monitor_state \<Rightarrow> monitor_state" where
  "setThreatMetrics data s = s\<lparr>m_threatMetrics := Some data\<rparr>"

definition setBlockedIPs :: "BlockedIP list \<Rightarrow> monitor_state \<Rightarrow> monitor_state" where
  "setBlockedIPs data s = s\<lparr>m_blockedIPs := data\<rparr>"

definition addBlockedIP :: "BlockedIP \<Rightarrow> monitor_state \<Rightarrow> monitor_state" where
  "addBlockedIP ip s = s\<lparr>m_blockedIPs := ip # m_blockedIPs s\<rparr>"

definition removeBlockedIP :: "int \<Rightarrow> monitor_state \<Rightarrow> monitor_state" where
  "removeBlockedIP i s = s\<lparr>m_blockedIPs := filter (\<lambda>ip. bip_id ip \<noteq> i) (m_blockedIPs s)\<rparr>"

definition setGeoAnalytics :: "GeoAnalytics \<Rightarrow> monitor_state \<Rightarrow> monitor_state" where
  "setGeoAnalytics data s = s\<lparr>m_geoAnalytics := Some data\<rparr>"

definition setSessions :: "Session list \<Rightarrow> int \<Rightarrow> monitor_state \<Rightarrow> monitor_state" where
  "setSessions data n s = s\<lparr>m_sessions := data, m_sessionsTotal := n\<rparr>"

definition setTokenStats :: "TokenStats \<Rightarrow> monitor_state \<Rightarrow> monitor_state" where
  "setTokenStats data s = s\<lparr>m_tokenStats := Some data\<rparr>"

definition setAlertRules :: "AlertRule list \<Rightarrow> monitor_state \<Rightarrow> monitor_state" where
  "setAlertRules data s = s\<lparr>m_alertRules := data\<rparr>"

definition addAlertRule :: "AlertRule \<Rightarrow> monitor_state \<Rightarrow> monitor_state" where
  "addAlertRule rule s = s\<lparr>m_alertRules := m_alertRules s @ [rule]\<rparr>"

definition updateAlertRule :: "AlertRule \<Rightarrow> monitor_state \<Rightarrow> monitor_state" where
  "updateAlertRule rule s =
     (case findIndex (\<lambda>r. ar_id r = ar_id rule) (m_alertRules s) of
        Some idx \<Rightarrow> s\<lparr>m_alertRules := (m_alertRules s)[idx := rule]\<rparr>
      | None \<Rightarrow> s)"

definition removeAlertRule :: "int \<Rightarrow> monitor_state \<Rightarrow> monitor_state" where
  "removeAlertRule i s = s\<lparr>m_alertRules := filter (\<lambda>r. ar_id r \<noteq> i) (m_alertRules s)\<rparr>"

definition setAlertHistory :: "TriggeredAlert list \<Rightarrow> int \<Rightarrow> int \<Rightarrow> monitor_state \<Rightarrow> monitor_state" where
  "setAlertHistory data n unack s =
     s\<lparr>m_alertHistory := data, m_alertsTotal := n, m_unacknowledgedAlerts := unack\<rparr>"

text \<open>The alert found is an element of the array and is changed in place; \<open>now\<close> is
  \<open>new Date().toISOString()\<close>.\<close>

definition acknowledgeAlert :: "string \<Rightarrow> int \<Rightarrow> string option \<Rightarrow> monitor_state \<Rightarrow> monitor_state" where
  "acknowledgeAlert now i note s =
     (case findIndex (\<lambda>a. ta_id a = i) (m_alertHistory s) of
        Some idx \<Rightarrow>
          s\<lparr>m_alertHistory := (m_alertHistory s)
              [idx := (m_alertHistory s ! idx)
                 \<lparr>ta_acknowledged := True, ta_acknowledged_at := Some now,
                  ta_acknowledge_note := note\<rparr>],
            m_unacknowledgedAlerts := max 0 (m_unacknowledgedAlerts s - 1)\<rparr>
      | None \<Rightarrow> s)"

definition addLiveEvent :: "jval \<Rightarrow> monitor_state \<Rightarrow> monitor_state" where
  "addLiveEvent event s =
     (let s' = s\<lparr>m_liveEvents := event # m_liveEvents s\<rparr>
      in if length (m_liveEvents s') > 100
         then s'\<lparr>m_liveEvents := take 100 (m_liveEvents s')\<rparr> else s')"

definition setSSEConnected :: "bool \<Rightarrow> monitor_state \<Rightarrow> monitor_state" where
  "setSSEConnected b s = s\<lparr>m_isSSEConnected := b\<rparr>"

definition clearLiveEvents :: "monitor_state \<Rightarrow> monitor_state" where
  "clearLiveEvents s = s\<lparr>m_liveEvents := []\<rparr>"

definition addReport :: "ReportStatus \<Rightarrow> monitor_state \<Rightarrow> monitor_state" where
  "addReport report s = s\<lparr>m_reports := report # m_reports s\<rparr>"

definition updateReport :: "ReportStatus \<Rightarrow> monitor_state \<Rightarrow> monitor_state" where
  "updateReport report s =
     (case findIndex (\<lambda>r. rs_report_id r = rs_report_id report) (m_reports s) of
        Some idx \<Rightarrow> s\<lparr>m_reports := (m_reports s)[idx := report]\<rparr>
      | None \<Rightarrow> s)"

definition setAuditLogs :: "AdminAuditLog list \<Rightarrow> int \<Rightarrow> monitor_state \<Rightarrow> monitor_state" where
  "setAuditLogs data n s = s\<lparr>m_auditLogs := data, m_auditLogsTotal := n\<rparr>"

lemmas monitor_setters [store_simps] =
  setLoading_def setError_def setStats_def setRecentActivity_def setLoginTrends_def
  setAppUsage_def setHealth_def setSecurityEvents_def setThreatMetrics_def setBlockedIPs_def
  setGeoAnalytics_def setSessions_def setTokenStats_def setAlertRules_def setAlertHistory_def
  setSSEConnected_def clearLiveEvents_def setAuditLogs_def

lemmas monitor_edits [store_simps] =
  addBlockedIP_def removeBlockedIP_def addAlertRule_def updateAlertRule_def removeAlertRule_def
  acknowledgeAlert_def addReport_def updateReport_def

text \<open>All the actions of the store as data, so that a run of the page is a list of them.\<close>

datatype monitor_op =
    Op_setLoading string bool
  | Op_setError string "string option"
  | Op_setStats DashboardStats
  | Op_setRecentActivity "Activity list"
  | Op_setLoginTrends "LoginTrend list"
  | Op_setAppUsage "AppUsage list"
  | Op_setHealth SystemHealth
  | Op_setSecurityEvents "SecurityEvent list" int
  | Op_setThreatMetrics ThreatMetrics
  | Op_setBlockedIPs "BlockedIP list"
  | Op_addBlockedIP BlockedIP
  | Op_removeBlockedIP int
  | Op_setGeoAnalytics GeoAnalytics
  | Op_setSessions "Session list" int
  | Op_setTokenStats TokenStats
  | Op_setAlertRules "AlertRule list"
  | Op_addAlertRule AlertRule
  | Op_updateAlertRule AlertRule
  | Op_removeAlertRule int
  | Op_setAlertHistory "TriggeredAlert list" int int
  | Op_acknowledgeAlert string int "string option"
  | Op_addLiveEvent jval
  | Op_setSSEConnected bool
  | Op_clearLiveEvents
  | Op_addReport ReportStatus
  | Op_updateReport ReportStatus
  | Op_setAuditLogs "AdminAuditLog list" int

primrec monitor_apply :: "monitor_op \<Rightarrow> monitor_state \<Rightarrow> monitor_state" where
  "monitor_apply (Op_setLoading key value) = setLoading key value"
| "monitor_apply (Op_setError key err) = setError key err"
| "monitor_apply (Op_setStats d) = setStats d"
| "monitor_apply (Op_setRecentActivity d) = setRecentActivity d"
| "monitor_apply (Op_setLoginTrends d) = setLoginTrends d"
| "monitor_apply (Op_setAppUsage d) = setAppUsage d"
| "monitor_apply (Op_setHealth d) = setHealth d"
| "monitor_apply (Op_setSecurityEvents d n) = setSecurityEvents d n"
| "monitor_apply (Op_setThreatMetrics d) = setThreatMetrics d"
| "monitor_apply (Op_setBlockedIPs d) = setBlockedIPs d"
| "monitor_apply (Op_addBlockedIP d) = addBlockedIP d"
| "monitor_apply (Op_removeBlockedIP i) = removeBlockedIP i"
| "monitor_apply (Op_setGeoAnalytics d) = setGeoAnalytics d"
| "monitor_apply (Op_setSessions d n) = setSessions d n"
| "monitor_apply (Op_setTokenStats d) = setTokenStats d"
| "monitor_apply (Op_setAlertRules d) = setAlertRules d"
| "monitor_apply (Op_addAlertRule d) = addAlertRule d"
| "monitor_apply (Op_updateAlertRule d) = updateAlertRule d"
| "monitor_apply (Op_removeAlertRule i) = removeAlertRule i"
| "monitor_apply (Op_setAlertHistory d n u) = setAlertHistory d n u"
| "monitor_apply (Op_acknowledgeAlert now i note) = acknowledgeAlert now i note"
| "monitor_apply (Op_addLiveEvent e) = addLiveEvent e"
| "monitor_apply (Op_setSSEConnected c) = setSSEConnected c"
| "monitor_apply Op_clearLiveEvents = clearLiveEvents"
| "monitor_apply (Op_addReport d) = addReport d"
| "monitor_apply (Op_updateReport d) = updateReport d"
| "monitor_apply (Op_setAuditLogs d n) = setAuditLogs d n"

section \<open>Contracts of the edited collections\<close>

text \<open>
  A keyed list holds items with a key; \<open>add\<close> puts one item in, at whichever end.  An updatable
  list replaces the first item that has the key of the given one, in place; a removable list drops
  every item with a key.  \<open>alertRules\<close> is both, \<open>reports\<close> is updatable, \<open>blockedIPs\<close> removable.
\<close>

locale keyed_list =
  fixes key :: "'a \<Rightarrow> 'k"
    and items :: "'s \<Rightarrow> 'a list"
    and add :: "'a \<Rightarrow> 's \<Rightarrow> 's"
  assumes items_add: "mset (items (add x s)) = add_mset x (mset (items s))"
begin

lemma set_add: "set (items (add x s)) = insert x (set (items s))"
  using arg_cong [OF items_add, of set_mset] by simp

lemma mset_keys_add: "mset (map key (items (add x s))) = add_mset (key x) (mset (map key (items s)))"
  by (simp add: items_add)

lemma distinct_add:
  "distinct (map key (items s)) \<Longrightarrow> key x \<notin> key ` set (items s) \<Longrightarrow>
    distinct (map key (items (add x s)))"
proof -
  assume "distinct (map key (items s))" "key x \<notin> key ` set (items s)"
  then have "distinct (map key (x # items s))" by simp
  moreover have "mset (map key (items (add x s))) = mset (map key (x # items s))"
    by (simp add: items_add)
  ultimately show ?thesis by (metis mset_eq_imp_distinct_iff)
qed

end

locale updatable_list = keyed_list +
  fixes update :: "'a \<Rightarrow> 's \<Rightarrow> 's"
  assumes items_update: "items (update x s) =
    (case findIndex (\<lambda>y. key y = key x) (items s) of
       Some i \<Rightarrow> (items s)[i := x] | None \<Rightarrow> items s)"
begin

lemma keys_update: "map key (items (update x s)) = map key (items s)"
  by (auto simp: items_update findIndex_Some map_update list_update_same_conv split: option.splits)

lemma length_update [simp]: "length (items (update x s)) = length (items s)"
  by (simp add: items_update split: option.splits)

lemma update_absent: "key x \<notin> key ` set (items s) \<Longrightarrow> items (update x s) = items s"
proof -
  assume "key x \<notin> key ` set (items s)"
  then have "findIndex (\<lambda>y. key y = key x) (items s) = None"
    by (force simp: findIndex_None image_iff)
  then show ?thesis by (simp add: items_update)
qed

lemma update_found:
  assumes "key x \<in> key ` set (items s)"
  shows "find (\<lambda>y. key y = key x) (items (update x s)) = Some x"
proof -
  obtain i where i: "findIndex (\<lambda>y. key y = key x) (items s) = Some i"
    using assms by (cases "findIndex (\<lambda>y. key y = key x) (items s)") (auto simp: findIndex_None)
  then have b: "i < length (items s)" "\<forall>j < i. key (items s ! j) \<noteq> key x"
    by (auto simp: findIndex_Some)
  then show ?thesis
    by (auto simp: items_update i find_Some_iff intro!: exI [of _ i])
qed

lemma update_other:
  "k \<noteq> key x \<Longrightarrow>
    filter (\<lambda>y. key y = k) (items (update x s)) = filter (\<lambda>y. key y = k) (items s)"
proof (cases "findIndex (\<lambda>y. key y = key x) (items s)")
  case (Some i)
  moreover assume "k \<noteq> key x"
  moreover from Some have "i < length (items s)" "key (items s ! i) = key x"
    by (auto simp: findIndex_Some)
  ultimately show ?thesis
    by (simp add: items_update upd_conv_take_nth_drop [of i])
      (metis (mono_tags, lifting) Cons_nth_drop_Suc append_take_drop_id filter.simps(2) filter_append)
qed (simp add: items_update)

end

locale removable_list = keyed_list +
  fixes remove :: "'k \<Rightarrow> 's \<Rightarrow> 's"
  assumes items_remove: "items (remove k s) = filter (\<lambda>y. key y \<noteq> k) (items s)"
begin

lemma remove_absent: "k \<notin> key ` set (items (remove k s))"
  by (auto simp: items_remove)

lemma remove_other: "k' \<noteq> k \<Longrightarrow>
    filter (\<lambda>y. key y = k') (items (remove k s)) = filter (\<lambda>y. key y = k') (items s)"
  by (auto simp: items_remove intro: filter_cong)

lemma distinct_remove:
  "distinct (map key (items s)) \<Longrightarrow> distinct (map key (items (remove k s)))"
  by (simp add: items_remove distinct_map_filter)

lemma remove_add:
  "k = key x \<Longrightarrow> k \<notin> key ` set (items s) \<Longrightarrow> mset (items (remove k (add x s))) = mset (items s)"
proof -
  assume "k = key x" and "k \<notin> key ` set (items s)"
  then have "filter_mset (\<lambda>y. key y \<noteq> k) (mset (items s)) = mset (items s)"
    by (force simp: filter_mset_eq_conv image_iff)
  then show ?thesis
    using \<open>k = key x\<close> by (simp add: items_remove items_add mset_filter)
qed

end

locale editable_list = updatable_list + removable_list
begin

lemma remove_update: "k = key x \<Longrightarrow> items (remove k (update x s)) = items (remove k s)"
proof (cases "findIndex (\<lambda>y. key y = key x) (items s)")
  case (Some i)
  moreover assume "k = key x"
  moreover from Some have "i < length (items s)" "key (items s ! i) = key x"
    by (auto simp: findIndex_Some)
  ultimately show ?thesis
    by (simp add: items_remove items_update upd_conv_take_nth_drop [of i])
      (metis (mono_tags, lifting) Cons_nth_drop_Suc append_take_drop_id filter.simps(2) filter_append)
qed (simp add: items_remove items_update)

end

interpretation rules: editable_list ar_id m_alertRules addAlertRule updateAlertRule removeAlertRule
  by unfold_locales (auto simp: store_simps split: option.splits)

interpretation reports: updatable_list rs_report_id m_reports addReport updateReport
  by unfold_locales (auto simp: store_simps split: option.splits)

interpretation blocked: removable_list bip_id m_blockedIPs addBlockedIP removeBlockedIP
  by unfold_locales (auto simp: store_simps)

section \<open>Live events\<close>

lemma addLiveEvent_take:
  "length (m_liveEvents s) \<le> 100 \<Longrightarrow>
    m_liveEvents (addLiveEvent e s) = take 100 (e # m_liveEvents s)"
  by (auto simp: addLiveEvent_def Let_def)

lemma addLiveEvent_bound [simp]: "length (m_liveEvents (addLiveEvent e s)) \<le> 100"
  by (auto simp: addLiveEvent_def Let_def)

definition live_bounded :: "monitor_state \<Rightarrow> bool" where
  "live_bounded s \<longleftrightarrow> length (m_liveEvents s) \<le> 100"

lemma live_bounded_apply: "live_bounded s \<Longrightarrow> live_bounded (monitor_apply a s)"
  by (cases a) (auto simp: live_bounded_def store_simps split: option.splits)

interpretation monitor: invariant_system "\<lambda>s. s = monitor_init"
    "\<lambda>s t. \<exists>a. t = monitor_apply a s" live_bounded
  by unfold_locales (auto simp: live_bounded_apply, simp add: live_bounded_def monitor_init_def)

text \<open>C30: after any run of store actions, adding events one after the other leaves the most
  recent hundred of all of them, newest first.\<close>

theorem live_events_most_recent:
  assumes "reachable (\<lambda>s. s = monitor_init) (\<lambda>s t. \<exists>a. t = monitor_apply a s) s"
  shows "m_liveEvents (fold addLiveEvent es s) = take 100 (rev es @ m_liveEvents s)"
proof -
  have "length (m_liveEvents s) \<le> 100"
    using monitor.reachable_inv [OF assms] by (simp add: live_bounded_def)
  then show ?thesis
  proof (induction es arbitrary: s)
    case (Cons e es)
    have "m_liveEvents (fold addLiveEvent (e # es) s)
      = take 100 (rev es @ take 100 (e # m_liveEvents s))"
      using Cons by (simp add: addLiveEvent_take)
    also have "\<dots> = take 100 (rev (e # es) @ m_liveEvents s)"
      by (cases "length es \<le> 100") (simp_all add: min_def take_Cons' del: take_Suc_Cons)
    finally show ?case .
  qed simp
qed

theorem live_events_most_recent_witness:
  "m_liveEvents (fold addLiveEvent [JNum 1, JNum 2] monitor_init) = [JNum 2, JNum 1]"
  using live_events_most_recent [OF reachable_init, of "[JNum 1, JNum 2]"]
  by (simp add: monitor_init_def)

section \<open>Alerts\<close>

definition unack_count :: "monitor_state \<Rightarrow> int" where
  "unack_count s = int (length (filter (\<lambda>a. \<not> ta_acknowledged a) (m_alertHistory s)))"

lemma filter_length_update:
  assumes "i < length xs" "P (xs ! i)" "\<not> P x"
  shows "length (filter P xs) = Suc (length (filter P (xs[i := x])))"
proof -
  have "xs = take i xs @ xs ! i # drop (Suc i) xs"
    using assms(1) by (simp add: Cons_nth_drop_Suc)
  then have "length (filter P xs) = length (filter P (take i xs)) + 1 + length (filter P (drop (Suc i) xs))"
    by (metis assms(2) add.assoc filter.simps(2) filter_append length_Cons length_append plus_1_eq_Suc)
  moreover have "xs[i := x] = take i xs @ x # drop (Suc i) xs"
    using assms(1) by (simp add: upd_conv_take_nth_drop)
  ultimately show ?thesis using assms(3) by simp
qed

lemma filter_pos_length: "i < length xs \<Longrightarrow> P (xs ! i) \<Longrightarrow> 0 < length (filter P xs)"
  by (metis filter_empty_conv length_greater_0_conv nth_mem)

text \<open>Also: acknowledging an alert that is open takes it off the open alerts and lowers the badge
  by one, so that the badge keeps counting the open alerts of the loaded history.\<close>

theorem acknowledge_keeps_badge:
  assumes "findIndex (\<lambda>a. ta_id a = i) (m_alertHistory s) = Some k"
    and "\<not> ta_acknowledged (m_alertHistory s ! k)"
    and "m_unacknowledgedAlerts s = unack_count s"
  shows "m_unacknowledgedAlerts (acknowledgeAlert now i note s) = unack_count s - 1
    \<and> unack_count (acknowledgeAlert now i note s) = unack_count s - 1
    \<and> ta_acknowledged (m_alertHistory (acknowledgeAlert now i note s) ! k)
    \<and> map ta_id (m_alertHistory (acknowledgeAlert now i note s)) = map ta_id (m_alertHistory s)"
proof -
  have k: "k < length (m_alertHistory s)" using assms(1) by (simp add: findIndex_Some)
  have "unack_count s = 1 + unack_count (acknowledgeAlert now i note s)"
    using filter_length_update [OF k, of "\<lambda>a. \<not> ta_acknowledged a"
        "(m_alertHistory s ! k)\<lparr>ta_acknowledged := True, ta_acknowledged_at := Some now,
          ta_acknowledge_note := note\<rparr>"] assms(1,2)
    by (simp add: acknowledgeAlert_def unack_count_def)
  moreover have "0 \<le> unack_count (acknowledgeAlert now i note s)"
    by (simp add: unack_count_def)
  ultimately show ?thesis
    using assms(1,3) k by (simp add: acknowledgeAlert_def map_update list_update_same_conv)
qed

definition sample_alert :: "int \<Rightarrow> bool \<Rightarrow> TriggeredAlert" where
  "sample_alert i ack =
     \<lparr>ta_id = i, ta_rule_id = 1, ta_rule_name = ''r'', ta_severity = Critical, ta_message = ''m'',
      ta_details = None, ta_acknowledged = ack, ta_acknowledged_by = None,
      ta_acknowledged_at = None, ta_acknowledge_note = None, ta_triggered_at = ''t''\<rparr>"

definition sample_history :: monitor_state where
  "sample_history =
     setAlertHistory [sample_alert 7 True, sample_alert 8 False, sample_alert 9 False] 3 2 monitor_init"

theorem acknowledge_keeps_badge_witness:
  "m_unacknowledgedAlerts (acknowledgeAlert ''now'' 8 None sample_history) = 1
    \<and> unack_count (acknowledgeAlert ''now'' 8 None sample_history) = 1"
proof -
  have f: "findIndex (\<lambda>a. ta_id a = 8) (m_alertHistory sample_history) = Some 1"
    by (simp add: sample_history_def store_simps sample_alert_def)
  have o: "\<not> ta_acknowledged (m_alertHistory sample_history ! 1)"
    by (simp add: sample_history_def store_simps sample_alert_def)
  have c: "m_unacknowledgedAlerts sample_history = unack_count sample_history"
    "unack_count sample_history = 2"
    by (simp_all add: sample_history_def store_simps sample_alert_def unack_count_def)
  show ?thesis
    using acknowledge_keeps_badge [OF f o c(1), of "''now''" None] c(2) by simp
qed

text \<open>Also: acknowledging an alert that is already acknowledged leaves the open alerts as they are
  but lowers the badge all the same, which then counts one alert too few.\<close>

theorem acknowledge_again_undercounts:
  assumes "findIndex (\<lambda>a. ta_id a = i) (m_alertHistory s) = Some k"
    and "ta_acknowledged (m_alertHistory s ! k)"
    and "m_unacknowledgedAlerts s = unack_count s" "0 < unack_count s"
  shows "unack_count (acknowledgeAlert now i note s) = unack_count s
    \<and> m_unacknowledgedAlerts (acknowledgeAlert now i note s) = unack_count s - 1"
proof -
  have k: "k < length (m_alertHistory s)" using assms(1) by (simp add: findIndex_Some)
  have split: "m_alertHistory s = take k (m_alertHistory s) @ m_alertHistory s ! k
      # drop (Suc k) (m_alertHistory s)"
    using k by (simp add: Cons_nth_drop_Suc)
  have "filter (\<lambda>a. \<not> ta_acknowledged a) ((m_alertHistory s)[k := x])
      = filter (\<lambda>a. \<not> ta_acknowledged a) (m_alertHistory s)" if "ta_acknowledged x" for x
    using that assms(2) k by (subst (2) split) (simp add: upd_conv_take_nth_drop)
  then show ?thesis
    using assms by (simp add: acknowledgeAlert_def unack_count_def)
qed

theorem acknowledge_again_undercounts_witness:
  "m_unacknowledgedAlerts (acknowledgeAlert ''now'' 7 None sample_history) = 1
    \<and> unack_count (acknowledgeAlert ''now'' 7 None sample_history) = 2"
proof -
  have f: "findIndex (\<lambda>a. ta_id a = 7) (m_alertHistory sample_history) = Some 0"
    by (simp add: sample_history_def store_simps sample_alert_def)
  have o: "ta_acknowledged (m_alertHistory sample_history ! 0)"
    by (simp add: sample_history_def store_simps sample_alert_def)
  have c: "m_unacknowledgedAlerts sample_history = unack_count sample_history"
    "unack_count sample_history = 2"
    by (simp_all add: sample_history_def store_simps sample_alert_def unack_count_def)
  show ?thesis
    using acknowledge_again_undercounts [OF f o c(1), of "''now''" None] c(2) by simp
qed

section \<open>The threat level\<close>

text \<open>The levels in order, so that comparing them is comparing how bad things are.\<close>

primrec level_rank :: "ThreatLevel \<Rightarrow> nat" where
  "level_rank Level_unknown = 0"
| "level_rank Level_low = 1"
| "level_rank Level_medium = 2"
| "level_rank Level_high = 3"
| "level_rank Level_critical = 4"

lemma level_rank_inj: "level_rank a = level_rank b \<Longrightarrow> a = b"
  by (cases a; cases b) simp_all

instantiation ThreatLevel :: linorder
begin

definition less_eq_ThreatLevel :: "ThreatLevel \<Rightarrow> ThreatLevel \<Rightarrow> bool" where
  "less_eq_ThreatLevel a b \<longleftrightarrow> level_rank a \<le> level_rank b"

definition less_ThreatLevel :: "ThreatLevel \<Rightarrow> ThreatLevel \<Rightarrow> bool" where
  "less_ThreatLevel a b \<longleftrightarrow> level_rank a < level_rank b"

instance
  by standard (auto simp: less_eq_ThreatLevel_def less_ThreatLevel_def intro: level_rank_inj)

end

text \<open>Also: more critical or more error events never lower the threat level, and the level is
  critical exactly when there is a critical event.\<close>

theorem threat_level_monotone:
  assumes "c \<le> c'" "e \<le> e'"
  shows "summary_level c e \<le> summary_level c' e'
    \<and> (summary_level c e = Level_critical \<longleftrightarrow> 0 < c)"
  using assms by (auto simp: summary_level_def less_eq_ThreatLevel_def)

theorem threat_level_monotone_witness:
  "summary_level 0 3 = Level_medium \<and> summary_level 0 6 = Level_high
    \<and> summary_level 0 3 \<le> summary_level 0 6"
  using threat_level_monotone [of 0 0 3 6] by (simp add: summary_level_def)

end

