(* ===== verification/Step_Up.thy ===== *)
theory Step_Up
  imports Auth_Store
begin

text \<open>
  Step-up authentication: \<open>src/src/stores/stepUpStore.ts\<close>, which hands out one promise for all the
  calls that need an elevation at the same time, and \<open>src/src/components/StepUpDialog.vue\<close>, the
  dialog that settles it.

  A promise is an index into the list of promises created so far; the resolver functions that the
  store keeps are the index they settle.  A promise settles at most once.
\<close>

section \<open>The store\<close>

datatype promise = Pending | Resolved | Rejected_with js_error

record step_up =
  su_visible :: bool
  su_pending :: "nat option"
  su_resolvePending :: "nat option"
  su_rejectPending :: "nat option"
  su_promises :: "promise list"

definition step_up_init :: step_up where
  "step_up_init = \<lparr>su_visible = False, su_pending = None, su_resolvePending = None,
                   su_rejectPending = None, su_promises = []\<rparr>"

definition settle :: "nat \<Rightarrow> promise \<Rightarrow> step_up \<Rightarrow> step_up" where
  "settle p v s =
     (if p < length (su_promises s) \<and> su_promises s ! p = Pending
      then s\<lparr>su_promises := (su_promises s)[p := v]\<rparr> else s)"

definition su_request :: "step_up \<Rightarrow> nat \<times> step_up" where
  "su_request s =
     (case su_pending s of
        Some p \<Rightarrow> (p, s)
      | None \<Rightarrow>
          let p = length (su_promises s)
          in (p, s\<lparr>su_visible := True, su_promises := su_promises s @ [Pending],
                   su_resolvePending := Some p, su_rejectPending := Some p,
                   su_pending := Some p\<rparr>))"

definition su_reset :: "step_up \<Rightarrow> step_up" where
  "su_reset s = s\<lparr>su_pending := None, su_resolvePending := None, su_rejectPending := None\<rparr>"

definition su_complete :: "step_up \<Rightarrow> step_up" where
  "su_complete s =
     (let s1 = s\<lparr>su_visible := False\<rparr>
      in su_reset (case su_resolvePending s1 of Some p \<Rightarrow> settle p Resolved s1 | None \<Rightarrow> s1))"

definition su_cancel :: "step_up \<Rightarrow> step_up" where
  "su_cancel s =
     (let s1 = s\<lparr>su_visible := False\<rparr>
      in su_reset (case su_rejectPending s1 of
                     Some p \<Rightarrow> settle p (Rejected_with (Error ''step-up cancelled'')) s1
                   | None \<Rightarrow> s1))"

lemmas su_defs [step_simps] = su_request_def su_complete_def su_cancel_def su_reset_def settle_def

section \<open>The dialog\<close>

text \<open>The form, and the number of elevations that it has sent and not heard of yet.\<close>

record dialog =
  dl_password :: string
  dl_mfaCode :: string
  dl_mfaRequired :: bool
  dl_error :: "string option"
  dl_loading :: bool
  dl_in_flight :: nat

definition dialog_init :: dialog where
  "dialog_init = \<lparr>dl_password = [], dl_mfaCode = [], dl_mfaRequired = False, dl_error = None,
                  dl_loading = False, dl_in_flight = 0\<rparr>"

text \<open>The watcher of \<open>stepUp.visible\<close>: the form is cleared whenever the dialog opens.\<close>

definition on_visible :: "bool \<Rightarrow> dialog \<Rightarrow> dialog" where
  "on_visible open_now d =
     (if open_now
      then d\<lparr>dl_password := [], dl_mfaCode := [], dl_mfaRequired := False, dl_error := None,
             dl_loading := False\<rparr>
      else d)"

text \<open>\<open>confirm\<close> up to its \<open>await\<close>: the elevation it sends, if the password is not empty.\<close>

definition confirm_start :: "dialog \<Rightarrow> (string \<times> string option) option \<times> dialog" where
  "confirm_start d =
     (if dl_password d = []
      then (None, d\<lparr>dl_error := Some ''Password is required.''\<rparr>)
      else (Some (dl_password d, if dl_mfaRequired d then Some (dl_mfaCode d) else None),
            d\<lparr>dl_loading := True, dl_error := None, dl_in_flight := Suc (dl_in_flight d)\<rparr>))"

fun error_message :: "js_error \<Rightarrow> string" where
  "error_message (Error m) = m"
| "error_message TypeError = ''TypeError''"
| "error_message SyntaxError = ''SyntaxError''"
| "error_message RangeError = ''RangeError''"
| "error_message URIError = ''URIError''"
| "error_message AbortError = ''AbortError''"
| "error_message NetworkError = ''NetworkError''"

text \<open>\<open>confirm\<close> after its \<open>await\<close>: on success the store's promise is resolved, on failure the message
  is shown, and the code field opens where the server asks for a second factor.\<close>

definition confirm_settle ::
    "js_error + unit \<Rightarrow> dialog \<times> step_up \<Rightarrow> dialog \<times> step_up" where
  "confirm_settle res = (\<lambda>(d, s).
     let d1 = d\<lparr>dl_in_flight := dl_in_flight d - 1\<rparr>
     in case res of
          Inr _ \<Rightarrow> (d1\<lparr>dl_loading := False\<rparr>, su_complete s)
        | Inl e \<Rightarrow>
            let msg = error_message e;
                d2 = (if msg = ''mfa_required''
                      then d1\<lparr>dl_mfaRequired := True,
                              dl_error := Some ''Enter your MFA code to continue.''\<rparr>
                      else if msg = ''invalid mfa code''
                      then d1\<lparr>dl_error := Some ''Invalid MFA code.''\<rparr>
                      else if msg = ''invalid credentials''
                      then d1\<lparr>dl_error := Some ''Invalid password.''\<rparr>
                      else d1\<lparr>dl_error := Some msg\<rparr>)
            in (d2\<lparr>dl_loading := False\<rparr>, s))"

section \<open>The machine of the dialog and the store\<close>

text \<open>
  The steps: a call asks for an elevation; the user types; the user confirms (by the button, which
  is inactive while loading, or by the Enter key, which is not); an elevation settles; the user
  cancels, which the button allows only when the dialog is open and not loading.  The watcher runs
  in the step that opens the dialog.
\<close>

record step_up_sys =
  sys_dialog :: dialog
  sys_store :: step_up
  sys_sent :: "(string \<times> string option) list"

datatype su_action =
    Ask
  | Type_password string
  | Type_code string
  | Confirm
  | Elevation_settles "js_error + unit"
  | Click_cancel

definition su_ask :: "step_up_sys \<Rightarrow> nat \<times> step_up_sys" where
  "su_ask x =
     (let (p, s) = su_request (sys_store x)
      in (p, x\<lparr>sys_store := s,
               sys_dialog := (if su_visible (sys_store x) then sys_dialog x
                              else on_visible (su_visible s) (sys_dialog x))\<rparr>))"

fun su_act :: "su_action \<Rightarrow> step_up_sys \<Rightarrow> step_up_sys option" where
  "su_act Ask x = Some (snd (su_ask x))"
| "su_act (Type_password w) x =
     (if su_visible (sys_store x)
      then Some (x\<lparr>sys_dialog := (sys_dialog x)\<lparr>dl_password := w\<rparr>\<rparr>) else None)"
| "su_act (Type_code w) x =
     (if su_visible (sys_store x) \<and> dl_mfaRequired (sys_dialog x)
      then Some (x\<lparr>sys_dialog := (sys_dialog x)\<lparr>dl_mfaCode := w\<rparr>\<rparr>) else None)"
| "su_act Confirm x =
     (if su_visible (sys_store x)
      then (case confirm_start (sys_dialog x) of
              (None, d) \<Rightarrow> Some (x\<lparr>sys_dialog := d\<rparr>)
            | (Some r, d) \<Rightarrow> Some (x\<lparr>sys_dialog := d, sys_sent := sys_sent x @ [r]\<rparr>))
      else None)"
| "su_act (Elevation_settles res) x =
     (if 0 < dl_in_flight (sys_dialog x)
      then (case confirm_settle res (sys_dialog x, sys_store x) of
              (d, s) \<Rightarrow> Some (x\<lparr>sys_dialog := d, sys_store := s\<rparr>))
      else None)"
| "su_act Click_cancel x =
     (if su_visible (sys_store x) \<and> \<not> dl_loading (sys_dialog x)
      then Some (x\<lparr>sys_store := su_cancel (sys_store x)\<rparr>) else None)"

definition su_sys_init :: step_up_sys where
  "su_sys_init = \<lparr>sys_dialog = dialog_init, sys_store = step_up_init, sys_sent = []\<rparr>"

section \<open>Invariant\<close>

text \<open>The dialog is open exactly while a promise is pending; it is the one the resolvers settle, and
  no other promise is unsettled.\<close>

definition su_inv :: "step_up \<Rightarrow> bool" where
  "su_inv s \<longleftrightarrow>
     (su_visible s \<longleftrightarrow> su_pending s \<noteq> None) \<and> su_resolvePending s = su_pending s
     \<and> su_rejectPending s = su_pending s
     \<and> (\<forall>p. su_pending s = Some p \<longrightarrow> p < length (su_promises s))
     \<and> (\<forall>p < length (su_promises s). su_promises s ! p = Pending \<longleftrightarrow> su_pending s = Some p)"

lemma su_inv_init [simp]: "su_inv step_up_init"
  by (simp add: su_inv_def step_up_init_def)

lemma su_inv_request: "su_inv s \<Longrightarrow> su_inv (snd (su_request s))"
  by (auto simp: su_inv_def su_request_def Let_def nth_append less_Suc_eq split: option.splits)

lemma su_inv_settled:
  assumes "su_inv s" "v \<noteq> Pending"
  shows "su_inv (su_reset (case su_pending s of Some p \<Rightarrow> settle p v (s\<lparr>su_visible := False\<rparr>)
                           | None \<Rightarrow> s\<lparr>su_visible := False\<rparr>))"
  using assms
  by (auto simp: su_inv_def su_reset_def settle_def nth_list_update split: option.splits)

lemma su_inv_complete: "su_inv s \<Longrightarrow> su_inv (su_complete s)"
  using su_inv_settled [of s Resolved] by (simp add: su_complete_def Let_def su_inv_def)

lemma su_inv_cancel: "su_inv s \<Longrightarrow> su_inv (su_cancel s)"
  using su_inv_settled [of s "Rejected_with (Error ''step-up cancelled'')"]
  by (simp add: su_cancel_def Let_def su_inv_def)

lemmas su_inv_ops = su_inv_request su_inv_complete su_inv_cancel

text \<open>What an operation does to the promises.\<close>

lemma promises_request:
  "su_promises (snd (su_request s)) =
     (case su_pending s of Some _ \<Rightarrow> su_promises s | None \<Rightarrow> su_promises s @ [Pending])"
  by (simp add: su_request_def Let_def split: option.splits)

lemma promises_complete:
  "su_inv s \<Longrightarrow> su_promises (su_complete s) =
     (case su_pending s of Some p \<Rightarrow> (su_promises s)[p := Resolved] | None \<Rightarrow> su_promises s)"
  by (auto simp: su_complete_def su_reset_def settle_def Let_def su_inv_def split: option.splits)

lemma promises_cancel:
  "su_inv s \<Longrightarrow> su_promises (su_cancel s) =
     (case su_pending s of
        Some p \<Rightarrow> (su_promises s)[p := Rejected_with (Error ''step-up cancelled'')]
      | None \<Rightarrow> su_promises s)"
  by (auto simp: su_cancel_def su_reset_def settle_def Let_def su_inv_def split: option.splits)

lemma closed_after: "\<not> su_visible (su_complete s)" "\<not> su_visible (su_cancel s)"
  by (auto simp: su_complete_def su_cancel_def su_reset_def settle_def Let_def split: option.splits)

section \<open>The contract of the store\<close>

text \<open>
  What a client of the store relies on: \<open>ask\<close> returns a promise, \<open>settle_all\<close> ends the elevation in
  one of the two ways; \<open>waiting\<close> is the set of unsettled promises.  From this it follows that any
  number of calls made while an elevation is wanted share one promise and are all released together.
\<close>

fun ask_many :: "('s \<Rightarrow> 'p \<times> 's) \<Rightarrow> nat \<Rightarrow> 's \<Rightarrow> 'p list \<times> 's" where
  "ask_many ask 0 s = ([], s)"
| "ask_many ask (Suc n) s =
     (let (p, s1) = ask s; (ps, s2) = ask_many ask n s1 in (p # ps, s2))"

locale elevation_broker =
  fixes ok :: "'s \<Rightarrow> bool"
    and ask :: "'s \<Rightarrow> 'p \<times> 's"
    and finish :: "bool \<Rightarrow> 's \<Rightarrow> 's"
    and waiting :: "'s \<Rightarrow> 'p set"
  assumes ok_ask: "ok s \<Longrightarrow> ok (snd (ask s))"
    and ok_finish: "ok s \<Longrightarrow> ok (finish b s)"
    and ask_waits: "ok s \<Longrightarrow> waiting (snd (ask s)) = {fst (ask s)}"
    and ask_joins: "ok s \<Longrightarrow> waiting s = {p} \<Longrightarrow> ask s = (p, s)"
    and finish_releases: "ok s \<Longrightarrow> waiting (finish b s) = {}"
begin

lemma ask_many_joined:
  "ok s \<Longrightarrow> waiting s = {p} \<Longrightarrow> ask_many ask n s = (replicate n p, s)"
  by (induction n) (simp_all add: ask_joins)

lemma ask_many_one_promise:
  assumes "ok s"
  shows "ask_many ask (Suc n) s = (replicate (Suc n) (fst (ask s)), snd (ask s))
    \<and> waiting (finish b (snd (ask_many ask (Suc n) s))) = {}"
proof -
  have "ask_many ask n (snd (ask s)) = (replicate n (fst (ask s)), snd (ask s))"
    using assms by (intro ask_many_joined ok_ask ask_waits)
  then show ?thesis
    using assms by (simp add: case_prod_beta Let_def ok_ask finish_releases)
qed

end

definition su_finish :: "bool \<Rightarrow> step_up \<Rightarrow> step_up" where
  "su_finish done s = (if done then su_complete s else su_cancel s)"

definition su_waiting :: "step_up \<Rightarrow> nat set" where
  "su_waiting s = {p. p < length (su_promises s) \<and> su_promises s ! p = Pending}"

lemma su_waiting_pending: "su_inv s \<Longrightarrow> su_waiting s = set_option (su_pending s)"
  by (auto simp: su_waiting_def su_inv_def)

lemma su_waiting_closed: "su_inv s \<Longrightarrow> \<not> su_visible s \<Longrightarrow> su_waiting s = {}"
  by (simp add: su_waiting_pending su_inv_def)

lemma su_request_pending: "su_pending (snd (su_request s)) = Some (fst (su_request s))"
  by (simp add: su_request_def Let_def split: option.splits)

interpretation broker: elevation_broker su_inv su_request su_finish su_waiting
proof
  show "su_inv (snd (su_request s))" if "su_inv s" for s using that by (rule su_inv_request)
  show "su_inv (su_finish b s)" if "su_inv s" for s b
    using that by (simp add: su_finish_def su_inv_ops)
  show "su_waiting (snd (su_request s)) = {fst (su_request s)}" if "su_inv s" for s
    using su_inv_request [OF that] by (simp add: su_waiting_pending su_request_pending)
  show "su_request s = (p, s)" if "su_inv s" "su_waiting s = {p}" for s p
    using that by (cases "su_pending s") (auto simp: su_waiting_pending su_request_def)
  show "su_waiting (su_finish b s) = {}" if "su_inv s" for s b
    using that by (auto simp: su_finish_def su_inv_ops closed_after intro!: su_waiting_closed)
qed

section \<open>The machine\<close>

definition su_sys_inv :: "step_up_sys \<Rightarrow> bool" where
  "su_sys_inv x \<longleftrightarrow> su_inv (sys_store x) \<and> (\<forall>r \<in> set (sys_sent x). fst r \<noteq> [])"

lemma su_ask_parts:
  "sys_store (snd (su_ask x)) = snd (su_request (sys_store x))"
  "sys_sent (snd (su_ask x)) = sys_sent x"
  by (simp_all add: su_ask_def case_prod_beta)

lemma confirm_settle_store:
  "snd (confirm_settle res (d, s)) = (case res of Inr _ \<Rightarrow> su_complete s | Inl _ \<Rightarrow> s)"
  by (cases res) (simp_all add: confirm_settle_def Let_def split del: if_split)

lemma su_act_store:
  "su_act a x = Some y \<Longrightarrow> sys_store y =
     (case a of
        Ask \<Rightarrow> snd (su_request (sys_store x))
      | Elevation_settles (Inr _) \<Rightarrow> su_complete (sys_store x)
      | Click_cancel \<Rightarrow> su_cancel (sys_store x)
      | _ \<Rightarrow> sys_store x)"
proof (cases a)
  case (Elevation_settles res)
  moreover assume "su_act a x = Some y"
  ultimately have "sys_store y = snd (confirm_settle res (sys_dialog x, sys_store x))"
    by (auto split: if_splits prod.splits)
  then show ?thesis
    using Elevation_settles by (simp add: confirm_settle_store split: sum.splits)
next
  case Confirm
  moreover assume "su_act a x = Some y"
  ultimately have "sys_store y = sys_store x" by (auto split: if_splits prod.splits option.splits)
  then show ?thesis using Confirm by simp
qed (auto simp: su_ask_parts split: if_splits)

lemma su_act_sent:
  "su_act a x = Some y \<Longrightarrow> r \<in> set (sys_sent y) \<Longrightarrow> r \<in> set (sys_sent x) \<or> fst r \<noteq> []"
proof (cases a)
  case Confirm
  moreover assume "su_act a x = Some y" "r \<in> set (sys_sent y)"
  ultimately show ?thesis
    by (cases "dl_password (sys_dialog x) = []") (auto simp: confirm_start_def split: if_splits)
qed (auto simp: su_ask_parts split: if_splits prod.splits)

lemma su_sys_inv_act: "su_sys_inv x \<Longrightarrow> su_act a x = Some y \<Longrightarrow> su_sys_inv y"
proof -
  assume inv: "su_sys_inv x" and act: "su_act a x = Some y"
  have "su_inv (sys_store y)"
    using su_act_store [OF act] inv
    by (simp add: su_sys_inv_def su_inv_ops split: su_action.splits sum.splits)
  then show ?thesis using su_act_sent [OF act] inv by (auto simp: su_sys_inv_def)
qed

lemma su_sys_inv_init: "su_sys_inv su_sys_init"
  by (simp add: su_sys_inv_def su_sys_init_def)

interpretation step_up: invariant_system "\<lambda>x. x = su_sys_init" "action_step su_act" su_sys_inv
  by unfold_locales
    (auto simp: action_step_def su_sys_inv_init intro: su_sys_inv_act)

section \<open>What the machine guarantees\<close>

text \<open>C10: calls that need an elevation at the same time share one promise and one dialog, and the
  end of that elevation settles the promise for all of them at once.\<close>

theorem concurrent_requests_share_elevation:
  assumes "reachable (\<lambda>x. x = su_sys_init) (action_step su_act) x"
    and "ask_many su_request (Suc n) (sys_store x) = (ps, s)"
  shows "\<exists>p. ps = replicate (Suc n) p \<and> su_visible s \<and> su_promises s ! p = Pending
    \<and> su_promises (su_complete s) ! p = Resolved
    \<and> su_promises (su_cancel s) ! p = Rejected_with (Error ''step-up cancelled'')"
proof -
  have inv: "su_inv (sys_store x)"
    using step_up.reachable_inv [OF assms(1)] by (simp add: su_sys_inv_def)
  define p where "p = fst (su_request (sys_store x))"
  have ps: "ps = replicate (Suc n) p" and s: "s = snd (su_request (sys_store x))"
    using broker.ask_many_one_promise [OF inv, of n True] assms(2) by (simp_all add: p_def)
  have inv_s: "su_inv s" using inv by (simp add: s su_inv_request)
  moreover have pend: "su_pending s = Some p" by (simp add: s p_def su_request_pending)
  ultimately have "p < length (su_promises s)" "su_visible s" "su_promises s ! p = Pending"
    by (auto simp: su_inv_def)
  then show ?thesis
    using ps pend inv_s by (intro exI [of _ p]) (simp add: promises_complete promises_cancel)
qed

theorem concurrent_requests_share_elevation_witness:
  "ask_many su_request 3 step_up_init = ([0, 0, 0], snd (su_request step_up_init))
    \<and> su_visible (snd (su_request step_up_init))"
proof -
  have eq: "ask_many su_request (Suc 2) (sys_store su_sys_init)
      = ([0, 0, 0], snd (su_request step_up_init))"
    by (simp add: numeral_2_eq_2 su_sys_init_def step_up_init_def su_request_def Let_def)
  show ?thesis
    using concurrent_requests_share_elevation [OF reachable_init eq] eq
    by (simp add: su_sys_init_def numeral_3_eq_3 numeral_2_eq_2)
qed

text \<open>Also: the dialog is open exactly while some call waits for an elevation, so no call is left
  waiting behind a closed dialog.\<close>

theorem dialog_open_iff_waiting:
  assumes "reachable (\<lambda>x. x = su_sys_init) (action_step su_act) x"
  shows "su_visible (sys_store x) \<longleftrightarrow> su_waiting (sys_store x) \<noteq> {}"
proof -
  have "su_inv (sys_store x)"
    using step_up.reachable_inv [OF assms] by (simp add: su_sys_inv_def)
  then show ?thesis
    by (simp add: su_waiting_pending) (simp add: su_inv_def)
qed

theorem dialog_open_iff_waiting_witness:
  "\<exists>x. reachable (\<lambda>x. x = su_sys_init) (action_step su_act) x \<and> su_visible (sys_store x)
     \<and> su_waiting (sys_store x) \<noteq> {}"
proof -
  define x where "x = snd (su_ask su_sys_init)"
  have "run su_act [Ask] su_sys_init = Some x" by (simp add: x_def)
  then have r: "reachable (\<lambda>x. x = su_sys_init) (action_step su_act) x"
    by (rule run_reachable [OF reachable_init])
  have v: "su_visible (sys_store x)"
    by (simp add: x_def su_ask_parts su_sys_init_def step_up_init_def su_request_def Let_def)
  show ?thesis using dialog_open_iff_waiting [OF r] r v by blast
qed

text \<open>C29: a call is released to retry only by an elevation that the BFF accepted, and fails only by
  the user's cancelling; a promise that is settled never changes.\<close>

theorem released_only_by_elevation:
  assumes "reachable (\<lambda>x. x = su_sys_init) (action_step su_act) x" "su_act a x = Some y"
    and "p < length (su_promises (sys_store x))"
  shows "(su_promises (sys_store x) ! p \<noteq> Pending \<and>
        su_promises (sys_store y) ! p = su_promises (sys_store x) ! p)
    \<or> (su_promises (sys_store x) ! p = Pending \<and>
        (su_promises (sys_store y) ! p = Pending
         \<or> (su_promises (sys_store y) ! p = Resolved \<and> a = Elevation_settles (Inr ()))
         \<or> (su_promises (sys_store y) ! p = Rejected_with (Error ''step-up cancelled'')
             \<and> a = Click_cancel)))"
proof -
  have inv: "su_inv (sys_store x)"
    using step_up.reachable_inv [OF assms(1)] by (simp add: su_sys_inv_def)
  have pend: "su_promises (sys_store x) ! p = Pending \<longleftrightarrow> su_pending (sys_store x) = Some p"
    using inv assms(3) by (simp add: su_inv_def)
  show ?thesis
  proof (cases a)
    case Ask
    then show ?thesis
      using su_act_store [OF assms(2)] assms(3) pend
      by (auto simp: promises_request nth_append split: option.splits)
  next
    case (Elevation_settles res)
    then show ?thesis
      using su_act_store [OF assms(2)] assms(3) pend promises_complete [OF inv]
      by (cases res) (auto simp: nth_list_update split: option.splits)
  next
    case Click_cancel
    then show ?thesis
      using su_act_store [OF assms(2)] assms(3) pend promises_cancel [OF inv]
      by (auto simp: nth_list_update split: option.splits)
  qed (use su_act_store [OF assms(2)] in auto)
qed

theorem released_only_by_elevation_witness:
  "\<exists>x y. run su_act [Ask, Type_password ''pw'', Confirm] su_sys_init = Some x
     \<and> su_act (Elevation_settles (Inr ())) x = Some y
     \<and> su_promises (sys_store x) = [Pending] \<and> su_promises (sys_store y) = [Resolved]"
proof -
  obtain x y where x: "run su_act [Ask, Type_password ''pw'', Confirm] su_sys_init = Some x"
    and y: "su_act (Elevation_settles (Inr ())) x = Some y"
    and px: "su_promises (sys_store x) = [Pending]"
    and py: "su_promises (sys_store y) = [Resolved]"
    by (simp add: su_ask_def su_request_def Let_def su_sys_init_def step_up_init_def dialog_init_def
        on_visible_def confirm_start_def confirm_settle_def su_complete_def settle_def su_reset_def)
  have r: "reachable (\<lambda>x. x = su_sys_init) (action_step su_act) x"
    using x by (rule run_reachable [OF reachable_init])
  have "0 < length (su_promises (sys_store x))" using px by simp
  from released_only_by_elevation [OF r y this] show ?thesis using x y px py by blast
qed

lemma mfa_message: "error_message e = ''mfa_required'' \<Longrightarrow> e = Error ''mfa_required''"
  by (cases e) simp_all

lemma confirm_settle_mfa:
  "dl_mfaRequired (fst (confirm_settle res (d, s))) \<Longrightarrow>
    dl_mfaRequired d \<or> res = Inl (Error ''mfa_required'')"
  using mfa_message
  by (cases res) (auto simp: confirm_settle_def Let_def split: if_splits)

lemma mfa_step:
  assumes "su_act a x = Some y" "a \<noteq> Elevation_settles (Inl (Error ''mfa_required''))"
  shows "(dl_mfaRequired (sys_dialog y) \<longrightarrow> dl_mfaRequired (sys_dialog x))
    \<and> ((w, Some c) \<in> set (sys_sent y) \<longrightarrow> (w, Some c) \<in> set (sys_sent x) \<or> dl_mfaRequired (sys_dialog x))"
proof (cases a)
  case Ask
  then show ?thesis using assms(1)
    by (auto simp: su_ask_def on_visible_def case_prod_beta split: if_splits)
next
  case (Elevation_settles res)
  then show ?thesis
    using assms confirm_settle_mfa [of res "sys_dialog x" "sys_store x"]
    by (auto split: if_splits prod.splits)
next
  case Confirm
  then show ?thesis using assms(1)
    by (cases "dl_password (sys_dialog x) = []") (auto simp: confirm_start_def split: if_splits)
qed (use assms(1) in \<open>auto split: if_splits\<close>)

lemma mfa_history:
  "run su_act as su_sys_init = Some x \<Longrightarrow>
    dl_mfaRequired (sys_dialog x) \<or> (w, Some c) \<in> set (sys_sent x) \<Longrightarrow>
    Elevation_settles (Inl (Error ''mfa_required'')) \<in> set as"
proof (induction as arbitrary: x rule: rev_induct)
  case Nil
  then show ?case by (auto simp: su_sys_init_def dialog_init_def)
next
  case (snoc a as)
  then obtain u where u: "run su_act as su_sys_init = Some u" "su_act a u = Some x"
    by (auto simp: run_append split: option.splits)
  show ?case
  proof (cases "a = Elevation_settles (Inl (Error ''mfa_required''))")
    case False
    from mfa_step [OF u(2) False] snoc.prems(2) snoc.IH [OF u(1)] show ?thesis by auto
  qed simp
qed

text \<open>Also: a code for the second factor is sent only after the server has asked for one.\<close>

theorem code_only_when_asked:
  assumes "run su_act as su_sys_init = Some x" "(w, Some c) \<in> set (sys_sent x)"
  shows "Elevation_settles (Inl (Error ''mfa_required'')) \<in> set as"
  using assms mfa_history by blast

theorem code_only_when_asked_witness:
  "\<exists>as x. run su_act as su_sys_init = Some x \<and> (''pw'', Some ''123456'') \<in> set (sys_sent x)
     \<and> Elevation_settles (Inl (Error ''mfa_required'')) \<in> set as"
proof -
  define as where "as = [Ask, Type_password ''pw'', Confirm,
    Elevation_settles (Inl (Error ''mfa_required'')), Type_code ''123456'', Confirm]"
  obtain x where x: "run su_act as su_sys_init = Some x"
    and m: "(''pw'', Some ''123456'') \<in> set (sys_sent x)"
    by (simp add: as_def su_ask_def su_request_def Let_def su_sys_init_def step_up_init_def
        dialog_init_def on_visible_def confirm_start_def confirm_settle_def)
  show ?thesis using code_only_when_asked [OF x m] x m by blast
qed

end
