(* ===== verification/Router_Guard.thy ===== *)
theory Router_Guard
  imports Auth_Store
begin

text \<open>
  \<open>src/src/router/index.ts\<close>: the route table and the guard that runs before every navigation;
  the navigation entries and the sign-out of \<open>App.vue\<close>; the sign-out of \<open>UnauthorisedView.vue\<close>.

  Matching an address to a route is done by the router library and is a parameter \<open>resolve\<close>.  The
  documented behaviour that the table relies on is \<open>matcher_ok\<close>: the path of a route resolves to
  that route, and an address resolves to a route of the table or to none.  An address that matches
  no route has no name and an empty meta.
\<close>

section \<open>The route table\<close>

text \<open>The guard reads the three optional flags for their truthiness only: an absent flag is false.\<close>

record RouteMeta =
  rm_guest :: bool
  rm_requiresAuth :: bool
  rm_requiresAdmin :: bool

definition no_meta :: RouteMeta where
  "no_meta = \<lparr>rm_guest = False, rm_requiresAuth = False, rm_requiresAdmin = False\<rparr>"

definition viewer_meta :: RouteMeta where
  "viewer_meta = no_meta\<lparr>rm_requiresAuth := True\<rparr>"

definition admin_meta :: RouteMeta where
  "admin_meta = no_meta\<lparr>rm_requiresAuth := True, rm_requiresAdmin := True\<rparr>"

record route =
  rt_path :: string
  rt_name :: string
  rt_component :: string
  rt_meta :: RouteMeta

definition routes :: "route list" where
  "routes =
    [\<lparr>rt_path = ''/login'', rt_name = ''login'', rt_component = ''LoginView.vue'',
       rt_meta = no_meta\<lparr>rm_guest := True\<rparr>\<rparr>,
     \<lparr>rt_path = ''/unauthorised'', rt_name = ''unauthorised'', rt_component = ''UnauthorisedView.vue'',
       rt_meta = no_meta\<rparr>,
     \<lparr>rt_path = ''/'', rt_name = ''dashboard'', rt_component = ''DashboardView.vue'', rt_meta = viewer_meta\<rparr>,
     \<lparr>rt_path = ''/events'', rt_name = ''events'', rt_component = ''EventsView.vue'', rt_meta = viewer_meta\<rparr>,
     \<lparr>rt_path = ''/threats'', rt_name = ''threats'', rt_component = ''ThreatsView.vue'', rt_meta = viewer_meta\<rparr>,
     \<lparr>rt_path = ''/sessions'', rt_name = ''sessions'', rt_component = ''SessionsView.vue'', rt_meta = viewer_meta\<rparr>,
     \<lparr>rt_path = ''/tokens'', rt_name = ''tokens'', rt_component = ''TokensView.vue'', rt_meta = viewer_meta\<rparr>,
     \<lparr>rt_path = ''/reports'', rt_name = ''reports'', rt_component = ''ReportsView.vue'', rt_meta = viewer_meta\<rparr>,
     \<lparr>rt_path = ''/geo'', rt_name = ''geo'', rt_component = ''GeoView.vue'', rt_meta = viewer_meta\<rparr>,
     \<lparr>rt_path = ''/policy-decisions'', rt_name = ''policy-decisions'',
       rt_component = ''PolicyDecisionsView.vue'', rt_meta = viewer_meta\<rparr>,
     \<lparr>rt_path = ''/alerts'', rt_name = ''alerts'', rt_component = ''AlertsView.vue'', rt_meta = admin_meta\<rparr>,
     \<lparr>rt_path = ''/blocked-ips'', rt_name = ''blocked-ips'', rt_component = ''BlockedIPsView.vue'',
       rt_meta = admin_meta\<rparr>,
     \<lparr>rt_path = ''/audit-logs'', rt_name = ''audit-logs'', rt_component = ''AuditLogsView.vue'',
       rt_meta = admin_meta\<rparr>,
     \<lparr>rt_path = ''/settings'', rt_name = ''settings'', rt_component = ''SettingsView.vue'',
       rt_meta = admin_meta\<rparr>]"

section \<open>The guard\<close>

datatype verdict = Proceed | Redirect string

text \<open>A location that matches no route is \<open>None\<close>: its name is undefined and its meta is empty.\<close>

definition guard :: "role_config \<Rightarrow> auth_state \<Rightarrow> route option \<Rightarrow> verdict" where
  "guard cfg s to =
     (let meta = (case to of Some r \<Rightarrow> rt_meta r | None \<Rightarrow> no_meta);
          entered = (if to \<noteq> None \<and> rt_name (the to) = ''login'' \<and> isAuthenticated s
                     then Redirect ''/'' else Proceed)
      in if rm_requiresAuth meta then
           (if \<not> isAuthenticated s then Redirect ''/login''
            else if rm_requiresAdmin meta then
              (if \<not> isAdmin cfg s then Redirect ''/unauthorised'' else entered)
            else
              (if \<not> isViewer cfg s then Redirect ''/unauthorised'' else entered))
         else entered)"

text \<open>A navigation: a redirect starts over at the new address, with no bound in the code.\<close>

partial_function (option) navigate ::
    "role_config \<Rightarrow> (string \<Rightarrow> route option) \<Rightarrow> auth_state \<Rightarrow> string \<Rightarrow> route option option" where
  "navigate cfg resolve s path =
     (case guard cfg s (resolve path) of
        Proceed \<Rightarrow> Some (resolve path)
      | Redirect p \<Rightarrow> navigate cfg resolve s p)"

definition matcher_ok :: "(string \<Rightarrow> route option) \<Rightarrow> bool" where
  "matcher_ok resolve \<longleftrightarrow>
     (\<forall>r \<in> set routes. resolve (rt_path r) = Some r)
     \<and> (\<forall>p r. resolve p = Some r \<longrightarrow> r \<in> set routes)"

text \<open>The plainest matcher, by equality of paths.\<close>

definition exact_match :: "string \<Rightarrow> route option" where
  "exact_match p = find (\<lambda>r. rt_path r = p) routes"

section \<open>Signing out from a page\<close>

text \<open>The router's location and the session.  A completed push moves to where the navigation ends.\<close>

record page =
  pg_auth :: auth_state
  pg_browser :: browser
  pg_location :: "route option"

definition push_route ::
    "role_config \<Rightarrow> (string \<Rightarrow> route option) \<Rightarrow> string \<Rightarrow> page \<Rightarrow> page option" where
  "push_route cfg resolve path pg =
     (case navigate cfg resolve (pg_auth pg) path of
        None \<Rightarrow> None
      | Some l \<Rightarrow> Some (pg\<lparr>pg_location := l\<rparr>))"

text \<open>\<open>App.vue\<close> awaits the logout before it navigates.\<close>

definition app_logout ::
    "unit net \<Rightarrow> role_config \<Rightarrow> (string \<Rightarrow> route option) \<Rightarrow> page \<Rightarrow> page option" where
  "app_logout net cfg resolve pg =
     (let (s, b) = logout net (pg_auth pg, pg_browser pg)
      in push_route cfg resolve ''/login'' (pg\<lparr>pg_auth := s, pg_browser := b\<rparr>))"

text \<open>\<open>UnauthorisedView.vue\<close> does not: the guards of its navigation run right after the request has
  been sent, before the response can arrive.\<close>

definition unauthorised_logout ::
    "unit net \<Rightarrow> role_config \<Rightarrow> (string \<Rightarrow> route option) \<Rightarrow> page \<Rightarrow> page option" where
  "unauthorised_logout net cfg resolve pg =
     (let (s, b) = logout_send net (pg_auth pg, pg_browser pg)
      in case push_route cfg resolve ''/login'' (pg\<lparr>pg_auth := s, pg_browser := b\<rparr>) of
           None \<Rightarrow> None
         | Some pg1 \<Rightarrow>
             (let (s1, b1) = logout_settle (pg_auth pg1, pg_browser pg1)
              in Some (pg1\<lparr>pg_auth := s1, pg_browser := b1\<rparr>)))"

section \<open>The sidebar\<close>

definition showSidebar :: "auth_state \<Rightarrow> route option \<Rightarrow> bool" where
  "showSidebar s loc \<longleftrightarrow>
     isAuthenticated s \<and>
     (case loc of
        Some r \<Rightarrow> rt_name r \<notin> set [''setup'', ''login'', ''callback'', ''unauthorised'']
      | None \<Rightarrow> True)"

record nav_item =
  nav_name :: string
  nav_route :: string
  nav_icon :: string
  nav_badge :: bool

definition navItems :: "nav_item list" where
  "navItems =
    [\<lparr>nav_name = ''Dashboard'', nav_route = ''dashboard'', nav_icon = ''pi-th-large'', nav_badge = False\<rparr>,
     \<lparr>nav_name = ''Security Events'', nav_route = ''events'', nav_icon = ''pi-list'', nav_badge = False\<rparr>,
     \<lparr>nav_name = ''Threat Intel'', nav_route = ''threats'', nav_icon = ''pi-shield'', nav_badge = False\<rparr>,
     \<lparr>nav_name = ''Geo Analytics'', nav_route = ''geo'', nav_icon = ''pi-globe'', nav_badge = False\<rparr>,
     \<lparr>nav_name = ''Sessions'', nav_route = ''sessions'', nav_icon = ''pi-users'', nav_badge = False\<rparr>,
     \<lparr>nav_name = ''Token Analytics'', nav_route = ''tokens'', nav_icon = ''pi-key'', nav_badge = False\<rparr>,
     \<lparr>nav_name = ''Alerts'', nav_route = ''alerts'', nav_icon = ''pi-bell'', nav_badge = True\<rparr>,
     \<lparr>nav_name = ''Blocked IPs'', nav_route = ''blocked-ips'', nav_icon = ''pi-ban'', nav_badge = False\<rparr>,
     \<lparr>nav_name = ''Policy Decisions'', nav_route = ''policy-decisions'', nav_icon = ''pi-sitemap'',
       nav_badge = False\<rparr>,
     \<lparr>nav_name = ''Audit Trail'', nav_route = ''audit-logs'', nav_icon = ''pi-history'', nav_badge = False\<rparr>,
     \<lparr>nav_name = ''Reports'', nav_route = ''reports'', nav_icon = ''pi-file'', nav_badge = False\<rparr>]"

section \<open>Facts of the table\<close>

lemma all_routes: "(\<forall>r \<in> set routes. P r) \<longleftrightarrow> list_all P routes"
  by (simp add: list_all_iff)

lemma table_auth:
  "r \<in> set routes \<Longrightarrow> rm_requiresAuth (rt_meta r) \<longleftrightarrow> rt_name r \<noteq> ''login'' \<and> rt_name r \<noteq> ''unauthorised''"
  by (auto simp: routes_def no_meta_def viewer_meta_def admin_meta_def)

lemma table_admin: "r \<in> set routes \<Longrightarrow> rm_requiresAdmin (rt_meta r) \<Longrightarrow> rm_requiresAuth (rt_meta r)"
  by (auto simp: routes_def no_meta_def viewer_meta_def admin_meta_def)

lemma exact_match_ok: "matcher_ok exact_match"
proof -
  have "\<forall>r \<in> set routes. exact_match (rt_path r) = Some r"
    unfolding all_routes by (simp add: exact_match_def routes_def)
  then show ?thesis by (auto simp: matcher_ok_def exact_match_def find_Some_iff)
qed

text \<open>The three addresses that the guard redirects to.\<close>

definition login_route :: route where
  "login_route = routes ! 0"

definition unauthorised_route :: route where
  "unauthorised_route = routes ! 1"

definition dashboard_route :: route where
  "dashboard_route = routes ! 2"

lemma fixed_in_table:
  "login_route \<in> set routes" "unauthorised_route \<in> set routes" "dashboard_route \<in> set routes"
  by (simp_all add: login_route_def unauthorised_route_def dashboard_route_def routes_def)

lemma fixed_facts [simp]:
  "rt_path login_route = ''/login''" "rt_name login_route = ''login''"
  "\<not> rm_requiresAuth (rt_meta login_route)"
  "rt_path unauthorised_route = ''/unauthorised''" "rt_name unauthorised_route = ''unauthorised''"
  "\<not> rm_requiresAuth (rt_meta unauthorised_route)"
  "rt_path dashboard_route = ''/''" "rt_name dashboard_route = ''dashboard''"
  "rm_requiresAuth (rt_meta dashboard_route)" "\<not> rm_requiresAdmin (rt_meta dashboard_route)"
  by (simp_all add: login_route_def unauthorised_route_def dashboard_route_def routes_def
      no_meta_def viewer_meta_def)

lemma resolve_fixed:
  assumes "matcher_ok resolve"
  shows "resolve ''/login'' = Some login_route"
    and "resolve ''/unauthorised'' = Some unauthorised_route"
    and "resolve ''/'' = Some dashboard_route"
  using assms fixed_in_table fixed_facts unfolding matcher_ok_def by metis+

section \<open>Where a navigation ends\<close>

lemma guard_cases:
  "guard cfg s to \<in> {Proceed, Redirect ''/login'', Redirect ''/unauthorised'', Redirect ''/''}"
  by (simp add: guard_def Let_def)

lemma navigate_unauthorised:
  "matcher_ok resolve \<Longrightarrow> navigate cfg resolve s ''/unauthorised'' = Some (Some unauthorised_route)"
  by (subst navigate.simps) (simp add: resolve_fixed guard_def Let_def)

lemma navigate_dashboard:
  "matcher_ok resolve \<Longrightarrow> isAuthenticated s \<Longrightarrow>
    navigate cfg resolve s ''/'' =
      Some (Some (if isViewer cfg s then dashboard_route else unauthorised_route))"
  by (subst navigate.simps) (simp add: resolve_fixed guard_def Let_def navigate_unauthorised)

lemma navigate_login:
  "matcher_ok resolve \<Longrightarrow>
    navigate cfg resolve s ''/login'' =
      Some (Some (if \<not> isAuthenticated s then login_route
                  else if isViewer cfg s then dashboard_route else unauthorised_route))"
  by (subst navigate.simps) (simp add: resolve_fixed guard_def Let_def navigate_dashboard)

text \<open>The end of every navigation, in one equation.\<close>

definition admitted :: "role_config \<Rightarrow> auth_state \<Rightarrow> route \<Rightarrow> bool" where
  "admitted cfg s r \<longleftrightarrow>
     isAuthenticated s \<and> (if rm_requiresAdmin (rt_meta r) then isAdmin cfg s else isViewer cfg s)"

definition landing :: "role_config \<Rightarrow> auth_state \<Rightarrow> route \<Rightarrow> route" where
  "landing cfg s r =
     (if rt_name r = ''unauthorised'' then r
      else if \<not> isAuthenticated s then login_route
      else if rt_name r = ''login'' then (if isViewer cfg s then dashboard_route else unauthorised_route)
      else if admitted cfg s r then r else unauthorised_route)"

lemma login_unique: "r \<in> set routes \<Longrightarrow> rt_name r = ''login'' \<Longrightarrow> r = login_route"
proof -
  have "\<forall>r \<in> set routes. rt_name r = ''login'' \<longrightarrow> r = login_route"
    unfolding all_routes by (simp add: login_route_def routes_def)
  then show "r \<in> set routes \<Longrightarrow> rt_name r = ''login'' \<Longrightarrow> r = login_route" by blast
qed

lemma navigate_landing:
  assumes "matcher_ok resolve" "resolve path = Some r"
  shows "navigate cfg resolve s path = Some (Some (landing cfg s r))"
proof -
  have r: "r \<in> set routes" using assms by (auto simp: matcher_ok_def)
  show ?thesis
    using assms table_auth [OF r] login_unique [OF r]
    by (subst navigate.simps)
      (auto simp: guard_def Let_def landing_def admitted_def navigate_login navigate_unauthorised
        navigate_dashboard)
qed

lemma navigate_unmatched:
  "resolve path = None \<Longrightarrow> navigate cfg resolve s path = Some None"
  by (subst navigate.simps) (simp add: guard_def no_meta_def)

text \<open>C27: every navigation ends: whatever the session, the roles and the address, the redirects
  of the guard come to a stop, at the route \<open>landing\<close> gives where the address matches one.\<close>

theorem navigation_terminates:
  assumes "matcher_ok resolve"
  shows "navigate cfg resolve s path =
    Some (case resolve path of None \<Rightarrow> None | Some r \<Rightarrow> Some (landing cfg s r))"
  using assms by (cases "resolve path") (simp_all add: navigate_landing navigate_unmatched)

lemma admin_pages:
  "r \<in> set routes \<Longrightarrow>
    rt_name r \<in> {''alerts'', ''blocked-ips'', ''audit-logs'', ''settings''} \<longleftrightarrow> rm_requiresAdmin (rt_meta r)"
proof -
  have "\<forall>r \<in> set routes. rt_name r \<in> {''alerts'', ''blocked-ips'', ''audit-logs'', ''settings''}
      \<longleftrightarrow> rm_requiresAdmin (rt_meta r)"
    unfolding all_routes by (simp add: routes_def no_meta_def viewer_meta_def admin_meta_def)
  then show "r \<in> set routes \<Longrightarrow> ?thesis" by blast
qed

text \<open>C1: a page of the console is reached only with the rights that it needs: every route but
  the sign-in screen and the access-denied page is shown only to an authenticated viewer, the four
  admin pages only to an admin; and a signed-in user is never left on the sign-in screen.\<close>

theorem pages_need_rights:
  assumes "matcher_ok resolve" "navigate cfg resolve s path = Some (Some r)"
  shows "(rt_name r \<in> {''login'', ''unauthorised''} \<or> isAuthenticated s \<and> isViewer cfg s)
    \<and> (rt_name r \<in> {''alerts'', ''blocked-ips'', ''audit-logs'', ''settings''} \<longrightarrow> isAdmin cfg s)
    \<and> (rt_name r = ''login'' \<longrightarrow> \<not> isAuthenticated s)"
proof -
  obtain r0 where r0: "resolve path = Some r0" "r = landing cfg s r0"
    using assms navigation_terminates [OF assms(1), of cfg s path] by (auto split: option.splits)
  then have "r0 \<in> set routes" using assms(1) by (auto simp: matcher_ok_def)
  then have "rt_name r0 \<in> {''alerts'', ''blocked-ips'', ''audit-logs'', ''settings''}
      \<longleftrightarrow> rm_requiresAdmin (rt_meta r0)"
    by (rule admin_pages)
  then show ?thesis
    unfolding r0(2) landing_def admitted_def using isAdmin_isViewer by auto
qed

definition sample_user :: "string list \<Rightarrow> auth_state" where
  "sample_user rs = auth_init\<lparr>auth_authenticated := True,
     auth_user := Some \<lparr>ui_sub = ''u1'', ui_name = None, ui_email = None, ui_roles = Some rs\<rparr>\<rparr>"

definition sample_roles :: role_config where
  "sample_roles = \<lparr>ADMIN_ROLES = [''admin'', ''monitor_admin''], VIEWER_ROLES = [''monitor_viewer'']\<rparr>"

lemma sample_rights:
  "isAuthenticated (sample_user rs)"
  "isAdmin sample_roles (sample_user rs) \<longleftrightarrow> ''admin'' \<in> set rs \<or> ''monitor_admin'' \<in> set rs"
  "isViewer sample_roles (sample_user rs) \<longleftrightarrow>
     ''admin'' \<in> set rs \<or> ''monitor_admin'' \<in> set rs \<or> ''monitor_viewer'' \<in> set rs"
  by (auto simp: sample_user_def sample_roles_def isAuthenticated_def isAdmin_def isViewer_def
      roles_of_def list_ex_iff)

theorem navigation_terminates_witness:
  "navigate sample_roles exact_match auth_init ''/alerts'' = Some (Some login_route)
    \<and> navigate sample_roles exact_match auth_init ''/nowhere'' = Some None"
  using navigation_terminates [OF exact_match_ok, of sample_roles auth_init "''/alerts''"]
    navigation_terminates [OF exact_match_ok, of sample_roles auth_init "''/nowhere''"]
  by (simp add: exact_match_def routes_def landing_def isAuthenticated_def auth_init_def)

theorem pages_need_rights_witness:
  "\<exists>r. navigate sample_roles exact_match (sample_user [''admin'']) ''/alerts'' = Some (Some r)
     \<and> rt_name r = ''alerts'' \<and> isAdmin sample_roles (sample_user [''admin''])"
proof -
  obtain r where r: "exact_match ''/alerts'' = Some r" "rt_name r = ''alerts''"
    by (simp add: exact_match_def routes_def)
  then have n: "navigate sample_roles exact_match (sample_user [''admin'']) ''/alerts'' = Some (Some r)"
    by (simp add: navigate_landing [OF exact_match_ok] landing_def admitted_def sample_rights)
  from pages_need_rights [OF exact_match_ok n] show ?thesis using n r(2) by auto
qed

text \<open>Also: the sign-out of the sidebar ends on the sign-in screen, signed out.\<close>

theorem app_logout_ends_on_login:
  assumes "matcher_ok resolve"
  shows "\<exists>pg'. app_logout net cfg resolve pg = Some pg' \<and> pg_location pg' = Some login_route
    \<and> \<not> isAuthenticated (pg_auth pg')"
  using logout_signs_out [of net "pg_auth pg" "pg_browser pg"]
  by (cases "logout net (pg_auth pg, pg_browser pg)")
    (simp add: app_logout_def push_route_def navigate_login [OF assms])

theorem app_logout_ends_on_login_witness:
  "\<exists>pg'. app_logout (\<lambda>_ _. Rejected NetworkError) sample_roles exact_match
       \<lparr>pg_auth = sample_user [''admin''], pg_browser = \<lparr>br_pathname = ''/'', br_search = [],
          br_assigned = [], br_sent = []\<rparr>, pg_location = Some dashboard_route\<rparr> = Some pg'
     \<and> pg_location pg' = Some login_route"
  using app_logout_ends_on_login [OF exact_match_ok] by blast

text \<open>Also: the sign-out of the access-denied page does not: the guard still sees the session, sends
  the navigation on to the dashboard and from there back to the access-denied page, where the user
  stays although the session is gone.\<close>

theorem unauthorised_logout_bounces:
  assumes "matcher_ok resolve" "isAuthenticated (pg_auth pg)" "\<not> isViewer cfg (pg_auth pg)"
  shows "\<exists>pg'. unauthorised_logout net cfg resolve pg = Some pg'
    \<and> pg_location pg' = Some unauthorised_route \<and> \<not> isAuthenticated (pg_auth pg')"
  using assms(2,3) logout_signs_out [of net "pg_auth pg" "pg_browser pg"]
  by (simp add: unauthorised_logout_def logout_def logout_send_def logout_settle_def push_route_def
      navigate_login [OF assms(1)])

theorem unauthorised_logout_bounces_witness:
  "\<exists>pg'. unauthorised_logout (\<lambda>_ _. Rejected NetworkError) sample_roles exact_match
       \<lparr>pg_auth = sample_user [''guest''], pg_browser = \<lparr>br_pathname = ''/unauthorised'', br_search = [],
          br_assigned = [], br_sent = []\<rparr>, pg_location = Some unauthorised_route\<rparr> = Some pg'
     \<and> pg_location pg' = Some unauthorised_route \<and> \<not> isAuthenticated (pg_auth pg')"
  by (rule unauthorised_logout_bounces [OF exact_match_ok]) (simp_all add: sample_rights)

section \<open>The sidebar leads to pages\<close>

text \<open>Each entry names a route of the table, and the sidebar is never shown on the sign-in screen
  or the access-denied page.\<close>

lemma navItems_are_routes: "set (map nav_route navItems) \<subseteq> set (map rt_name routes)"
  by (simp add: navItems_def routes_def)

lemma showSidebar_signed_in:
  "showSidebar s (Some r) \<Longrightarrow> isAuthenticated s \<and> rt_name r \<noteq> ''login'' \<and> rt_name r \<noteq> ''unauthorised''"
  by (simp add: showSidebar_def)

end
