(* ===== verification/Bootstrap.thy ===== *)
theory Bootstrap
  imports Router_Guard Version_Info Theme_Store Machines
begin

text \<open>
  \<open>src/src/main.ts\<close>: how the page starts.  The colour scheme is applied first; the request for the
  server's version is sent and not waited for; the session is looked up, and only then, whatever
  came of it, the router is installed and makes its first navigation, to the address of the page.
\<close>

section \<open>Setting up the application\<close>

text \<open>Installing a plugin, registering a directive, the first use of a store, and mounting.  A store can be used
  only after the store library has been installed; a mounted page is final.\<close>

datatype plugin = Pinia | PrimeVue jval | ToastService | ConfirmationService | Router

datatype set_up =
    Use plugin
  | Directive string
  | Use_store string
  | Mount string

record vue_app =
  va_plugins :: "plugin list"
  va_directives :: "string list"
  va_stores :: "string list"
  va_mounted :: "string option"

definition createApp :: vue_app where
  "createApp = \<lparr>va_plugins = [], va_directives = [], va_stores = [], va_mounted = None\<rparr>"

fun set_up_act :: "set_up \<Rightarrow> vue_app \<Rightarrow> vue_app option" where
  "set_up_act (Use p) a = Some (a\<lparr>va_plugins := va_plugins a @ [p]\<rparr>)"
| "set_up_act (Directive d) a = Some (a\<lparr>va_directives := va_directives a @ [d]\<rparr>)"
| "set_up_act (Use_store s) a =
     (if Pinia \<in> set (va_plugins a) then Some (a\<lparr>va_stores := va_stores a @ [s]\<rparr>) else None)"
| "set_up_act (Mount el) a = (if va_mounted a = None then Some (a\<lparr>va_mounted := Some el\<rparr>) else None)"

definition primevue_options :: jval where
  "primevue_options =
     JObj [(''theme'', JObj [(''options'',
         JObj [(''darkModeSelector'', JStr ''.dark-mode''), (''cssLayer'', JBool False)])]),
       (''ripple'', JBool True)]"

text \<open>The module, and what waits for the session.\<close>

definition main_module :: "set_up list" where
  "main_module =
     [Use Pinia, Use_store ''theme'', Use (PrimeVue primevue_options), Use ToastService, Use ConfirmationService,
      Directive ''tooltip'', Directive ''ripple'', Use_store ''version'', Use_store ''auth'']"

definition main_finally :: "set_up list" where
  "main_finally = [Use Router, Mount ''#app'']"

text \<open>The set-up goes through, and nothing is on screen and the router has not seen the address before the session
  is known.\<close>

lemma main_sets_up:
  "\<exists>a c. run set_up_act main_module createApp = Some a \<and> va_mounted a = None \<and> Router \<notin> set (va_plugins a)
    \<and> run set_up_act main_finally a = Some c \<and> va_mounted c = Some ''#app'' \<and> last (va_plugins c) = Router
    \<and> va_directives c = [''tooltip'', ''ripple'']"
  by (simp add: main_module_def main_finally_def createApp_def)

section \<open>Starting\<close>

record app =
  app_theme :: theme_state
  app_versions :: version_state
  app_page :: page

definition start_app ::
    "BackendVersion net \<Rightarrow> session_body net \<Rightarrow> role_config \<Rightarrow> (string \<Rightarrow> route option)
      \<Rightarrow> bool option \<Rightarrow> document \<Rightarrow> browser \<Rightarrow> app option" where
  "start_app vnet snet cfg resolve matchMedia d b =
     (let theme = useThemeStore matchMedia d;
          (vs, b1) = fetchBackend vnet (version_init, b);
          (s, b2) = fetchSession snet (auth_init, b1);
          pg = \<lparr>pg_auth = s, pg_browser = b2, pg_location = None\<rparr>
      in case push_route cfg resolve (br_pathname b2) pg of
           None \<Rightarrow> None
         | Some pg1 \<Rightarrow> Some \<lparr>app_theme = theme, app_versions = vs, app_page = pg1\<rparr>)"

lemma fetch_keeps_address:
  "br_pathname (snd (fetch net r b)) = br_pathname b"
  by (simp add: fetch_def)

lemma started_address:
  "br_pathname (snd (fetchSession snet (s, snd (fetchBackend vnet (v, b))))) = br_pathname b"
  by (simp add: fetchSession_def fetchBackend_def Let_def case_prod_beta fetch_keeps_address)

text \<open>Also: the page starts, and its first page is decided by the resolved session: it is the one the
  guard admits this user to at the address, and the sign-in screen for a user without a session,
  whatever became of the request for the version.\<close>

theorem first_page_follows_session:
  assumes "matcher_ok resolve" "resolve (br_pathname b) = Some r"
  shows "\<exists>a. start_app vnet snet cfg resolve matchMedia d b = Some a
    \<and> auth_ready (pg_auth (app_page a))
    \<and> pg_location (app_page a) = Some (landing cfg (pg_auth (app_page a)) r)
    \<and> pg_auth (app_page a) = fst (fetchSession snet (auth_init, snd (fetchBackend vnet (version_init, b))))"
proof -
  define b1 where "b1 = snd (fetchBackend vnet (version_init, b))"
  define s where "s = fst (fetchSession snet (auth_init, b1))"
  have ready: "auth_ready s" by (simp add: s_def fetchSession_def Let_def case_prod_beta)
  have nav: "navigate cfg resolve s (br_pathname b) = Some (Some (landing cfg s r))"
    using assms by (rule navigate_landing)
  have "br_pathname (snd (fetchSession snet (auth_init, b1))) = br_pathname b"
    by (simp add: b1_def started_address)
  then show ?thesis
    using ready nav
    by (simp add: start_app_def Let_def case_prod_beta push_route_def b1_def s_def)
qed

theorem first_page_follows_session_witness:
  "\<exists>a. start_app (\<lambda>_ _. Rejected NetworkError) (\<lambda>_ _. Rejected NetworkError) sample_roles exact_match None
       sample_document \<lparr>br_pathname = ''/alerts'', br_search = [], br_assigned = [], br_sent = []\<rparr> = Some a
     \<and> pg_location (app_page a) = Some login_route"
proof -
  define b where "b = \<lparr>br_pathname = ''/alerts'', br_search = [], br_assigned = [], br_sent = []\<rparr>"
  obtain r where r: "exact_match (br_pathname b) = Some r" "rt_name r = ''alerts''"
    by (simp add: exact_match_def routes_def b_def)
  from first_page_follows_session [OF exact_match_ok r(1)] obtain a where
    a: "start_app (\<lambda>_ _. Rejected NetworkError) (\<lambda>_ _. Rejected NetworkError) sample_roles exact_match None
       sample_document b = Some a"
    "pg_location (app_page a) = Some (landing sample_roles (pg_auth (app_page a)) r)"
    "pg_auth (app_page a) = fst (fetchSession (\<lambda>_ _. Rejected NetworkError)
        (auth_init, snd (fetchBackend (\<lambda>_ _. Rejected NetworkError) (version_init, b))))"
    by blast
  have "\<not> isAuthenticated (pg_auth (app_page a))"
    by (simp add: a(3) fetchSession_def fetch_def receiveSession_def setUnauthenticated_def
        isAuthenticated_def Let_def case_prod_beta)
  then have "pg_location (app_page a) = Some login_route"
    using a(2) r(2) by (simp add: landing_def)
  then show ?thesis using a(1) unfolding b_def by blast
qed

end
