(* ===== verification/Api_Client.thy ===== *)
theory Api_Client
  imports Step_Up Monitor_Store
begin

text \<open>
  \<open>src/src/composables/useApi.ts\<close>: every call of the console to the admin API.  \<open>fetchWithAuth\<close> adds
  the session cookie and the CSRF header, reacts to an expired session and drives the step-up
  elevation; the operations build the address, check the status and put the data into the store.

  A call is a function on the world it runs in (the three stores and the window) that returns or
  throws.  The server is the parameter \<open>net\<close>.  What happens while a call waits for an elevation (the
  user at the dialog, the elevation requests, other calls) is the parameter \<open>el\<close>: given the promise
  and the world, how the promise settles and the world then.

  An operation declares the type of its body.  A \<open>null\<close> body is the value \<open>None\<close>; reading a member of
  it throws.  (The lists of the store cannot hold \<open>null\<close>: where the code would push a \<open>null\<close> body into
  one, the model leaves the list as it is.)
\<close>

section \<open>Calls\<close>

record api_world =
  aw_auth :: auth_state
  aw_monitor :: monitor_state
  aw_stepUp :: step_up
  aw_browser :: browser

type_synonym 'a api = "api_world \<Rightarrow> (js_error + 'a) \<times> api_world"
type_synonym elevator = "nat \<Rightarrow> api_world \<Rightarrow> (js_error + unit) \<times> api_world"

definition api_return :: "'a \<Rightarrow> 'a api" where
  "api_return x = (\<lambda>w. (Inr x, w))"

definition api_throw :: "js_error \<Rightarrow> 'a api" where
  "api_throw e = (\<lambda>w. (Inl e, w))"

definition api_bind :: "'a api \<Rightarrow> ('a \<Rightarrow> 'b api) \<Rightarrow> 'b api" where
  "api_bind m f = (\<lambda>w. case m w of (Inl e, w1) \<Rightarrow> (Inl e, w1) | (Inr x, w1) \<Rightarrow> f x w1)"

definition api_finally :: "'a api \<Rightarrow> (api_world \<Rightarrow> api_world) \<Rightarrow> 'a api" where
  "api_finally m f = (\<lambda>w. case m w of (r, w1) \<Rightarrow> (r, f w1))"

definition on_monitor :: "(monitor_state \<Rightarrow> monitor_state) \<Rightarrow> api_world \<Rightarrow> api_world" where
  "on_monitor f w = w\<lparr>aw_monitor := f (aw_monitor w)\<rparr>"

definition store :: "(monitor_state \<Rightarrow> monitor_state) \<Rightarrow> unit api" where
  "store f = (\<lambda>w. (Inr (), on_monitor f w))"

text \<open>\<open>setLoading(key, true); try { m } finally { setLoading(key, false) }\<close>\<close>

definition with_loading :: "string \<Rightarrow> 'a api \<Rightarrow> 'a api" where
  "with_loading key m =
     (\<lambda>w. api_finally m (on_monitor (setLoading key False)) (on_monitor (setLoading key True) w))"

section \<open>Requests with the session\<close>

record request_init =
  ri_method :: "string option"
  ri_headers :: "(string \<times> string) list"
  ri_body :: "string option"

definition no_options :: request_init where
  "no_options = \<lparr>ri_method = None, ri_headers = [], ri_body = None\<rparr>"

definition upper_char :: "char \<Rightarrow> char" where
  "upper_char c =
     (if 97 \<le> (of_char c :: nat) \<and> (of_char c :: nat) \<le> 122 then char_of ((of_char c :: nat) - 32) else c)"

text \<open>\<open>(options.method || 'GET').toUpperCase()\<close>\<close>

definition method_of :: "request_init \<Rightarrow> string" where
  "method_of opts =
     map upper_char (case ri_method opts of Some m \<Rightarrow> if m = [] then ''GET'' else m | None \<Rightarrow> ''GET'')"

definition mutating :: "request_init \<Rightarrow> bool" where
  "mutating opts \<longleftrightarrow> method_of opts \<noteq> ''GET'' \<and> method_of opts \<noteq> ''HEAD''"

definition api_request :: "auth_state \<Rightarrow> string \<Rightarrow> request_init \<Rightarrow> request" where
  "api_request s url opts =
     \<lparr>req_url = url,
      req_method = (case ri_method opts of Some m \<Rightarrow> m | None \<Rightarrow> ''GET''),
      req_credentials = ''include'',
      req_headers =
        spread (spread [(''Content-Type'', ''application/json'')]
                  (if mutating opts then csrfHeaders s else []))
               (ri_headers opts),
      req_body = ri_body opts\<rparr>"

text \<open>\<open>body && body.error === 'elevation_required'\<close>, where an unreadable body counts as \<open>null\<close>\<close>

definition elevation_required :: "'b response \<Rightarrow> bool" where
  "elevation_required r \<longleftrightarrow>
     (case resp_body r of
        Json _ \<Rightarrow> resp_error r = Some ''elevation_required''
      | BadJson \<Rightarrow> False
      | JsonNull \<Rightarrow> False)"

function fetchWithAuth ::
    "'b net \<Rightarrow> elevator \<Rightarrow> string \<Rightarrow> request_init \<Rightarrow> bool \<Rightarrow> 'b response api" where
  "fetchWithAuth net el url opts elevated w =
     (let (out, b) = fetch net (api_request (aw_auth w) url opts) (aw_browser w);
          w1 = w\<lparr>aw_browser := b\<rparr>
      in case out of
           Rejected e \<Rightarrow> (Inl e, w1)
         | Responded r \<Rightarrow>
             if resp_status r = 401 then
               (Inl (Error ''Session expired''),
                w1\<lparr>aw_auth := setUnauthenticated (aw_auth w1),
                   aw_browser := login None (aw_browser w1)\<rparr>)
             else if resp_status r = 403 \<and> \<not> elevated then
               (if elevation_required r then
                  (let (p, su) = su_request (aw_stepUp w1)
                   in case el p (w1\<lparr>aw_stepUp := su\<rparr>) of
                        (Inl e, w2) \<Rightarrow> (Inl e, w2)
                      | (Inr _, w2) \<Rightarrow> fetchWithAuth net el url opts True w2)
                else (Inr r, w1))
             else (Inr r, w1))"
  by pat_completeness auto
termination
  by (relation "measure (\<lambda>(_, _, _, _, elevated, _). if elevated then 0 else 1)") auto

declare fetchWithAuth.simps [simp del]

section \<open>Shapes that the operations share\<close>

definition getBaseUrl :: string where
  "getBaseUrl = []"

text \<open>\<open>await response.json()\<close>\<close>

definition json :: "'b response \<Rightarrow> 'b option api" where
  "json r =
     (case resp_body r of
        BadJson \<Rightarrow> api_throw SyntaxError
      | JsonNull \<Rightarrow> api_return None
      | Json d \<Rightarrow> api_return (Some d))"

text \<open>\<open>const response = await fetchWithAuth(...); if (!response.ok) throw new Error(err)\<close>\<close>

definition checked ::
    "'b net \<Rightarrow> elevator \<Rightarrow> string \<Rightarrow> request_init \<Rightarrow> string \<Rightarrow> 'b response api" where
  "checked net el url opts err =
     api_bind (fetchWithAuth net el url opts False)
       (\<lambda>r. if \<not> resp_ok r then api_throw (Error err) else api_return r)"

text \<open>The check, the parsed body, what is done with it, and the body as the result.\<close>

definition call_json ::
    "'b net \<Rightarrow> elevator \<Rightarrow> string \<Rightarrow> request_init \<Rightarrow> string \<Rightarrow> ('b option \<Rightarrow> unit api) \<Rightarrow> 'b option api" where
  "call_json net el url opts err use =
     api_bind (checked net el url opts err)
       (\<lambda>r. api_bind (json r) (\<lambda>data. api_bind (use data) (\<lambda>_. api_return data)))"

text \<open>Using the members of the body: a \<open>null\<close> body has none.\<close>

definition members :: "('b \<Rightarrow> monitor_state \<Rightarrow> monitor_state) \<Rightarrow> 'b option \<Rightarrow> unit api" where
  "members f data = (case data of None \<Rightarrow> api_throw TypeError | Some d \<Rightarrow> store (f d))"

text \<open>Storing the body itself, \<open>null\<close> included.\<close>

definition whole ::
    "('b \<Rightarrow> monitor_state \<Rightarrow> monitor_state) \<Rightarrow> (monitor_state \<Rightarrow> monitor_state) \<Rightarrow> 'b option \<Rightarrow> unit api" where
  "whole f f_null data = (case data of None \<Rightarrow> store f_null | Some d \<Rightarrow> store (f d))"

text \<open>\<open>data.xs || []\<close> and \<open>data.n || 0\<close>\<close>

definition or_empty :: "'a list option \<Rightarrow> 'a list" where
  "or_empty xs = (case xs of Some l \<Rightarrow> l | None \<Rightarrow> [])"

definition or_zero :: "int option \<Rightarrow> int" where
  "or_zero n = (case n of Some k \<Rightarrow> k | None \<Rightarrow> 0)"

text \<open>The optional query parameters of an operation, in the order the caller gave them.\<close>

datatype param = P_undefined | P_string string | P_number int | P_bool bool

primrec param_string :: "param \<Rightarrow> string" where
  "param_string P_undefined = ''undefined''"
| "param_string (P_string s) = s"
| "param_string (P_number n) = string_of_int n"
| "param_string (P_bool b) = string_of_bool b"

text \<open>Appending the entries that are not undefined, and those that are not empty strings either.\<close>

definition append_defined :: "(string \<times> param) list \<Rightarrow> (string \<times> string) list" where
  "append_defined params =
     fold (\<lambda>(key, value) q. if value \<noteq> P_undefined then params_append key (param_string value) q else q)
       params []"

definition append_given :: "(string \<times> param) list \<Rightarrow> (string \<times> string) list" where
  "append_given params =
     fold (\<lambda>(key, value) q.
         if value \<noteq> P_undefined \<and> value \<noteq> P_string [] then params_append key (param_string value) q else q)
       params []"

section \<open>The dashboard\<close>

definition fetchDashboardStats ::
    "DashboardStats net \<Rightarrow> elevator \<Rightarrow> DashboardStats option api" where
  "fetchDashboardStats net el =
     with_loading ''stats''
       (call_json net el (getBaseUrl @ ''/api/admin/dashboard/stats'') no_options
          ''Failed to fetch stats''
          (whole setStats (\<lambda>m. m\<lparr>m_stats := None\<rparr>)))"

definition fetchRecentActivity ::
    "ActivityResponse net \<Rightarrow> elevator \<Rightarrow> int \<Rightarrow> ActivityResponse option api" where
  "fetchRecentActivity net el limit =
     with_loading ''activity''
       (call_json net el (getBaseUrl @ ''/api/admin/dashboard/activity?limit='' @ string_of_int limit) no_options
          ''Failed to fetch activity''
          (members (\<lambda>data. setRecentActivity (or_empty (actr_activities data)))))"

definition fetchLoginTrends ::
    "LoginTrendsResponse net \<Rightarrow> elevator \<Rightarrow> int \<Rightarrow> LoginTrendsResponse option api" where
  "fetchLoginTrends net el days =
     with_loading ''trends''
       (call_json net el (getBaseUrl @ ''/api/admin/dashboard/login-trends?days='' @ string_of_int days) no_options
          ''Failed to fetch trends''
          (members (\<lambda>data. setLoginTrends (or_empty (ltr_trends data)))))"

definition fetchAppUsage ::
    "AppUsageResponse net \<Rightarrow> elevator \<Rightarrow> AppUsageResponse option api" where
  "fetchAppUsage net el =
     with_loading ''appUsage''
       (call_json net el (getBaseUrl @ ''/api/admin/dashboard/app-usage'') no_options
          ''Failed to fetch app usage''
          (members (\<lambda>data. setAppUsage (or_empty (aur_apps data)))))"

definition fetchHealth ::
    "SystemHealth net \<Rightarrow> elevator \<Rightarrow> SystemHealth option api" where
  "fetchHealth net el =
     with_loading ''health''
       (call_json net el (getBaseUrl @ ''/api/admin/dashboard/health'') no_options
          ''Failed to fetch health''
          (whole setHealth (\<lambda>m. m\<lparr>m_health := None\<rparr>)))"

section \<open>Security events, threats, sessions, tokens, places\<close>

definition fetchSecurityEvents ::
    "SecurityEventsResponse net \<Rightarrow> elevator \<Rightarrow> (string \<times> param) list \<Rightarrow> SecurityEventsResponse option api" where
  "fetchSecurityEvents net el params =
     with_loading ''events''
       (call_json net el (getBaseUrl @ ''/api/admin/security/events?'' @ params_string (append_given params)) no_options
          ''Failed to fetch events''
          (members (\<lambda>data. setSecurityEvents (or_empty (ser_events data)) (or_zero (ser_total data)))))"

definition fetchThreatMetrics ::
    "ThreatMetrics net \<Rightarrow> elevator \<Rightarrow> string \<Rightarrow> ThreatMetrics option api" where
  "fetchThreatMetrics net el timeRange =
     with_loading ''threats''
       (call_json net el (getBaseUrl @ ''/api/admin/security/threats?period='' @ timeRange) no_options
          ''Failed to fetch threats''
          (whole setThreatMetrics (\<lambda>m. m\<lparr>m_threatMetrics := None\<rparr>)))"

definition fetchSessions ::
    "SessionsResponse net \<Rightarrow> elevator \<Rightarrow> (string \<times> param) list \<Rightarrow> SessionsResponse option api" where
  "fetchSessions net el params =
     with_loading ''sessions''
       (call_json net el (getBaseUrl @ ''/api/admin/sessions?'' @ params_string (append_defined params)) no_options
          ''Failed to fetch sessions''
          (members (\<lambda>data. setSessions (or_empty (sesr_sessions data)) (or_zero (sesr_total data)))))"

definition revokeUserTokens ::
    "'b net \<Rightarrow> elevator \<Rightarrow> int \<Rightarrow> unit api" where
  "revokeUserTokens net el userId =
     api_bind (checked net el (getBaseUrl @ ''/api/admin/users/'' @ string_of_int userId @ ''/revoke-tokens'')
         (no_options\<lparr>ri_method := Some ''POST''\<rparr>) ''Failed to revoke user tokens'')
       (\<lambda>_. api_return ())"

definition fetchTokenStats ::
    "TokenStats net \<Rightarrow> elevator \<Rightarrow> string \<Rightarrow> TokenStats option api" where
  "fetchTokenStats net el period =
     with_loading ''tokenStats''
       (call_json net el (getBaseUrl @ ''/api/admin/tokens/stats?period='' @ period) no_options
          ''Failed to fetch token stats''
          (whole setTokenStats (\<lambda>m. m\<lparr>m_tokenStats := None\<rparr>)))"

definition fetchAuditIntegrity ::
    "AuditIntegrity net \<Rightarrow> elevator \<Rightarrow> string \<Rightarrow> AuditIntegrity option api" where
  "fetchAuditIntegrity net el period =
     call_json net el (getBaseUrl @ ''/api/admin/security/audit-integrity?period='' @ period) no_options
       ''Failed to fetch audit integrity'' (\<lambda>_. api_return ())"

definition fetchGeoAnalytics ::
    "GeoAnalytics net \<Rightarrow> elevator \<Rightarrow> string \<Rightarrow> GeoAnalytics option api" where
  "fetchGeoAnalytics net el period =
     with_loading ''geo''
       (call_json net el (getBaseUrl @ ''/api/admin/security/geo?period='' @ period) no_options
          ''Failed to fetch geo analytics''
          (whole setGeoAnalytics (\<lambda>m. m\<lparr>m_geoAnalytics := None\<rparr>)))"

section \<open>Alerts\<close>

definition fetchAlertRules ::
    "AlertRulesResponse net \<Rightarrow> elevator \<Rightarrow> AlertRulesResponse option api" where
  "fetchAlertRules net el =
     with_loading ''alertRules''
       (call_json net el (getBaseUrl @ ''/api/admin/alerts/rules'') no_options
          ''Failed to fetch alert rules''
          (members (\<lambda>data. setAlertRules (or_empty (arr_rules data)))))"

text \<open>The payload of a mutation is the object the caller passes; it is sent as \<open>JSON.stringify\<close> writes it.\<close>

definition createAlertRule ::
    "AlertRule net \<Rightarrow> elevator \<Rightarrow> jval \<Rightarrow> AlertRule option api" where
  "createAlertRule net el rule =
     call_json net el (getBaseUrl @ ''/api/admin/alerts/rules'')
       (no_options\<lparr>ri_method := Some ''POST'', ri_body := Some (stringify rule)\<rparr>)
       ''Failed to create alert rule'' (whole addAlertRule (\<lambda>m. m))"

text \<open>Updating in place looks at the body only when the list has an element to compare it with.\<close>

definition edited ::
    "('b \<Rightarrow> monitor_state \<Rightarrow> monitor_state) \<Rightarrow> (monitor_state \<Rightarrow> 'c list) \<Rightarrow> 'b option \<Rightarrow> unit api" where
  "edited f elems data =
     (case data of
        Some d \<Rightarrow> store (f d)
      | None \<Rightarrow> (\<lambda>w. if elems (aw_monitor w) = [] then (Inr (), w) else (Inl TypeError, w)))"

definition api_updateAlertRule ::
    "AlertRule net \<Rightarrow> elevator \<Rightarrow> int \<Rightarrow> jval \<Rightarrow> AlertRule option api" where
  "api_updateAlertRule net el i rule =
     call_json net el (getBaseUrl @ ''/api/admin/alerts/rules/'' @ string_of_int i)
       (no_options\<lparr>ri_method := Some ''PUT'', ri_body := Some (stringify rule)\<rparr>)
       ''Failed to update alert rule'' (edited updateAlertRule m_alertRules)"

definition deleteAlertRule ::
    "'b net \<Rightarrow> elevator \<Rightarrow> int \<Rightarrow> unit api" where
  "deleteAlertRule net el i =
     api_bind (checked net el (getBaseUrl @ ''/api/admin/alerts/rules/'' @ string_of_int i)
         (no_options\<lparr>ri_method := Some ''DELETE''\<rparr>) ''Failed to delete alert rule'')
       (\<lambda>_. store (removeAlertRule i))"

definition fetchAlertHistory ::
    "AlertHistoryResponse net \<Rightarrow> elevator \<Rightarrow> (string \<times> param) list \<Rightarrow> AlertHistoryResponse option api" where
  "fetchAlertHistory net el params =
     with_loading ''alertHistory''
       (call_json net el (getBaseUrl @ ''/api/admin/alerts/history?'' @ params_string (append_defined params)) no_options
          ''Failed to fetch alert history''
          (members (\<lambda>data. setAlertHistory (or_empty (ahr_alerts data)) (or_zero (ahr_total data))
             (or_zero (ahr_unacknowledged data)))))"

definition api_acknowledgeAlert ::
    "'b net \<Rightarrow> elevator \<Rightarrow> string \<Rightarrow> int \<Rightarrow> string option \<Rightarrow> unit api" where
  "api_acknowledgeAlert net el now i note =
     api_bind (checked net el (getBaseUrl @ ''/api/admin/alerts/'' @ string_of_int i @ ''/acknowledge'')
         (no_options\<lparr>ri_method := Some ''POST'',
            ri_body := Some (stringify (JObj
              [(''note'', case note of Some n \<Rightarrow> JStr n | None \<Rightarrow> JUndef)]))\<rparr>)
         ''Failed to acknowledge alert'')
       (\<lambda>_. store (acknowledgeAlert now i note))"

section \<open>Blocked addresses\<close>

definition fetchBlockedIPs ::
    "BlockedIPsResponse net \<Rightarrow> elevator \<Rightarrow> BlockedIPsResponse option api" where
  "fetchBlockedIPs net el =
     with_loading ''blockedIPs''
       (call_json net el (getBaseUrl @ ''/api/admin/security/blocked-ips'') no_options
          ''Failed to fetch blocked IPs''
          (members (\<lambda>data. setBlockedIPs (or_empty (bipr_blocked_ips data)))))"

definition blockIP ::
    "BlockedIP net \<Rightarrow> elevator \<Rightarrow> jval \<Rightarrow> BlockedIP option api" where
  "blockIP net el params =
     call_json net el (getBaseUrl @ ''/api/admin/security/blocked-ips'')
       (no_options\<lparr>ri_method := Some ''POST'', ri_body := Some (stringify params)\<rparr>)
       ''Failed to block IP'' (whole addBlockedIP (\<lambda>m. m))"

definition unblockIP ::
    "'b net \<Rightarrow> elevator \<Rightarrow> int \<Rightarrow> unit api" where
  "unblockIP net el i =
     api_bind (checked net el (getBaseUrl @ ''/api/admin/security/blocked-ips/'' @ string_of_int i)
         (no_options\<lparr>ri_method := Some ''DELETE''\<rparr>) ''Failed to unblock IP'')
       (\<lambda>_. store (removeBlockedIP i))"

definition fetchIPReputation ::
    "IPReputation net \<Rightarrow> elevator \<Rightarrow> string \<Rightarrow> IPReputation option api" where
  "fetchIPReputation net el ip =
     call_json net el (getBaseUrl @ ''/api/admin/security/ip-reputation/'' @ encodeURIComponent ip) no_options
       ''Failed to fetch IP reputation'' (\<lambda>_. api_return ())"

section \<open>Reports\<close>

definition generateReport ::
    "ReportStatus net \<Rightarrow> elevator \<Rightarrow> jval \<Rightarrow> ReportStatus option api" where
  "generateReport net el request =
     call_json net el (getBaseUrl @ ''/api/admin/reports/security'')
       (no_options\<lparr>ri_method := Some ''POST'', ri_body := Some (stringify request)\<rparr>)
       ''Failed to generate report'' (whole addReport (\<lambda>m. m))"

definition fetchReportStatus ::
    "ReportStatus net \<Rightarrow> elevator \<Rightarrow> string \<Rightarrow> ReportStatus option api" where
  "fetchReportStatus net el reportId =
     call_json net el (getBaseUrl @ ''/api/admin/reports/'' @ reportId) no_options
       ''Failed to fetch report status'' (edited updateReport m_reports)"

definition getReportDownloadUrl :: "string \<Rightarrow> string" where
  "getReportDownloadUrl reportId = getBaseUrl @ ''/api/admin/reports/'' @ reportId @ ''/download''"

section \<open>The administrators' audit log\<close>

definition buildAuditLogParams :: "(string \<times> param) list \<Rightarrow> (string \<times> string) list" where
  "buildAuditLogParams params = append_given params"

definition fetchAuditLogs ::
    "AdminAuditLogsResponse net \<Rightarrow> elevator \<Rightarrow> (string \<times> param) list \<Rightarrow> AdminAuditLogsResponse option api" where
  "fetchAuditLogs net el params =
     with_loading ''auditLogs''
       (call_json net el (getBaseUrl @ ''/api/admin/logs?'' @ params_string (buildAuditLogParams params)) no_options
          ''Failed to fetch audit logs''
          (members (\<lambda>data. setAuditLogs (or_empty (aalr_logs data)) (or_zero (aalr_total_count data)))))"

definition getAuditLogExportUrl :: "(string \<times> param) list \<Rightarrow> string" where
  "getAuditLogExportUrl params =
     (let qs = params_string (buildAuditLogParams params)
      in getBaseUrl @ ''/api/admin/logs/export'' @ (if qs = [] then [] else ''?'' @ qs))"

section \<open>The access-policy decision log\<close>

definition set_given :: "string \<Rightarrow> string option \<Rightarrow> (string \<times> string) list \<Rightarrow> (string \<times> string) list" where
  "set_given key value q =
     (case value of Some v \<Rightarrow> if v = [] then q else params_set key v q | None \<Rightarrow> q)"

definition policy_query :: "PolicyDecisionFilter \<Rightarrow> (string \<times> string) list" where
  "policy_query flt =
     (let q1 = set_given ''correlation_id'' (pf_correlation_id flt) [];
          q2 = (case pf_allow flt of
                  Some b \<Rightarrow> params_set ''allow'' (string_of_bool b) q1 | None \<Rightarrow> q1);
          q3 = (if pf_divergence flt = Some True then params_set ''divergence'' ''true'' q2 else q2);
          q4 = set_given ''source'' (pf_source flt) q3;
          q5 = set_given ''client_id'' (pf_client_id flt) q4;
          q6 = set_given ''since'' (pf_since flt) q5;
          q7 = (case pf_before_id flt of
                  Some n \<Rightarrow> if n = 0 then q6 else params_set ''before_id'' (string_of_int n) q6
                | None \<Rightarrow> q6)
      in params_set ''limit'' (string_of_int (case pf_limit flt of Some n \<Rightarrow> n | None \<Rightarrow> 100)) q7)"

text \<open>The result: the rows and the mode, with their defaults.\<close>

definition fetchPolicyDecisions ::
    "PolicyDecisionsResponse net \<Rightarrow> elevator \<Rightarrow> PolicyDecisionFilter
      \<Rightarrow> (PolicyDecisionRecord list \<times> string) api" where
  "fetchPolicyDecisions net el flt =
     api_bind (checked net el
         (getBaseUrl @ ''/api/admin/security/policy-decisions?'' @ params_string (policy_query flt))
         no_options ''Failed to fetch policy decisions'')
       (\<lambda>response. api_bind (json response)
         (\<lambda>body. case body of
            None \<Rightarrow> api_throw TypeError
          | Some data \<Rightarrow>
              api_return (or_empty (pdr_decisions data),
                case pdr_mode data of
                  Some m \<Rightarrow> if m = [] then ''off'' else m
                | None \<Rightarrow> ''off'')))"

definition fetchPolicySummary ::
    "PolicySummaryResponse net \<Rightarrow> elevator \<Rightarrow> string option \<Rightarrow> PolicySummaryResponse option api" where
  "fetchPolicySummary net el since =
     (let q = (case since of
                 Some s \<Rightarrow> if s = [] then [] else ''?since='' @ encodeURIComponent s
               | None \<Rightarrow> [])
      in call_json net el (getBaseUrl @ ''/api/admin/security/policy-decisions/summary'' @ q) no_options
           ''Failed to fetch policy summary'' (\<lambda>_. api_return ()))"

section \<open>What a request leaves alone\<close>

text \<open>A part of the world that neither the session, the window nor the elevation store is in.  A call
  to the server reads and changes nothing else, so such a part is as it was, given that what
  happens during an elevation leaves it alone.\<close>

locale frame =
  fixes view :: "api_world \<Rightarrow> 'v"
  assumes view_auth: "view (w\<lparr>aw_auth := a\<rparr>) = view w"
    and view_browser: "view (w\<lparr>aw_browser := b\<rparr>) = view w"
    and view_stepUp: "view (w\<lparr>aw_stepUp := su\<rparr>) = view w"
begin

lemma fetchWithAuth_elevated_view: "view (snd (fetchWithAuth net el url opts True w)) = view w"
  by (subst fetchWithAuth.simps)
    (simp add: Let_def case_prod_beta view_auth view_browser view_stepUp split: fetch_outcome.splits)

lemma fetchWithAuth_view:
  assumes "\<And>p w. view (snd (el p w)) = view w"
  shows "view (snd (fetchWithAuth net el url opts elevated w)) = view w"
  by (subst fetchWithAuth.simps)
    (simp add: Let_def case_prod_beta view_auth view_browser view_stepUp assms
      fetchWithAuth_elevated_view split: fetch_outcome.splits sum.splits)

lemma checked_view:
  assumes "\<And>p w. view (snd (el p w)) = view w"
  shows "view (snd (checked net el url opts err w)) = view w"
  using fetchWithAuth_view [of el net url opts False w, OF assms]
  by (auto simp: checked_def api_bind_def api_throw_def api_return_def split: prod.splits sum.splits)

lemma json_view: "view (snd (json r w)) = view w"
  by (simp add: json_def api_throw_def api_return_def split: body.splits)

end

text \<open>The data of the store: all of it but the loading flags.\<close>

definition data_of :: "monitor_state \<Rightarrow> monitor_state" where
  "data_of m = m\<lparr>m_isLoading := Map.empty\<rparr>"

lemma data_of_setLoading [simp]: "data_of (setLoading key b m) = data_of m"
  by (simp add: data_of_def setLoading_def)

interpretation whole_store: frame aw_monitor
  by unfold_locales simp_all

interpretation stored: frame "\<lambda>w. data_of (aw_monitor w)"
  by unfold_locales simp_all

definition el_keeps_data :: "elevator \<Rightarrow> bool" where
  "el_keeps_data el \<longleftrightarrow> (\<forall>p w. data_of (aw_monitor (snd (el p w))) = data_of (aw_monitor w))"

section \<open>Failing calls\<close>

text \<open>A call that changes no data when it throws.\<close>

definition error_safe :: "'a api \<Rightarrow> bool" where
  "error_safe m \<longleftrightarrow> (\<forall>w e w1. m w = (Inl e, w1) \<longrightarrow> data_of (aw_monitor w1) = data_of (aw_monitor w))"

text \<open>A call that changes no data at all, however it ends.\<close>

definition data_safe :: "'a api \<Rightarrow> bool" where
  "data_safe m \<longleftrightarrow> (\<forall>w. data_of (aw_monitor (snd (m w))) = data_of (aw_monitor w))"

named_theorems safe_intros

lemma data_safe_checked [safe_intros]: "el_keeps_data el \<Longrightarrow> data_safe (checked net el url opts err)"
  unfolding data_safe_def el_keeps_data_def by (intro allI stored.checked_view) blast

lemma data_safe_json [safe_intros]: "data_safe (json r)"
  unfolding data_safe_def by (intro allI stored.json_view)

lemma error_safe_bind [safe_intros]:
  "data_safe m \<Longrightarrow> (\<And>x. error_safe (f x)) \<Longrightarrow> error_safe (api_bind m f)"
  unfolding error_safe_def data_safe_def api_bind_def
  by (auto split: prod.splits sum.splits) (metis snd_conv)+

lemma error_safe_then: "error_safe m \<Longrightarrow> error_safe (api_bind m (\<lambda>_. api_return x))"
  by (auto simp: error_safe_def api_bind_def api_return_def split: prod.splits sum.splits)

lemma error_safe_simple [safe_intros]:
  "error_safe (api_return x)" "error_safe (store f)" "error_safe (api_throw e)"
  by (simp_all add: error_safe_def api_return_def store_def api_throw_def)

lemma error_safe_uses [safe_intros]:
  "error_safe (members f d)" "error_safe (whole f g d)" "error_safe (edited h elems d)"
  by (cases d; simp add: members_def whole_def edited_def error_safe_simple;
      simp add: error_safe_def)+

lemma error_safe_loading [safe_intros]: "error_safe m \<Longrightarrow> error_safe (with_loading key m)"
  by (auto simp: error_safe_def with_loading_def api_finally_def on_monitor_def split: prod.splits)

lemma error_safe_call_json [safe_intros]:
  "el_keeps_data el \<Longrightarrow> (\<And>d. error_safe (use d)) \<Longrightarrow> error_safe (call_json net el url opts err use)"
  unfolding call_json_def
  by (rule error_safe_bind, erule data_safe_checked, rule error_safe_bind, rule data_safe_json,
      rule error_safe_then)

lemmas loading_ops =
  fetchDashboardStats_def fetchRecentActivity_def fetchLoginTrends_def fetchAppUsage_def
  fetchHealth_def fetchSecurityEvents_def fetchThreatMetrics_def fetchSessions_def
  fetchTokenStats_def fetchGeoAnalytics_def fetchAlertRules_def fetchAlertHistory_def
  fetchBlockedIPs_def fetchAuditLogs_def

lemmas other_ops =
  revokeUserTokens_def fetchAuditIntegrity_def createAlertRule_def api_updateAlertRule_def
  deleteAlertRule_def api_acknowledgeAlert_def blockIP_def unblockIP_def fetchIPReputation_def
  generateReport_def fetchReportStatus_def

lemma error_safe_reads:
  assumes "el_keeps_data el"
  shows "error_safe (fetchDashboardStats n1 el)" "error_safe (fetchRecentActivity n2 el k)"
    "error_safe (fetchLoginTrends n3 el k)" "error_safe (fetchAppUsage n4 el)"
    "error_safe (fetchHealth n5 el)" "error_safe (fetchSecurityEvents n6 el ps)"
    "error_safe (fetchThreatMetrics n7 el t)" "error_safe (fetchSessions n8 el ps)"
    "error_safe (fetchTokenStats n9 el t)" "error_safe (fetchGeoAnalytics n10 el t)"
    "error_safe (fetchAlertRules n11 el)" "error_safe (fetchAlertHistory n12 el ps)"
    "error_safe (fetchBlockedIPs n13 el)" "error_safe (fetchAuditLogs n14 el ps)"
  unfolding loading_ops by (rule safe_intros assms)+

lemma error_safe_writes:
  assumes "el_keeps_data el"
  shows "error_safe (revokeUserTokens n1 el i)" "error_safe (createAlertRule n2 el v)"
    "error_safe (api_updateAlertRule n2 el i v)" "error_safe (deleteAlertRule n1 el i)"
    "error_safe (api_acknowledgeAlert n1 el now i note)" "error_safe (blockIP n3 el v)"
    "error_safe (unblockIP n1 el i)" "error_safe (generateReport n4 el v)"
    "error_safe (fetchReportStatus n4 el t)"
  unfolding other_ops by (rule safe_intros assms)+


text \<open>A world, a user who cancels every elevation, and a server that answers one status.\<close>

definition sample_world :: api_world where
  "sample_world = \<lparr>aw_auth = auth_init\<lparr>auth_authenticated := True, auth_csrf := Some ''c1''\<rparr>,
     aw_monitor = monitor_init, aw_stepUp = step_up_init,
     aw_browser = \<lparr>br_pathname = ''/alerts'', br_search = [], br_assigned = [], br_sent = []\<rparr>\<rparr>"

definition user_cancels :: elevator where
  "user_cancels p w = (Inl (Error ''step-up cancelled''), w\<lparr>aw_stepUp := su_cancel (aw_stepUp w)\<rparr>)"

definition user_elevates :: elevator where
  "user_elevates p w = (Inr (), w\<lparr>aw_stepUp := su_complete (aw_stepUp w)\<rparr>)"

definition status_net :: "nat \<Rightarrow> string option \<Rightarrow> 'b \<Rightarrow> 'b net" where
  "status_net status err d n r =
     Responded \<lparr>resp_status = status, resp_error = err, resp_body = Json d\<rparr>"

lemma user_keeps_data: "el_keeps_data user_cancels" "el_keeps_data user_elevates"
  by (simp_all add: el_keeps_data_def user_cancels_def user_elevates_def)


section \<open>Loading flags\<close>

interpretation flags: frame "\<lambda>w. m_isLoading (aw_monitor w)"
  by unfold_locales simp_all

definition el_keeps_flags :: "elevator \<Rightarrow> bool" where
  "el_keeps_flags el \<longleftrightarrow> (\<forall>p w. m_isLoading (aw_monitor (snd (el p w))) = m_isLoading (aw_monitor w))"

definition keeps_flags :: "'a api \<Rightarrow> bool" where
  "keeps_flags m \<longleftrightarrow> (\<forall>w. m_isLoading (aw_monitor (snd (m w))) = m_isLoading (aw_monitor w))"

definition clears_only :: "string \<Rightarrow> 'a api \<Rightarrow> bool" where
  "clears_only key m \<longleftrightarrow>
     (\<forall>w. m_isLoading (aw_monitor (snd (m w))) = (m_isLoading (aw_monitor w))(key \<mapsto> False))"

lemma keeps_flags_bind:
  "keeps_flags m \<Longrightarrow> (\<And>x. keeps_flags (f x)) \<Longrightarrow> keeps_flags (api_bind m f)"
  unfolding keeps_flags_def api_bind_def
  by (auto split: prod.splits sum.splits) (metis snd_conv)+

lemma keeps_flags_call:
  assumes "el_keeps_flags el" "\<And>d. keeps_flags (use d)"
  shows "keeps_flags (call_json net el url opts err use)"
  unfolding call_json_def
proof (intro keeps_flags_bind)
  show "keeps_flags (checked net el url opts err)"
    using assms(1) unfolding keeps_flags_def el_keeps_flags_def by (intro allI flags.checked_view) blast
  show "keeps_flags (json r)" for r :: "'a response"
    unfolding keeps_flags_def by (intro allI flags.json_view)
qed (use assms(2) in \<open>simp_all add: keeps_flags_def api_return_def\<close>)

lemma clears_only_loading: "keeps_flags m \<Longrightarrow> clears_only key (with_loading key m)"
  by (simp add: clears_only_def keeps_flags_def with_loading_def api_finally_def on_monitor_def
      setLoading_def case_prod_beta)

lemma keeps_flags_uses:
  "(\<And>d m. m_isLoading (f d m) = m_isLoading m) \<Longrightarrow> keeps_flags (members f d)"
  "(\<And>d m. m_isLoading (f d m) = m_isLoading m) \<Longrightarrow> (\<And>m. m_isLoading (g m) = m_isLoading m)
    \<Longrightarrow> keeps_flags (whole f g d)"
  by (cases d; simp add: keeps_flags_def members_def whole_def api_throw_def store_def on_monitor_def)+

text \<open>C32: a call that loads data changes one loading flag, its own, and leaves it off however it
  ends, so no view is left loading after an error.\<close>

theorem loading_always_ends:
  assumes "el_keeps_flags el"
  shows "clears_only ''stats'' (fetchDashboardStats n1 el)
    \<and> clears_only ''activity'' (fetchRecentActivity n2 el k)
    \<and> clears_only ''trends'' (fetchLoginTrends n3 el k)
    \<and> clears_only ''appUsage'' (fetchAppUsage n4 el)
    \<and> clears_only ''health'' (fetchHealth n5 el)
    \<and> clears_only ''events'' (fetchSecurityEvents n6 el ps)
    \<and> clears_only ''threats'' (fetchThreatMetrics n7 el t)
    \<and> clears_only ''sessions'' (fetchSessions n8 el ps)
    \<and> clears_only ''tokenStats'' (fetchTokenStats n9 el t)
    \<and> clears_only ''geo'' (fetchGeoAnalytics n10 el t)
    \<and> clears_only ''alertRules'' (fetchAlertRules n11 el)
    \<and> clears_only ''alertHistory'' (fetchAlertHistory n12 el ps)
    \<and> clears_only ''blockedIPs'' (fetchBlockedIPs n13 el)
    \<and> clears_only ''auditLogs'' (fetchAuditLogs n14 el ps)"
  unfolding loading_ops
  by (intro conjI clears_only_loading keeps_flags_call [OF assms] keeps_flags_uses)
    (simp_all add: store_simps)

theorem loading_always_ends_witness:
  "m_isLoading (aw_monitor (snd (fetchHealth (\<lambda>_ _. Rejected NetworkError) user_cancels sample_world)))
    = [''health'' \<mapsto> False]"
proof -
  have "el_keeps_flags user_cancels" by (simp add: el_keeps_flags_def user_cancels_def)
  from loading_always_ends [OF this, where ?n5.0 = "\<lambda>_ _. Rejected NetworkError"]
  have "clears_only ''health'' (fetchHealth (\<lambda>_ _. Rejected NetworkError) user_cancels)"
    by simp
  then show ?thesis by (simp add: clears_only_def sample_world_def monitor_init_def)
qed

section \<open>One call, at most two requests\<close>

definition sent_to :: "string \<Rightarrow> api_world \<Rightarrow> request list" where
  "sent_to url w = filter (\<lambda>r. req_url r = url) (br_sent (aw_browser w))"

text \<open>What happens during an elevation sends nothing to the address of the waiting call.\<close>

definition el_silent :: "string \<Rightarrow> elevator \<Rightarrow> bool" where
  "el_silent url el \<longleftrightarrow> (\<forall>p w. sent_to url (snd (el p w)) = sent_to url w)"

lemma sent_to_parts [simp]:
  "sent_to url (w\<lparr>aw_auth := a\<rparr>) = sent_to url w"
  "sent_to url (w\<lparr>aw_stepUp := su\<rparr>) = sent_to url w"
  "sent_to url (w\<lparr>aw_browser := login rt b\<rparr>) = sent_to url (w\<lparr>aw_browser := b\<rparr>)"
  "sent_to url (w\<lparr>aw_browser := snd (fetch net (api_request s url opts) b)\<rparr>)
    = filter (\<lambda>r. req_url r = url) (br_sent b) @ [api_request s url opts]"
  by (simp_all add: sent_to_def fetch_def login_def assign_location_def Let_def api_request_def)

lemma fetch_outcome [simp]: "fst (fetch net r b) = net (length (br_sent b)) r"
  by (simp add: fetch_def)

lemma elevated_sends_one:
  "sent_to url (snd (fetchWithAuth net el url opts True w))
    = sent_to url w @ [api_request (aw_auth w) url opts]"
  by (subst fetchWithAuth.simps)
    (simp add: Let_def case_prod_beta split: fetch_outcome.splits, simp add: sent_to_def)

text \<open>The first attempt of a call: where it stands after the response, and what follows.\<close>

definition after_first ::
    "'b net \<Rightarrow> string \<Rightarrow> request_init \<Rightarrow> api_world \<Rightarrow> api_world" where
  "after_first net url opts w =
     w\<lparr>aw_browser := snd (fetch net (api_request (aw_auth w) url opts) (aw_browser w))\<rparr>"

definition asked_elevation ::
    "elevator \<Rightarrow> api_world \<Rightarrow> (js_error + unit) \<times> api_world" where
  "asked_elevation el w1 =
     el (fst (su_request (aw_stepUp w1))) (w1\<lparr>aw_stepUp := snd (su_request (aw_stepUp w1))\<rparr>)"

lemma fetchWithAuth_first:
  "fetchWithAuth net el url opts False w =
    (case net (length (br_sent (aw_browser w))) (api_request (aw_auth w) url opts) of
       Rejected e \<Rightarrow> (Inl e, after_first net url opts w)
     | Responded r \<Rightarrow>
         if resp_status r = 401 then
           (Inl (Error ''Session expired''),
            (after_first net url opts w)
              \<lparr>aw_auth := setUnauthenticated (aw_auth w),
               aw_browser := login None (aw_browser (after_first net url opts w))\<rparr>)
         else if resp_status r = 403 \<and> elevation_required r then
           (case asked_elevation el (after_first net url opts w) of
              (Inl e, w2) \<Rightarrow> (Inl e, w2)
            | (Inr _, w2) \<Rightarrow> fetchWithAuth net el url opts True w2)
         else (Inr r, after_first net url opts w))"
  by (subst fetchWithAuth.simps)
    (auto simp: Let_def case_prod_beta after_first_def asked_elevation_def split: fetch_outcome.splits)

lemma after_first_sent:
  "sent_to url (after_first net url opts w) = sent_to url w @ [api_request (aw_auth w) url opts]"
  by (simp add: after_first_def) (simp add: sent_to_def)

lemma login_sent:
  "sent_to url (w\<lparr>aw_auth := a, aw_browser := login None (aw_browser w)\<rparr>) = sent_to url w"
  by (simp add: sent_to_def login_def assign_location_def Let_def)

lemma elevation_sent:
  "el_silent url el \<Longrightarrow> sent_to url (snd (asked_elevation el w1)) = sent_to url w1"
  by (simp add: el_silent_def asked_elevation_def)

text \<open>C22: a call asks the server once, and a second and last time only after the server has asked
  for an elevation and the elevation succeeded; each time it is the same request, with the CSRF
  token of that moment.\<close>

theorem retried_at_most_once:
  assumes "el_silent url el"
  shows "\<exists>rs. sent_to url (snd (fetchWithAuth net el url opts False w)) = sent_to url w @ rs
    \<and> (rs = [api_request (aw_auth w) url opts]
       \<or> (\<exists>s r p v. rs = [api_request (aw_auth w) url opts, api_request s url opts]
            \<and> net (length (br_sent (aw_browser w))) (api_request (aw_auth w) url opts) = Responded r
            \<and> resp_status r = 403 \<and> elevation_required r \<and> fst (el p v) = Inr ()))"
proof -
  define req where "req = api_request (aw_auth w) url opts"
  define w1 where "w1 = after_first net url opts w"
  define out where "out = net (length (br_sent (aw_browser w))) req"
  have one: "sent_to url w1 = sent_to url w @ [req]"
    by (simp add: w1_def req_def after_first_sent)
  have silent: "sent_to url (snd (asked_elevation el w1)) = sent_to url w @ [req]"
    using elevation_sent [OF assms] one by simp
  note eq = fetchWithAuth_first [of net el url opts w, folded req_def, folded w1_def out_def]
  have "(\<exists>r. out = Responded r \<and> resp_status r = 403 \<and> elevation_required r
        \<and> fst (asked_elevation el w1) = Inr ())
      \<or> sent_to url (snd (fetchWithAuth net el url opts False w)) = sent_to url w @ [req]"
    using silent one
    by (cases out; cases "asked_elevation el w1"; cases "fst (asked_elevation el w1)")
      (auto simp: eq login_sent)
  then show ?thesis
  proof (elim disjE exE conjE)
    fix r assume r: "out = Responded r" "resp_status r = 403" "elevation_required r"
      "fst (asked_elevation el w1) = Inr ()"
    have "fetchWithAuth net el url opts False w
        = fetchWithAuth net el url opts True (snd (asked_elevation el w1))"
      using r by (simp add: eq case_prod_beta)
    then have "sent_to url (snd (fetchWithAuth net el url opts False w))
        = sent_to url w @ [req, api_request (aw_auth (snd (asked_elevation el w1))) url opts]"
      using silent by (simp add: elevated_sends_one)
    then show ?thesis using r unfolding out_def req_def asked_elevation_def by blast
  qed (unfold req_def, blast)
qed

theorem retried_at_most_once_witness:
  "\<exists>r1 r2. br_sent (aw_browser (snd (fetchWithAuth
        (status_net 403 (Some ''elevation_required'') ()) user_elevates ''/api/x''
        (no_options\<lparr>ri_method := Some ''DELETE''\<rparr>) False sample_world))) = [r1, r2]
     \<and> req_method r1 = ''DELETE'' \<and> req_method r2 = ''DELETE''"
proof -
  define w where "w = snd (fetchWithAuth (status_net 403 (Some ''elevation_required'') ()) user_elevates
      ''/api/x'' (no_options\<lparr>ri_method := Some ''DELETE''\<rparr>) False sample_world)"
  have len: "length (br_sent (aw_browser w)) = 2" "sent_to ''/api/x'' w = br_sent (aw_browser w)"
    by (simp_all add: w_def fetchWithAuth.simps fetch_def status_net_def user_elevates_def sent_to_def
        elevation_required_def sample_world_def api_request_def su_request_def step_up_init_def Let_def)
  have "el_silent ''/api/x'' user_elevates"
    by (simp add: el_silent_def user_elevates_def)
  from retried_at_most_once [OF this, of "status_net 403 (Some ''elevation_required'') ()"
      "no_options\<lparr>ri_method := Some ''DELETE''\<rparr>" sample_world]
  obtain rs where rs: "sent_to ''/api/x'' w = sent_to ''/api/x'' sample_world @ rs"
    "\<forall>r \<in> set rs. \<exists>s. r = api_request s ''/api/x'' (no_options\<lparr>ri_method := Some ''DELETE''\<rparr>)"
    unfolding w_def by fastforce
  moreover have "length rs = 2" using rs(1) len by (simp add: sent_to_def sample_world_def)
  ultimately obtain r1 r2 where "rs = [r1, r2]"
    by (auto simp: numeral_2_eq_2 length_Suc_conv)
  moreover have "sent_to ''/api/x'' sample_world = []" by (simp add: sent_to_def sample_world_def)
  ultimately have "br_sent (aw_browser w) = [r1, r2]" "req_method r1 = ''DELETE''" "req_method r2 = ''DELETE''"
    using rs len(2) by (auto simp: api_request_def)
  then show ?thesis unfolding w_def by blast
qed


text \<open>Also: an expired session is dropped at once: on a 401, on the first request or on the retry,
  the page no longer knows a user or a token, the browser is sent to the BFF's login with the
  current place, the call throws \<open>Session expired\<close>, and the data of the console is untouched.\<close>

theorem expired_session_signs_out:
  assumes "net (length (br_sent (aw_browser w))) (api_request (aw_auth w) url opts) = Responded r"
    and "resp_status r = 401"
  shows "\<exists>w1. fetchWithAuth net el url opts elevated w = (Inl (Error ''Session expired''), w1)
    \<and> \<not> isAuthenticated (aw_auth w1) \<and> csrfHeaders (aw_auth w1) = []
    \<and> aw_monitor w1 = aw_monitor w
    \<and> br_assigned (aw_browser w1) = br_assigned (aw_browser w) @ [''/bff/login?return_to='' @
         encodeURIComponent (br_pathname (aw_browser w) @ br_search (aw_browser w))]"
  using assms
  by (subst fetchWithAuth.simps)
    (simp add: Let_def case_prod_beta setUnauthenticated_def isAuthenticated_def csrfHeaders_def
      login_def assign_location_def fetch_def)

theorem expired_session_signs_out_witness:
  "\<exists>w1. fetchWithAuth (status_net 401 None ()) user_cancels ''/api/x'' no_options False sample_world
      = (Inl (Error ''Session expired''), w1)
     \<and> br_assigned (aw_browser w1) = [''/bff/login?return_to=%2Falerts'']"
proof -
  define r where "r = \<lparr>resp_status = 401, resp_error = None, resp_body = Json ()\<rparr>"
  have "status_net 401 None () n q = Responded r" for n q by (simp add: status_net_def r_def)
  from expired_session_signs_out [where net = "status_net 401 None ()" and el = user_cancels and url = "''/api/x''"
      and opts = no_options and elevated = False and w = sample_world, OF this]
  obtain w1 where
    "fetchWithAuth (status_net 401 None ()) user_cancels ''/api/x'' no_options False sample_world
      = (Inl (Error ''Session expired''), w1)"
    "br_assigned (aw_browser w1) = [''/bff/login?return_to='' @ encodeURIComponent ''/alerts'']"
    by (force simp: r_def sample_world_def)
  moreover have "encodeURIComponent ''/alerts'' = ''%2Falerts''"
    by code_simp
  ultimately show ?thesis by simp
qed

section \<open>The query reaches the server\<close>

text \<open>The parameters of a query that are sent.\<close>

definition is_given :: "string \<times> param \<Rightarrow> bool" where
  "is_given kv \<longleftrightarrow> snd kv \<noteq> P_undefined \<and> snd kv \<noteq> P_string []"

lemma append_given_eq:
  "append_given params = map (\<lambda>(k, v). (k, param_string v)) (filter is_given params)"
proof -
  have "fold (\<lambda>(key, value) q.
         if value \<noteq> P_undefined \<and> value \<noteq> P_string [] then params_append key (param_string value) q else q)
       params q = q @ map (\<lambda>(k, v). (k, param_string v)) (filter is_given params)" for q
    by (induction params arbitrary: q) (auto simp: params_append_def is_given_def)
  then show ?thesis by (simp add: append_given_def)
qed

lemma append_defined_eq:
  "append_defined params = map (\<lambda>(k, v). (k, param_string v)) (filter (\<lambda>kv. snd kv \<noteq> P_undefined) params)"
proof -
  have "fold (\<lambda>(key, value) q. if value \<noteq> P_undefined then params_append key (param_string value) q else q)
       params q = q @ map (\<lambda>(k, v). (k, param_string v)) (filter (\<lambda>kv. snd kv \<noteq> P_undefined) params)" for q
    by (induction params arbitrary: q) (auto simp: params_append_def)
  then show ?thesis by (simp add: append_defined_def)
qed

text \<open>Also: the export address of the audit log carries the filters and nothing else: without a
  filter it has no query, and otherwise the query decodes to exactly the filters that are set, in
  their order, whatever characters they hold.\<close>

theorem export_url_carries_filters:
  "\<exists>qs. getAuditLogExportUrl params = ''/api/admin/logs/export'' @ qs
    \<and> (if filter is_given params = [] then qs = []
       else \<exists>q. qs = CHR ''?'' # q
         \<and> params_parse q = map (\<lambda>(k, v). (k, param_string v)) (filter is_given params))"
proof (cases "filter is_given params = []")
  case True
  then show ?thesis
    by (simp add: getAuditLogExportUrl_def buildAuditLogParams_def append_given_eq params_string_def
        getBaseUrl_def Let_def)
next
  case False
  define ps where "ps = append_given params"
  have ne: "ps \<noteq> []" using False by (simp add: ps_def append_given_eq)
  have "params_parse (params_string ps) = ps" by (rule params_parse_string)
  moreover have "params_string ps \<noteq> []"
    using ne by (cases ps; cases "tl ps") (auto simp: params_string_def)
  ultimately show ?thesis
    using False
    by (simp add: getAuditLogExportUrl_def buildAuditLogParams_def getBaseUrl_def Let_def
        ps_def [symmetric]) (simp add: ps_def append_given_eq)
qed

lemma params_set_new: "k \<notin> fst ` set q \<Longrightarrow> params_set k v q = q @ [(k, v)]"
  by (induction k v q rule: params_set.induct) auto

definition some_given :: "string option \<Rightarrow> string option" where
  "some_given v = (if v = Some [] then None else v)"

definition opt_pair :: "string \<Rightarrow> string option \<Rightarrow> (string \<times> string) list" where
  "opt_pair k v = (case v of Some x \<Rightarrow> [(k, x)] | None \<Rightarrow> [])"

lemma set_given_new: "k \<notin> fst ` set q \<Longrightarrow> set_given k v q = q @ opt_pair k (some_given v)"
  by (auto simp: set_given_def opt_pair_def some_given_def params_set_new split: option.splits)

lemma fst_opt_pair: "fst ` set (opt_pair k v) \<subseteq> {k}"
  by (auto simp: opt_pair_def split: option.splits)

lemma opt_pair_notin: "k \<noteq> k' \<Longrightarrow> k \<notin> fst ` set (opt_pair k' v)"
  by (auto simp: opt_pair_def split: option.splits)

text \<open>The query of the decision log, in closed form.\<close>

lemma policy_query_eq:
  "policy_query flt =
     opt_pair ''correlation_id'' (some_given (pf_correlation_id flt))
     @ opt_pair ''allow'' (map_option string_of_bool (pf_allow flt))
     @ opt_pair ''divergence'' (if pf_divergence flt = Some True then Some ''true'' else None)
     @ opt_pair ''source'' (some_given (pf_source flt))
     @ opt_pair ''client_id'' (some_given (pf_client_id flt))
     @ opt_pair ''since'' (some_given (pf_since flt))
     @ opt_pair ''before_id'' (map_option string_of_int (if pf_before_id flt = Some 0 then None else pf_before_id flt))
     @ [(''limit'', string_of_int (case pf_limit flt of Some n \<Rightarrow> n | None \<Rightarrow> 100))]"
proof -
  have allow: "(case v of Some b \<Rightarrow> params_set k (f b) q | None \<Rightarrow> q) = q @ opt_pair k (map_option f v)"
    if "k \<notin> fst ` set q" for k :: string and f :: "bool \<Rightarrow> string" and v q
    using that by (simp add: opt_pair_def params_set_new split: option.splits)
  have flag: "(if b then params_set k x q else q) = q @ opt_pair k (if b then Some x else None)"
    if "k \<notin> fst ` set q" for k x :: string and b q
    using that by (simp add: opt_pair_def params_set_new)
  have before: "(case v of Some n \<Rightarrow> if n = 0 then q else params_set k (string_of_int n) q | None \<Rightarrow> q)
      = q @ opt_pair k (map_option string_of_int (if v = Some 0 then None else v))"
    if "k \<notin> fst ` set q" for k :: string and v q
    using that by (auto simp: opt_pair_def params_set_new split: option.splits)
  show ?thesis
    unfolding policy_query_def Let_def
    by (simp add: set_given_new allow flag before params_set_new opt_pair_notin image_Un
        del: fst_conv)
qed


section \<open>Successful changes\<close>

lemma checked_data:
  assumes "el_keeps_data el" "checked net el url opts err w = (r, w1)"
  shows "data_of (aw_monitor w1) = data_of (aw_monitor w)"
  using data_safe_checked [OF assms(1), of net url opts err] assms(2)
  unfolding data_safe_def by (metis snd_conv)

lemma call_json_success:
  assumes "el_keeps_data el" "call_json net el url opts err use w = (Inr x, w1)"
  shows "\<exists>v. data_of (aw_monitor v) = data_of (aw_monitor w) \<and> use x v = (Inr (), w1)"
proof -
  obtain r v where c: "checked net el url opts err w = (Inr r, v)"
    using assms(2) by (auto simp: call_json_def api_bind_def split: prod.splits sum.splits)
  obtain v' where "json r v = (Inr x, v')" "use x v' = (Inr (), w1)"
    using assms(2) c
    by (auto simp: call_json_def api_bind_def api_return_def split: prod.splits sum.splits)
  moreover have "v' = v"
    using calculation(1) by (simp add: json_def api_return_def api_throw_def split: body.splits)
  ultimately show ?thesis using checked_data [OF assms(1) c] by blast
qed

lemma checked_success:
  assumes "el_keeps_data el" "api_bind (checked net el url opts err) (\<lambda>_. store f) w = (Inr x, w1)"
  shows "\<exists>v. data_of v = data_of (aw_monitor w) \<and> aw_monitor w1 = f v"
proof -
  obtain r v where c: "checked net el url opts err w = (Inr r, v)" "w1 = on_monitor f v"
    using assms(2) by (auto simp: api_bind_def store_def split: prod.splits sum.splits)
  then show ?thesis using checked_data [OF assms(1) c(1)] by (auto simp: on_monitor_def)
qed

text \<open>The data after an accepted change is that of the store's own action on the data before.\<close>

definition applies :: "'a api \<Rightarrow> ('a \<Rightarrow> monitor_state \<Rightarrow> monitor_state) \<Rightarrow> bool" where
  "applies m f \<longleftrightarrow> (\<forall>w x w1. m w = (Inr x, w1) \<longrightarrow>
     data_of (aw_monitor w1) = data_of (f x (aw_monitor w)))"

definition respects_data :: "(monitor_state \<Rightarrow> monitor_state) \<Rightarrow> bool" where
  "respects_data f \<longleftrightarrow> (\<forall>v m. data_of v = data_of m \<longrightarrow> data_of (f v) = data_of (f m))"

lemma data_of_edits:
  "data_of (addAlertRule r m) = addAlertRule r (data_of m)"
  "data_of (updateAlertRule r m) = updateAlertRule r (data_of m)"
  "data_of (removeAlertRule i m) = removeAlertRule i (data_of m)"
  "data_of (acknowledgeAlert now i note m) = acknowledgeAlert now i note (data_of m)"
  "data_of (addBlockedIP b m) = addBlockedIP b (data_of m)"
  "data_of (removeBlockedIP i m) = removeBlockedIP i (data_of m)"
  "data_of (addReport p m) = addReport p (data_of m)"
  "data_of (updateReport p m) = updateReport p (data_of m)"
  by (simp_all add: data_of_def store_simps split: option.splits)

lemma respects_edits:
  "respects_data (addAlertRule r)" "respects_data (updateAlertRule r)" "respects_data (removeAlertRule i)"
  "respects_data (acknowledgeAlert now i note)" "respects_data (addBlockedIP b)"
  "respects_data (removeBlockedIP i)" "respects_data (addReport p)" "respects_data (updateReport p)"
  by (simp_all add: respects_data_def data_of_edits)

lemma data_of_blockedIPs: "data_of v = data_of m \<Longrightarrow> m_blockedIPs v = m_blockedIPs m"
  by (drule arg_cong [where f = m_blockedIPs]) (simp add: data_of_def)

lemma applies_call_json:
  assumes "el_keeps_data el" "\<And>d. respects_data (f d)"
    and "\<And>d v w1. use (Some d) v = (Inr (), w1) \<Longrightarrow> aw_monitor w1 = f d (aw_monitor v)"
    and "\<And>v w1. use None v = (Inr (), w1) \<Longrightarrow> aw_monitor w1 = aw_monitor v"
  shows "applies (call_json net el url opts err use) (\<lambda>x. case x of Some d \<Rightarrow> f d | None \<Rightarrow> (\<lambda>m. m))"
  unfolding applies_def
proof (intro allI impI)
  fix w x w1
  assume "call_json net el url opts err use w = (Inr x, w1)"
  then obtain v where v: "data_of (aw_monitor v) = data_of (aw_monitor w)" "use x v = (Inr (), w1)"
    using call_json_success [OF assms(1)] by blast
  show "data_of (aw_monitor w1) = data_of ((case x of Some d \<Rightarrow> f d | None \<Rightarrow> (\<lambda>m. m)) (aw_monitor w))"
  proof (cases x)
    case None
    then have "aw_monitor w1 = aw_monitor v" using v(2) by (intro assms(4)) simp
    then show ?thesis using None v(1) by simp
  next
    case (Some d)
    then have "aw_monitor w1 = f d (aw_monitor v)" using v(2) by (intro assms(3)) simp
    moreover have "data_of (f d (aw_monitor v)) = data_of (f d (aw_monitor w))"
      using assms(2) [of d] v(1) unfolding respects_data_def by blast
    ultimately show ?thesis using Some by simp
  qed
qed

lemma applies_checked:
  assumes "el_keeps_data el" "respects_data f"
  shows "applies (api_bind (checked net el url opts err) (\<lambda>_. store f)) (\<lambda>_. f)"
  unfolding applies_def
  using checked_success [OF assms(1)] assms(2) unfolding respects_data_def by metis



end
