(* ===== verification/Sse_Stream.thy ===== *)
theory Sse_Stream
  imports Monitor_Store
begin

text \<open>
  The reading half of \<open>src/src/composables/useSSE.ts\<close>: the loop that cuts the text of the stream into
  lines and the lines into events, and \<open>processEvent\<close>, which puts an event into the store.

  A chunk is the text that the decoder returns for one read.  \<open>JSON.parse\<close> is the parameter \<open>parse\<close>
  (\<open>None\<close> where it throws) and \<open>now\<close> is \<open>new Date().toISOString()\<close>.
\<close>

section \<open>Lines and events\<close>

definition newline :: char where
  "newline = CHR 0x0A"

text \<open>The loop over the lines of one chunk, from the current event name and data.\<close>

fun scan_lines :: "string \<Rightarrow> string \<Rightarrow> string list \<Rightarrow> (string \<times> string) list" where
  "scan_lines currentEvent currentData [] = []"
| "scan_lines currentEvent currentData (line # lines) =
     (if startsWith line ''event:'' then scan_lines (trim (drop 6 line)) currentData lines
      else if startsWith line ''data:'' then scan_lines currentEvent (trim (drop 5 line)) lines
      else if line = [] \<and> currentData \<noteq> []
        then (currentEvent, currentData) # scan_lines [] [] lines
      else scan_lines currentEvent currentData lines)"

text \<open>One turn of the read loop: the events of the chunk and the new buffer.\<close>

definition read_chunk :: "string \<Rightarrow> string \<Rightarrow> (string \<times> string) list \<times> string" where
  "read_chunk buffer chunk =
     (let parts = split_on newline (buffer @ chunk)
      in (scan_lines [] [] (butlast parts), last parts))"

fun read_chunks :: "string \<Rightarrow> string list \<Rightarrow> (string \<times> string) list" where
  "read_chunks buffer [] = []"
| "read_chunks buffer (chunk # chunks) =
     (let (evs, buffer1) = read_chunk buffer chunk in evs @ read_chunks buffer1 chunks)"

section \<open>From an event to the store\<close>

text \<open>The object literals of the two kinds of events.  Reading a member of \<open>null\<close> throws.\<close>

definition security_event_value :: "string \<Rightarrow> jval \<Rightarrow> js_error + jval" where
  "security_event_value now parsed =
     (case get_prop parsed ''id'' of
        Inl e \<Rightarrow> Inl e
      | Inr i \<Rightarrow>
          let p = opt_prop parsed in
          Inr (JObj
            [(''id'', i),
             (''event_type'', p ''event_type''),
             (''severity'', p ''severity''),
             (''ip_address'', coalesce (p ''ip_address'') (JStr [])),
             (''success'', coalesce (p ''success'') (JBool False)),
             (''created_at'', coalesce (p ''created_at'') (JStr now)),
             (''user_id'', p ''user_id''),
             (''user_email'', p ''user_email''),
             (''app_id'', p ''app_id''),
             (''app_name'', p ''app_name''),
             (''user_agent'', p ''user_agent''),
             (''correlation_id'', p ''correlation_id''),
             (''details'', p ''details'')]))"

definition alert_value :: "string \<Rightarrow> jval \<Rightarrow> js_error + jval" where
  "alert_value now parsed =
     (case get_prop parsed ''id'' of
        Inl e \<Rightarrow> Inl e
      | Inr i \<Rightarrow>
          let p = opt_prop parsed in
          Inr (JObj
            [(''id'', i),
             (''event_type'', JStr ''suspicious_activity''),
             (''severity'', p ''severity''),
             (''ip_address'', coalesce (opt_prop (p ''details'') ''ip_address'') (JStr [])),
             (''success'', JBool False),
             (''created_at'', coalesce (p ''triggered_at'') (JStr now)),
             (''details'', JObj [(''alert'', p ''message'')])]))"

text \<open>Whatever throws is caught, and nothing is stored then.\<close>

definition processEvent ::
    "(string \<Rightarrow> jval option) \<Rightarrow> string \<Rightarrow> string \<times> string \<Rightarrow> monitor_state \<Rightarrow> monitor_state" where
  "processEvent parse now = (\<lambda>(eventType, data) m.
     case parse data of
       None \<Rightarrow> m
     | Some parsed \<Rightarrow>
         if eventType = ''security_event'' then
           (case security_event_value now parsed of Inl _ \<Rightarrow> m | Inr ev \<Rightarrow> addLiveEvent ev m)
         else if eventType = ''alert'' then
           (case alert_value now parsed of Inl _ \<Rightarrow> m | Inr ev \<Rightarrow> addLiveEvent ev m)
         else if eventType = ''heartbeat'' then m
         else
           (case get_prop parsed ''type'' of
              Inl _ \<Rightarrow> m
            | Inr t \<Rightarrow>
                if t = JStr ''security_event'' \<and> truthy (opt_prop parsed ''data'')
                then addLiveEvent (opt_prop parsed ''data'') m else m))"

definition process_all ::
    "(string \<Rightarrow> jval option) \<Rightarrow> string \<Rightarrow> (string \<times> string) list \<Rightarrow> monitor_state \<Rightarrow> monitor_state" where
  "process_all parse now evs m = fold (processEvent parse now) evs m"

section \<open>The lines are the lines of the whole text\<close>

fun chunk_lines :: "string \<Rightarrow> string list \<Rightarrow> string list" where
  "chunk_lines buffer [] = []"
| "chunk_lines buffer (chunk # chunks) =
     butlast (split_on newline (buffer @ chunk))
     @ chunk_lines (last (split_on newline (buffer @ chunk))) chunks"

lemma split_on_append:
  "split_on c (xs @ ys) = butlast (split_on c xs) @ split_on c (last (split_on c xs) @ ys)"
proof (induction xs)
  case (Cons x xs)
  then show ?case by (cases "split_on c xs") auto
qed simp

lemma last_split_free: "c \<notin> set (last (split_on c xs))"
  by (rule split_on_parts_free [of _ c xs]) simp

text \<open>However the text is cut into chunks, the loop sees the lines of the whole text.\<close>

lemma chunk_lines_whole:
  "newline \<notin> set buffer \<Longrightarrow>
    chunk_lines buffer chunks = butlast (split_on newline (buffer @ concat chunks))"
proof (induction chunks arbitrary: buffer)
  case (Cons chunk chunks)
  show ?case
    using Cons.IH [OF last_split_free [of newline "buffer @ chunk"]]
      split_on_append [of newline "buffer @ chunk" "concat chunks"]
    by (simp add: butlast_append)
qed (simp add: split_on_free)

section \<open>Events of the whole text\<close>

text \<open>What the loop holds after some lines, and the events of a text read in one piece.\<close>

fun scan_end :: "string \<Rightarrow> string \<Rightarrow> string list \<Rightarrow> string \<times> string" where
  "scan_end ev dat [] = (ev, dat)"
| "scan_end ev dat (line # lines) =
     (if startsWith line ''event:'' then scan_end (trim (drop 6 line)) dat lines
      else if startsWith line ''data:'' then scan_end ev (trim (drop 5 line)) lines
      else if line = [] \<and> dat \<noteq> [] then scan_end [] [] lines
      else scan_end ev dat lines)"

definition events_of :: "string \<Rightarrow> (string \<times> string) list" where
  "events_of text = scan_lines [] [] (butlast (split_on newline text))"

text \<open>A cut is clean when the loop holds no part of an event at it: cuts inside a line before the
  event's first line is complete, or after its blank line.\<close>

fun clean_cuts :: "string \<Rightarrow> string list \<Rightarrow> bool" where
  "clean_cuts buffer [] = True"
| "clean_cuts buffer (chunk # chunks) =
     (let parts = split_on newline (buffer @ chunk)
      in scan_end [] [] (butlast parts) = ([], []) \<and> clean_cuts (last parts) chunks)"

lemma scan_lines_append:
  "scan_lines ev dat (xs @ ys) =
    scan_lines ev dat xs @ scan_lines (fst (scan_end ev dat xs)) (snd (scan_end ev dat xs)) ys"
  by (induction ev dat xs rule: scan_lines.induct) auto

lemma read_chunks_clean:
  "clean_cuts buffer chunks \<Longrightarrow> read_chunks buffer chunks = scan_lines [] [] (chunk_lines buffer chunks)"
  by (induction buffer chunks rule: read_chunks.induct)
    (auto simp: read_chunk_def Let_def scan_lines_append)

text \<open>C24: cutting the stream into chunks changes nothing as long as no cut separates the lines of
  one event: the events that the loop delivers are those of the whole text, in order, even where a
  line is cut in the middle.\<close>

theorem clean_cuts_lose_nothing:
  assumes "clean_cuts [] chunks"
  shows "read_chunks [] chunks = events_of (concat chunks)"
  using read_chunks_clean [OF assms] chunk_lines_whole [of "[]" chunks] by (simp add: events_of_def)

text \<open>The two lines of an event, and its blank line.\<close>

definition event_lines :: "string \<Rightarrow> string \<Rightarrow> string" where
  "event_lines name data = ''event: '' @ name @ [newline] @ ''data: '' @ data @ [newline]"

section \<open>A cut inside an event\<close>

lemma trim_space: "trim (CHR '' '' # s) = trim s"
proof -
  have "strip_prefix js_ws (CHR '' '' # s) = Some s" by (simp add: js_ws_def)
  then have "trim_start (CHR '' '' # s) = trim_start s"
    by (simp add: trim_start_def strip_start.simps [of _ "CHR '' '' # s"])
  then show ?thesis by (simp add: trim_def)
qed

definition field :: "string \<Rightarrow> bool" where
  "field s \<longleftrightarrow> s \<noteq> [] \<and> trim s = s \<and> newline \<notin> set s"

lemma split_event:
  assumes "field name" "field data"
  shows "split_on newline (''event: '' @ name @ [newline]) = [''event: '' @ name, []]"
    and "split_on newline (''data: '' @ data @ [newline]) = [''data: '' @ data, []]"
    and "split_on newline (event_lines name data) = [''event: '' @ name, ''data: '' @ data, []]"
    and "split_on newline (event_lines name data @ [newline]) = [''event: '' @ name, ''data: '' @ data, [], []]"
    and "split_on newline (''data: '' @ data @ [newline, newline]) = [''data: '' @ data, [], []]"
proof -
  have free: "newline \<notin> set (''event: '' @ name)" "newline \<notin> set (''data: '' @ data)"
    using assms by (simp_all add: field_def newline_def)
  have cut: "split_on newline (x @ newline # y) = x # split_on newline y" if "newline \<notin> set x" for x y
    using that by (simp add: split_on_append_sep split_on_free)
  show "split_on newline (''event: '' @ name @ [newline]) = [''event: '' @ name, []]"
    using cut [OF free(1), of "[]"] by simp
  show "split_on newline (''data: '' @ data @ [newline]) = [''data: '' @ data, []]"
    using cut [OF free(2), of "[]"] by simp
  show "split_on newline (event_lines name data) = [''event: '' @ name, ''data: '' @ data, []]"
    using cut [OF free(1), of "''data: '' @ data @ [newline]"] cut [OF free(2), of "[]"]
    by (simp add: event_lines_def)
  show "split_on newline (event_lines name data @ [newline]) = [''event: '' @ name, ''data: '' @ data, [], []]"
    using cut [OF free(1), of "''data: '' @ data @ [newline, newline]"] cut [OF free(2), of "[newline]"]
    by (simp add: event_lines_def)
  show "split_on newline (''data: '' @ data @ [newline, newline]) = [''data: '' @ data, [], []]"
    using cut [OF free(2), of "[newline]"] by simp
qed

lemma read_whole_event:
  assumes "field name" "field data"
  shows "read_chunk [] (event_lines name data @ [newline]) = ([(name, data)], [])"
proof -
  have t: "trim (CHR '' '' # name) = name" "trim (CHR '' '' # data) = data" "data \<noteq> []"
    using assms by (simp_all add: trim_space field_def)
  show ?thesis
    using split_event [OF assms] t by (simp add: read_chunk_def Let_def)
qed

text \<open>Also: an event whose lines are split over two chunks is not delivered as it was sent.  Whole, it
  is; with the cut before its blank line it is lost; with the cut after its name it arrives
  without the name.\<close>

theorem cut_events_are_lost:
  assumes "field name" "field data"
  shows "read_chunks [] [event_lines name data @ [newline]] = [(name, data)]
    \<and> read_chunks [] [event_lines name data, [newline]] = []
    \<and> read_chunks [] [''event: '' @ name @ [newline], ''data: '' @ data @ [newline, newline]] = [([], data)]"
proof -
  have t: "trim (CHR '' '' # name) = name" "trim (CHR '' '' # data) = data" "data \<noteq> []"
    using assms by (simp_all add: trim_space field_def)
  show ?thesis
    using split_event [OF assms] t
    by (simp add: read_chunk_def Let_def)
qed

theorem cut_events_are_lost_witness:
  "read_chunks [] [event_lines ''alert'' ''{}'', [newline]] = []
    \<and> read_chunks [] [event_lines ''alert'' ''{}'' @ [newline]] = [(''alert'', ''{}'')]"
proof -
  have "field ''alert''" "field ''{}''" by (simp_all add: field_def) code_simp+
  from cut_events_are_lost [OF this] show ?thesis by blast
qed

theorem clean_cuts_lose_nothing_witness:
  "read_chunks [] [event_lines ''alert'' ''{}'' @ [newline], ''eve'']
    = events_of (event_lines ''alert'' ''{}'' @ [newline] @ ''eve'')"
proof -
  have f: "field ''alert''" "field ''{}''" by (simp_all add: field_def) code_simp+
  have t: "trim (CHR '' '' # ''alert'') = ''alert''" "trim (CHR '' '' # ''{}'') = ''{}''"
    using f unfolding trim_space field_def by simp_all
  have "clean_cuts [] [event_lines ''alert'' ''{}'' @ [newline], ''eve'']"
    unfolding clean_cuts.simps Let_def
    using split_event(4) [OF f] t by (simp add: newline_def)
  from clean_cuts_lose_nothing [OF this] show ?thesis by simp
qed

section \<open>What an event does to the store\<close>

lemma processEvent_adds:
  "processEvent parse now e m \<in> insert m (range (\<lambda>ev. addLiveEvent ev m))"
proof (cases e)
  case (Pair eventType data)
  show ?thesis
  proof (cases "parse data")
    case (Some parsed)
    show ?thesis
      unfolding processEvent_def Pair Some split_conv option.case
      by (cases "security_event_value now parsed"; cases "alert_value now parsed";
          cases "get_prop parsed ''type''") simp_all
  qed (simp add: Pair processEvent_def)
qed

text \<open>Also: an event adds at most one entry to the live feed and touches nothing else of the store,
  whatever its data are; a heartbeat, or data that are not JSON, changes nothing at all.\<close>

theorem processEvent_only_adds:
  "if eventType = ''heartbeat'' \<or> parse data = None
   then processEvent parse now (eventType, data) m = m
   else processEvent parse now (eventType, data) m \<in> insert m (range (\<lambda>ev. addLiveEvent ev m))"
proof (cases "eventType = ''heartbeat'' \<or> parse data = None")
  case True
  then show ?thesis by (auto simp: processEvent_def split: option.splits)
next
  case False
  then show ?thesis using processEvent_adds by presburger
qed

text \<open>An alert becomes a live event of the type \<open>suspicious_activity\<close> with the fields that the feed reads.\<close>

lemma alert_shown:
  assumes "parse data = Some (JObj ps)"
  shows "m_liveEvents (processEvent parse now (''alert'', data) m) \<noteq> []
    \<and> opt_prop (hd (m_liveEvents (processEvent parse now (''alert'', data) m))) ''event_type''
        = JStr ''suspicious_activity''
    \<and> opt_prop (hd (m_liveEvents (processEvent parse now (''alert'', data) m))) ''severity'' = own ps ''severity''
    \<and> opt_prop (opt_prop (hd (m_liveEvents (processEvent parse now (''alert'', data) m))) ''details'') ''alert''
        = own ps ''message''"
  using assms by (simp add: processEvent_def alert_value_def Let_def addLiveEvent_def)

text \<open>Also: a security event shows in the feed as it was sent: the newest entry has the event's type,
  severity, address, user and correlation id, with the defaults of the code for an address, an
  outcome or a time that is missing.\<close>

theorem security_event_shown:
  assumes "parse data = Some (JObj ps)"
  shows "\<exists>ev. hd (m_liveEvents (processEvent parse now (''security_event'', data) m)) = ev
    \<and> m_liveEvents (processEvent parse now (''security_event'', data) m) = take 100 (ev # m_liveEvents m)
    \<and> (\<forall>k \<in> {''id'', ''event_type'', ''severity'', ''user_id'', ''user_email'', ''app_id'', ''app_name'',
              ''user_agent'', ''correlation_id'', ''details''}. opt_prop ev k = own ps k)
    \<and> opt_prop ev ''ip_address'' = coalesce (own ps ''ip_address'') (JStr [])
    \<and> opt_prop ev ''success'' = coalesce (own ps ''success'') (JBool False)
    \<and> opt_prop ev ''created_at'' = coalesce (own ps ''created_at'') (JStr now)"
  using assms by (simp add: processEvent_def security_event_value_def Let_def addLiveEvent_def)

theorem security_event_shown_witness:
  "\<exists>ev. hd (m_liveEvents (processEvent
        (\<lambda>_. Some (JObj [(''id'', JNum 7), (''severity'', JStr ''critical'')])) ''now''
        (''security_event'', ''{..}'') monitor_init)) = ev
     \<and> opt_prop ev ''severity'' = JStr ''critical'' \<and> opt_prop ev ''created_at'' = JStr ''now''"
proof -
  define ps where "ps = [(''id'', JNum 7), (''severity'', JStr ''critical'')]"
  have "(\<lambda>_ :: string. Some (JObj ps)) ''{..}'' = Some (JObj ps)" by simp
  from security_event_shown [where parse = "\<lambda>_. Some (JObj ps)", OF this, where now = "''now''" and m = monitor_init]
  show ?thesis by (auto simp: ps_def coalesce_def)
qed

end
