(* ===== verification/Sse_Connection.thy ===== *)
theory Sse_Connection
  imports Sse_Stream Http
begin

text \<open>
  The connecting half of \<open>src/src/composables/useSSE.ts\<close> as a machine: \<open>connect\<close> and \<open>disconnect\<close> with the
  abort controller, the reconnect timers, and the calls of \<open>connect\<close> that are under way, each
  waiting for its response, for the text of an error response, or for the next read.

  A step is an entry from outside (the page connects or disconnects, a timer fires, the session
  changes) or one settled promise of a call.  An aborted fetch or read can only settle with an
  \<open>AbortError\<close>, and one that is not aborted never does; the text of an error response settles
  whatever happens, because its failure is caught.
\<close>

section \<open>State\<close>

datatype sse_phase =
    Fetching
  | Reading_error nat string
  | Streaming string

record sse_task =
  tk_controller :: nat
  tk_phase :: sse_phase

record sse =
  sse_controller :: "nat option"
  sse_aborted :: "bool list"
  sse_attempts :: nat
  sse_connecting :: bool
  sse_timers :: "nat list"
  sse_tasks :: "sse_task list"
  sse_authenticated :: bool
  sse_store :: monitor_state
  sse_sent :: "request list"

definition maxReconnectAttempts :: nat where
  "maxReconnectAttempts = 5"

definition reconnectDelay :: nat where
  "reconnectDelay = 3000"

definition sse_init :: sse where
  "sse_init = \<lparr>sse_controller = None, sse_aborted = [], sse_attempts = 0, sse_connecting = False,
     sse_timers = [], sse_tasks = [], sse_authenticated = True, sse_store = monitor_init, sse_sent = []\<rparr>"

definition stream_request :: request where
  "stream_request =
     \<lparr>req_url = ''/api/admin/events/stream'', req_method = ''GET'', req_credentials = ''include'',
      req_headers = [(''Accept'', ''text/event-stream''), (''Cache-Control'', ''no-cache'')],
      req_body = None\<rparr>"

section \<open>Operations\<close>

definition set_connected :: "bool \<Rightarrow> sse \<Rightarrow> sse" where
  "set_connected b s = s\<lparr>sse_store := setSSEConnected b (sse_store s)\<rparr>"

definition disconnect :: "sse \<Rightarrow> sse" where
  "disconnect s =
     (let s1 = (case sse_controller s of
                  Some c \<Rightarrow> s\<lparr>sse_aborted := (sse_aborted s)[c := True], sse_controller := None\<rparr>
                | None \<Rightarrow> s)
      in (set_connected False s1)\<lparr>sse_connecting := False\<rparr>)"

text \<open>\<open>connect\<close> up to its first \<open>await\<close>.\<close>

definition connect :: "sse \<Rightarrow> sse" where
  "connect s =
     (if sse_connecting s then s
      else
        (let s1 = (disconnect s)\<lparr>sse_connecting := True\<rparr>
         in if \<not> sse_authenticated s1 then s1\<lparr>sse_connecting := False\<rparr>
            else
              (let c = length (sse_aborted s1)
               in s1\<lparr>sse_aborted := sse_aborted s1 @ [False], sse_controller := Some c,
                     sse_tasks := sse_tasks s1 @ [\<lparr>tk_controller = c, tk_phase = Fetching\<rparr>],
                     sse_sent := sse_sent s1 @ [stream_request]\<rparr>)))"

definition isConnected :: "sse \<Rightarrow> bool" where
  "isConnected s = m_isSSEConnected (sse_store s)"

text \<open>The catch block of a call, for an error that is not an abort.\<close>

definition on_error :: "sse \<Rightarrow> sse" where
  "on_error s =
     (let s1 = (set_connected False s)\<lparr>sse_connecting := False\<rparr>
      in if sse_attempts s1 < maxReconnectAttempts
         then (let s2 = s1\<lparr>sse_attempts := Suc (sse_attempts s1)\<rparr>
               in s2\<lparr>sse_timers := sse_timers s2 @ [reconnectDelay * sse_attempts s2]\<rparr>)
         else s1)"

section \<open>Steps\<close>

text \<open>How the promise a call waits for settles.\<close>

datatype settled =
    Fetch_fails
  | Fetch_aborts
  | Fetch_status nat string
  | Fetch_no_body
  | Fetch_ok
  | Error_text
  | Read_chunk string string
  | Read_done
  | Read_fails
  | Read_aborts

datatype sse_action =
    Page_connects
  | Page_disconnects
  | Timer_fires nat
  | Session_changes bool
  | Settles nat settled

definition remove_nth :: "nat \<Rightarrow> 'a list \<Rightarrow> 'a list" where
  "remove_nth i xs = take i xs @ drop (Suc i) xs"

definition end_task :: "nat \<Rightarrow> sse \<Rightarrow> sse" where
  "end_task i s = s\<lparr>sse_tasks := remove_nth i (sse_tasks s)\<rparr>"

definition set_phase :: "nat \<Rightarrow> sse_phase \<Rightarrow> sse \<Rightarrow> sse" where
  "set_phase i p s = s\<lparr>sse_tasks := (sse_tasks s)[i := (sse_tasks s ! i)\<lparr>tk_phase := p\<rparr>]\<rparr>"

definition is_aborted :: "sse \<Rightarrow> sse_task \<Rightarrow> bool" where
  "is_aborted s t \<longleftrightarrow> sse_aborted s ! tk_controller t"

text \<open>\<open>connect\<close> from one \<open>await\<close> to the next: the call \<open>i\<close>, whose promise has settled with \<open>r\<close>.  A result
  that the promise cannot have gives no step.\<close>

definition continue_task :: "(string \<Rightarrow> jval option) \<Rightarrow> nat \<Rightarrow> settled \<Rightarrow> sse \<Rightarrow> sse option" where
  "continue_task parse i r s =
     (let t = sse_tasks s ! i in
      case tk_phase t of
        Fetching \<Rightarrow>
          (if is_aborted s t then
             (if r = Fetch_aborts then Some (end_task i s) else None)
           else
             (case r of
                Fetch_fails \<Rightarrow> Some (on_error (end_task i s))
              | Fetch_status status text \<Rightarrow>
                  if 200 \<le> status \<and> status \<le> 299 then None
                  else Some (set_phase i (Reading_error status text) s)
              | Fetch_no_body \<Rightarrow> Some (on_error (end_task i s))
              | Fetch_ok \<Rightarrow>
                  Some (set_phase i (Streaming [])
                    ((set_connected True s)\<lparr>sse_attempts := 0, sse_connecting := False\<rparr>))
              | _ \<Rightarrow> None))
      | Reading_error status text \<Rightarrow>
          (if r = Error_text then Some (on_error (end_task i s)) else None)
      | Streaming buffer \<Rightarrow>
          (if is_aborted s t then
             (if r = Read_aborts then Some (end_task i s) else None)
           else
             (case r of
                Read_chunk now chunk \<Rightarrow>
                  (let (evs, buffer1) = read_chunk buffer chunk
                   in Some (set_phase i (Streaming buffer1)
                        (s\<lparr>sse_store := process_all parse now evs (sse_store s)\<rparr>)))
              | Read_done \<Rightarrow> Some (end_task i s)
              | Read_fails \<Rightarrow> Some (on_error (end_task i s))
              | _ \<Rightarrow> None)))"

fun sse_act :: "(string \<Rightarrow> jval option) \<Rightarrow> sse_action \<Rightarrow> sse \<Rightarrow> sse option" where
  "sse_act parse Page_connects s = Some (connect s)"
| "sse_act parse Page_disconnects s = Some (disconnect s)"
| "sse_act parse (Timer_fires i) s =
     (if i < length (sse_timers s)
      then Some (connect (s\<lparr>sse_timers := remove_nth i (sse_timers s)\<rparr>)) else None)"
| "sse_act parse (Session_changes b) s = Some (s\<lparr>sse_authenticated := b\<rparr>)"
| "sse_act parse (Settles i r) s =
     (if i < length (sse_tasks s) then continue_task parse i r s else None)"

section \<open>Invariant\<close>

text \<open>Controllers are allocated in order and every call has its own; a controller that is not aborted is
  the current one; the store says connected only with a current controller; the counter and the
  delays of the timers stay within their bounds.\<close>

definition sse_inv :: "sse \<Rightarrow> bool" where
  "sse_inv s \<longleftrightarrow>
     (\<forall>c < length (sse_aborted s). sse_aborted s ! c \<or> sse_controller s = Some c)
     \<and> (\<forall>c. sse_controller s = Some c \<longrightarrow> c < length (sse_aborted s) \<and> \<not> sse_aborted s ! c)
     \<and> distinct (map tk_controller (sse_tasks s))
     \<and> (\<forall>t \<in> set (sse_tasks s). tk_controller t < length (sse_aborted s))
     \<and> (m_isSSEConnected (sse_store s) \<longrightarrow> sse_controller s \<noteq> None)
     \<and> sse_attempts s \<le> maxReconnectAttempts
     \<and> (\<forall>d \<in> set (sse_timers s). \<exists>k. 1 \<le> k \<and> k \<le> maxReconnectAttempts \<and> d = reconnectDelay * k)"

lemma set_remove_nth: "set (remove_nth i xs) \<subseteq> set xs"
  by (auto simp: remove_nth_def dest: in_set_takeD in_set_dropD)

lemma map_remove_nth: "map f (remove_nth i xs) = remove_nth i (map f xs)"
  by (simp add: remove_nth_def take_map drop_map)

lemma distinct_remove_nth: "distinct xs \<Longrightarrow> distinct (remove_nth i xs)"
  by (simp add: remove_nth_def set_take_disj_set_drop_if_distinct)

lemma remove_nth_key:
  assumes "distinct (map f xs)" "i < length xs" "x \<in> set (remove_nth i xs)"
  shows "f x \<noteq> f (xs ! i)"
proof -
  have split: "xs = take i xs @ xs ! i # drop (Suc i) xs" using assms(2) by (rule id_take_nth_drop)
  have "distinct (map f (take i xs @ xs ! i # drop (Suc i) xs))"
    using assms(1) by (subst (asm) split)
  then have "f (xs ! i) \<notin> f ` set (remove_nth i xs)"
    by (simp add: remove_nth_def image_Un)
  then show ?thesis using imageI [OF assms(3), of f] by auto
qed

lemma sse_inv_init: "sse_inv sse_init"
  by (simp add: sse_inv_def sse_init_def monitor_init_def maxReconnectAttempts_def)

lemma disconnect_parts:
  "sse_controller (disconnect s) = None"
  "sse_connecting (disconnect s) = False"
  "m_isSSEConnected (sse_store (disconnect s)) = False"
  "sse_tasks (disconnect s) = sse_tasks s" "sse_timers (disconnect s) = sse_timers s"
  "sse_attempts (disconnect s) = sse_attempts s"
  "sse_authenticated (disconnect s) = sse_authenticated s"
  "sse_aborted (disconnect s) =
    (case sse_controller s of Some c \<Rightarrow> (sse_aborted s)[c := True] | None \<Rightarrow> sse_aborted s)"
  by (simp_all add: disconnect_def set_connected_def setSSEConnected_def Let_def split: option.splits)

lemma disconnect_all_aborted:
  "sse_inv s \<Longrightarrow> c < length (sse_aborted s) \<Longrightarrow> sse_aborted (disconnect s) ! c"
  by (auto simp: sse_inv_def disconnect_parts nth_list_update split: option.splits)

lemma length_aborted_disconnect: "length (sse_aborted (disconnect s)) = length (sse_aborted s)"
  by (simp add: disconnect_parts split: option.splits)

lemma sse_inv_disconnect: "sse_inv s \<Longrightarrow> sse_inv (disconnect s)"
  using disconnect_all_aborted [of s] length_aborted_disconnect [of s]
  by (simp add: sse_inv_def disconnect_parts(1-7))

lemma sse_inv_connect:
  assumes "sse_inv s"
  shows "sse_inv (connect s)"
proof -
  have "sse_inv ((disconnect s)\<lparr>sse_connecting := b\<rparr>)" for b
    using sse_inv_disconnect [OF assms] by (simp add: sse_inv_def)
  moreover have "\<forall>t \<in> set (sse_tasks s). tk_controller t < length (sse_aborted s)"
    using assms by (simp add: sse_inv_def)
  ultimately show ?thesis
    using assms disconnect_all_aborted [OF assms] length_aborted_disconnect [of s]
    by (auto simp: connect_def Let_def sse_inv_def disconnect_parts(1-7) nth_append less_Suc_eq)
qed

lemma sse_inv_drop_timer: "sse_inv s \<Longrightarrow> sse_inv (s\<lparr>sse_timers := remove_nth i (sse_timers s)\<rparr>)"
  using set_remove_nth [of i "sse_timers s"] by (auto simp: sse_inv_def)

lemma sse_inv_end_task: "sse_inv s \<Longrightarrow> sse_inv (end_task i s)"
  using set_remove_nth [of i "sse_tasks s"]
  by (auto simp: sse_inv_def end_task_def map_remove_nth intro: distinct_remove_nth)

lemma sse_inv_on_error:
  assumes "sse_inv s"
  shows "sse_inv (on_error s)"
proof (cases "sse_attempts s < maxReconnectAttempts")
  case True
  then have "\<exists>k. 1 \<le> k \<and> k \<le> maxReconnectAttempts \<and>
      reconnectDelay + reconnectDelay * sse_attempts s = reconnectDelay * k"
    by (intro exI [of _ "Suc (sse_attempts s)"]) simp
  then show ?thesis
    using assms True
    by (auto simp: sse_inv_def on_error_def Let_def set_connected_def setSSEConnected_def)
next
  case False
  then show ?thesis
    using assms
    by (auto simp: sse_inv_def on_error_def Let_def set_connected_def setSSEConnected_def)
qed

lemma sse_inv_set_phase:
  assumes "sse_inv s" "i < length (sse_tasks s)"
  shows "sse_inv (set_phase i p s)"
proof -
  have keys: "map tk_controller (sse_tasks (set_phase i p s)) = map tk_controller (sse_tasks s)"
    using assms(2) by (simp add: set_phase_def map_update list_update_same_conv)
  then have "\<forall>t \<in> set (sse_tasks (set_phase i p s)). tk_controller t < length (sse_aborted s)"
    using assms(1) by (metis (no_types, lifting) image_iff image_set sse_inv_def)
  moreover have "distinct (map tk_controller (sse_tasks (set_phase i p s)))"
    unfolding keys using assms(1) by (simp add: sse_inv_def)
  ultimately show ?thesis
    using assms(1) by (auto simp: sse_inv_def set_phase_def)
qed

lemma process_all_connected [simp]:
  "m_isSSEConnected (process_all parse now evs m) = m_isSSEConnected m"
proof -
  have one: "m_isSSEConnected (processEvent parse now e m) = m_isSSEConnected m" for e m
    using processEvent_adds [of parse now e m] by (auto simp: addLiveEvent_def Let_def)
  have "m_isSSEConnected (fold (processEvent parse now) evs m) = m_isSSEConnected m"
    by (induction evs arbitrary: m) (simp_all add: one)
  then show ?thesis by (simp add: process_all_def)
qed

text \<open>The call that goes on with an open response is the current one.\<close>

lemma current_controller:
  "sse_inv s \<Longrightarrow> i < length (sse_tasks s) \<Longrightarrow> \<not> is_aborted s (sse_tasks s ! i) \<Longrightarrow>
    sse_controller s = Some (tk_controller (sse_tasks s ! i))"
  by (auto simp: sse_inv_def is_aborted_def)

lemma sse_inv_opened:
  "sse_inv s \<Longrightarrow> sse_controller s \<noteq> None \<Longrightarrow>
    sse_inv ((set_connected True s)\<lparr>sse_attempts := 0, sse_connecting := False\<rparr>)"
  by (auto simp: sse_inv_def set_connected_def setSSEConnected_def)

lemma sse_inv_chunk: "sse_inv s \<Longrightarrow> sse_inv (s\<lparr>sse_store := process_all parse now evs (sse_store s)\<rparr>)"
  by (simp add: sse_inv_def)

lemma sse_inv_continue:
  assumes "sse_inv s" "i < length (sse_tasks s)" "continue_task parse i r s = Some t"
  shows "sse_inv t"
proof -
  note inv = sse_inv_end_task [OF assms(1)] sse_inv_on_error [OF sse_inv_end_task [OF assms(1)]]
    sse_inv_set_phase [OF assms(1,2)]
  have opened: "sse_inv (set_phase i p ((set_connected True s)\<lparr>sse_attempts := 0, sse_connecting := False\<rparr>))"
    if "\<not> is_aborted s (sse_tasks s ! i)" for p
    using sse_inv_opened [OF assms(1)] current_controller [OF assms(1,2) that] assms(2)
    by (intro sse_inv_set_phase) (simp_all add: set_connected_def)
  have chunk: "sse_inv (set_phase i p (s\<lparr>sse_store := process_all parse now evs (sse_store s)\<rparr>))"
    for p now evs
    using sse_inv_chunk [OF assms(1)] assms(2) by (intro sse_inv_set_phase) simp_all
  show ?thesis
    using assms(3) inv opened chunk
    by (auto simp: continue_task_def Let_def case_prod_beta
        split: sse_phase.splits if_splits settled.splits)
qed

lemma sse_inv_act: "sse_inv s \<Longrightarrow> sse_act parse a s = Some t \<Longrightarrow> sse_inv t"
proof (cases a)
  case (Settles i r)
  then show "sse_inv s \<Longrightarrow> sse_act parse a s = Some t \<Longrightarrow> sse_inv t"
    using sse_inv_continue by (auto split: if_splits)
next
  case (Session_changes b)
  then show "sse_inv s \<Longrightarrow> sse_act parse a s = Some t \<Longrightarrow> sse_inv t"
    by (auto simp: sse_inv_def)
qed (auto intro: sse_inv_connect sse_inv_disconnect sse_inv_drop_timer split: if_splits)

interpretation stream: invariant_system "\<lambda>s. s = sse_init" "action_step (sse_act parse)" sse_inv for parse
  by unfold_locales (auto simp: action_step_def sse_inv_init intro: sse_inv_act)

section \<open>What the machine guarantees\<close>

text \<open>C12: at any time at most one call of \<open>connect\<close> is not aborted, and it is the one of the current
  controller, so the page never reads two streams at once.\<close>

theorem one_live_stream:
  assumes "reachable (\<lambda>s. s = sse_init) (action_step (sse_act parse)) s"
    and "i < length (sse_tasks s)" "j < length (sse_tasks s)"
    and "\<not> is_aborted s (sse_tasks s ! i)" "\<not> is_aborted s (sse_tasks s ! j)"
  shows "i = j \<and> sse_controller s = Some (tk_controller (sse_tasks s ! i))"
proof -
  have inv: "sse_inv s" using assms(1) by (rule stream.reachable_inv)
  have "sse_controller s = Some (tk_controller (sse_tasks s ! i))"
    "sse_controller s = Some (tk_controller (sse_tasks s ! j))"
    using current_controller [OF inv] assms by blast+
  moreover have "distinct (map tk_controller (sse_tasks s))" using inv by (simp add: sse_inv_def)
  ultimately show ?thesis
    using assms(2,3) nth_eq_iff_index_eq [of "map tk_controller (sse_tasks s)" i j] by simp
qed

text \<open>C37: reconnecting is bounded: the counter never passes five, and every pending timer has one of
  the five delays from three to fifteen seconds.\<close>

theorem reconnects_are_bounded:
  assumes "reachable (\<lambda>s. s = sse_init) (action_step (sse_act parse)) s"
  shows "sse_attempts s \<le> 5 \<and> set (sse_timers s) \<subseteq> {3000, 6000, 9000, 12000, 15000}"
proof -
  have inv: "sse_inv s" using assms by (rule stream.reachable_inv)
  have "d \<in> {3000, 6000, 9000, 12000, 15000}" if "d \<in> set (sse_timers s)" for d
  proof -
    obtain k where "1 \<le> k" "k \<le> 5" "d = 3000 * k"
      using inv \<open>d \<in> _\<close> by (auto simp: sse_inv_def maxReconnectAttempts_def reconnectDelay_def)
    then have "k \<in> {1, 2, 3, 4, 5}" by auto
    then show ?thesis using \<open>d = 3000 * k\<close> by auto
  qed
  then show ?thesis using inv by (auto simp: sse_inv_def maxReconnectAttempts_def)
qed

text \<open>Runs of the machine from the start.\<close>

lemma run_stream: "run (sse_act parse) as sse_init = Some s \<Longrightarrow>
    reachable (\<lambda>s. s = sse_init) (action_step (sse_act parse)) s"
  by (rule run_reachable [OF reachable_init])

lemmas sse_step_simps = sse_init_def connect_def disconnect_def set_connected_def setSSEConnected_def
  continue_task_def end_task_def set_phase_def on_error_def remove_nth_def is_aborted_def
  maxReconnectAttempts_def reconnectDelay_def isConnected_def Let_def

definition sample_open :: sse where
  "sample_open = the (run (sse_act (\<lambda>_. None)) [Page_connects, Page_connects, Page_disconnects,
     Page_connects, Settles 1 Fetch_ok] sse_init)"

lemma sample_open_facts:
  "run (sse_act (\<lambda>_. None)) [Page_connects, Page_connects, Page_disconnects, Page_connects, Settles 1 Fetch_ok]
     sse_init = Some sample_open"
  "length (sse_tasks sample_open) = 2"
  "is_aborted sample_open (sse_tasks sample_open ! 0)"
  "\<not> is_aborted sample_open (sse_tasks sample_open ! 1)"
  "tk_phase (sse_tasks sample_open ! 1) = Streaming []"
  "isConnected sample_open" "sse_timers sample_open = []"
  by (simp_all add: sample_open_def sse_step_simps)

theorem one_live_stream_witness:
  "sse_controller sample_open = Some (tk_controller (sse_tasks sample_open ! 1))"
  using one_live_stream [OF run_stream [OF sample_open_facts(1)], of 1 1] sample_open_facts by simp

theorem reconnects_are_bounded_witness:
  "\<exists>s. run (sse_act (\<lambda>_. None)) [Page_connects, Settles 0 Fetch_fails] sse_init = Some s
     \<and> sse_timers s = [3000] \<and> sse_attempts s \<le> 5"
proof -
  obtain s where s: "run (sse_act (\<lambda>_. None)) [Page_connects, Settles 0 Fetch_fails] sse_init = Some s"
    "sse_timers s = [3000]"
    by (simp add: sse_step_simps)
  then show ?thesis using reconnects_are_bounded [OF run_stream [OF s(1)]] by simp
qed

section \<open>Where live events come from\<close>

lemma disconnect_live: "m_liveEvents (sse_store (disconnect s)) = m_liveEvents (sse_store s)"
  by (simp add: disconnect_def set_connected_def setSSEConnected_def Let_def split: option.splits)

lemma connect_live: "m_liveEvents (sse_store (connect s)) = m_liveEvents (sse_store s)"
  using disconnect_live [of s] by (simp add: connect_def Let_def)

lemma on_error_live: "m_liveEvents (sse_store (on_error s)) = m_liveEvents (sse_store s)"
  by (simp add: on_error_def set_connected_def setSSEConnected_def Let_def)

lemma continue_live:
  assumes "continue_task parse i r s = Some t"
    and "m_liveEvents (sse_store t) \<noteq> m_liveEvents (sse_store s)"
  shows "\<not> is_aborted s (sse_tasks s ! i) \<and> (\<exists>now chunk. r = Read_chunk now chunk)
    \<and> (\<exists>buffer. tk_phase (sse_tasks s ! i) = Streaming buffer)"
  using assms
  by (auto simp: continue_task_def Let_def on_error_live end_task_def set_phase_def
      set_connected_def setSSEConnected_def
      split: sse_phase.splits if_splits settled.splits)

text \<open>Also: the live feed grows only by what is read from the current stream: a step that changes it is
  a read of the call whose controller is current; nothing arrives from a stream that was
  disconnected or replaced.\<close>

theorem live_events_from_current_stream:
  assumes "reachable (\<lambda>s. s = sse_init) (action_step (sse_act parse)) s" "sse_act parse a s = Some t"
    and "m_liveEvents (sse_store t) \<noteq> m_liveEvents (sse_store s)"
  shows "\<exists>i now chunk buffer. a = Settles i (Read_chunk now chunk) \<and> i < length (sse_tasks s)
    \<and> tk_phase (sse_tasks s ! i) = Streaming buffer
    \<and> sse_controller s = Some (tk_controller (sse_tasks s ! i))"
proof (cases a)
  case (Settles i r)
  then have i: "i < length (sse_tasks s)" "continue_task parse i r s = Some t"
    using assms(2) by (auto split: if_splits)
  have "sse_inv s" using assms(1) by (rule stream.reachable_inv)
  from current_controller [OF this i(1)] continue_live [OF i(2) assms(3)] i(1) Settles
  show ?thesis by auto
qed (use assms(2,3) in \<open>auto simp: connect_live disconnect_live split: if_splits\<close>)

theorem live_events_from_current_stream_witness:
  "\<exists>s t. run (sse_act (\<lambda>_. Some (JObj []))) [Page_connects, Settles 0 Fetch_ok] sse_init = Some s
     \<and> sse_act (\<lambda>_. Some (JObj [])) (Settles 0 (Read_chunk ''now'' (event_lines ''alert'' ''{}'' @ [newline]))) s = Some t
     \<and> m_liveEvents (sse_store t) \<noteq> [] \<and> sse_controller s = Some (tk_controller (sse_tasks s ! 0))"
proof -
  define parse :: "string \<Rightarrow> jval option" where "parse = (\<lambda>_. Some (JObj []))"
  define a where "a = Settles 0 (Read_chunk ''now'' (event_lines ''alert'' ''{}'' @ [newline]))"
  have "field ''alert''" "field ''{}''" by (simp_all add: field_def) code_simp+
  note read = read_whole_event [OF this]
  obtain s where s: "run (sse_act parse) [Page_connects, Settles 0 Fetch_ok] sse_init = Some s"
    and p: "sse_tasks s = [\<lparr>tk_controller = 0, tk_phase = Streaming []\<rparr>]" "sse_aborted s = [False]"
      "m_liveEvents (sse_store s) = []"
    by (simp add: sse_step_simps monitor_init_def)
  obtain t where t: "sse_act parse a s = Some t" "m_liveEvents (sse_store t) \<noteq> []"
    using p read
    by (simp add: a_def continue_task_def is_aborted_def set_phase_def process_all_def processEvent_def
        parse_def alert_value_def addLiveEvent_def Let_def)
  then have "m_liveEvents (sse_store t) \<noteq> m_liveEvents (sse_store s)" using p(3) by simp
  from live_events_from_current_stream [OF run_stream [OF s] t(1) this]
  have "sse_controller s = Some (tk_controller (sse_tasks s ! 0))" by (auto simp: a_def)
  then show ?thesis using s t unfolding parse_def a_def by blast
qed

section \<open>What the machine does not do\<close>

text \<open>Also: the end of a stream goes unnoticed: when the server closes the current stream, the page
  keeps saying that it is connected, no call reads any stream any more, and no reconnect is
  scheduled.\<close>

theorem stream_end_unnoticed:
  assumes "reachable (\<lambda>s. s = sse_init) (action_step (sse_act parse)) s"
    and "i < length (sse_tasks s)" "tk_phase (sse_tasks s ! i) = Streaming buffer"
    and "\<not> is_aborted s (sse_tasks s ! i)" "isConnected s"
  shows "\<exists>t. sse_act parse (Settles i Read_done) s = Some t \<and> isConnected t
    \<and> sse_timers t = sse_timers s
    \<and> (\<forall>j < length (sse_tasks t). is_aborted t (sse_tasks t ! j))"
proof -
  have inv: "sse_inv s" using assms(1) by (rule stream.reachable_inv)
  have t: "sse_act parse (Settles i Read_done) s = Some (end_task i s)"
    using assms(2-4) by (simp add: continue_task_def Let_def)
  have "is_aborted s x" if x: "x \<in> set (remove_nth i (sse_tasks s))" for x
  proof (rule ccontr)
    assume live: "\<not> is_aborted s x"
    have "x \<in> set (sse_tasks s)" by (rule subsetD [OF set_remove_nth x])
    then obtain j where j: "j < length (sse_tasks s)" "sse_tasks s ! j = x"
      unfolding in_set_conv_nth by blast
    have "sse_controller s = Some (tk_controller x)"
      using current_controller [OF inv j(1)] live unfolding j(2) by blast
    then have "tk_controller x = tk_controller (sse_tasks s ! i)"
      using current_controller [OF inv assms(2,4)] by simp
    moreover have "distinct (map tk_controller (sse_tasks s))" using inv by (simp add: sse_inv_def)
    ultimately show False using remove_nth_key [where f = tk_controller, OF _ assms(2) x] by blast
  qed
  then have "\<forall>j < length (sse_tasks (end_task i s)). is_aborted (end_task i s) (sse_tasks (end_task i s) ! j)"
    by (simp add: end_task_def is_aborted_def)
  then show ?thesis using t assms(5) by (simp add: end_task_def isConnected_def)
qed

theorem stream_end_unnoticed_witness:
  "\<exists>t. sse_act (\<lambda>_. None) (Settles 1 Read_done) sample_open = Some t \<and> isConnected t \<and> sse_timers t = []"
  using stream_end_unnoticed [OF run_stream [OF sample_open_facts(1)], of 1 "[]"] sample_open_facts
  by auto

text \<open>Also: disconnecting does not cancel a scheduled reconnect: with a timer pending, the page that has
  disconnected opens a new stream as soon as the timer fires.\<close>

theorem reconnect_survives_disconnect:
  assumes "sse_timers s \<noteq> []" "sse_authenticated s"
  shows "\<exists>t. run (sse_act parse) [Page_disconnects, Timer_fires 0] s = Some t
    \<and> sse_sent t = sse_sent s @ [stream_request] \<and> sse_connecting t"
proof -
  have "sse_sent (disconnect s) = sse_sent s" for s
    by (simp add: disconnect_def set_connected_def Let_def split: option.splits)
  then show ?thesis using assms by (simp add: connect_def disconnect_parts Let_def)
qed

theorem reconnect_survives_disconnect_witness:
  "\<exists>s t. run (sse_act (\<lambda>_. None)) [Page_connects, Settles 0 Fetch_fails] sse_init = Some s
     \<and> run (sse_act (\<lambda>_. None)) [Page_disconnects, Timer_fires 0] s = Some t
     \<and> length (sse_sent t) = 2"
proof -
  obtain s where s: "run (sse_act (\<lambda>_. None)) [Page_connects, Settles 0 Fetch_fails] sse_init = Some s"
    and f: "sse_timers s \<noteq> []" "sse_authenticated s" "length (sse_sent s) = 1"
    by (simp add: sse_step_simps)
  show ?thesis using reconnect_survives_disconnect [OF f(1,2), of "\<lambda>_. None"] s f(3) by auto
qed

end
