(* ===== verification/Policy_Log.thy ===== *)
theory Policy_Log
  imports Api_Client Policy_Labels
begin

text \<open>
  \<open>src/src/composables/usePolicyDecisions.ts\<close>: the state behind the access-policy decision log, with its
  filters, the list that is paged by the id of its last row, and the summary counts.

  \<open>now\<close> is the time of a call in milliseconds.  \<open>load\<close> starts its two requests together; both run, and
  when both fail the message shown is that of the one that failed first, which the parameter
  \<open>summary_first\<close> tells.
\<close>

section \<open>Filters\<close>

definition PAGE_SIZE :: int where
  "PAGE_SIZE = 100"

datatype OutcomeFilter = Outcome_all | Outcome_denied | Outcome_allowed

record DecisionFilters =
  df_correlationId :: string
  df_outcome :: OutcomeFilter
  df_divergenceOnly :: bool
  df_source :: string
  df_clientId :: string
  df_period :: string

definition defaultFilters :: DecisionFilters where
  "defaultFilters = \<lparr>df_correlationId = [], df_outcome = Outcome_all, df_divergenceOnly = False,
     df_source = [], df_clientId = [], df_period = ''24h''\<rparr>"

definition toQuery :: "DecisionFilters \<Rightarrow> int \<Rightarrow> js_error + PolicyDecisionFilter" where
  "toQuery f now =
     (let q0 = \<lparr>pf_correlation_id = None, pf_allow = None, pf_divergence = None, pf_source = None,
                pf_client_id = None, pf_since = None, pf_before_id = None, pf_limit = Some PAGE_SIZE\<rparr>;
          q1 = (if trim (df_correlationId f) \<noteq> []
                then q0\<lparr>pf_correlation_id := Some (trim (df_correlationId f))\<rparr> else q0);
          q2 = (if df_outcome f \<noteq> Outcome_all
                then q1\<lparr>pf_allow := Some (df_outcome f = Outcome_allowed)\<rparr> else q1);
          q3 = (if df_divergenceOnly f then q2\<lparr>pf_divergence := Some True\<rparr> else q2);
          q4 = (if df_source f \<noteq> [] then q3\<lparr>pf_source := Some (df_source f)\<rparr> else q3);
          q5 = (if trim (df_clientId f) \<noteq> []
                then q4\<lparr>pf_client_id := Some (trim (df_clientId f))\<rparr> else q4)
      in if pf_correlation_id q5 = None then
           (case sinceFromPeriod (df_period f) now of
              Inl e \<Rightarrow> Inl e
            | Inr since \<Rightarrow> Inr (q5\<lparr>pf_since := since\<rparr>))
         else Inr q5)"

section \<open>State and operations\<close>

record policy_log =
  pl_filters :: DecisionFilters
  pl_decisions :: "PolicyDecisionRecord list"
  pl_mode :: string
  pl_summary :: "PolicySummaryResponse option"
  pl_loading :: bool
  pl_error :: "string option"
  pl_exhausted :: bool

definition policy_log_init :: policy_log where
  "policy_log_init = \<lparr>pl_filters = defaultFilters, pl_decisions = [], pl_mode = ''off'',
     pl_summary = None, pl_loading = False, pl_error = None, pl_exhausted = False\<rparr>"

definition divergenceTotal :: "policy_log \<Rightarrow> int" where
  "divergenceTotal s =
     foldl (+) 0 (map snd (case pl_summary s of
        Some r \<Rightarrow> ps_divergences (psr_summary r) | None \<Rightarrow> []))"

definition fail_with :: "js_error \<Rightarrow> policy_log \<Rightarrow> policy_log" where
  "fail_with e s = s\<lparr>pl_error := Some (error_message e), pl_loading := False\<rparr>"

text \<open>The two requests of \<open>Promise.all\<close>; the period of the summary is read after the first is sent.\<close>

definition load_both ::
    "PolicyDecisionsResponse net \<Rightarrow> PolicySummaryResponse net \<Rightarrow> elevator \<Rightarrow> bool \<Rightarrow> int
      \<Rightarrow> PolicyDecisionFilter \<Rightarrow> string
      \<Rightarrow> ((PolicyDecisionRecord list \<times> string) \<times> PolicySummaryResponse option) api" where
  "load_both n1 n2 el summary_first now query period w =
     (let (r1, w1) = fetchPolicyDecisions n1 el query w in
      case sinceFromPeriod (if period = ''all'' then ''30d'' else period) now of
        Inl e \<Rightarrow> (Inl e, w1)
      | Inr since \<Rightarrow>
          (let (r2, w2) = fetchPolicySummary n2 el since w1 in
           case (r1, r2) of
             (Inr page, Inr summ) \<Rightarrow> (Inr (page, summ), w2)
           | (Inl e, Inr _) \<Rightarrow> (Inl e, w2)
           | (Inr _, Inl e) \<Rightarrow> (Inl e, w2)
           | (Inl e1, Inl e2) \<Rightarrow> (Inl (if summary_first then e2 else e1), w2)))"

definition load ::
    "PolicyDecisionsResponse net \<Rightarrow> PolicySummaryResponse net \<Rightarrow> elevator \<Rightarrow> bool \<Rightarrow> int
      \<Rightarrow> policy_log \<times> api_world \<Rightarrow> policy_log \<times> api_world" where
  "load n1 n2 el summary_first now = (\<lambda>(s, w).
     let s1 = s\<lparr>pl_loading := True, pl_error := None\<rparr> in
     case toQuery (pl_filters s1) now of
       Inl e \<Rightarrow> (fail_with e s1, w)
     | Inr query \<Rightarrow>
         (case load_both n1 n2 el summary_first now query (df_period (pl_filters s1)) w of
            (Inl e, w1) \<Rightarrow> (fail_with e s1, w1)
          | (Inr (page, summ), w1) \<Rightarrow>
              (s1\<lparr>pl_decisions := fst page, pl_mode := snd page, pl_summary := summ,
                  pl_exhausted := int (length (fst page)) < PAGE_SIZE, pl_loading := False\<rparr>, w1)))"

definition loadOlder ::
    "PolicyDecisionsResponse net \<Rightarrow> elevator \<Rightarrow> int
      \<Rightarrow> policy_log \<times> api_world \<Rightarrow> policy_log \<times> api_world" where
  "loadOlder n1 el now = (\<lambda>(s, w).
     case last_opt (pl_decisions s) of
       None \<Rightarrow> (s, w)
     | Some lst \<Rightarrow>
         if pl_exhausted s then (s, w)
         else
           (let s1 = s\<lparr>pl_loading := True, pl_error := None\<rparr> in
            case toQuery (pl_filters s1) now of
              Inl e \<Rightarrow> (fail_with e s1, w)
            | Inr query \<Rightarrow>
                (case fetchPolicyDecisions n1 el (query\<lparr>pf_before_id := Some (pd_id lst)\<rparr>) w of
                   (Inl e, w1) \<Rightarrow> (fail_with e s1, w1)
                 | (Inr page, w1) \<Rightarrow>
                     (s1\<lparr>pl_decisions := pl_decisions s1 @ fst page,
                         pl_exhausted := int (length (fst page)) < PAGE_SIZE,
                         pl_loading := False\<rparr>, w1))))"

definition reset_filters :: "policy_log \<Rightarrow> policy_log" where
  "reset_filters s = s\<lparr>pl_filters := defaultFilters\<rparr>"

section \<open>The query\<close>

text \<open>Also: the query says what the filters say: a search for one request (a correlation id) is not
  cut by the time window, every other search is; the outcome is sent for both of its values; texts
  are trimmed, and a blank text is no filter.\<close>

theorem toQuery_exact:
  assumes "toQuery f now = Inr q"
  shows "pf_correlation_id q = (if trim (df_correlationId f) = [] then None else Some (trim (df_correlationId f)))
    \<and> (if trim (df_correlationId f) = [] then sinceFromPeriod (df_period f) now = Inr (pf_since q)
       else pf_since q = None)
    \<and> pf_allow q = (case df_outcome f of Outcome_all \<Rightarrow> None | Outcome_denied \<Rightarrow> Some False
                    | Outcome_allowed \<Rightarrow> Some True)
    \<and> pf_client_id q = (if trim (df_clientId f) = [] then None else Some (trim (df_clientId f)))
    \<and> pf_before_id q = None \<and> pf_limit q = Some 100"
  using assms
  by (auto simp: toQuery_def Let_def PAGE_SIZE_def split: if_splits sum.splits OutcomeFilter.splits)

definition sample_filters :: DecisionFilters where
  "sample_filters = defaultFilters\<lparr>df_correlationId := ''abc'', df_outcome := Outcome_denied\<rparr>"

definition sample_query :: PolicyDecisionFilter where
  "sample_query = \<lparr>pf_correlation_id = Some ''abc'', pf_allow = Some False, pf_divergence = None,
     pf_source = None, pf_client_id = None, pf_since = None, pf_before_id = None, pf_limit = Some 100\<rparr>"

lemma trim_abc: "trim ''abc'' = ''abc''" "trim [] = []"
  by (simp_all add: trim_def trim_start_def trim_end_def strip_start_id js_ws_def)

lemma sample_toQuery: "toQuery sample_filters now = Inr sample_query"
  by (simp add: toQuery_def sample_filters_def defaultFilters_def trim_abc Let_def sample_query_def
      PAGE_SIZE_def)

theorem toQuery_exact_witness:
  "toQuery sample_filters 0 = Inr sample_query \<and> pf_since sample_query = None"
  using toQuery_exact [OF sample_toQuery [of 0]] sample_toQuery [of 0]
  by (simp add: sample_filters_def trim_abc)

section \<open>Failing and ending\<close>

text \<open>Also: loading always ends, and a page that fails to load leaves the rows on the screen, the mode,
  the summary and the cursor as they were, with the message of the error.\<close>

theorem load_settles:
  "\<not> pl_loading (fst (load n1 n2 el summary_first now (s, w)))
    \<and> (pl_error (fst (load n1 n2 el summary_first now (s, w))) = None
       \<or> (let s1 = fst (load n1 n2 el summary_first now (s, w)) in
            pl_decisions s1 = pl_decisions s \<and> pl_mode s1 = pl_mode s \<and> pl_summary s1 = pl_summary s
            \<and> pl_exhausted s1 = pl_exhausted s \<and> pl_filters s1 = pl_filters s))"
proof (cases "toQuery (pl_filters s) now")
  case (Inl e)
  then show ?thesis by (simp add: load_def fail_with_def)
next
  case (Inr q)
  obtain r w1 where "load_both n1 n2 el summary_first now q (df_period (pl_filters s)) w = (r, w1)"
    by force
  then show ?thesis
    using Inr by (cases r) (auto simp: load_def fail_with_def split: prod.splits)
qed

section \<open>Paging\<close>

text \<open>
  What the server promises for a query without a cursor whose rows are \<open>rows\<close>, newest first: the first
  page, and for the id of a row the first page of the rows with a smaller id.
\<close>

definition serves_rows ::
    "PolicyDecisionsResponse net \<Rightarrow> elevator \<Rightarrow> PolicyDecisionFilter \<Rightarrow> PolicyDecisionRecord list \<Rightarrow> bool" where
  "serves_rows n1 el q rows \<longleftrightarrow>
     (\<forall>w. \<exists>mode w1. fetchPolicyDecisions n1 el q w = (Inr (take 100 rows, mode), w1))
     \<and> (\<forall>r \<in> set rows. \<forall>w. \<exists>mode w1.
          fetchPolicyDecisions n1 el (q\<lparr>pf_before_id := Some (pd_id r)\<rparr>) w
            = (Inr (take 100 (filter (\<lambda>x. pd_id x < pd_id r) rows), mode), w1))"

definition newest_first :: "PolicyDecisionRecord list \<Rightarrow> bool" where
  "newest_first rows \<longleftrightarrow> sorted_wrt (\<lambda>a b. pd_id b < pd_id a) rows"

lemma older_rows:
  assumes "newest_first rows" "n < length rows"
  shows "filter (\<lambda>x. pd_id x < pd_id (rows ! n)) rows = drop (Suc n) rows"
proof -
  have split: "rows = take n rows @ rows ! n # drop (Suc n) rows"
    using assms(2) by (rule id_take_nth_drop)
  have s: "sorted_wrt (\<lambda>a b. pd_id b < pd_id a) (take n rows @ rows ! n # drop (Suc n) rows)"
    using assms(1) unfolding newest_first_def by (subst (asm) split)
  have a: "filter (\<lambda>x. pd_id x < pd_id (rows ! n)) (take n rows) = []"
    using s by (auto simp: sorted_wrt_append filter_empty_conv)
  have b: "filter (\<lambda>x. pd_id x < pd_id (rows ! n)) (drop (Suc n) rows) = drop (Suc n) rows"
    using s by (auto simp: sorted_wrt_append intro: filter_True)
  have "filter (\<lambda>x. pd_id x < pd_id (rows ! n)) (take n rows @ rows ! n # drop (Suc n) rows)
      = drop (Suc n) rows"
    using a b by simp
  then show ?thesis using split by simp
qed

text \<open>The list after \<open>k\<close> pages.\<close>

definition shows_pages :: "PolicyDecisionRecord list \<Rightarrow> nat \<Rightarrow> policy_log \<Rightarrow> bool" where
  "shows_pages rows k s \<longleftrightarrow>
     0 < k \<and> pl_decisions s = take (100 * k) rows \<and> (pl_exhausted s \<longleftrightarrow> length rows < 100 * k)"

lemma loadOlder_shows:
  assumes "serves_rows n1 el q rows" "newest_first rows" "toQuery (pl_filters s) now = Inr q"
    and "shows_pages rows k s"
  shows "shows_pages rows (Suc k) (fst (loadOlder n1 el now (s, w)))
    \<and> pl_filters (fst (loadOlder n1 el now (s, w))) = pl_filters s"
proof (cases "pl_exhausted s \<or> rows = []")
  case True
  then have "length rows \<le> 100 * k" using assms(4) by (auto simp: shows_pages_def)
  then show ?thesis
    using assms(4) True
    by (auto simp: loadOlder_def shows_pages_def last_opt_def split: option.splits)
next
  case False
  then have k: "100 * k \<le> length rows" "0 < k" and d: "pl_decisions s = take (100 * k) rows"
    using assms(4) by (auto simp: shows_pages_def)
  define n where "n = 100 * k - 1"
  have n: "n < length rows" "Suc n = 100 * k" using k by (simp_all add: n_def)
  have l: "last_opt (pl_decisions s) = Some (rows ! n)"
  proof -
    have "rows \<noteq> []" using n(1) by auto
    then show ?thesis using n d k by (simp add: last_opt_def last_conv_nth n_def)
  qed
  have "rows ! n \<in> set rows" using n(1) by simp
  then obtain mode w1 where
    f: "fetchPolicyDecisions n1 el (q\<lparr>pf_before_id := Some (pd_id (rows ! n))\<rparr>) w
      = (Inr (take 100 (filter (\<lambda>x. pd_id x < pd_id (rows ! n)) rows), mode), w1)"
    using assms(1) unfolding serves_rows_def by blast
  have page: "take 100 (filter (\<lambda>x. pd_id x < pd_id (rows ! n)) rows) = take 100 (drop (100 * k) rows)"
    using older_rows [OF assms(2) n(1)] n(2) by simp
  have sum: "take (100 * k) rows @ take 100 (drop (100 * k) rows) = take (100 * Suc k) rows"
    using take_add [of "100 * k" 100 rows] by (simp add: algebra_simps)
  show ?thesis
    using False l f assms(3) k(1) sum
    by (simp add: loadOlder_def page d shows_pages_def PAGE_SIZE_def) linarith
qed

lemma load_shows:
  assumes "serves_rows n1 el q rows" "toQuery (pl_filters s) now = Inr q"
    and "pl_error (fst (load n1 n2 el summary_first now (s, w))) = None"
  shows "shows_pages rows 1 (fst (load n1 n2 el summary_first now (s, w)))
    \<and> pl_filters (fst (load n1 n2 el summary_first now (s, w))) = pl_filters s"
proof -
  obtain mode w1 where f: "fetchPolicyDecisions n1 el q w = (Inr (take 100 rows, mode), w1)"
    using assms(1) unfolding serves_rows_def by blast
  obtain r w2 where b: "load_both n1 n2 el summary_first now q (df_period (pl_filters s)) w = (r, w2)"
    by force
  then obtain page summ where r: "r = Inr (page, summ)"
    using assms(2,3) by (cases r) (auto simp: load_def fail_with_def)
  have "page = (take 100 rows, mode)"
    using b f r by (auto simp: load_both_def Let_def split: sum.splits prod.splits)
  then show ?thesis
    using assms(2) b r by (simp add: load_def shows_pages_def PAGE_SIZE_def) linarith
qed


text \<open>A server with one row.\<close>

definition sample_row :: PolicyDecisionRecord where
  "sample_row = \<lparr>pd_id = 5, pd_created_at = [], pd_correlation_id = Some ''abc'', pd_source = ''admin_pep'',
     pd_mode = ''shadow'', pd_enforced = False, pd_allow = False, pd_divergence = None,
     pd_action = ''users.read'', pd_rule = None, pd_reason = ''default_deny'', pd_policy_version = 1,
     pd_principal_kind = None, pd_principal_id = None, pd_client_id = None, pd_resource_type = None,
     pd_resource_id = None, pd_ip_address = None, pd_status_code = None, pd_obligations = None\<rparr>"

definition sample_log_net :: "PolicyDecisionsResponse net" where
  "sample_log_net n r =
     Responded \<lparr>resp_status = 200, resp_error = None,
       resp_body = Json \<lparr>pdr_decisions =
         Some (if req_url r = ''/api/admin/security/policy-decisions?'' @ params_string (policy_query sample_query)
               then [sample_row] else []), pdr_mode = Some ''shadow''\<rparr>\<rparr>"

definition sample_summary_net :: "PolicySummaryResponse net" where
  "sample_summary_net n r = Responded \<lparr>resp_status = 200, resp_error = None, resp_body = JsonNull\<rparr>"

lemma sample_fetch:
  "fetchPolicyDecisions sample_log_net el q w =
    (Inr (if params_string (policy_query q) = params_string (policy_query sample_query)
          then [sample_row] else [], ''shadow''),
     w\<lparr>aw_browser := snd (fetch sample_log_net
        (api_request (aw_auth w) (getBaseUrl @ ''/api/admin/security/policy-decisions?''
           @ params_string (policy_query q)) no_options) (aw_browser w))\<rparr>)"
  by (simp add: fetchPolicyDecisions_def checked_def api_bind_def api_return_def json_def or_empty_def
      fetchWithAuth.simps fetch_def sample_log_net_def resp_ok_def api_request_def getBaseUrl_def)

lemma sample_serves: "serves_rows sample_log_net el sample_query [sample_row]"
proof -
  have "policy_query (sample_query\<lparr>pf_before_id := Some 5\<rparr>) \<noteq> policy_query sample_query"
    by (simp add: policy_query_eq sample_query_def opt_pair_def)
  then have "params_string (policy_query (sample_query\<lparr>pf_before_id := Some 5\<rparr>))
      \<noteq> params_string (policy_query sample_query)"
    by (metis params_parse_string)
  then show ?thesis
    by (simp add: serves_rows_def sample_fetch sample_row_def)
qed


end
