(* ===== verification/Policy_Race.thy ===== *)
theory Policy_Race
  imports Policy_Log Machines
begin

text \<open>
  The interleavings of \<open>src/src/composables/usePolicyDecisions.ts\<close>: \<open>load\<close> and \<open>loadOlder\<close> cut at their
  \<open>await\<close>, with the calls that are under way.  \<open>Policy_Log\<close> has the same operations in one piece; the
  pieces compose to them.

  The user edits the filters and starts calls at any time: the button that applies the filters, the
  one that resets them and the Enter key are not switched off while a call is under way.  A step is
  an edit, the start of a call, or the outcome of one.
\<close>

section \<open>The pieces\<close>

datatype log_call = Loading_log PolicyDecisionFilter | Loading_older PolicyDecisionFilter

text \<open>\<open>load\<close> up to its \<open>await\<close>: the call it waits for, if nothing threw before.\<close>

definition load_start :: "int \<Rightarrow> policy_log \<Rightarrow> log_call option \<times> policy_log" where
  "load_start now s =
     (let s1 = s\<lparr>pl_loading := True, pl_error := None\<rparr> in
      case toQuery (pl_filters s1) now of
        Inl e \<Rightarrow> (None, fail_with e s1)
      | Inr query \<Rightarrow>
          (case sinceFromPeriod (if df_period (pl_filters s1) = ''all'' then ''30d'' else df_period (pl_filters s1)) now of
             Inl e \<Rightarrow> (None, fail_with e s1)
           | Inr _ \<Rightarrow> (Some (Loading_log query), s1)))"

definition load_settle ::
    "js_error + ((PolicyDecisionRecord list \<times> string) \<times> PolicySummaryResponse option)
      \<Rightarrow> policy_log \<Rightarrow> policy_log" where
  "load_settle r s =
     (case r of
        Inl e \<Rightarrow> fail_with e s
      | Inr (page, summ) \<Rightarrow>
          s\<lparr>pl_decisions := fst page, pl_mode := snd page, pl_summary := summ,
            pl_exhausted := int (length (fst page)) < PAGE_SIZE, pl_loading := False\<rparr>)"

definition older_start :: "int \<Rightarrow> policy_log \<Rightarrow> log_call option \<times> policy_log" where
  "older_start now s =
     (case last_opt (pl_decisions s) of
        None \<Rightarrow> (None, s)
      | Some lst \<Rightarrow>
          if pl_exhausted s then (None, s)
          else
            (let s1 = s\<lparr>pl_loading := True, pl_error := None\<rparr> in
             case toQuery (pl_filters s1) now of
               Inl e \<Rightarrow> (None, fail_with e s1)
             | Inr query \<Rightarrow> (Some (Loading_older (query\<lparr>pf_before_id := Some (pd_id lst)\<rparr>)), s1)))"

text \<open>The rows are appended to the list as it is when the response arrives.\<close>

definition older_settle ::
    "js_error + (PolicyDecisionRecord list \<times> string) \<Rightarrow> policy_log \<Rightarrow> policy_log" where
  "older_settle r s =
     (case r of
        Inl e \<Rightarrow> fail_with e s
      | Inr page \<Rightarrow>
          s\<lparr>pl_decisions := pl_decisions s @ fst page,
            pl_exhausted := int (length (fst page)) < PAGE_SIZE, pl_loading := False\<rparr>)"

section \<open>The machine\<close>

record log_race =
  lr_log :: policy_log
  lr_calls :: "log_call list"

datatype race_action =
    Edits_filters DecisionFilters
  | Starts_load int
  | Starts_older int
  | Load_settles nat "js_error + ((PolicyDecisionRecord list \<times> string) \<times> PolicySummaryResponse option)"
  | Older_settles nat "js_error + (PolicyDecisionRecord list \<times> string)"

definition drop_call :: "nat \<Rightarrow> 'a list \<Rightarrow> 'a list" where
  "drop_call i xs = take i xs @ drop (Suc i) xs"

definition started :: "log_call option \<times> policy_log \<Rightarrow> log_race \<Rightarrow> log_race" where
  "started r x =
     x\<lparr>lr_log := snd r, lr_calls := lr_calls x @ (case fst r of Some c \<Rightarrow> [c] | None \<Rightarrow> [])\<rparr>"

fun race_act :: "race_action \<Rightarrow> log_race \<Rightarrow> log_race option" where
  "race_act (Edits_filters f) x = Some (x\<lparr>lr_log := (lr_log x)\<lparr>pl_filters := f\<rparr>\<rparr>)"
| "race_act (Starts_load now) x = Some (started (load_start now (lr_log x)) x)"
| "race_act (Starts_older now) x = Some (started (older_start now (lr_log x)) x)"
| "race_act (Load_settles i r) x =
     (if i < length (lr_calls x)
      then (case lr_calls x ! i of
              Loading_log _ \<Rightarrow>
                Some (x\<lparr>lr_log := load_settle r (lr_log x), lr_calls := drop_call i (lr_calls x)\<rparr>)
            | Loading_older _ \<Rightarrow> None)
      else None)"
| "race_act (Older_settles i r) x =
     (if i < length (lr_calls x)
      then (case lr_calls x ! i of
              Loading_older _ \<Rightarrow>
                Some (x\<lparr>lr_log := older_settle r (lr_log x), lr_calls := drop_call i (lr_calls x)\<rparr>)
            | Loading_log _ \<Rightarrow> None)
      else None)"

definition race_init :: log_race where
  "race_init = \<lparr>lr_log = policy_log_init, lr_calls = []\<rparr>"

section \<open>The pieces compose\<close>

text \<open>Also: an operation that nothing interrupts is its pieces, one after the other.\<close>

theorem load_is_its_pieces:
  "fst (load n1 n2 el summary_first now (s, w)) =
     (case load_start now s of
        (Some (Loading_log query), s1) \<Rightarrow>
          load_settle (fst (load_both n1 n2 el summary_first now query (df_period (pl_filters s)) w)) s1
      | (_, s1) \<Rightarrow> s1)"
  by (auto simp: load_def load_start_def load_settle_def load_both_def Let_def case_prod_beta
      split: sum.splits)

theorem older_is_its_pieces:
  "fst (loadOlder n1 el now (s, w)) =
     (case older_start now s of
        (Some (Loading_older query), s1) \<Rightarrow> older_settle (fst (fetchPolicyDecisions n1 el query w)) s1
      | (_, s1) \<Rightarrow> s1)"
  by (auto simp: loadOlder_def older_start_def older_settle_def Let_def case_prod_beta
      split: option.splits sum.splits)

section \<open>A page that waits\<close>

text \<open>The steps of a user who starts nothing while the page says that it is loading.\<close>

definition waits :: "race_action \<Rightarrow> log_race \<Rightarrow> bool" where
  "waits a x \<longleftrightarrow>
     (case a of Starts_load _ \<Rightarrow> \<not> pl_loading (lr_log x) | Starts_older _ \<Rightarrow> \<not> pl_loading (lr_log x) | _ \<Rightarrow> True)"

definition patient_step :: "log_race \<Rightarrow> log_race \<Rightarrow> bool" where
  "patient_step x y \<longleftrightarrow> (\<exists>a. waits a x \<and> race_act a x = Some y)"

definition busy_iff_waiting :: "log_race \<Rightarrow> bool" where
  "busy_iff_waiting x \<longleftrightarrow> length (lr_calls x) = (if pl_loading (lr_log x) then 1 else 0)"

lemma settled_idle:
  "\<not> pl_loading (load_settle r s)" "\<not> pl_loading (older_settle q s)"
  by (auto simp: load_settle_def older_settle_def fail_with_def split: sum.splits)

lemma started_busy:
  "\<not> pl_loading s \<Longrightarrow> pl_loading (snd (load_start now s)) = (fst (load_start now s) \<noteq> None)"
  "\<not> pl_loading s \<Longrightarrow> pl_loading (snd (older_start now s)) = (fst (older_start now s) \<noteq> None)"
  by (auto simp: load_start_def older_start_def fail_with_def Let_def split: sum.splits option.splits)

lemma busy_step:
  assumes "busy_iff_waiting x" "patient_step x y"
  shows "busy_iff_waiting y"
proof -
  obtain a where a: "waits a x" "race_act a x = Some y" using assms(2) by (auto simp: patient_step_def)
  have one: "length (drop_call i (lr_calls x)) = 0" if "i < length (lr_calls x)" for i
    using that assms(1) by (auto simp: drop_call_def busy_iff_waiting_def split: if_splits)
  show ?thesis
  proof (cases a)
    case (Starts_load now)
    then show ?thesis
      using a assms(1) started_busy(1) [of "lr_log x" now]
      by (auto simp: busy_iff_waiting_def started_def waits_def split: option.splits)
  next
    case (Starts_older now)
    then show ?thesis
      using a assms(1) started_busy(2) [of "lr_log x" now]
      by (auto simp: busy_iff_waiting_def started_def waits_def split: option.splits)
  qed (use a assms(1) one in \<open>auto simp: busy_iff_waiting_def settled_idle split: if_splits log_call.splits\<close>)
qed

interpretation patient_log: invariant_system "\<lambda>x. x = race_init" patient_step busy_iff_waiting
proof
  show "busy_iff_waiting x" if "x = race_init" for x
    using that by (simp add: busy_iff_waiting_def race_init_def policy_log_init_def)
  show "busy_iff_waiting y" if "busy_iff_waiting x" "patient_step x y" for x y
    using that by (rule busy_step)
qed

text \<open>C26: while every call is started on an idle page, the page says that it is loading exactly while
  its one call is under way, whatever the outcomes and the edits of the filters.\<close>

theorem loading_shows_the_call:
  assumes "reachable (\<lambda>x. x = race_init) patient_step x"
  shows "length (lr_calls x) = (if pl_loading (lr_log x) then 1 else 0)"
  using patient_log.reachable_inv [OF assms] by (simp add: busy_iff_waiting_def)

section \<open>A page that does not wait\<close>

text \<open>C17: new filters that are applied while older rows are being fetched give a list of two queries:
  when the new list arrives first, the page shows the new filters and says that it is done, and the
  rows of the old filters are then put below it.\<close>

theorem rows_of_two_filters:
  assumes "older_start now1 s = (Some c, s1)"
    and "load_start now2 (s1\<lparr>pl_filters := f\<rparr>) = (Some c2, s2)"
  shows "\<exists>x y. run race_act [Starts_older now1, Edits_filters f, Starts_load now2, Load_settles 1 (Inr ((rows2, md), summ))]
        \<lparr>lr_log = s, lr_calls = []\<rparr> = Some x
      \<and> \<not> pl_loading (lr_log x) \<and> lr_calls x = [c] \<and> pl_decisions (lr_log x) = rows2
      \<and> race_act (Older_settles 0 (Inr (rows1, md1))) x = Some y
      \<and> pl_decisions (lr_log y) = rows2 @ rows1 \<and> pl_filters (lr_log y) = f \<and> pl_error (lr_log y) = None"
proof -
  obtain q where c: "c = Loading_older q" "pl_error s1 = None"
    using assms(1) by (auto simp: older_start_def Let_def split: option.splits if_splits sum.splits)
  obtain q2 where c2: "c2 = Loading_log q2" "s2 = s1\<lparr>pl_filters := f, pl_loading := True, pl_error := None\<rparr>"
    using assms(2) by (auto simp: load_start_def Let_def split: sum.splits)
  show ?thesis
    using assms by (simp add: started_def c c2 drop_call_def load_settle_def older_settle_def)
qed

text \<open>A row of one search, and the filters of another.\<close>

lemma sample_starts:
  "toQuery (sample_filters\<lparr>df_outcome := Outcome_all\<rparr>) now = Inr (sample_query\<lparr>pf_allow := None\<rparr>)"
  by (simp add: toQuery_def sample_filters_def defaultFilters_def trim_abc Let_def sample_query_def PAGE_SIZE_def)

lemma sample_period: "df_period (sample_filters\<lparr>df_outcome := Outcome_all\<rparr>) = ''24h''"
  by (simp add: sample_filters_def defaultFilters_def)

lemma sample_since: "\<exists>t. sinceFromPeriod ''24h'' 0 = Inr t"
  by (simp add: sinceFromPeriod_def period_hours_def to_iso_def)

theorem loading_shows_the_call_witness:
  "\<exists>x. reachable (\<lambda>x. x = race_init) patient_step x \<and> length (lr_calls x) = 1"
proof -
  define x where "x = started (load_start 0 (lr_log race_init)) race_init"
  have "patient_step race_init x"
    unfolding patient_step_def
    by (rule exI [of _ "Starts_load 0"]) (simp add: waits_def race_init_def policy_log_init_def x_def)
  then have r: "reachable (\<lambda>x. x = race_init) patient_step x"
    using reachable_init by (rule reachable.step [rotated])
  obtain t where "sinceFromPeriod ''24h'' 0 = Inr t" using sample_since by blast
  then have "pl_loading (lr_log x)"
    by (simp add: x_def started_def load_start_def race_init_def policy_log_init_def defaultFilters_def
        toQuery_def trim_abc Let_def)
  then show ?thesis using loading_shows_the_call [OF r] r by auto
qed

theorem rows_of_two_filters_witness:
  "\<exists>s y. pl_filters s = sample_filters \<and> run race_act [Starts_older 0, Edits_filters (sample_filters\<lparr>df_outcome := Outcome_all\<rparr>),
        Starts_load 0, Load_settles 1 (Inr (([], ''off''), None)), Older_settles 0 (Inr ([sample_row], ''off''))]
        \<lparr>lr_log = s, lr_calls = []\<rparr> = Some y
      \<and> pl_decisions (lr_log y) = [sample_row] \<and> df_outcome (pl_filters (lr_log y)) = Outcome_all"
proof -
  define s where "s = policy_log_init\<lparr>pl_filters := sample_filters, pl_decisions := [sample_row]\<rparr>"
  define f where "f = sample_filters\<lparr>df_outcome := Outcome_all\<rparr>"
  obtain t where t: "sinceFromPeriod ''24h'' 0 = Inr t" using sample_since by blast
  obtain c s1 where o: "older_start 0 s = (Some c, s1)"
    by (simp add: older_start_def s_def sample_toQuery policy_log_init_def last_opt_def Let_def)
  obtain c2 s2 where l: "load_start 0 (s1\<lparr>pl_filters := f\<rparr>) = (Some c2, s2)"
    using t by (simp add: load_start_def f_def sample_starts Let_def sample_period)
  obtain x y where "run race_act [Starts_older 0, Edits_filters f, Starts_load 0, Load_settles 1 (Inr (([], ''off''), None))]
        \<lparr>lr_log = s, lr_calls = []\<rparr> = Some x"
    "race_act (Older_settles 0 (Inr ([sample_row], ''off''))) x = Some y"
    "pl_decisions (lr_log y) = [] @ [sample_row]" "pl_filters (lr_log y) = f"
    using rows_of_two_filters [OF o l, of "[]" "''off''" None "[sample_row]" "''off''"] by blast
  then have "run race_act ([Starts_older 0, Edits_filters f, Starts_load 0, Load_settles 1 (Inr (([], ''off''), None))]
        @ [Older_settles 0 (Inr ([sample_row], ''off''))]) \<lparr>lr_log = s, lr_calls = []\<rparr> = Some y"
    by (simp only: run_append) simp
  moreover have "df_outcome f = Outcome_all" "pl_filters s = sample_filters" by (simp_all add: f_def s_def)
  ultimately show ?thesis
    using \<open>pl_decisions (lr_log y) = [] @ [sample_row]\<close> \<open>pl_filters (lr_log y) = f\<close>
    unfolding f_def by (intro exI [of _ s] exI [of _ y]) simp
qed

end
