(* ===== verification/Refinement.thy ===== *)
theory Refinement
  imports Machines
begin

text \<open>
  Refinement of an abstract machine by a detailed one that is deterministic and may refuse actions:
  an abstraction function that commutes with every step from a state of the invariant.  Then what
  any run of the detailed machine reaches is, seen through the abstraction, what the abstract
  machine reaches by the same actions.
\<close>

locale forward_simulation =
  fixes init :: 's
    and act :: "'a \<Rightarrow> 's \<Rightarrow> 's option"
    and inv :: "'s \<Rightarrow> bool"
    and abs :: "'s \<Rightarrow> 't"
    and spec_init :: 't
    and spec_act :: "'a \<Rightarrow> 't \<Rightarrow> 't"
  assumes inv_init: "inv init"
    and inv_act: "inv s \<Longrightarrow> act a s = Some t \<Longrightarrow> inv t"
    and abs_init: "abs init = spec_init"
    and abs_act: "inv s \<Longrightarrow> act a s = Some t \<Longrightarrow> abs t = spec_act a (abs s)"
begin

lemma run_from_simulated:
  "run act as s = Some t \<Longrightarrow> inv s \<Longrightarrow> inv t \<and> abs t = fold spec_act as (abs s)"
proof (induction as arbitrary: s)
  case (Cons a as)
  then obtain u where "act a s = Some u" "run act as u = Some t" by (auto split: option.splits)
  then show ?case using Cons.IH [of u] Cons.prems(2) by (simp add: inv_act abs_act)
qed simp

lemma run_simulated: "run act as init = Some t \<Longrightarrow> inv t \<and> abs t = fold spec_act as spec_init"
  using run_from_simulated [of as init t] inv_init by (simp add: abs_init)

end

end
