(* ===== verification/Step_Up_Spec.thy ===== *)
theory Step_Up_Spec
  imports Step_Up Refinement
begin

text \<open>
  What the step-up store promises, without promises and resolvers: elevations happen in rounds.  A
  call opens a round or joins the open one; a round ends by success or by cancellation, and all who
  joined it get its result.  The store and its dialog refine this machine of rounds.
\<close>

record rounds =
  rd_open :: bool
  rd_results :: "promise list"

definition rounds_init :: rounds where
  "rounds_init = \<lparr>rd_open = False, rd_results = []\<rparr>"

definition end_round :: "promise \<Rightarrow> rounds \<Rightarrow> rounds" where
  "end_round v r = (if rd_open r then \<lparr>rd_open = False, rd_results = rd_results r @ [v]\<rparr> else r)"

text \<open>Typing, confirming and a failed elevation leave the round open.\<close>

definition rounds_act :: "su_action \<Rightarrow> rounds \<Rightarrow> rounds" where
  "rounds_act a r =
     (case a of
        Ask \<Rightarrow> r\<lparr>rd_open := True\<rparr>
      | Elevation_settles (Inr _) \<Rightarrow> end_round Resolved r
      | Click_cancel \<Rightarrow> end_round (Rejected_with (Error ''step-up cancelled'')) r
      | _ \<Rightarrow> r)"

section \<open>The abstraction\<close>

definition rounds_of :: "step_up \<Rightarrow> rounds" where
  "rounds_of s =
     \<lparr>rd_open = su_visible s,
      rd_results = (case su_pending s of None \<Rightarrow> su_promises s | Some _ \<Rightarrow> butlast (su_promises s))\<rparr>"

text \<open>The pending promise is the youngest.\<close>

definition su_youngest :: "step_up \<Rightarrow> bool" where
  "su_youngest s \<longleftrightarrow> su_inv s \<and> (\<forall>p. su_pending s = Some p \<longrightarrow> length (su_promises s) = Suc p)"

lemma update_youngest: "length xs = Suc p \<Longrightarrow> xs[p := v] = butlast xs @ [v]"
  by (cases xs rule: rev_cases) auto

lemma rounds_request:
  assumes "su_youngest s"
  shows "su_youngest (snd (su_request s)) \<and> rounds_of (snd (su_request s)) = (rounds_of s)\<lparr>rd_open := True\<rparr>
    \<and> fst (su_request s) = length (rd_results (rounds_of s))"
  using assms su_inv_request [of s]
  by (auto simp: su_youngest_def su_request_def rounds_of_def su_inv_def Let_def split: option.splits)

lemma ended_pending: "su_pending (su_complete s) = None" "su_pending (su_cancel s) = None"
  by (simp_all add: su_complete_def su_cancel_def su_reset_def Let_def)

lemma rounds_ended:
  assumes "su_youngest s"
  shows "su_youngest (su_complete s) \<and> rounds_of (su_complete s) = end_round Resolved (rounds_of s)"
    and "su_youngest (su_cancel s)
      \<and> rounds_of (su_cancel s) = end_round (Rejected_with (Error ''step-up cancelled'')) (rounds_of s)"
  using assms
  by (auto simp: su_youngest_def su_inv_ops ended_pending rounds_of_def end_round_def closed_after
      promises_complete promises_cancel update_youngest su_inv_def [of s] split: option.splits)

interpretation step_up_rounds: forward_simulation su_sys_init su_act "\<lambda>x. su_youngest (sys_store x)"
  "\<lambda>x. rounds_of (sys_store x)" rounds_init rounds_act
proof
  show "su_youngest (sys_store su_sys_init)"
    by (simp add: su_youngest_def su_sys_init_def) (simp add: step_up_init_def)
  show "rounds_of (sys_store su_sys_init) = rounds_init"
    by (simp add: rounds_of_def su_sys_init_def step_up_init_def rounds_init_def)
next
  fix x y a
  assume "su_youngest (sys_store x)" "su_act a x = Some y"
  then have "su_youngest (sys_store y) \<and> rounds_of (sys_store y) = rounds_act a (rounds_of (sys_store x))"
    using su_act_store [of a x y] rounds_request rounds_ended
    by (simp add: rounds_act_def split: su_action.splits sum.splits)
  then show "su_youngest (sys_store y)" "rounds_of (sys_store y) = rounds_act a (rounds_of (sys_store x))"
    by blast+
qed

text \<open>C9: the store and its dialog implement rounds: after every possible sequence of actions the
  dialog is open exactly while a round is, the promises of the ended rounds have settled with the
  results of the rounds, in their order, and a call that asks now gets the promise with the number
  of the open round, or of the next one.\<close>

theorem step_up_refines_rounds:
  assumes "run su_act acts su_sys_init = Some x"
  shows "rounds_of (sys_store x) = fold rounds_act acts rounds_init
    \<and> su_visible (sys_store x) = rd_open (fold rounds_act acts rounds_init)
    \<and> fst (su_request (sys_store x)) = length (rd_results (fold rounds_act acts rounds_init))
    \<and> su_waiting (sys_store x)
        = (if rd_open (fold rounds_act acts rounds_init)
           then {length (rd_results (fold rounds_act acts rounds_init))} else {})"
proof -
  have y: "su_youngest (sys_store x)" and sim: "rounds_of (sys_store x) = fold rounds_act acts rounds_init"
    using step_up_rounds.run_simulated [OF assms] by simp_all
  have inv: "su_inv (sys_store x)" using y by (simp add: su_youngest_def)
  have "su_waiting (sys_store x)
      = (if su_visible (sys_store x) then {length (rd_results (rounds_of (sys_store x)))} else {})"
    using y by (auto simp: su_waiting_pending [OF inv] su_youngest_def su_inv_def rounds_of_def split: option.splits)
  then show ?thesis
    using sim rounds_request [OF y] by (metis rounds.select_convs(1) rounds_of_def)
qed

theorem step_up_refines_rounds_witness:
  "su_promises (sys_store (the (run su_act [Ask, Ask, Click_cancel, Ask] su_sys_init)))
    = [Rejected_with (Error ''step-up cancelled''), Pending]
   \<and> rd_results (fold rounds_act [Ask, Ask, Click_cancel, Ask] rounds_init)
    = [Rejected_with (Error ''step-up cancelled'')]"
proof -
  obtain x where x: "run su_act [Ask, Ask, Click_cancel, Ask] su_sys_init = Some x"
    "su_promises (sys_store x) = [Rejected_with (Error ''step-up cancelled''), Pending]"
    by (simp add: su_ask_def su_sys_init_def step_up_init_def dialog_init_def on_visible_def
        su_defs Let_def)
  from step_up_refines_rounds [OF x(1)] x(2) x(1) show ?thesis
    by (simp add: rounds_act_def end_round_def rounds_init_def)
qed

end
