(* ===== verification/Date_Parse.thy ===== *)
theory Date_Parse
  imports Js_Date
begin

text \<open>
  Reading a date: \<open>new Date(s)\<close> and \<open>Date.parse(s)\<close> on the texts that the server sends.  The language
  fixes the meaning of its own format (a calendar date, and optionally a time with \<open>Z\<close>, an offset,
  or neither, which is local time); what any other text means is up to the engine.  The local offset
  and the engine's reading of other texts are the parameter \<open>engine\<close>; \<open>None\<close> is an invalid date.
  Comparisons with an invalid date are false.
\<close>

record engine =
  en_local :: "int \<Rightarrow> int"
  en_other :: "string \<Rightarrow> int option"

text \<open>A number of exactly \<open>k\<close> digits at the front, and what follows.\<close>

definition digits_at :: "nat \<Rightarrow> string \<Rightarrow> (int \<times> string) option" where
  "digits_at k s =
     (if k \<le> length s \<and> (\<forall>c \<in> set (take k s). is_digit c)
      then Some (int (read_digits (take k s)), drop k s) else None)"

definition after_char :: "char \<Rightarrow> string \<Rightarrow> string option" where
  "after_char c s = (case s of [] \<Rightarrow> None | x # xs \<Rightarrow> if x = c then Some xs else None)"

definition parse_year :: "string \<Rightarrow> (int \<times> string) option" where
  "parse_year s =
     (case s of
        [] \<Rightarrow> None
      | c # cs \<Rightarrow>
          if c = CHR ''+'' then digits_at 6 cs
          else if c = CHR ''-'' then
            (case digits_at 6 cs of
               Some (y, rest) \<Rightarrow> if y = 0 then None else Some (- y, rest)
             | None \<Rightarrow> None)
          else digits_at 4 s)"

definition month_days :: "int \<Rightarrow> int \<Rightarrow> int" where
  "month_days y m =
     (if m = 2 then (if y mod 4 = 0 \<and> (y mod 100 \<noteq> 0 \<or> y mod 400 = 0) then 29 else 28)
      else if m \<in> {4, 6, 9, 11} then 30 else 31)"

text \<open>The optional \<open>-MM\<close> and \<open>-DD\<close>.\<close>

definition parse_part :: "string \<Rightarrow> (int \<times> string) option" where
  "parse_part s = (case after_char (CHR ''-'') s of None \<Rightarrow> Some (1, s) | Some t \<Rightarrow> digits_at 2 t)"

definition parse_day :: "string \<Rightarrow> (int \<times> string) option" where
  "parse_day s =
     (case parse_year s of
        None \<Rightarrow> None
      | Some (y, s1) \<Rightarrow>
          (case parse_part s1 of
             None \<Rightarrow> None
           | Some (m, s2) \<Rightarrow>
               (case (if s2 = s1 then Some (1, s2) else parse_part s2) of
                  None \<Rightarrow> None
                | Some (d, s3) \<Rightarrow>
                    if 1 \<le> m \<and> m \<le> 12 \<and> 1 \<le> d \<and> d \<le> month_days y m
                    then Some (day_of_civil (y, m, d), s3) else None)))"

text \<open>\<open>HH:mm\<close>, then optionally \<open>:ss\<close> and \<open>.sss\<close>; \<open>24:00:00.000\<close> is the end of the day.\<close>

definition parse_time :: "string \<Rightarrow> (int \<times> string) option" where
  "parse_time s =
     (case digits_at 2 s of
        None \<Rightarrow> None
      | Some (h, s1) \<Rightarrow>
          (case Option.bind (after_char (CHR '':'') s1) (digits_at 2) of
             None \<Rightarrow> None
           | Some (mi, s2) \<Rightarrow>
               (case (case after_char (CHR '':'') s2 of
                        None \<Rightarrow> Some (0, 0, s2)
                      | Some t \<Rightarrow>
                          (case digits_at 2 t of
                             None \<Rightarrow> None
                           | Some (sec, s3) \<Rightarrow>
                               (case after_char (CHR ''.'') s3 of
                                  None \<Rightarrow> Some (sec, 0, s3)
                                | Some u \<Rightarrow>
                                    (case digits_at 3 u of
                                       None \<Rightarrow> None
                                     | Some (ms, s4) \<Rightarrow> Some (sec, ms, s4))))) of
                  None \<Rightarrow> None
                | Some (sec, ms, rest) \<Rightarrow>
                    if mi \<le> 59 \<and> sec \<le> 59 \<and> (h \<le> 23 \<or> h = 24 \<and> mi = 0 \<and> sec = 0 \<and> ms = 0)
                    then Some (h * 3600000 + mi * 60000 + sec * 1000 + ms, rest) else None)))"

datatype zone = Zulu | Offset int | Local_time

definition parse_zone :: "string \<Rightarrow> zone option" where
  "parse_zone s =
     (if s = [] then Some Local_time
      else if s = ''Z'' then Some Zulu
      else (let hm = (\<lambda>t. case digits_at 2 t of
                        None \<Rightarrow> None
                      | Some (h, t1) \<Rightarrow>
                          (case Option.bind (after_char (CHR '':'') t1) (digits_at 2) of
                             Some (m, t2) \<Rightarrow>
                               if t2 = [] \<and> h \<le> 23 \<and> m \<le> 59 then Some ((h * 60 + m) * 60000) else None
                           | None \<Rightarrow> None))
            in case s of
                 c # cs \<Rightarrow>
                   if c = CHR ''+'' then map_option Offset (hm cs)
                   else if c = CHR ''-'' then map_option (\<lambda>n. Offset (- n)) (hm cs)
                   else None
               | [] \<Rightarrow> None))"

text \<open>The instant in the language's own format, if the text is in it.\<close>

definition parse_format :: "(int \<Rightarrow> int) \<Rightarrow> string \<Rightarrow> int option" where
  "parse_format local s =
     (case parse_day s of
        None \<Rightarrow> None
      | Some (day, rest) \<Rightarrow>
          if rest = [] then Some (day * 86400000)
          else
            (case Option.bind (after_char (CHR ''T'') rest) parse_time of
               None \<Rightarrow> None
             | Some (ms, z) \<Rightarrow>
                 (let t = day * 86400000 + ms in
                  case parse_zone z of
                    None \<Rightarrow> None
                  | Some Zulu \<Rightarrow> Some t
                  | Some (Offset n) \<Rightarrow> Some (t - n)
                  | Some Local_time \<Rightarrow> Some (t - local t))))"

text \<open>\<open>Date.parse\<close>, with the largest time value.\<close>

definition date_parse :: "engine \<Rightarrow> string \<Rightarrow> int option" where
  "date_parse eng s =
     (case (case parse_format (en_local eng) s of Some t \<Rightarrow> Some t | None \<Rightarrow> en_other eng s) of
        Some t \<Rightarrow> if \<bar>t\<bar> \<le> 8640000000000000 then Some t else None
      | None \<Rightarrow> None)"

definition plain_engine :: engine where
  "plain_engine = \<lparr>en_local = (\<lambda>_. 0), en_other = (\<lambda>_. None)\<rparr>"

lemma date_parse_samples:
  "date_parse plain_engine ''2024-01-15T10:30:00Z'' = Some 1705314600000"
  "date_parse plain_engine ''2024-01-15T12:30:00+02:00'' = Some 1705314600000"
  "date_parse plain_engine ''2024-02-30'' = None"
  "date_parse plain_engine ''soon'' = None"
  by code_simp+

section \<open>The formatting library\<close>

text \<open>\<open>date-fns\<close> is not part of the repository: \<open>format(date, pattern)\<close> and
  \<open>formatDistanceToNow(date, { addSuffix: true })\<close> are parameters.  Both throw on an invalid date.\<close>

record date_lib =
  dl_format :: "int option \<Rightarrow> string \<Rightarrow> js_error + string"
  dl_distance :: "int option \<Rightarrow> int \<Rightarrow> js_error + string"

end
