(* ===== verification/Screen.thy ===== *)
theory Screen
  imports Api_Client
begin

text \<open>
  What the pages (\<open>src/src/views\<close>) have in common.  A page keeps local state (its \<open>ref\<close>s, a record
  \<open>'v\<close>), works on the shared world of the stores and the window, and tells the user what happened
  by toasts.  A handler is a function on the screen.

  \<open>await\<close> inside \<open>try\<close> is \<open>try_await\<close>: the rest of the block on success, the \<open>catch\<close> block on a
  throw.  A call that a handler does not await runs after the handler that started it: none of these
  reads or writes what the rest of the handler touches.  The calls of a \<open>Promise.all\<close> all run; the
  first to fail decides.

  The server is one typed answer function per operation; the parameter \<open>el\<close> is the elevation, as in
  the API layer.
\<close>

record server =
  srv_stats :: "DashboardStats net"
  srv_activity :: "ActivityResponse net"
  srv_trends :: "LoginTrendsResponse net"
  srv_health :: "SystemHealth net"
  srv_events :: "SecurityEventsResponse net"
  srv_threats :: "ThreatMetrics net"
  srv_sessions :: "SessionsResponse net"
  srv_tokens :: "TokenStats net"
  srv_integrity :: "AuditIntegrity net"
  srv_geo :: "GeoAnalytics net"
  srv_rules :: "AlertRulesResponse net"
  srv_rule :: "AlertRule net"
  srv_alerts :: "AlertHistoryResponse net"
  srv_blocked :: "BlockedIPsResponse net"
  srv_block :: "BlockedIP net"
  srv_reputation :: "IPReputation net"
  srv_report :: "ReportStatus net"
  srv_logs :: "AdminAuditLogsResponse net"
  srv_plain :: "unit net"

section \<open>Screens and toasts\<close>

record toast =
  to_severity :: string
  to_summary :: string
  to_detail :: string
  to_life :: int

record 'v screen =
  sc_world :: api_world
  sc_toasts :: "toast list"
  sc_view :: 'v

text \<open>A coloured label: its text and its severity.\<close>

record tag =
  tag_value :: string
  tag_severity :: string

text \<open>An entry of a selection list, and the value of a number field, which is \<open>null\<close> when it has been
  emptied.\<close>

record select_option =
  so_label :: string
  so_value :: string

definition number_or_null :: "int option \<Rightarrow> jval" where
  "number_or_null n = (case n of Some k \<Rightarrow> JNum k | None \<Rightarrow> JNull)"

text \<open>\<open>toLowerCase\<close> on a letter of ASCII.\<close>

definition lower_char :: "char \<Rightarrow> char" where
  "lower_char c =
     (if 65 \<le> (of_char c :: nat) \<and> (of_char c :: nat) \<le> 90 then char_of ((of_char c :: nat) + 32) else c)"

text \<open>The paginator counts pages from zero, the server from one.\<close>

record page_event =
  pe_page :: int
  pe_rows :: int

definition toast_add :: "string \<Rightarrow> string \<Rightarrow> string \<Rightarrow> int \<Rightarrow> 'v screen \<Rightarrow> 'v screen" where
  "toast_add severity summary detail life s =
     s\<lparr>sc_toasts := sc_toasts s @ [\<lparr>to_severity = severity, to_summary = summary,
         to_detail = detail, to_life = life\<rparr>]\<rparr>"

abbreviation toast_error :: "string \<Rightarrow> 'v screen \<Rightarrow> 'v screen" where
  "toast_error detail \<equiv> toast_add ''error'' ''Error'' detail 3000"

abbreviation toast_success :: "string \<Rightarrow> 'v screen \<Rightarrow> 'v screen" where
  "toast_success detail \<equiv> toast_add ''success'' ''Success'' detail 3000"

definition on_view :: "('v \<Rightarrow> 'v) \<Rightarrow> 'v screen \<Rightarrow> 'v screen" where
  "on_view f s = s\<lparr>sc_view := f (sc_view s)\<rparr>"

abbreviation sc_store :: "'v screen \<Rightarrow> monitor_state" where
  "sc_store s \<equiv> aw_monitor (sc_world s)"

lemma screen_simps [simp]:
  "sc_world (toast_add a b c d s) = sc_world s"
  "sc_view (toast_add a b c d s) = sc_view s"
  "sc_toasts (toast_add a b c d s) = sc_toasts s @ [\<lparr>to_severity = a, to_summary = b, to_detail = c, to_life = d\<rparr>]"
  "sc_world (on_view f s) = sc_world s"
  "sc_toasts (on_view f s) = sc_toasts s"
  "sc_view (on_view f s) = f (sc_view s)"
  by (simp_all add: toast_add_def on_view_def)

section \<open>Waiting for calls\<close>

definition try_await ::
    "'a api \<Rightarrow> ('a \<Rightarrow> 'v screen \<Rightarrow> 'v screen) \<Rightarrow> ('v screen \<Rightarrow> 'v screen) \<Rightarrow> 'v screen \<Rightarrow> 'v screen" where
  "try_await m ok catch s =
     (case m (sc_world s) of
        (Inl _, w) \<Rightarrow> catch (s\<lparr>sc_world := w\<rparr>)
      | (Inr x, w) \<Rightarrow> ok x (s\<lparr>sc_world := w\<rparr>))"

definition api_void :: "'a api \<Rightarrow> unit api" where
  "api_void m = api_bind m (\<lambda>_. api_return ())"

primrec promise_all :: "'a api list \<Rightarrow> 'a list api" where
  "promise_all [] = api_return []"
| "promise_all (m # ms) =
     (\<lambda>w. case m w of
        (r, w1) \<Rightarrow>
          (case promise_all ms w1 of
             (rs, w2) \<Rightarrow>
               (case r of
                  Inl e \<Rightarrow> (Inl e, w2)
                | Inr x \<Rightarrow> (case rs of Inl e \<Rightarrow> (Inl e, w2) | Inr xs \<Rightarrow> (Inr (x # xs), w2)))))"

text \<open>The loader of a page: fetch into the store, or tell the user.\<close>

definition load_or_toast :: "'a api \<Rightarrow> string \<Rightarrow> 'v screen \<Rightarrow> 'v screen" where
  "load_or_toast m detail = try_await m (\<lambda>_ s. s) (toast_error detail)"

lemma load_or_toast_view [simp]: "sc_view (load_or_toast m detail s) = sc_view s"
  by (simp add: load_or_toast_def try_await_def split: prod.splits sum.splits)

lemma load_or_toast_world [simp]: "sc_world (load_or_toast m detail s) = snd (m (sc_world s))"
  by (simp add: load_or_toast_def try_await_def split: prod.splits sum.splits)

lemma load_or_toast_toasts:
  "sc_toasts (load_or_toast m detail s) = sc_toasts s @
     (case fst (m (sc_world s)) of
        Inl _ \<Rightarrow> [\<lparr>to_severity = ''error'', to_summary = ''Error'', to_detail = detail, to_life = 3000\<rparr>]
      | Inr _ \<Rightarrow> [])"
  by (simp add: load_or_toast_def try_await_def split: prod.splits sum.splits)

text \<open>A loader reports a failure exactly once and then leaves the data of the console as it was.\<close>

definition reports_failure :: "string \<Rightarrow> ('v screen \<Rightarrow> 'v screen) \<Rightarrow> bool" where
  "reports_failure detail load \<longleftrightarrow>
     (\<forall>s. sc_view (load s) = sc_view s \<and>
        (sc_toasts (load s) = sc_toasts s
         \<or> sc_toasts (load s) = sc_toasts s @
             [\<lparr>to_severity = ''error'', to_summary = ''Error'', to_detail = detail, to_life = 3000\<rparr>]
           \<and> data_of (sc_store (load s)) = data_of (sc_store s)))"

lemma reports_failure_load:
  "error_safe m \<Longrightarrow> reports_failure detail (load_or_toast m detail)"
  unfolding reports_failure_def error_safe_def load_or_toast_def try_await_def
  by (auto split: prod.splits sum.splits)

section \<open>Accepted calls\<close>

text \<open>A server that accepts every request.\<close>

definition accepts :: "'b net \<Rightarrow> bool" where
  "accepts net \<longleftrightarrow> (\<forall>n r. \<exists>resp. net n r = Responded resp \<and> resp_ok resp)"

lemma accepted_fetch:
  assumes "accepts net"
  shows "\<exists>resp. fetchWithAuth net el url opts False w = (Inr resp, after_first net url opts w) \<and> resp_ok resp"
proof -
  obtain resp where "net (length (br_sent (aw_browser w))) (api_request (aw_auth w) url opts) = Responded resp"
    "resp_ok resp"
    using assms by (auto simp: accepts_def)
  then show ?thesis by (auto simp: fetchWithAuth_first resp_ok_def)
qed

lemma accepted_checked:
  assumes "accepts net"
  shows "\<exists>resp. checked net el url opts err w = (Inr resp, after_first net url opts w)"
  using accepted_fetch [OF assms, of el url opts w]
  by (auto simp: checked_def api_bind_def api_return_def)

lemma after_first_parts [simp]:
  "aw_auth (after_first net url opts w) = aw_auth w"
  "aw_monitor (after_first net url opts w) = aw_monitor w"
  "aw_stepUp (after_first net url opts w) = aw_stepUp w"
  "br_sent (aw_browser (after_first net url opts w))
    = br_sent (aw_browser w) @ [api_request (aw_auth w) url opts]"
  by (simp_all add: after_first_def fetch_def)

lemma snd_json [simp]: "snd (json r w) = w"
  by (simp add: json_def api_throw_def api_return_def split: body.splits)

lemma snd_api_bind:
  "snd (api_bind m f w) = (case fst (m w) of Inl _ \<Rightarrow> snd (m w) | Inr x \<Rightarrow> snd (f x (snd (m w))))"
  by (simp add: api_bind_def case_prod_beta split: sum.splits)

text \<open>A server that answers every request with the same body.\<close>

definition replies :: "'b net \<Rightarrow> 'b \<Rightarrow> bool" where
  "replies net d \<longleftrightarrow> (\<forall>n r. \<exists>resp. net n r = Responded resp \<and> resp_ok resp \<and> resp_body resp = Json d)"

lemma replies_accepts: "replies net d \<Longrightarrow> accepts net"
  unfolding replies_def accepts_def by blast

lemma replied_call:
  assumes "replies net d" "use (Some d) (after_first net url opts w) = (Inr (), w1)"
  shows "call_json net el url opts err use w = (Inr (Some d), w1)"
proof -
  obtain resp where "fetchWithAuth net el url opts False w = (Inr resp, after_first net url opts w)"
    "resp_ok resp" "resp_body resp = Json d"
  proof -
    obtain resp where "net (length (br_sent (aw_browser w))) (api_request (aw_auth w) url opts) = Responded resp"
      "resp_ok resp" "resp_body resp = Json d"
      using assms(1) by (auto simp: replies_def)
    then show ?thesis by (intro that [of resp]) (auto simp: fetchWithAuth_first resp_ok_def)
  qed
  then show ?thesis
    by (simp add: call_json_def checked_def api_bind_def api_return_def json_def assms(2))
qed

text \<open>A loading call on an accepting server sends its one request, whatever becomes of the body.\<close>

lemma accepted_load_sends:
  assumes "accepts net" "\<And>d w. br_sent (aw_browser (snd (use d w))) = br_sent (aw_browser w)"
  shows "br_sent (aw_browser (snd (with_loading key (call_json net el url opts err use) w)))
    = br_sent (aw_browser w) @ [api_request (aw_auth w) url opts]"
proof -
  define w0 where "w0 = on_monitor (setLoading key True) w"
  obtain resp where c: "checked net el url opts err w0 = (Inr resp, after_first net url opts w0)"
    using accepted_checked [OF assms(1)] by blast
  have "br_sent (aw_browser (snd (call_json net el url opts err use w0)))
      = br_sent (aw_browser (after_first net url opts w0))"
    using assms(2)
    by (simp add: call_json_def snd_api_bind c api_return_def split: sum.splits)
  then show ?thesis
    by (simp add: with_loading_def api_finally_def case_prod_beta on_monitor_def w0_def)
qed

lemma uses_send_nothing:
  "br_sent (aw_browser (snd (members f d w))) = br_sent (aw_browser w)"
  "br_sent (aw_browser (snd (whole f g d w))) = br_sent (aw_browser w)"
  by (simp_all add: members_def whole_def store_def api_throw_def on_monitor_def split: option.splits)

lemma accepted_load_auth:
  assumes "accepts net" "\<And>d w. aw_auth (snd (use d w)) = aw_auth w"
  shows "aw_auth (snd (with_loading key (call_json net el url opts err use) w)) = aw_auth w"
proof -
  define w0 where "w0 = on_monitor (setLoading key True) w"
  obtain resp where c: "checked net el url opts err w0 = (Inr resp, after_first net url opts w0)"
    using accepted_checked [OF assms(1)] by blast
  have "aw_auth (snd (call_json net el url opts err use w0)) = aw_auth w0"
    using assms(2) by (simp add: call_json_def snd_api_bind c api_return_def split: sum.splits)
  then show ?thesis
    by (simp add: with_loading_def api_finally_def case_prod_beta on_monitor_def w0_def)
qed

lemma uses_keep_auth:
  "aw_auth (snd (members f d w)) = aw_auth w"
  "aw_auth (snd (whole f g d w)) = aw_auth w"
  by (simp_all add: members_def whole_def store_def api_throw_def on_monitor_def split: option.splits)

lemma snd_promise_all [simp]:
  "snd (promise_all [] w) = w"
  "snd (promise_all (m # ms) w) = snd (promise_all ms (snd (m w)))"
  by (simp_all add: api_return_def split: prod.splits sum.splits)

lemma snd_api_void [simp]: "snd (api_void m w) = snd (m w)"
  by (simp add: api_void_def snd_api_bind api_return_def split: sum.splits)

section \<open>Every call sends\<close>

text \<open>The number of requests sent so far, which is the number of the next one.\<close>

definition sent_count :: "api_world \<Rightarrow> nat" where
  "sent_count w = length (br_sent (aw_browser w))"

text \<open>What happens during an elevation may send requests and takes none back.\<close>

definition el_monotone :: "elevator \<Rightarrow> bool" where
  "el_monotone el \<longleftrightarrow> (\<forall>p w. sent_count w \<le> sent_count (snd (el p w)))"

lemma sent_count_parts [simp]:
  "sent_count (w\<lparr>aw_auth := a\<rparr>) = sent_count w"
  "sent_count (w\<lparr>aw_stepUp := su\<rparr>) = sent_count w"
  "sent_count (w\<lparr>aw_monitor := mo\<rparr>) = sent_count w"
  "sent_count (on_monitor f w) = sent_count w"
  "sent_count (w\<lparr>aw_browser := login rt b\<rparr>) = sent_count (w\<lparr>aw_browser := b\<rparr>)"
  "sent_count (w\<lparr>aw_auth := a, aw_browser := login rt b\<rparr>) = sent_count (w\<lparr>aw_browser := b\<rparr>)"
  "sent_count (after_first net url opts w) = Suc (sent_count w)"
  by (simp_all add: sent_count_def login_def assign_location_def Let_def on_monitor_def)

lemma sent_count_browser: "sent_count (w\<lparr>aw_browser := aw_browser v\<rparr>) = sent_count v"
  by (simp add: sent_count_def)

lemma elevated_fetch:
  "sent_count (snd (fetchWithAuth net el url opts True w)) = Suc (sent_count w)"
  "fetchWithAuth net el url opts True w = (Inr r, w1) \<Longrightarrow> \<exists>q. net (sent_count w) q = Responded r"
  by (subst fetchWithAuth.simps, simp add: Let_def case_prod_beta sent_count_def fetch_def login_def
        assign_location_def split: fetch_outcome.splits)
    (subst (asm) fetchWithAuth.simps, auto simp: Let_def case_prod_beta sent_count_def
        split: fetch_outcome.splits if_splits)

lemma asked_sent:
  "el_monotone el \<Longrightarrow> sent_count w \<le> sent_count (snd (asked_elevation el w))"
  by (metis asked_elevation_def el_monotone_def sent_count_parts(2))

lemma fetch_sends:
  assumes "el_monotone el"
  shows "sent_count w < sent_count (snd (fetchWithAuth net el url opts False w))"
proof -
  have "Suc (sent_count w) \<le> sent_count (snd (asked_elevation el (after_first net url opts w)))"
    using asked_sent [OF assms, of "after_first net url opts w"] by simp
  then show ?thesis
    by (auto simp: fetchWithAuth_first sent_count_browser elevated_fetch(1)
        split: fetch_outcome.splits prod.splits sum.splits)
qed

lemma fetch_answer:
  assumes "el_monotone el" "fetchWithAuth net el url opts False w = (Inr r, w1)"
  shows "\<exists>n q. sent_count w \<le> n \<and> net n q = Responded r"
proof (cases "net (sent_count w) (api_request (aw_auth w) url opts)")
  case (Rejected e)
  then show ?thesis using assms(2) by (simp add: fetchWithAuth_first sent_count_def)
next
  case (Responded x)
  show ?thesis
  proof (cases "resp_status x = 403 \<and> elevation_required x")
    case True
    obtain u w2 where w2: "asked_elevation el (after_first net url opts w) = (Inr u, w2)"
      "fetchWithAuth net el url opts True w2 = (Inr r, w1)"
      using assms(2) True Responded
      by (auto simp: fetchWithAuth_first sent_count_def split: prod.splits sum.splits)
    have "Suc (sent_count w) \<le> sent_count w2"
      using asked_sent [OF assms(1), of "after_first net url opts w"] w2(1) by simp
    then show ?thesis using elevated_fetch(2) [OF w2(2)] Suc_leD by blast
  next
    case False
    then have "x = r"
      using assms(2) Responded by (auto simp: fetchWithAuth_first sent_count_def split: if_splits)
    then show ?thesis using Responded by blast
  qed
qed

lemma checked_sends:
  "el_monotone el \<Longrightarrow> sent_count w < sent_count (snd (checked net el url opts err w))"
  using fetch_sends [of el w net url opts]
  by (simp add: checked_def snd_api_bind api_throw_def api_return_def split: sum.splits)

lemma call_json_sends:
  assumes "el_monotone el" "\<And>d w. sent_count (snd (use d w)) = sent_count w"
  shows "sent_count w < sent_count (snd (call_json net el url opts err use w))"
  using checked_sends [OF assms(1), of w net url opts err]
  by (simp add: call_json_def snd_api_bind api_return_def assms(2) split: sum.splits)

lemma uses_keep_count:
  "sent_count (snd (members f d w)) = sent_count w"
  "sent_count (snd (whole f g d w)) = sent_count w"
  "sent_count (snd (edited f elems d w)) = sent_count w"
  by (simp_all add: members_def whole_def edited_def store_def api_throw_def split: option.splits)

text \<open>The body that a call returns is one that the server has sent in answer to it.\<close>

lemma call_json_answer:
  assumes "el_monotone el" "call_json net el url opts err use w = (Inr (Some d), w1)"
  shows "\<exists>n q r. sent_count w \<le> n \<and> net n q = Responded r \<and> resp_ok r \<and> resp_body r = Json d"
proof -
  obtain r w2 where r: "fetchWithAuth net el url opts False w = (Inr r, w2)" "resp_ok r" "resp_body r = Json d"
    using assms(2)
    by (auto simp: call_json_def checked_def api_bind_def api_throw_def api_return_def json_def
        split: prod.splits sum.splits if_splits body.splits)
  then show ?thesis using fetch_answer [OF assms(1) r(1)] by blast
qed

text \<open>A server that is reachable only where nothing is asked of its data.\<close>

definition sample_server :: server where
  "sample_server = \<lparr>srv_stats = \<lambda>_ _. Rejected NetworkError, srv_activity = \<lambda>_ _. Rejected NetworkError,
     srv_trends = \<lambda>_ _. Rejected NetworkError, srv_health = \<lambda>_ _. Rejected NetworkError,
     srv_events = \<lambda>_ _. Rejected NetworkError, srv_threats = \<lambda>_ _. Rejected NetworkError,
     srv_sessions = status_net 200 None
       \<lparr>sesr_sessions = Some [], sesr_total = Some 0, sesr_page = 1, sesr_page_size = 20\<rparr>,
     srv_tokens = \<lambda>_ _. Rejected NetworkError, srv_integrity = \<lambda>_ _. Rejected NetworkError,
     srv_geo = \<lambda>_ _. Rejected NetworkError, srv_rules = \<lambda>_ _. Rejected NetworkError,
     srv_rule = \<lambda>_ _. Rejected NetworkError, srv_alerts = \<lambda>_ _. Rejected NetworkError,
     srv_blocked = \<lambda>_ _. Rejected NetworkError, srv_block = \<lambda>_ _. Rejected NetworkError,
     srv_reputation = \<lambda>_ _. Rejected NetworkError, srv_report = \<lambda>_ _. Rejected NetworkError,
     srv_logs = \<lambda>_ _. Rejected NetworkError, srv_plain = status_net 204 None ()\<rparr>"

end
