(* ===== verification/Charts.thy ===== *)
theory Charts
  imports Screen Date_Parse Theme_Store
begin

text \<open>
  What the pages hand to the chart library: the labels and data series of a chart, and its options,
  an object literal that is kept as a JSON value.  A label may come from the date library, which may
  throw; then so does the computed chart.
\<close>

record series =
  ser_label :: "string option"
  ser_data :: "int list"
  ser_color :: "string list"
  ser_border :: "string option"
  ser_fill :: bool
  ser_tension :: rat

record chart =
  ch_labels :: "string list"
  ch_series :: "series list"

definition bar_series :: "string \<Rightarrow> int list \<Rightarrow> string \<Rightarrow> series" where
  "bar_series label data color =
     \<lparr>ser_label = Some label, ser_data = data, ser_color = [color], ser_border = None,
      ser_fill = False, ser_tension = 0\<rparr>"

definition pie_series :: "int list \<Rightarrow> string list \<Rightarrow> series" where
  "pie_series data colors =
     \<lparr>ser_label = None, ser_data = data, ser_color = colors, ser_border = None,
      ser_fill = False, ser_tension = 0\<rparr>"

definition line_series :: "string \<Rightarrow> int list \<Rightarrow> string \<Rightarrow> string \<Rightarrow> series" where
  "line_series label data border color =
     \<lparr>ser_label = Some label, ser_data = data, ser_color = [color], ser_border = Some border,
      ser_fill = True, ser_tension = 4 / 10\<rparr>"

text \<open>Every series has one value for each label.\<close>

definition aligned :: "chart \<Rightarrow> bool" where
  "aligned c \<longleftrightarrow> (\<forall>s \<in> set (ch_series c). length (ser_data s) = length (ch_labels c))"

text \<open>\<open>xs.map(f)\<close> for a function that may throw.\<close>

fun map_throw :: "('a \<Rightarrow> js_error + 'b) \<Rightarrow> 'a list \<Rightarrow> js_error + 'b list" where
  "map_throw f [] = Inr []"
| "map_throw f (x # xs) =
     (case f x of
        Inl e \<Rightarrow> Inl e
      | Inr y \<Rightarrow> (case map_throw f xs of Inl e \<Rightarrow> Inl e | Inr ys \<Rightarrow> Inr (y # ys)))"

lemma map_throw_length: "map_throw f xs = Inr ys \<Longrightarrow> length ys = length xs"
  by (induction xs arbitrary: ys) (auto split: sum.splits)

section \<open>Options\<close>

definition legend_option :: "string \<Rightarrow> string \<Rightarrow> int \<Rightarrow> (string \<times> jval) list \<Rightarrow> jval" where
  "legend_option position color padding extra =
     JObj [(''legend'', JObj
       [(''position'', JStr position),
        (''labels'', JObj ([(''color'', JStr color), (''usePointStyle'', JBool True),
                            (''padding'', JNum padding)] @ extra))])]"

definition axis_option :: "chart_colors \<Rightarrow> (string \<times> jval) list \<Rightarrow> jval" where
  "axis_option cc extra =
     JObj ([(''grid'', JObj [(''color'', JStr (cc_grid cc))]),
            (''ticks'', JObj [(''color'', JStr (cc_tick cc))])] @ extra)"

end
