(* ===== verification/Sessions_View.thy ===== *)
theory Sessions_View
  imports Screen Date_Parse
begin

text \<open>
  \<open>src/src/views/SessionsView.vue\<close>: the table of sessions with its paging, the details dialog, and the
  revocation of a user's tokens, for one session or for all selected ones.  The confirmation popup
  of the UI library shows a message and, when the user accepts, runs the callback: \<open>sn_confirm\<close> holds
  the message and the session that the callback is about.
\<close>

section \<open>State\<close>

record sessions_view =
  sn_search :: string
  sn_page :: int
  sn_pageSize :: int
  sn_selected :: "Session list"
  sn_showDetails :: bool
  sn_session :: "Session option"
  sn_confirm :: "(string \<times> Session) option"

definition sessions_init :: sessions_view where
  "sessions_init = \<lparr>sn_search = [], sn_page = 1, sn_pageSize = 20, sn_selected = [],
     sn_showDetails = False, sn_session = None, sn_confirm = None\<rparr>"

section \<open>Loading and paging\<close>

definition loadSessions :: "server \<Rightarrow> elevator \<Rightarrow> sessions_view screen \<Rightarrow> sessions_view screen" where
  "loadSessions srv el s =
     load_or_toast
       (fetchSessions (srv_sessions srv) el
          [(''page'', P_number (sn_page (sc_view s))), (''page_size'', P_number (sn_pageSize (sc_view s)))])
       ''Failed to load sessions'' s"

definition sessions_onPage ::
    "server \<Rightarrow> elevator \<Rightarrow> page_event \<Rightarrow> sessions_view screen \<Rightarrow> sessions_view screen" where
  "sessions_onPage srv el event s =
     loadSessions srv el
       (on_view (\<lambda>v. v\<lparr>sn_page := pe_page event + 1, sn_pageSize := pe_rows event\<rparr>) s)"

definition sessions_showDetails :: "Session \<Rightarrow> sessions_view screen \<Rightarrow> sessions_view screen" where
  "sessions_showDetails session =
     on_view (\<lambda>v. v\<lparr>sn_session := Some session, sn_showDetails := True\<rparr>)"

section \<open>Revoking\<close>

text \<open>The dialog passes its session, which may be \<open>null\<close>; reading \<open>user_id\<close> of it throws inside the
  \<open>try\<close>.\<close>

definition revokeSession ::
    "server \<Rightarrow> elevator \<Rightarrow> Session option \<Rightarrow> sessions_view screen \<Rightarrow> sessions_view screen" where
  "revokeSession srv el session s =
     (case session of
        None \<Rightarrow> toast_error ''Failed to revoke user tokens'' s
      | Some x \<Rightarrow>
          try_await (revokeUserTokens (srv_plain srv) el (ses_user_id x))
            (\<lambda>_ s1. loadSessions srv el
               (on_view (\<lambda>v. v\<lparr>sn_showDetails := False\<rparr>)
                  (toast_success (''All tokens revoked for '' @ ses_user_email x) s1)))
            (toast_error ''Failed to revoke user tokens'') s)"

definition confirmRevoke :: "Session \<Rightarrow> sessions_view screen \<Rightarrow> sessions_view screen" where
  "confirmRevoke session =
     on_view (\<lambda>v. v\<lparr>sn_confirm := Some
       (''Revoke all tokens for '' @ ses_user_email session @ ''? This signs them out of every app.'',
        session)\<rparr>)"

definition accept_revoke :: "server \<Rightarrow> elevator \<Rightarrow> sessions_view screen \<Rightarrow> sessions_view screen" where
  "accept_revoke srv el s =
     (case sn_confirm (sc_view s) of
        None \<Rightarrow> s
      | Some (_, session) \<Rightarrow>
          revokeSession srv el (Some session) (on_view (\<lambda>v. v\<lparr>sn_confirm := None\<rparr>) s))"

definition revokeSelected :: "server \<Rightarrow> elevator \<Rightarrow> sessions_view screen \<Rightarrow> sessions_view screen" where
  "revokeSelected srv el s =
     (if sn_selected (sc_view s) = [] then s
      else
        (let userIds = set_order (map ses_user_id (sn_selected (sc_view s)))
         in try_await (promise_all (map (revokeUserTokens (srv_plain srv) el) userIds))
              (\<lambda>_ s1. loadSessions srv el
                 (on_view (\<lambda>v. v\<lparr>sn_selected := []\<rparr>)
                    (toast_success
                       (''Tokens revoked for '' @ string_of_int (int (length userIds)) @ '' user(s)'') s1)))
              (toast_error ''Failed to revoke user tokens'') s))"

section \<open>What is shown of a session\<close>

definition sessions_formatDate :: "date_lib \<Rightarrow> engine \<Rightarrow> string \<Rightarrow> js_error + string" where
  "sessions_formatDate dl eng date = dl_format dl (date_parse eng date) ''MMM d, yyyy HH:mm''"

definition sessions_formatRelative :: "date_lib \<Rightarrow> engine \<Rightarrow> int \<Rightarrow> string \<Rightarrow> js_error + string" where
  "sessions_formatRelative dl eng now date = dl_distance dl (date_parse eng date) now"

record user_agent =
  ua_browser :: string
  ua_os :: string

definition parseUserAgent :: "string option \<Rightarrow> user_agent" where
  "parseUserAgent u =
     (case u of
        None \<Rightarrow> \<lparr>ua_browser = ''Unknown'', ua_os = ''Unknown''\<rparr>
      | Some ua \<Rightarrow>
          if ua = [] then \<lparr>ua_browser = ''Unknown'', ua_os = ''Unknown''\<rparr>
          else
            \<lparr>ua_browser =
               (if str_includes ua ''Chrome'' \<and> \<not> str_includes ua ''Edge'' then ''Chrome''
                else if str_includes ua ''Firefox'' then ''Firefox''
                else if str_includes ua ''Safari'' \<and> \<not> str_includes ua ''Chrome'' then ''Safari''
                else if str_includes ua ''Edge'' then ''Edge''
                else if str_includes ua ''Opera'' then ''Opera''
                else ''Unknown''),
             ua_os =
               (if str_includes ua ''Windows'' then ''Windows''
                else if str_includes ua ''Mac OS'' then ''macOS''
                else if str_includes ua ''Linux'' then ''Linux''
                else if str_includes ua ''Android'' then ''Android''
                else if str_includes ua ''iOS'' \<or> str_includes ua ''iPhone'' \<or> str_includes ua ''iPad''
                  then ''iOS''
                else ''Unknown'')\<rparr>)"

definition device_icon :: "string option \<Rightarrow> string" where
  "device_icon ua =
     (let os = ua_os (parseUserAgent ua)
      in if os = ''Windows'' then ''pi-microsoft''
         else if os = ''macOS'' then ''pi-apple''
         else if os = ''Linux'' then ''pi-server''
         else ''pi-mobile'')"

text \<open>The difference in hours is compared with 0 and 1; \<open>t\<close> and \<open>now\<close> are milliseconds.  No comparison
  holds for an invalid date.\<close>

definition isExpiringSoon :: "engine \<Rightarrow> int \<Rightarrow> string \<Rightarrow> bool" where
  "isExpiringSoon eng now expiresAt \<longleftrightarrow>
     (case date_parse eng expiresAt of
        None \<Rightarrow> False
      | Some t \<Rightarrow> t - now < 1000 * 60 * 60 \<and> t - now > 0)"

definition isExpired :: "engine \<Rightarrow> int \<Rightarrow> string \<Rightarrow> bool" where
  "isExpired eng now expiresAt \<longleftrightarrow>
     (case date_parse eng expiresAt of None \<Rightarrow> False | Some t \<Rightarrow> t < now)"

definition session_tag :: "engine \<Rightarrow> int \<Rightarrow> Session \<Rightarrow> tag" where
  "session_tag eng now x =
     (if isExpired eng now (ses_expires_at x) then \<lparr>tag_value = ''Expired'', tag_severity = ''secondary''\<rparr>
      else if isExpiringSoon eng now (ses_expires_at x)
        then \<lparr>tag_value = ''Expiring'', tag_severity = ''warning''\<rparr>
      else \<lparr>tag_value = ''Active'', tag_severity = ''success''\<rparr>)"

definition details_tag :: "engine \<Rightarrow> int \<Rightarrow> Session \<Rightarrow> tag option" where
  "details_tag eng now x =
     (if isExpired eng now (ses_expires_at x)
        then Some \<lparr>tag_value = ''Expired'', tag_severity = ''secondary''\<rparr>
      else if isExpiringSoon eng now (ses_expires_at x)
        then Some \<lparr>tag_value = ''Expiring Soon'', tag_severity = ''warning''\<rparr>
      else None)"

text \<open>The cards over the table and the button that revokes the selection.\<close>

definition active_count :: "engine \<Rightarrow> int \<Rightarrow> monitor_state \<Rightarrow> nat" where
  "active_count eng now st = length (filter (\<lambda>x. \<not> isExpired eng now (ses_expires_at x)) (m_sessions st))"

definition expiring_count :: "engine \<Rightarrow> int \<Rightarrow> monitor_state \<Rightarrow> nat" where
  "expiring_count eng now st = length (filter (\<lambda>x. isExpiringSoon eng now (ses_expires_at x)) (m_sessions st))"

definition revoke_button :: "sessions_view \<Rightarrow> string option" where
  "revoke_button v =
     (if length (sn_selected v) > 0
      then Some (''Revoke User Tokens ('' @ string_of_int (int (length (sn_selected v))) @ '')'') else None)"

section \<open>Each user is revoked once\<close>

definition revoke_options :: request_init where
  "revoke_options = no_options\<lparr>ri_method := Some ''POST''\<rparr>"

definition revoke_url :: "int \<Rightarrow> string" where
  "revoke_url i = ''/api/admin/users/'' @ string_of_int i @ ''/revoke-tokens''"

lemma revoke_accepted:
  assumes "accepts net"
  shows "revokeUserTokens net el i w = (Inr (), after_first net (revoke_url i) revoke_options w)"
  using accepted_checked [OF assms, of el "revoke_url i" revoke_options "''Failed to revoke user tokens''" w]
  by (auto simp: revokeUserTokens_def revoke_url_def revoke_options_def getBaseUrl_def api_bind_def
      api_return_def)

lemma revoke_all_accepted:
  assumes "accepts net"
  shows "\<exists>xs w1. promise_all (map (revokeUserTokens net el) ids) w = (Inr xs, w1)
    \<and> aw_auth w1 = aw_auth w \<and> aw_monitor w1 = aw_monitor w
    \<and> br_sent (aw_browser w1) = br_sent (aw_browser w)
        @ map (\<lambda>i. api_request (aw_auth w) (revoke_url i) revoke_options) ids"
proof (induction ids arbitrary: w)
  case Nil
  then show ?case by (simp add: api_return_def)
next
  case (Cons i ids)
  define v where "v = after_first net (revoke_url i) revoke_options w"
  obtain xs w1 where "promise_all (map (revokeUserTokens net el) ids) v = (Inr xs, w1)"
    "aw_auth w1 = aw_auth v" "aw_monitor w1 = aw_monitor v"
    "br_sent (aw_browser w1) = br_sent (aw_browser v)
        @ map (\<lambda>i. api_request (aw_auth v) (revoke_url i) revoke_options) ids"
    using Cons.IH [of v] by blast
  then show ?case using revoke_accepted [OF assms, of el i w] by (simp add: v_def)
qed

lemma loadSessions_sends:
  assumes "accepts (srv_sessions srv)"
  shows "\<exists>q. br_sent (aw_browser (sc_world (loadSessions srv el s)))
    = br_sent (aw_browser (sc_world s)) @ [api_request (aw_auth (sc_world s)) (''/api/admin/sessions?'' @ q) no_options]"
  unfolding loadSessions_def load_or_toast_world fetchSessions_def getBaseUrl_def
  by (subst accepted_load_sends [OF assms]) (auto simp: uses_send_nothing)


definition sample_session :: "string \<Rightarrow> int \<Rightarrow> Session" where
  "sample_session i u = \<lparr>ses_id = i, ses_user_id = u, ses_user_email = ''u@example.org'', ses_app_id = 1,
     ses_app_name = ''crm'', ses_ip_address = ''192.0.2.7'', ses_user_agent = None,
     ses_created_at = ''2024-01-15T08:00:00Z'', ses_last_activity = ''2024-01-15T10:00:00Z'',
     ses_expires_at = ''2024-01-15T10:30:00Z''\<rparr>"


section \<open>Devices\<close>

text \<open>Also: the device column never shows a phone for what it is: every Android browser names Linux in
  its user agent and every iPhone and iPad names \<open>Mac OS X\<close>, and the tests for Linux and for Mac OS
  come first.  So a text that names them is shown with the icon of a server or of a Mac.\<close>

theorem phones_shown_as_computers:
  "ua_os (parseUserAgent (Some (a @ ''Linux; Android'' @ b))) \<in> {''Linux'', ''macOS'', ''Windows''}
    \<and> device_icon (Some (a @ ''Linux; Android'' @ b)) \<noteq> ''pi-mobile''
    \<and> ua_os (parseUserAgent (Some (a @ ''(iPhone; CPU iPhone OS 17_0 like Mac OS X)'' @ b))) \<in> {''macOS'', ''Windows''}
    \<and> device_icon (Some (a @ ''(iPhone; CPU iPhone OS 17_0 like Mac OS X)'' @ b)) \<noteq> ''pi-mobile''"
proof -
  have l: "str_includes (a @ ''Linux; Android'' @ b) ''Linux''"
    using sublist_appendI [of "''Linux''" a "''; Android'' @ b"] by simp
  have m: "str_includes (a @ ''(iPhone; CPU iPhone OS 17_0 like Mac OS X)'' @ b) ''Mac OS''"
    using sublist_appendI [of "''Mac OS''" "a @ ''(iPhone; CPU iPhone OS 17_0 like ''" "'' X)'' @ b"] by simp
  show ?thesis
    using l m by (auto simp: device_icon_def parseUserAgent_def Let_def)
qed

section \<open>Expiry\<close>

lemma expiring_not_expired: "isExpiringSoon eng now e \<Longrightarrow> \<not> isExpired eng now e"
  by (simp add: isExpiringSoon_def isExpired_def split: option.splits)

text \<open>Also: every session has one of three tags, the card of active sessions counts exactly those that
  the table does not tag as expired, and the expiring ones are among them.\<close>

theorem session_cards:
  "active_count eng now st = length (filter (\<lambda>x. tag_value (session_tag eng now x) \<noteq> ''Expired'') (m_sessions st))
    \<and> expiring_count eng now st = length (filter (\<lambda>x. tag_value (session_tag eng now x) = ''Expiring'') (m_sessions st))
    \<and> expiring_count eng now st \<le> active_count eng now st"
proof -
  have "tag_value (session_tag eng now x) \<noteq> ''Expired'' \<longleftrightarrow> \<not> isExpired eng now (ses_expires_at x)"
    "tag_value (session_tag eng now x) = ''Expiring'' \<longleftrightarrow> isExpiringSoon eng now (ses_expires_at x)" for x
    using expiring_not_expired by (auto simp: session_tag_def)
  moreover have "length (filter (\<lambda>x. isExpiringSoon eng now (ses_expires_at x)) xs)
      \<le> length (filter (\<lambda>x. \<not> isExpired eng now (ses_expires_at x)) xs)" for xs
    using expiring_not_expired by (induction xs) auto
  ultimately show ?thesis by (simp add: active_count_def expiring_count_def)
qed

end
