(* ===== verification/Threats_View.thy ===== *)
theory Threats_View
  imports Screen Date_Parse
begin

text \<open>
  \<open>src/src/views/ThreatsView.vue\<close>: the threat level of the period, the OAuth 2.1 signals, the integrity
  of the audit log, the reputation of a suspicious address and the form that blocks one.  The
  number of hours of the form is \<open>None\<close> when its field has been emptied.
\<close>

section \<open>State\<close>

record block_form =
  bf_ip_address :: string
  bf_reason :: string
  bf_duration_hours :: "int option"
  bf_permanent :: bool

definition empty_block_form :: block_form where
  "empty_block_form = \<lparr>bf_ip_address = [], bf_reason = [], bf_duration_hours = Some 24,
     bf_permanent = False\<rparr>"

record threats_view =
  tv_timeRange :: string
  tv_selectedIP :: "SuspiciousIP option"
  tv_reputation :: "IPReputation option"
  tv_showIP :: bool
  tv_loadingReputation :: bool
  tv_showBlock :: bool
  tv_form :: block_form
  tv_integrity :: "AuditIntegrity option"

definition threats_init :: threats_view where
  "threats_init = \<lparr>tv_timeRange = ''24h'', tv_selectedIP = None, tv_reputation = None, tv_showIP = False,
     tv_loadingReputation = False, tv_showBlock = False, tv_form = empty_block_form, tv_integrity = None\<rparr>"

definition timeRangeOptions :: "select_option list" where
  "timeRangeOptions =
     [\<lparr>so_label = ''Last 15 Minutes'', so_value = ''15m''\<rparr>,
      \<lparr>so_label = ''Last Hour'', so_value = ''1h''\<rparr>,
      \<lparr>so_label = ''Last 24 Hours'', so_value = ''24h''\<rparr>,
      \<lparr>so_label = ''Last 7 Days'', so_value = ''7d''\<rparr>,
      \<lparr>so_label = ''Last 30 Days'', so_value = ''30d''\<rparr>]"

section \<open>The threat level\<close>

record level_info =
  li_level :: string
  li_color :: string
  li_description :: string

definition threatLevelInfo :: "monitor_state \<Rightarrow> level_info" where
  "threatLevelInfo st =
     (case m_threatMetrics st of
        None \<Rightarrow> \<lparr>li_level = ''unknown'', li_color = ''secondary'', li_description = ''Loading...''\<rparr>
      | Some t \<Rightarrow>
          (let critical = ts_critical_events (tm_summary t);
               errors = ts_error_events (tm_summary t);
               warnings = ts_warning_events (tm_summary t)
           in if critical > 0 then
                \<lparr>li_level = ''CRITICAL'', li_color = ''danger'',
                 li_description = string_of_int critical @ '' critical event(s) detected''\<rparr>
              else if errors > 5 then
                \<lparr>li_level = ''HIGH'', li_color = ''warning'',
                 li_description = string_of_int errors @ '' error events in the period''\<rparr>
              else if errors > 0 \<or> warnings > 10 then
                \<lparr>li_level = ''MEDIUM'', li_color = ''info'', li_description = ''Elevated activity detected''\<rparr>
              else
                \<lparr>li_level = ''LOW'', li_color = ''success'', li_description = ''No significant threats''\<rparr>))"

text \<open>The colour of the banner and of its shield, by level.\<close>

definition banner_class :: "string \<Rightarrow> string" where
  "banner_class level =
     (if level = ''CRITICAL'' then ''bg-[var(--color-status-critical)]/10 border-[var(--color-status-critical)]/30''
      else if level = ''HIGH'' then ''bg-[var(--color-status-danger)]/10 border-[var(--color-status-danger)]/30''
      else if level = ''MEDIUM'' then ''bg-[var(--color-status-warning)]/10 border-[var(--color-status-warning)]/30''
      else if level = ''LOW'' then ''bg-[var(--color-status-secure)]/10 border-[var(--color-status-secure)]/30''
      else if level = ''unknown'' then ''bg-[var(--color-surface-100)] border-[var(--color-border-subtle)]''
      else [])"

definition shield_class :: "string \<Rightarrow> string" where
  "shield_class level =
     (if level = ''CRITICAL'' then ''bg-[var(--color-status-critical)]''
      else if level = ''HIGH'' then ''bg-[var(--color-status-danger)]''
      else if level = ''MEDIUM'' then ''bg-[var(--color-status-warning)]''
      else if level = ''LOW'' then ''bg-[var(--color-status-secure)]''
      else if level = ''unknown'' then ''bg-[var(--color-surface-300)]''
      else [])"

section \<open>Audit integrity\<close>

record integrity_info =
  ii_label :: string
  ii_severity :: string
  ii_icon :: string

definition integrityInfo :: "threats_view \<Rightarrow> integrity_info" where
  "integrityInfo v =
     (case tv_integrity v of
        None \<Rightarrow> \<lparr>ii_label = ''Loading'' @ ellipsis, ii_severity = ''secondary'', ii_icon = ''pi-spinner''\<rparr>
      | Some a \<Rightarrow>
          (case ai_status a of
             Violations_detected \<Rightarrow>
               \<lparr>ii_label = ''Violations Detected'', ii_severity = ''danger'', ii_icon = ''pi-times-circle''\<rparr>
           | Not_configured \<Rightarrow>
               \<lparr>ii_label = ''Not Configured'', ii_severity = ''warning'', ii_icon = ''pi-exclamation-triangle''\<rparr>
           | Verified \<Rightarrow>
               \<lparr>ii_label = ''Verified'', ii_severity = ''success'', ii_icon = ''pi-verified''\<rparr>))"

primrec violation_label :: "ViolationKind \<Rightarrow> string" where
  "violation_label Chain = ''Hash-chain break''"
| "violation_label Hmac = ''Row HMAC mismatch''"
| "violation_label Unknown_violation = ''Integrity violation''"

section \<open>Loading\<close>

text \<open>The integrity is asked for whatever became of the threats; a failure clears it silently.\<close>

definition loadThreats :: "server \<Rightarrow> elevator \<Rightarrow> threats_view screen \<Rightarrow> threats_view screen" where
  "loadThreats srv el s =
     (let s1 = load_or_toast (fetchThreatMetrics (srv_threats srv) el (tv_timeRange (sc_view s)))
                 ''Failed to load threat data'' s
      in try_await (fetchAuditIntegrity (srv_integrity srv) el (tv_timeRange (sc_view s1)))
           (\<lambda>a. on_view (\<lambda>v. v\<lparr>tv_integrity := a\<rparr>))
           (on_view (\<lambda>v. v\<lparr>tv_integrity := None\<rparr>)) s1)"

definition viewIPDetails ::
    "server \<Rightarrow> elevator \<Rightarrow> SuspiciousIP \<Rightarrow> threats_view screen \<Rightarrow> threats_view screen" where
  "viewIPDetails srv el ip s =
     on_view (\<lambda>v. v\<lparr>tv_loadingReputation := False\<rparr>)
       (try_await (fetchIPReputation (srv_reputation srv) el (sip_ip_address ip))
          (\<lambda>r. on_view (\<lambda>v. v\<lparr>tv_reputation := r\<rparr>))
          (toast_error ''Failed to load IP reputation'')
          (on_view (\<lambda>v. v\<lparr>tv_selectedIP := Some ip, tv_showIP := True, tv_loadingReputation := True\<rparr>) s))"

section \<open>Blocking\<close>

definition openBlockDialog :: "string option \<Rightarrow> threats_view screen \<Rightarrow> threats_view screen" where
  "openBlockDialog ip =
     on_view (\<lambda>v. v\<lparr>tv_form := empty_block_form\<lparr>bf_ip_address := (case ip of Some a \<Rightarrow> a | None \<Rightarrow> [])\<rparr>,
                    tv_showBlock := True\<rparr>)"

definition block_payload :: "string \<Rightarrow> block_form \<Rightarrow> jval" where
  "block_payload reason f =
     JObj [(''ip_address'', JStr (bf_ip_address f)),
           (''reason'', JStr reason),
           (''duration_hours'', if bf_permanent f then JUndef else number_or_null (bf_duration_hours f)),
           (''permanent'', JBool (bf_permanent f))]"

definition threats_blockIP :: "server \<Rightarrow> elevator \<Rightarrow> threats_view screen \<Rightarrow> threats_view screen" where
  "threats_blockIP srv el s =
     try_await (blockIP (srv_block srv) el (block_payload (bf_reason (tv_form (sc_view s))) (tv_form (sc_view s))))
       (\<lambda>_ s1. loadThreats srv el
          (on_view (\<lambda>v. v\<lparr>tv_showBlock := False, tv_showIP := False\<rparr>)
             (toast_success ''IP blocked successfully'' s1)))
       (toast_error ''Failed to block IP'') s"

definition block_disabled :: "threats_view \<Rightarrow> bool" where
  "block_disabled v \<longleftrightarrow> bf_ip_address (tv_form v) = [] \<or> bf_reason (tv_form v) = []"

text \<open>What the reputation dialog shows, and its button: the address it blocks is that of the
  reputation on the screen.\<close>

datatype ip_dialog = Dialog_closed | Dialog_loading | Dialog_reputation IPReputation | Dialog_blank

definition reputation_dialog :: "threats_view \<Rightarrow> ip_dialog" where
  "reputation_dialog v =
     (if \<not> tv_showIP v then Dialog_closed
      else if tv_loadingReputation v then Dialog_loading
      else (case tv_reputation v of Some r \<Rightarrow> Dialog_reputation r | None \<Rightarrow> Dialog_blank))"

definition block_button :: "threats_view \<Rightarrow> (threats_view screen \<Rightarrow> threats_view screen) option" where
  "block_button v =
     (case tv_reputation v of
        Some r \<Rightarrow> if ipr_is_blocked r then None else Some (openBlockDialog (Some (ipr_ip_address r)))
      | None \<Rightarrow> None)"

section \<open>The OAuth 2.1 signals\<close>

text \<open>\<open>counts.set(t.type, t.count)\<close> for each of the top threats: the last of a type wins.\<close>

definition threat_counts :: "TopThreat list \<Rightarrow> string \<rightharpoonup> int" where
  "threat_counts ts = foldl (\<lambda>counts t. counts(tt_type t \<mapsto> tt_count t)) Map.empty ts"

record signal_row =
  sr_signal :: OAuth21Signal
  sr_count :: int

definition oauth21Signals :: "monitor_state \<Rightarrow> signal_row list" where
  "oauth21Signals st =
     (let counts = threat_counts (case m_threatMetrics st of Some t \<Rightarrow> tm_top_threats t | None \<Rightarrow> [])
      in map (\<lambda>s. \<lparr>sr_signal = s,
                   sr_count = (case counts (event_type_string (sig_event_type s)) of Some n \<Rightarrow> n | None \<Rightarrow> 0)\<rparr>)
           OAUTH21_SIGNALS)"

definition oauth21ActiveCount :: "monitor_state \<Rightarrow> nat" where
  "oauth21ActiveCount st = length (filter (\<lambda>s. sr_count s > 0) (oauth21Signals st))"

definition signals_tag :: "monitor_state \<Rightarrow> tag" where
  "signals_tag st =
     \<lparr>tag_value = (if oauth21ActiveCount st > 0
                   then string_of_int (int (oauth21ActiveCount st)) @ '' active'' else ''all clear''),
      tag_severity = (if oauth21ActiveCount st > 0 then ''danger'' else ''success'')\<rparr>"

definition signal_tag :: "signal_row \<Rightarrow> tag" where
  "signal_tag r =
     \<lparr>tag_value = (if sr_count r > 0 then string_of_int (sr_count r) else ''monitored''),
      tag_severity = (if sr_count r > 0 then ''danger'' else ''secondary'')\<rparr>"

section \<open>What else is shown\<close>

definition getRiskScoreColor :: "rat \<Rightarrow> string" where
  "getRiskScoreColor score =
     (if score \<ge> 75 then ''var(--color-status-critical)''
      else if score \<ge> 50 then ''var(--color-status-danger)''
      else if score \<ge> 25 then ''var(--color-status-warning)''
      else ''var(--color-status-secure)'')"

definition formatTime :: "date_lib \<Rightarrow> engine \<Rightarrow> int \<Rightarrow> string \<Rightarrow> js_error + string" where
  "formatTime dl eng now date = dl_distance dl (date_parse eng date) now"

text \<open>\<open>threat.type.replace(/_/g, ' ').toUpperCase()\<close>; the types are ASCII.\<close>

definition threat_title :: "TopThreat \<Rightarrow> string" where
  "threat_title t = map upper_char (map (\<lambda>c. if c = CHR ''_'' then CHR '' '' else c) (tt_type t))"

section \<open>The signals show the counts of the period\<close>

lemma threat_counts_append:
  "threat_counts (ts @ [t]) = (threat_counts ts)(tt_type t \<mapsto> tt_count t)"
  by (simp add: threat_counts_def)

lemma threat_counts_last:
  "threat_counts ts e = map_option tt_count (find (\<lambda>t. tt_type t = e) (rev ts))"
  by (induction ts rule: rev_induct) (auto simp: threat_counts_append, simp add: threat_counts_def)

lemma signal_events_distinct: "distinct (map sig_event_type OAUTH21_SIGNALS)"
  using distinct_signal_events by (simp add: OAUTH21_SIGNAL_EVENTS_def)

text \<open>C33: every signal of the catalogue is listed, once and in its order, also when nothing has
  happened or nothing has been loaded; its number is that of the last entry of its type among the top
  threats of the period, and zero when there is none.\<close>

theorem signals_show_counts:
  "oauth21Signals st = map (\<lambda>s. \<lparr>sr_signal = s, sr_count =
        (case m_threatMetrics st of
           None \<Rightarrow> 0
         | Some t \<Rightarrow> (case find (\<lambda>x. tt_type x = event_type_string (sig_event_type s)) (rev (tm_top_threats t)) of
                       Some x \<Rightarrow> tt_count x | None \<Rightarrow> 0))\<rparr>) OAUTH21_SIGNALS
    \<and> distinct (map (sig_event_type \<circ> sr_signal) (oauth21Signals st))"
proof
  show "oauth21Signals st = map (\<lambda>s. \<lparr>sr_signal = s, sr_count =
        (case m_threatMetrics st of
           None \<Rightarrow> 0
         | Some t \<Rightarrow> (case find (\<lambda>x. tt_type x = event_type_string (sig_event_type s)) (rev (tm_top_threats t)) of
                       Some x \<Rightarrow> tt_count x | None \<Rightarrow> 0))\<rparr>) OAUTH21_SIGNALS"
    by (simp add: oauth21Signals_def Let_def threat_counts_last split: option.splits)
  have "map (sig_event_type \<circ> sr_signal) (oauth21Signals st) = map sig_event_type OAUTH21_SIGNALS"
    by (simp add: oauth21Signals_def Let_def)
  then show "distinct (map (sig_event_type \<circ> sr_signal) (oauth21Signals st))"
    by (simp add: signal_events_distinct)
qed

section \<open>The reputation of another address\<close>

lemma fetchIPReputation_failed:
  assumes "\<And>n r. srv_reputation srv n r = Rejected e"
  shows "fst (fetchIPReputation (srv_reputation srv) el ip w) = Inl e"
  by (simp add: fetchIPReputation_def call_json_def checked_def api_bind_def fetchWithAuth_first assms)

text \<open>Also: when the reputation of an address cannot be loaded, the dialog that is open for it shows the
  reputation of the address that was looked at before, if there was one, and its button opens the
  form that blocks that other address.\<close>

theorem reputation_of_another_address:
  assumes "\<And>n r. srv_reputation srv n r = Rejected e"
    and "tv_reputation (sc_view s) = Some old" "\<not> ipr_is_blocked old"
  shows "tv_selectedIP (sc_view (viewIPDetails srv el ip s)) = Some ip
    \<and> reputation_dialog (sc_view (viewIPDetails srv el ip s)) = Dialog_reputation old
    \<and> (\<exists>f. block_button (sc_view (viewIPDetails srv el ip s)) = Some f
         \<and> bf_ip_address (tv_form (sc_view (f (viewIPDetails srv el ip s)))) = ipr_ip_address old)"
proof -
  obtain w where "fetchIPReputation (srv_reputation srv) el (sip_ip_address ip) (sc_world s) = (Inl e, w)"
    using fetchIPReputation_failed [OF assms(1)] by (metis prod.collapse)
  then show ?thesis
    using assms(2,3)
    by (simp add: viewIPDetails_def try_await_def reputation_dialog_def block_button_def openBlockDialog_def)
qed

definition sample_reputation :: IPReputation where
  "sample_reputation = \<lparr>ipr_ip_address = ''192.0.2.1'', ipr_is_blocked = False, ipr_risk_score = 80,
     ipr_events_24h = 4, ipr_events_7d = 9, ipr_failed_logins_24h = 4, ipr_unique_users_targeted = 2,
     ipr_first_seen = ''2024-01-10'', ipr_last_seen = ''2024-01-15'', ipr_recent_events = []\<rparr>"

definition sample_ip :: SuspiciousIP where
  "sample_ip = \<lparr>sip_ip_address = ''198.51.100.9'', sip_event_count = 3, sip_event_types = [],
     sip_first_seen = ''2024-01-14'', sip_last_seen = ''2024-01-15''\<rparr>"

theorem reputation_of_another_address_witness:
  "reputation_dialog (sc_view (viewIPDetails sample_server user_cancels sample_ip
      \<lparr>sc_world = sample_world, sc_toasts = [], sc_view = threats_init\<lparr>tv_reputation := Some sample_reputation\<rparr>\<rparr>))
    = Dialog_reputation sample_reputation
    \<and> sip_ip_address sample_ip \<noteq> ipr_ip_address sample_reputation"
proof -
  have r: "srv_reputation sample_server n q = Rejected NetworkError" for n q
    by (simp add: sample_server_def)
  define s where "s = \<lparr>sc_world = sample_world, sc_toasts = [],
    sc_view = threats_init\<lparr>tv_reputation := Some sample_reputation\<rparr>\<rparr>"
  have "tv_reputation (sc_view s) = Some sample_reputation" "\<not> ipr_is_blocked sample_reputation"
    by (simp_all add: s_def sample_reputation_def)
  from reputation_of_another_address [OF r this, of user_cancels sample_ip]
  show ?thesis by (simp add: s_def sample_ip_def sample_reputation_def)
qed

end
