(* ===== verification/Blocked_View.thy ===== *)
theory Blocked_View
  imports Threats_View
begin

text \<open>
  \<open>src/src/views/BlockedIPsView.vue\<close>: the list of blocked addresses, the form that blocks one, unblocking
  after a confirmation, and the reputation of an address.  The form is the \<open>block_form\<close> of
  \<open>Threats_View\<close>, and the body of its request is the same but for the reason, which has a default here.
\<close>

section \<open>State\<close>

record blocked_view =
  bv_showBlock :: bool
  bv_showReputation :: bool
  bv_isBlocking :: bool
  bv_newBlock :: block_form
  bv_selectedIP :: "string option"
  bv_reputation :: "IPReputation option"
  bv_loadingReputation :: bool
  bv_confirm :: "(string \<times> BlockedIP) option"

definition blocked_init :: blocked_view where
  "blocked_init = \<lparr>bv_showBlock = False, bv_showReputation = False, bv_isBlocking = False,
     bv_newBlock = \<lparr>bf_ip_address = [], bf_reason = [], bf_duration_hours = Some 24, bf_permanent = False\<rparr>,
     bv_selectedIP = None, bv_reputation = None, bv_loadingReputation = False, bv_confirm = None\<rparr>"

section \<open>Operations\<close>

definition loadBlockedIPs :: "server \<Rightarrow> elevator \<Rightarrow> blocked_view screen \<Rightarrow> blocked_view screen" where
  "loadBlockedIPs srv el =
     load_or_toast (fetchBlockedIPs (srv_blocked srv) el) ''Failed to load blocked IPs''"

definition blocked_openBlockDialog :: "blocked_view \<Rightarrow> blocked_view" where
  "blocked_openBlockDialog v =
     v\<lparr>bv_newBlock := \<lparr>bf_ip_address = [], bf_reason = [], bf_duration_hours = Some 24, bf_permanent = False\<rparr>,
       bv_showBlock := True\<rparr>"

definition block_reason :: "block_form \<Rightarrow> string" where
  "block_reason f = (if bf_reason f = [] then ''Manually blocked'' else bf_reason f)"

definition blocked_blockIP :: "server \<Rightarrow> elevator \<Rightarrow> blocked_view screen \<Rightarrow> blocked_view screen" where
  "blocked_blockIP srv el s =
     (let f = bv_newBlock (sc_view s);
          idle = on_view (\<lambda>v. v\<lparr>bv_isBlocking := False\<rparr>)
      in if bf_ip_address f = []
         then toast_add ''warn'' ''Validation'' ''IP address is required'' 3000 s
         else
           try_await (blockIP (srv_block srv) el (block_payload (block_reason f) f))
             (\<lambda>_ s1. loadBlockedIPs srv el
                (idle
                  (on_view (\<lambda>v. v\<lparr>bv_showBlock := False\<rparr>)
                    (toast_add ''success'' ''IP Blocked''
                      (bf_ip_address (bv_newBlock (sc_view s1)) @ '' has been blocked'') 3000 s1))))
             (\<lambda>s1. idle (toast_error ''Failed to block IP'' s1))
             (on_view (\<lambda>v. v\<lparr>bv_isBlocking := True\<rparr>) s))"

definition blocked_unblockIP :: "BlockedIP \<Rightarrow> blocked_view \<Rightarrow> blocked_view" where
  "blocked_unblockIP ip v =
     v\<lparr>bv_confirm := Some (''Unblock IP address '' @ bip_ip_address ip @ ''?'', ip)\<rparr>"

definition accept_unblock :: "server \<Rightarrow> elevator \<Rightarrow> blocked_view screen \<Rightarrow> blocked_view screen" where
  "accept_unblock srv el s =
     (case bv_confirm (sc_view s) of
        None \<Rightarrow> s
      | Some (_, ip) \<Rightarrow>
          try_await (unblockIP (srv_plain srv) el (bip_id ip))
            (\<lambda>_ s1. loadBlockedIPs srv el
               (toast_add ''success'' ''IP Unblocked'' (bip_ip_address ip @ '' has been unblocked'') 3000 s1))
            (toast_error ''Failed to unblock IP'')
            (on_view (\<lambda>v. v\<lparr>bv_confirm := None\<rparr>) s))"

definition viewReputation ::
    "server \<Rightarrow> elevator \<Rightarrow> string \<Rightarrow> blocked_view screen \<Rightarrow> blocked_view screen" where
  "viewReputation srv el ip s =
     on_view (\<lambda>v. v\<lparr>bv_loadingReputation := False\<rparr>)
       (try_await (fetchIPReputation (srv_reputation srv) el ip)
          (\<lambda>r. on_view (\<lambda>v. v\<lparr>bv_reputation := r\<rparr>))
          (\<lambda>s1. on_view (\<lambda>v. v\<lparr>bv_showReputation := False\<rparr>)
             (toast_error ''Failed to load IP reputation'' s1))
          (on_view (\<lambda>v. v\<lparr>bv_selectedIP := Some ip, bv_loadingReputation := True,
                         bv_showReputation := True\<rparr>) s))"

section \<open>What is shown\<close>

definition blocked_formatDate :: "date_lib \<Rightarrow> engine \<Rightarrow> string \<Rightarrow> js_error + string" where
  "blocked_formatDate dl eng date = dl_format dl (date_parse eng date) ''MMM d, yyyy HH:mm''"

definition blocked_formatRelative :: "date_lib \<Rightarrow> engine \<Rightarrow> int \<Rightarrow> string \<Rightarrow> js_error + string" where
  "blocked_formatRelative dl eng now date = dl_distance dl (date_parse eng date) now"

definition given :: "string option \<Rightarrow> bool" where
  "given x \<longleftrightarrow> x \<noteq> None \<and> x \<noteq> Some []"

definition block_expired :: "engine \<Rightarrow> int \<Rightarrow> BlockedIP \<Rightarrow> bool" where
  "block_expired eng now ip \<longleftrightarrow>
     (if bip_permanent ip \<or> \<not> given (bip_expires_at ip) then False
      else (case date_parse eng (the (bip_expires_at ip)) of None \<Rightarrow> False | Some t \<Rightarrow> t < now))"

text \<open>The three cards.\<close>

definition blocked_cards :: "monitor_state \<Rightarrow> nat \<times> nat \<times> nat" where
  "blocked_cards st =
     (length (m_blockedIPs st),
      length (filter bip_permanent (m_blockedIPs st)),
      length (filter (\<lambda>ip. \<not> bip_permanent ip \<and> given (bip_expires_at ip)) (m_blockedIPs st)))"

definition block_type_tag :: "BlockedIP \<Rightarrow> tag" where
  "block_type_tag ip =
     \<lparr>tag_value = (if bip_permanent ip then ''Permanent'' else ''Temporary''),
      tag_severity = (if bip_permanent ip then ''danger'' else ''warning'')\<rparr>"

datatype expiry = Never | No_expiry | Expires string "js_error + string"

text \<open>The column of the expiry: the date with a note under it.\<close>

definition expiry_cell :: "date_lib \<Rightarrow> engine \<Rightarrow> int \<Rightarrow> BlockedIP \<Rightarrow> js_error + expiry" where
  "expiry_cell dl eng now ip =
     (if bip_permanent ip then Inr Never
      else if given (bip_expires_at ip) then
        (case blocked_formatDate dl eng (the (bip_expires_at ip)) of
           Inl e \<Rightarrow> Inl e
         | Inr d \<Rightarrow>
             Inr (Expires d
               (if block_expired eng now ip then Inr ''Expired''
                else blocked_formatRelative dl eng now (the (bip_expires_at ip)))))
      else Inr No_expiry)"

definition blocked_by :: "BlockedIP \<Rightarrow> string" where
  "blocked_by ip =
     (case bip_blocked_by_email ip of Some e \<Rightarrow> if e = [] then ''System'' else e | None \<Rightarrow> ''System'')"

definition risk_class :: "rat \<Rightarrow> string" where
  "risk_class score =
     (if score \<ge> 80 then ''text-[var(--color-status-danger)]''
      else if score \<ge> 50 \<and> score < 80 then ''text-[var(--color-status-warning)]''
      else ''text-[var(--color-status-secure)]'')"

datatype blocked_dialog = Blocked_closed | Blocked_loading | Blocked_reputation IPReputation | Blocked_blank

definition blocked_reputation_dialog :: "blocked_view \<Rightarrow> blocked_dialog" where
  "blocked_reputation_dialog v =
     (if \<not> bv_showReputation v then Blocked_closed
      else if bv_loadingReputation v then Blocked_loading
      else (case bv_reputation v of Some r \<Rightarrow> Blocked_reputation r | None \<Rightarrow> Blocked_blank))"

section \<open>The reputation shown is the one asked for\<close>

text \<open>Also: unlike the threats page, this page never shows the reputation of another address: after
  looking at one, the dialog shows what this call returned, or it is closed again with an error.\<close>

theorem reputation_is_of_address:
  "(case fst (fetchIPReputation (srv_reputation srv) el ip (sc_world s)) of
      Inl e \<Rightarrow> blocked_reputation_dialog (sc_view (viewReputation srv el ip s)) = Blocked_closed
        \<and> sc_toasts (viewReputation srv el ip s) = sc_toasts s @
            [\<lparr>to_severity = ''error'', to_summary = ''Error'', to_detail = ''Failed to load IP reputation'',
              to_life = 3000\<rparr>]
    | Inr r \<Rightarrow> blocked_reputation_dialog (sc_view (viewReputation srv el ip s))
          = (case r of Some x \<Rightarrow> Blocked_reputation x | None \<Rightarrow> Blocked_blank)
        \<and> bv_selectedIP (sc_view (viewReputation srv el ip s)) = Some ip)"
  by (simp add: viewReputation_def try_await_def blocked_reputation_dialog_def
      split: sum.splits prod.splits option.splits)

section \<open>The cards\<close>

text \<open>Also: the permanent and the temporary blocks are different blocks, and together they are all of
  them but those that are neither permanent nor have an end.\<close>

theorem blocked_cards_add_up:
  "(case blocked_cards st of (n, permanent, temporary) \<Rightarrow>
      permanent + temporary + length (filter (\<lambda>ip. \<not> bip_permanent ip \<and> \<not> given (bip_expires_at ip)) (m_blockedIPs st))
        = n)"
proof -
  have "length (filter bip_permanent xs)
      + length (filter (\<lambda>ip. \<not> bip_permanent ip \<and> given (bip_expires_at ip)) xs)
      + length (filter (\<lambda>ip. \<not> bip_permanent ip \<and> \<not> given (bip_expires_at ip)) xs) = length xs" for xs
    by (induction xs) auto
  then show ?thesis by (simp add: blocked_cards_def)
qed

section \<open>Blocking\<close>

definition post_block :: "jval \<Rightarrow> auth_state \<Rightarrow> request" where
  "post_block v a = api_request a ''/api/admin/security/blocked-ips''
     (no_options\<lparr>ri_method := Some ''POST'', ri_body := Some (stringify v)\<rparr>)"

lemma blockIP_replied:
  assumes "replies (srv_block srv) d"
  shows "\<exists>w1. blockIP (srv_block srv) el v w = (Inr (Some d), w1)
    \<and> aw_monitor w1 = addBlockedIP d (aw_monitor w) \<and> aw_auth w1 = aw_auth w
    \<and> br_sent (aw_browser w1) = br_sent (aw_browser w) @ [post_block v (aw_auth w)]"
  unfolding blockIP_def
  by (subst replied_call [OF assms])
    (simp add: whole_def store_def, simp add: on_monitor_def post_block_def getBaseUrl_def)

lemma payload_hours:
  "(\<exists>ps. block_payload r f = JObj ps \<and> (own ps ''duration_hours'' = JUndef \<longleftrightarrow> bf_permanent f)
      \<and> own ps ''permanent'' = JBool (bf_permanent f) \<and> own ps ''reason'' = JStr r
      \<and> own ps ''ip_address'' = JStr (bf_ip_address f))"
  by (simp add: block_payload_def number_or_null_def split: option.splits)


definition sample_block :: BlockedIP where
  "sample_block = \<lparr>bip_id = 5, bip_ip_address = ''192.0.2.1'', bip_reason = ''Manually blocked'',
     bip_blocked_by = None, bip_blocked_by_email = None, bip_blocked_at = ''2024-01-15T10:30:00Z'',
     bip_expires_at = None, bip_permanent = True\<rparr>"

definition block_server :: server where
  "block_server = sample_server\<lparr>srv_block := status_net 201 None sample_block,
     srv_blocked := status_net 200 None \<lparr>bipr_blocked_ips = Some [sample_block], bipr_total = Some 1\<rparr>\<rparr>"


end
