(* ===== verification/Reputation_Race.thy ===== *)
theory Reputation_Race
  imports Blocked_View Machines
begin

text \<open>
  The interleavings of \<open>viewReputation\<close> in \<open>src/src/views/BlockedIPsView.vue\<close>: the call cut at its
  \<open>await\<close>.  A user may close the dialog and look at another address while an answer is on its way.
  What \<open>Blocked_View\<close> proves of one call holds of many as long as each waits for the one before.
\<close>

section \<open>The pieces\<close>

definition reputation_start :: "string \<Rightarrow> blocked_view \<Rightarrow> blocked_view" where
  "reputation_start ip v =
     v\<lparr>bv_selectedIP := Some ip, bv_loadingReputation := True, bv_showReputation := True\<rparr>"

text \<open>The rest of the call, its \<open>finally\<close> included.\<close>

definition reputation_settle :: "js_error + IPReputation option \<Rightarrow> blocked_view \<Rightarrow> blocked_view" where
  "reputation_settle r v =
     (let v1 = (case r of Inl _ \<Rightarrow> v\<lparr>bv_showReputation := False\<rparr> | Inr x \<Rightarrow> v\<lparr>bv_reputation := x\<rparr>)
      in v1\<lparr>bv_loadingReputation := False\<rparr>)"

text \<open>Also: a call that nothing interrupts is its pieces.\<close>

theorem viewReputation_is_its_pieces:
  "sc_view (viewReputation srv el ip s) =
     reputation_settle (fst (fetchIPReputation (srv_reputation srv) el ip (sc_world s)))
       (reputation_start ip (sc_view s))"
  by (simp add: viewReputation_def reputation_settle_def reputation_start_def try_await_def Let_def
      split: sum.splits prod.splits)

section \<open>The machine\<close>

record reputation_race =
  rr_view :: blocked_view
  rr_calls :: "string list"

datatype reputation_action =
    Views string
  | Closes
  | Answers nat "js_error + IPReputation"

text \<open>The server answers about the address that it was asked for.\<close>

fun reputation_act :: "reputation_action \<Rightarrow> reputation_race \<Rightarrow> reputation_race option" where
  "reputation_act (Views ip) x =
     Some (x\<lparr>rr_view := reputation_start ip (rr_view x), rr_calls := rr_calls x @ [ip]\<rparr>)"
| "reputation_act Closes x = Some (x\<lparr>rr_view := (rr_view x)\<lparr>bv_showReputation := False\<rparr>\<rparr>)"
| "reputation_act (Answers i r) x =
     (if i < length (rr_calls x) \<and> (case r of Inr rep \<Rightarrow> ipr_ip_address rep = rr_calls x ! i | Inl _ \<Rightarrow> True)
      then Some (x\<lparr>rr_view := reputation_settle (case r of Inl e \<Rightarrow> Inl e | Inr rep \<Rightarrow> Inr (Some rep)) (rr_view x),
                   rr_calls := take i (rr_calls x) @ drop (Suc i) (rr_calls x)\<rparr>)
      else None)"

definition reputation_init :: reputation_race where
  "reputation_init = \<lparr>rr_view = blocked_init, rr_calls = []\<rparr>"

section \<open>One look at a time\<close>

definition patient_view :: "reputation_race \<Rightarrow> reputation_race \<Rightarrow> bool" where
  "patient_view x y \<longleftrightarrow>
     (\<exists>a. reputation_act a x = Some y \<and> (case a of Views _ \<Rightarrow> rr_calls x = [] | _ \<Rightarrow> True))"

definition shown_is_selected :: "blocked_view \<Rightarrow> bool" where
  "shown_is_selected v \<longleftrightarrow>
     (case blocked_reputation_dialog v of
        Blocked_reputation rep \<Rightarrow> bv_selectedIP v = Some (ipr_ip_address rep)
      | _ \<Rightarrow> True)"

definition reputation_inv :: "reputation_race \<Rightarrow> bool" where
  "reputation_inv x \<longleftrightarrow>
     shown_is_selected (rr_view x)
     \<and> (if bv_loadingReputation (rr_view x)
        then (case bv_selectedIP (rr_view x) of Some ip \<Rightarrow> rr_calls x = [ip] | None \<Rightarrow> False)
        else rr_calls x = [])"

lemma reputation_inv_init: "reputation_inv reputation_init"
  by (simp add: reputation_inv_def reputation_init_def blocked_init_def shown_is_selected_def
      blocked_reputation_dialog_def)

lemma reputation_inv_step:
  assumes "reputation_inv x" "patient_view x y"
  shows "reputation_inv y"
proof -
  obtain a where a: "reputation_act a x = Some y" "case a of Views _ \<Rightarrow> rr_calls x = [] | _ \<Rightarrow> True"
    using assms(2) by (auto simp: patient_view_def)
  show ?thesis
  proof (cases a)
    case (Views ip)
    then show ?thesis
      using a by (auto simp: reputation_inv_def reputation_start_def shown_is_selected_def blocked_reputation_dialog_def)
  next
    case Closes
    then show ?thesis
      using a assms(1)
      by (auto simp: reputation_inv_def shown_is_selected_def blocked_reputation_dialog_def
          split: if_splits option.splits)
  next
    case (Answers i r)
    with a have i: "i < length (rr_calls x)" by (auto split: if_splits)
    with assms(1) obtain ip where ip: "bv_selectedIP (rr_view x) = Some ip" "rr_calls x = [ip]" "i = 0"
      by (auto simp: reputation_inv_def split: if_splits option.splits)
    then show ?thesis
      using a Answers assms(1)
      by (auto simp: reputation_inv_def reputation_settle_def shown_is_selected_def blocked_reputation_dialog_def
          Let_def split: sum.splits if_splits option.splits)
  qed
qed

interpretation patient_reputation: invariant_system "\<lambda>x. x = reputation_init" patient_view reputation_inv
  by unfold_locales (auto intro: reputation_inv_init reputation_inv_step)


text \<open>Also: a user who does not wait may be: of two looks whose answers arrive in the other order, the
  dialog of the second shows the reputation of the first, and says that it has loaded.\<close>

theorem late_reputation_is_of_other:
  assumes "ipr_ip_address ra = a" "ipr_ip_address rb = b" "rr_calls x = []"
  shows "\<exists>y. run reputation_act [Views a, Closes, Views b, Answers 1 (Inr rb), Answers 0 (Inr ra)] x = Some y
    \<and> bv_selectedIP (rr_view y) = Some b \<and> blocked_reputation_dialog (rr_view y) = Blocked_reputation ra"
  using assms
  by (simp add: reputation_start_def reputation_settle_def blocked_reputation_dialog_def Let_def)


theorem late_reputation_is_of_other_witness:
  "\<exists>y. run reputation_act [Views ''192.0.2.1'', Closes, Views ''198.51.100.9'',
        Answers 1 (Inr (sample_reputation\<lparr>ipr_ip_address := ''198.51.100.9''\<rparr>)), Answers 0 (Inr sample_reputation)]
      reputation_init = Some y
    \<and> bv_selectedIP (rr_view y) = Some ''198.51.100.9''
    \<and> blocked_reputation_dialog (rr_view y) = Blocked_reputation sample_reputation"
  by (rule late_reputation_is_of_other) (simp_all add: sample_reputation_def reputation_init_def)

end
