(* ===== verification/Alerts_View.thy ===== *)
theory Alerts_View
  imports Screen Date_Parse
begin

text \<open>
  \<open>src/src/views/AlertsView.vue\<close>: the alert rules with the dialog that makes or edits one, the switch in
  their table, and the history of alerts with its filters and the dialog that acknowledges one.

  The form is a partial rule.  A new one has no id and no dates; editing copies a rule, its condition
  included, so that typing into the form does not touch the store.
\<close>

section \<open>State\<close>

record form_condition =
  fc_threshold :: "int option"
  fc_window_minutes :: "int option"
  fc_group_by :: "GroupBy option"
  fc_count_distinct :: "string option"

record rule_form =
  fo_id :: "int option"
  fo_name :: string
  fo_description :: string
  fo_event_type :: string
  fo_condition :: form_condition
  fo_severity :: Severity
  fo_enabled :: bool
  fo_actions :: "AlertAction list"
  fo_recipients :: "string list option"
  fo_webhook_url :: "string option"
  fo_created_at :: "string option"
  fo_updated_at :: "string option"

definition new_rule_form :: rule_form where
  "new_rule_form = \<lparr>fo_id = None, fo_name = [], fo_description = [], fo_event_type = [],
     fo_condition = \<lparr>fc_threshold = Some 5, fc_window_minutes = Some 5, fc_group_by = None,
       fc_count_distinct = None\<rparr>,
     fo_severity = Warning, fo_enabled = True, fo_actions = [Email],
     fo_recipients = None, fo_webhook_url = None, fo_created_at = None, fo_updated_at = None\<rparr>"

record history_filters =
  hf_severity :: "Severity option"
  hf_acknowledged :: "bool option"

record alerts_view =
  al_showRule :: bool
  al_showAcknowledge :: bool
  al_isEditing :: bool
  al_selected :: "TriggeredAlert option"
  al_note :: string
  al_form :: rule_form
  al_filters :: history_filters
  al_confirm :: "(string \<times> AlertRule) option"

definition alerts_init :: alerts_view where
  "alerts_init = \<lparr>al_showRule = False, al_showAcknowledge = False, al_isEditing = False,
     al_selected = None, al_note = [], al_form = new_rule_form,
     al_filters = \<lparr>hf_severity = None, hf_acknowledged = None\<rparr>, al_confirm = None\<rparr>"

definition alerts_severityOptions :: "(string \<times> Severity) list" where
  "alerts_severityOptions = [(''Warning'', Warning), (''Error'', ErrorSeverity), (''Critical'', Critical)]"

definition actionOptions :: "(string \<times> AlertAction) list" where
  "actionOptions = [(''Email'', Email), (''Webhook'', Webhook), (''Slack'', Slack)]"

definition groupByOptions :: "(string \<times> GroupBy option) list" where
  "groupByOptions = [(''None'', None), (''IP Address'', Some By_ip_address), (''User ID'', Some By_user_id),
     (''Application ID'', Some By_app_id)]"

definition alerts_eventTypeOptions :: "select_option list" where
  "alerts_eventTypeOptions = map (\<lambda>(v, l). \<lparr>so_label = l, so_value = v\<rparr>) EVENT_TYPE_LABELS"

section \<open>Loading\<close>

definition history_params :: "history_filters \<Rightarrow> (string \<times> param) list" where
  "history_params f =
     [(''severity'', case hf_severity f of Some x \<Rightarrow> P_string (severity_string x) | None \<Rightarrow> P_undefined),
      (''acknowledged'', case hf_acknowledged f of Some b \<Rightarrow> P_bool b | None \<Rightarrow> P_undefined)]"

definition alerts_loadData :: "server \<Rightarrow> elevator \<Rightarrow> alerts_view screen \<Rightarrow> alerts_view screen" where
  "alerts_loadData srv el s =
     load_or_toast
       (promise_all
          [api_void (fetchAlertRules (srv_rules srv) el),
           api_void (fetchAlertHistory (srv_alerts srv) el (history_params (al_filters (sc_view s))))])
       ''Failed to load alert data'' s"

section \<open>Rules\<close>

definition openNewRuleDialog :: "alerts_view \<Rightarrow> alerts_view" where
  "openNewRuleDialog v = v\<lparr>al_isEditing := False, al_form := new_rule_form, al_showRule := True\<rparr>"

definition form_of_rule :: "AlertRule \<Rightarrow> rule_form" where
  "form_of_rule r = \<lparr>fo_id = Some (ar_id r), fo_name = ar_name r, fo_description = ar_description r,
     fo_event_type = ar_event_type r,
     fo_condition = \<lparr>fc_threshold = Some (ac_threshold (ar_condition r)),
       fc_window_minutes = Some (ac_window_minutes (ar_condition r)),
       fc_group_by = ac_group_by (ar_condition r), fc_count_distinct = ac_count_distinct (ar_condition r)\<rparr>,
     fo_severity = ar_severity r, fo_enabled = ar_enabled r, fo_actions = ar_actions r,
     fo_recipients = ar_recipients r, fo_webhook_url = ar_webhook_url r,
     fo_created_at = Some (ar_created_at r), fo_updated_at = ar_updated_at r\<rparr>"

definition openEditRuleDialog :: "AlertRule \<Rightarrow> alerts_view \<Rightarrow> alerts_view" where
  "openEditRuleDialog rule v = v\<lparr>al_isEditing := True, al_form := form_of_rule rule, al_showRule := True\<rparr>"

text \<open>The form as the object that is sent; a member that is absent or undefined is left out.  The order
  of its members is that of the interface.\<close>

primrec group_by_string :: "GroupBy \<Rightarrow> string" where
  "group_by_string By_ip_address = ''ip_address''"
| "group_by_string By_user_id = ''user_id''"
| "group_by_string By_app_id = ''app_id''"

primrec action_string :: "AlertAction \<Rightarrow> string" where
  "action_string Email = ''email''"
| "action_string Webhook = ''webhook''"
| "action_string Slack = ''slack''"

definition or_undefined :: "('a \<Rightarrow> jval) \<Rightarrow> 'a option \<Rightarrow> jval" where
  "or_undefined f x = (case x of Some y \<Rightarrow> f y | None \<Rightarrow> JUndef)"

definition form_value :: "rule_form \<Rightarrow> jval" where
  "form_value f =
     JObj [(''id'', or_undefined JNum (fo_id f)),
           (''name'', JStr (fo_name f)),
           (''description'', JStr (fo_description f)),
           (''event_type'', JStr (fo_event_type f)),
           (''condition'', JObj
              [(''threshold'', number_or_null (fc_threshold (fo_condition f))),
               (''window_minutes'', number_or_null (fc_window_minutes (fo_condition f))),
               (''group_by'', or_undefined (JStr \<circ> group_by_string) (fc_group_by (fo_condition f))),
               (''count_distinct'', or_undefined JStr (fc_count_distinct (fo_condition f)))]),
           (''severity'', JStr (severity_string (fo_severity f))),
           (''enabled'', JBool (fo_enabled f)),
           (''actions'', JArr (map (JStr \<circ> action_string) (fo_actions f))),
           (''recipients'', or_undefined (JArr \<circ> map JStr) (fo_recipients f)),
           (''webhook_url'', or_undefined JStr (fo_webhook_url f)),
           (''created_at'', or_undefined JStr (fo_created_at f)),
           (''updated_at'', or_undefined JStr (fo_updated_at f))]"

definition saved :: "server \<Rightarrow> elevator \<Rightarrow> string \<Rightarrow> alerts_view screen \<Rightarrow> alerts_view screen" where
  "saved srv el message s =
     alerts_loadData srv el (on_view (\<lambda>v. v\<lparr>al_showRule := False\<rparr>) (toast_success message s))"

definition saveRule :: "server \<Rightarrow> elevator \<Rightarrow> alerts_view screen \<Rightarrow> alerts_view screen" where
  "saveRule srv el s =
     (let f = al_form (sc_view s);
          failed = toast_error ''Failed to save alert rule''
      in case (if al_isEditing (sc_view s) then fo_id f else None) of
           Some i \<Rightarrow>
             if i \<noteq> 0
             then try_await (api_updateAlertRule (srv_rule srv) el i (form_value f))
                    (\<lambda>_. saved srv el ''Alert rule updated'') failed s
             else try_await (createAlertRule (srv_rule srv) el (form_value f))
                    (\<lambda>_. saved srv el ''Alert rule created'') failed s
         | None \<Rightarrow>
             try_await (createAlertRule (srv_rule srv) el (form_value f))
               (\<lambda>_. saved srv el ''Alert rule created'') failed s)"

definition save_disabled :: "alerts_view \<Rightarrow> bool" where
  "save_disabled v \<longleftrightarrow> fo_name (al_form v) = [] \<or> fo_event_type (al_form v) = []"

definition confirmDeleteRule :: "AlertRule \<Rightarrow> alerts_view \<Rightarrow> alerts_view" where
  "confirmDeleteRule rule v =
     v\<lparr>al_confirm := Some (''Delete '' @ [CHR 0x22] @ ar_name rule @ [CHR 0x22] @ ''?'', rule)\<rparr>"

definition accept_delete :: "server \<Rightarrow> elevator \<Rightarrow> alerts_view screen \<Rightarrow> alerts_view screen" where
  "accept_delete srv el s =
     (case al_confirm (sc_view s) of
        None \<Rightarrow> s
      | Some (_, rule) \<Rightarrow>
          try_await (deleteAlertRule (srv_plain srv) el (ar_id rule))
            (\<lambda>_ s1. alerts_loadData srv el (toast_success ''Alert rule deleted'' s1))
            (toast_error ''Failed to delete rule'')
            (on_view (\<lambda>v. v\<lparr>al_confirm := None\<rparr>) s))"

text \<open>The switch of the \<open>k\<close>-th row.  The rule object of the row is flipped after the call; the reply has
  taken its place in the store by then, unless the reply's id is that of another row or of none, so
  that the row still holds the object.\<close>

definition flip_rule :: "nat \<Rightarrow> monitor_state \<Rightarrow> monitor_state" where
  "flip_rule k m =
     m\<lparr>m_alertRules := (m_alertRules m)
         [k := (m_alertRules m ! k)\<lparr>ar_enabled := \<not> ar_enabled (m_alertRules m ! k)\<rparr>]\<rparr>"

definition toggleRuleEnabled ::
    "server \<Rightarrow> elevator \<Rightarrow> nat \<Rightarrow> alerts_view screen \<Rightarrow> alerts_view screen" where
  "toggleRuleEnabled srv el k s =
     (let rules = m_alertRules (sc_store s)
      in if length rules \<le> k then s
         else
           try_await
             (api_updateAlertRule (srv_rule srv) el (ar_id (rules ! k))
                (JObj [(''enabled'', JBool (\<not> ar_enabled (rules ! k)))]))
             (\<lambda>reply s1.
                if (case reply of
                      Some d \<Rightarrow> findIndex (\<lambda>r. ar_id r = ar_id d) rules = Some k
                    | None \<Rightarrow> False)
                then s1
                else s1\<lparr>sc_world := on_monitor (flip_rule k) (sc_world s1)\<rparr>)
             (toast_error ''Failed to update rule'') s)"

section \<open>Alerts\<close>

definition openAcknowledgeDialog :: "TriggeredAlert \<Rightarrow> alerts_view \<Rightarrow> alerts_view" where
  "openAcknowledgeDialog alert v =
     v\<lparr>al_selected := Some alert, al_note := [], al_showAcknowledge := True\<rparr>"

definition alerts_acknowledge ::
    "server \<Rightarrow> elevator \<Rightarrow> string \<Rightarrow> alerts_view screen \<Rightarrow> alerts_view screen" where
  "alerts_acknowledge srv el now s =
     (case al_selected (sc_view s) of
        None \<Rightarrow> s
      | Some alert \<Rightarrow>
          try_await (api_acknowledgeAlert (srv_plain srv) el now (ta_id alert) (Some (al_note (sc_view s))))
            (\<lambda>_ s1. alerts_loadData srv el
               (on_view (\<lambda>v. v\<lparr>al_showAcknowledge := False\<rparr>) (toast_success ''Alert acknowledged'' s1)))
            (toast_error ''Failed to acknowledge alert'') s)"

section \<open>What is shown\<close>

primrec alerts_severityColor :: "Severity \<Rightarrow> string" where
  "alerts_severityColor Critical = ''danger''"
| "alerts_severityColor ErrorSeverity = ''danger''"
| "alerts_severityColor Warning = ''warning''"
| "alerts_severityColor Info = ''info''"

definition alerts_formatTime :: "date_lib \<Rightarrow> engine \<Rightarrow> int \<Rightarrow> string \<Rightarrow> js_error + string" where
  "alerts_formatTime dl eng now date = dl_distance dl (date_parse eng date) now"

definition unacknowledged_tag :: "monitor_state \<Rightarrow> tag option" where
  "unacknowledged_tag st =
     (if m_unacknowledgedAlerts st > 0
      then Some \<lparr>tag_value = string_of_int (m_unacknowledgedAlerts st) @ '' unacknowledged'',
                 tag_severity = ''danger''\<rparr>
      else None)"

definition condition_text :: "AlertCondition \<Rightarrow> string" where
  "condition_text c =
     [CHR 0xE2, CHR 0x89, CHR 0xA5] @ '' '' @ string_of_int (ac_threshold c) @ '' in ''
     @ string_of_int (ac_window_minutes c) @ ''m''
     @ (case ac_group_by c of Some g \<Rightarrow> '' (by '' @ group_by_string g @ '')'' | None \<Rightarrow> [])"

definition rule_status_tag :: "AlertRule \<Rightarrow> tag" where
  "rule_status_tag r =
     \<lparr>tag_value = (if ar_enabled r then ''Active'' else ''Disabled''),
      tag_severity = (if ar_enabled r then ''success'' else ''secondary'')\<rparr>"

definition severity_tag :: "Severity \<Rightarrow> tag" where
  "severity_tag x =
     \<lparr>tag_value = map upper_char (severity_string x), tag_severity = alerts_severityColor x\<rparr>"

definition alert_status_tag :: "TriggeredAlert \<Rightarrow> tag" where
  "alert_status_tag a =
     (if ta_acknowledged a then \<lparr>tag_value = ''Acknowledged'', tag_severity = ''success''\<rparr>
      else \<lparr>tag_value = ''Pending'', tag_severity = ''warning''\<rparr>)"

definition rule_dialog_texts :: "alerts_view \<Rightarrow> string \<times> string" where
  "rule_dialog_texts v =
     (if al_isEditing v then (''Edit Alert Rule'', ''Update'') else (''New Alert Rule'', ''Create''))"

section \<open>Saving\<close>

text \<open>The rule as the object that the interface describes.\<close>

definition rule_value :: "AlertRule \<Rightarrow> jval" where
  "rule_value r =
     JObj [(''id'', JNum (ar_id r)),
           (''name'', JStr (ar_name r)),
           (''description'', JStr (ar_description r)),
           (''event_type'', JStr (ar_event_type r)),
           (''condition'', JObj
              [(''threshold'', JNum (ac_threshold (ar_condition r))),
               (''window_minutes'', JNum (ac_window_minutes (ar_condition r))),
               (''group_by'', or_undefined (JStr \<circ> group_by_string) (ac_group_by (ar_condition r))),
               (''count_distinct'', or_undefined JStr (ac_count_distinct (ar_condition r)))]),
           (''severity'', JStr (severity_string (ar_severity r))),
           (''enabled'', JBool (ar_enabled r)),
           (''actions'', JArr (map (JStr \<circ> action_string) (ar_actions r))),
           (''recipients'', or_undefined (JArr \<circ> map JStr) (ar_recipients r)),
           (''webhook_url'', or_undefined JStr (ar_webhook_url r)),
           (''created_at'', JStr (ar_created_at r)),
           (''updated_at'', or_undefined JStr (ar_updated_at r))]"

lemma form_value_of_rule: "form_value (form_of_rule r) = rule_value r"
  by (simp add: form_value_def form_of_rule_def rule_value_def or_undefined_def number_or_null_def)

definition put_rule :: "int \<Rightarrow> jval \<Rightarrow> auth_state \<Rightarrow> request" where
  "put_rule i v a = api_request a (''/api/admin/alerts/rules/'' @ string_of_int i)
     (no_options\<lparr>ri_method := Some ''PUT'', ri_body := Some (stringify v)\<rparr>)"

lemma updateAlertRule_replied:
  assumes "replies (srv_rule srv) d"
  shows "\<exists>w1. api_updateAlertRule (srv_rule srv) el i v w = (Inr (Some d), w1)
    \<and> aw_monitor w1 = updateAlertRule d (aw_monitor w) \<and> aw_auth w1 = aw_auth w
    \<and> br_sent (aw_browser w1) = br_sent (aw_browser w) @ [put_rule i v (aw_auth w)]"
  unfolding api_updateAlertRule_def
  by (subst replied_call [OF assms])
    (simp add: edited_def store_def, simp add: on_monitor_def put_rule_def getBaseUrl_def)

definition post_rule :: "jval \<Rightarrow> auth_state \<Rightarrow> request" where
  "post_rule v a = api_request a ''/api/admin/alerts/rules''
     (no_options\<lparr>ri_method := Some ''POST'', ri_body := Some (stringify v)\<rparr>)"

lemma createAlertRule_replied:
  assumes "replies (srv_rule srv) d"
  shows "\<exists>w1. createAlertRule (srv_rule srv) el v w = (Inr (Some d), w1)
    \<and> aw_monitor w1 = addAlertRule d (aw_monitor w) \<and> aw_auth w1 = aw_auth w
    \<and> br_sent (aw_browser w1) = br_sent (aw_browser w) @ [post_rule v (aw_auth w)]"
  unfolding createAlertRule_def
  by (subst replied_call [OF assms])
    (simp add: whole_def store_def, simp add: on_monitor_def post_rule_def getBaseUrl_def)

lemma loadData_sends:
  assumes "accepts (srv_rules srv)" "accepts (srv_alerts srv)"
  shows "\<exists>url. br_sent (aw_browser (sc_world (alerts_loadData srv el s))) = br_sent (aw_browser (sc_world s))
    @ [api_request (aw_auth (sc_world s)) ''/api/admin/alerts/rules'' no_options,
       api_request (aw_auth (sc_world s)) (''/api/admin/alerts/history?'' @ url) no_options]"
proof -
  define w1 where "w1 = snd (fetchAlertRules (srv_rules srv) el (sc_world s))"
  have w1: "aw_auth w1 = aw_auth (sc_world s)"
    "br_sent (aw_browser w1) = br_sent (aw_browser (sc_world s))
      @ [api_request (aw_auth (sc_world s)) ''/api/admin/alerts/rules'' no_options]"
    unfolding w1_def fetchAlertRules_def getBaseUrl_def
    by (subst accepted_load_auth [OF assms(1)], simp_all add: uses_keep_auth)
      (subst accepted_load_sends [OF assms(1)], simp_all add: uses_send_nothing)
  have "\<exists>url. br_sent (aw_browser (snd (fetchAlertHistory (srv_alerts srv) el ps w1))) = br_sent (aw_browser w1)
      @ [api_request (aw_auth w1) (''/api/admin/alerts/history?'' @ url) no_options]" for ps
    unfolding fetchAlertHistory_def getBaseUrl_def
    by (subst accepted_load_sends [OF assms(2)]) (auto simp: uses_send_nothing)
  then show ?thesis
    unfolding alerts_loadData_def load_or_toast_world snd_promise_all snd_api_void w1_def [symmetric]
    by (simp add: w1)
qed

text \<open>The one change that saving the form asks for.\<close>

definition save_request :: "alerts_view \<Rightarrow> auth_state \<Rightarrow> request" where
  "save_request v a =
     (case fo_id (al_form v) of
        Some i \<Rightarrow> if al_isEditing v \<and> i \<noteq> 0 then put_rule i (form_value (al_form v)) a
                  else post_rule (form_value (al_form v)) a
      | None \<Rightarrow> post_rule (form_value (al_form v)) a)"

lemma saved_effect:
  assumes "accepts (srv_rules srv)" "accepts (srv_alerts srv)"
  shows "\<exists>url. br_sent (aw_browser (sc_world (saved srv el m s))) = br_sent (aw_browser (sc_world s))
    @ [api_request (aw_auth (sc_world s)) ''/api/admin/alerts/rules'' no_options,
       api_request (aw_auth (sc_world s)) (''/api/admin/alerts/history?'' @ url) no_options]
    \<and> sc_view (saved srv el m s) = (sc_view s)\<lparr>al_showRule := False\<rparr>"
proof -
  have "sc_view (saved srv el m s) = (sc_view s)\<lparr>al_showRule := False\<rparr>"
    by (simp add: saved_def alerts_loadData_def)
  then show ?thesis
    using loadData_sends [OF assms, of el "on_view (\<lambda>v. v\<lparr>al_showRule := False\<rparr>) (toast_success m s)"]
    by (simp add: saved_def)
qed


section \<open>Switching a rule\<close>

text \<open>Also: switching a rule shows what the server replies: the row holds the rule of the reply, not the
  switched copy, and all other rows are as they were.\<close>

theorem toggle_shows_reply:
  assumes "replies (srv_rule srv) d" "k < length (m_alertRules (sc_store s))"
    and "distinct (map ar_id (m_alertRules (sc_store s)))" "ar_id d = ar_id (m_alertRules (sc_store s) ! k)"
  shows "m_alertRules (sc_store (toggleRuleEnabled srv el k s)) = (m_alertRules (sc_store s))[k := d]
    \<and> sc_toasts (toggleRuleEnabled srv el k s) = sc_toasts s"
proof -
  define rules where "rules = m_alertRules (sc_store s)"
  have f: "findIndex (\<lambda>r. ar_id r = ar_id d) rules = Some k"
  proof -
    have "ar_id (rules ! j) \<noteq> ar_id d" if "j < k" for j
      using nth_eq_iff_index_eq [OF assms(3), of j k] assms(2,4) that by (simp add: rules_def)
    then show ?thesis using assms(2,4) by (simp add: findIndex_Some rules_def)
  qed
  obtain w1 where w1: "api_updateAlertRule (srv_rule srv) el (ar_id (rules ! k))
        (JObj [(''enabled'', JBool (\<not> ar_enabled (rules ! k)))]) (sc_world s) = (Inr (Some d), w1)"
    "aw_monitor w1 = updateAlertRule d (sc_store s)"
    using updateAlertRule_replied [OF assms(1)] by blast
  then have "toggleRuleEnabled srv el k s = s\<lparr>sc_world := w1\<rparr>"
    using f assms(2) by (simp add: toggleRuleEnabled_def Let_def try_await_def rules_def [symmetric])
  then show ?thesis
    using w1(2) f by (simp add: updateAlertRule_def rules_def)
qed

definition sample_rule :: AlertRule where
  "sample_rule = \<lparr>ar_id = 3, ar_name = ''Brute force'', ar_description = [], ar_event_type = ''login_failed'',
     ar_condition = \<lparr>ac_threshold = 5, ac_window_minutes = 5, ac_group_by = Some By_ip_address,
       ac_count_distinct = None\<rparr>,
     ar_severity = Warning, ar_enabled = True, ar_actions = [Email], ar_recipients = None,
     ar_webhook_url = None, ar_created_at = ''2024-01-15T10:30:00Z'', ar_updated_at = None\<rparr>"

definition rules_server :: server where
  "rules_server = sample_server\<lparr>srv_rule := status_net 200 None (sample_rule\<lparr>ar_enabled := False\<rparr>),
     srv_rules := status_net 200 None \<lparr>arr_rules = Some []\<rparr>,
     srv_alerts := status_net 200 None \<lparr>ahr_alerts = Some [], ahr_total = None, ahr_unacknowledged = None\<rparr>\<rparr>"

lemma rules_server_ok:
  "replies (srv_rule rules_server) (sample_rule\<lparr>ar_enabled := False\<rparr>)"
  "accepts (srv_rules rules_server)" "accepts (srv_alerts rules_server)"
  by (simp_all add: rules_server_def replies_def accepts_def status_net_def resp_ok_def)


theorem toggle_shows_reply_witness:
  "m_alertRules (sc_store (toggleRuleEnabled rules_server user_cancels 0
     \<lparr>sc_world = sample_world\<lparr>aw_monitor := monitor_init\<lparr>m_alertRules := [sample_rule]\<rparr>\<rparr>,
      sc_toasts = [], sc_view = alerts_init\<rparr>)) = [sample_rule\<lparr>ar_enabled := False\<rparr>]"
proof -
  define s where "s = \<lparr>sc_world = sample_world\<lparr>aw_monitor := monitor_init\<lparr>m_alertRules := [sample_rule]\<rparr>\<rparr>,
      sc_toasts = [], sc_view = alerts_init\<rparr>"
  have "m_alertRules (sc_store s) = [sample_rule]" by (simp add: s_def)
  then show ?thesis
    using toggle_shows_reply [OF rules_server_ok(1), of 0 s user_cancels] unfolding s_def [symmetric] by simp
qed

end
