(* ===== verification/Reports_View.thy ===== *)
theory Reports_View
  imports Screen Date_Parse
begin

text \<open>
  \<open>src/src/views/ReportsView.vue\<close>: the form that asks for a report, the polling of its status, and the
  download.  A poll asks the server and either ends (the report is ready, has failed, or the call
  threw) or sets a timer for the next one.  The pending timers are part of the state, a list of the
  report ids that their closures hold; the page is a machine whose actions are the user's and the
  firing of a timer, in any order.

  The calendar arithmetic of \<open>date-fns\<close> (\<open>subDays\<close>, \<open>startOfMonth\<close>, \<open>endOfMonth\<close>) is a parameter, and so
  is the time \<open>now\<close> of an action.  The range picker of the UI library may leave an end of the range
  unset, which is \<open>None\<close> in the list.
\<close>

section \<open>State\<close>

record report_form =
  rf_type :: string
  rf_format :: string
  rf_dateRange :: "int option list option"
  rf_sections :: "string list"

record reports_view =
  rp_showGenerate :: bool
  rp_isGenerating :: bool
  rp_polling :: "string list"
  rp_timers :: "string list"
  rp_form :: report_form
  rp_preset :: string
  rp_opened :: "string list"

record range_lib =
  rl_subDays :: "int \<Rightarrow> int \<Rightarrow> int"
  rl_startOfMonth :: "int \<Rightarrow> int"
  rl_endOfMonth :: "int \<Rightarrow> int"

definition fresh_form :: "range_lib \<Rightarrow> int \<Rightarrow> report_form" where
  "fresh_form lib now =
     \<lparr>rf_type = ''security_summary'', rf_format = ''json'',
      rf_dateRange = Some [Some (rl_subDays lib now 30), Some now],
      rf_sections = [''overview'', ''threats'', ''users'', ''apps'']\<rparr>"

definition reports_init :: "range_lib \<Rightarrow> int \<Rightarrow> reports_view" where
  "reports_init lib now = \<lparr>rp_showGenerate = False, rp_isGenerating = False, rp_polling = [],
     rp_timers = [], rp_form = fresh_form lib now, rp_preset = ''month'', rp_opened = []\<rparr>"

definition reportTypes :: "(string \<times> string) list" where
  "reportTypes = [(''Security Summary'', ''security_summary'')]"

definition formatOptions :: "(string \<times> string) list" where
  "formatOptions = [(''JSON'', ''json''), (''CSV'', ''csv'')]"

definition sectionOptions :: "(string \<times> string) list" where
  "sectionOptions = [(''Overview'', ''overview''), (''Threats'', ''threats''), (''Users'', ''users''),
     (''Applications'', ''apps''), (''Recommendations'', ''recommendations'')]"

definition presetRanges :: "(string \<times> string) list" where
  "presetRanges = [(''Last 7 Days'', ''week''), (''Last 30 Days'', ''month''), (''This Month'', ''this_month''),
     (''Last Month'', ''last_month''), (''Custom'', ''custom'')]"

section \<open>The form\<close>

definition set_range :: "int \<Rightarrow> int \<Rightarrow> reports_view \<Rightarrow> reports_view" where
  "set_range from until v = v\<lparr>rp_form := (rp_form v)\<lparr>rf_dateRange := Some [Some from, Some until]\<rparr>\<rparr>"

definition applyPreset :: "range_lib \<Rightarrow> int \<Rightarrow> string \<Rightarrow> reports_view \<Rightarrow> reports_view" where
  "applyPreset lib now preset v =
     (let v1 = v\<lparr>rp_preset := preset\<rparr>
      in if preset = ''week'' then set_range (rl_subDays lib now 7) now v1
         else if preset = ''month'' then set_range (rl_subDays lib now 30) now v1
         else if preset = ''this_month'' then set_range (rl_startOfMonth lib now) now v1
         else if preset = ''last_month'' then
           (let lastMonth = rl_subDays lib (rl_startOfMonth lib now) 1
            in set_range (rl_startOfMonth lib lastMonth) (rl_endOfMonth lib lastMonth) v1)
         else v1)"

definition openGenerateDialog :: "range_lib \<Rightarrow> int \<Rightarrow> reports_view \<Rightarrow> reports_view" where
  "openGenerateDialog lib now v =
     v\<lparr>rp_form := fresh_form lib now, rp_preset := ''month'', rp_showGenerate := True\<rparr>"

text \<open>A button of the card of quick reports: \<open>applyPreset(p); openGenerateDialog()\<close>\<close>

definition quick_report :: "range_lib \<Rightarrow> int \<Rightarrow> string \<Rightarrow> reports_view \<Rightarrow> reports_view" where
  "quick_report lib now preset v = openGenerateDialog lib now (applyPreset lib now preset v)"

definition toggleSection :: "string \<Rightarrow> reports_view \<Rightarrow> reports_view" where
  "toggleSection section_name v =
     (case findIndex (\<lambda>x. x = section_name) (rf_sections (rp_form v)) of
        Some idx \<Rightarrow> v\<lparr>rp_form := (rp_form v)\<lparr>rf_sections :=
          take idx (rf_sections (rp_form v)) @ drop (Suc idx) (rf_sections (rp_form v))\<rparr>\<rparr>
      | None \<Rightarrow> v\<lparr>rp_form := (rp_form v)\<lparr>rf_sections := rf_sections (rp_form v) @ [section_name]\<rparr>\<rparr>)"

definition generate_disabled :: "reports_view \<Rightarrow> bool" where
  "generate_disabled v \<longleftrightarrow> rf_dateRange (rp_form v) = None \<or> length (rf_sections (rp_form v)) = 0"

section \<open>Polling\<close>

definition stop_polling :: "string \<Rightarrow> reports_view screen \<Rightarrow> reports_view screen" where
  "stop_polling reportId = on_view (\<lambda>v. v\<lparr>rp_polling := filter (\<lambda>r. r \<noteq> reportId) (rp_polling v)\<rparr>)"

definition poll :: "server \<Rightarrow> elevator \<Rightarrow> string \<Rightarrow> reports_view screen \<Rightarrow> reports_view screen" where
  "poll srv el reportId s =
     try_await (fetchReportStatus (srv_report srv) el reportId)
       (\<lambda>status s1. case status of
          None \<Rightarrow> stop_polling reportId s1
        | Some st \<Rightarrow>
            (case rs_status st of
               Completed \<Rightarrow>
                 toast_add ''success'' ''Report Ready'' ''Your report is ready for download'' 5000
                   (stop_polling reportId s1)
             | Failed \<Rightarrow>
                 toast_add ''error'' ''Report Failed''
                   (case rs_error st of
                      Some e \<Rightarrow> if e = [] then ''Report generation failed'' else e
                    | None \<Rightarrow> ''Report generation failed'') 5000
                   (stop_polling reportId s1)
             | Generating \<Rightarrow> on_view (\<lambda>v. v\<lparr>rp_timers := rp_timers v @ [reportId]\<rparr>) s1))
       (stop_polling reportId) s"

definition pollReportStatus ::
    "server \<Rightarrow> elevator \<Rightarrow> string \<Rightarrow> reports_view screen \<Rightarrow> reports_view screen" where
  "pollReportStatus srv el reportId s =
     (if reportId \<in> set (rp_polling (sc_view s)) then s
      else poll srv el reportId (on_view (\<lambda>v. v\<lparr>rp_polling := rp_polling v @ [reportId]\<rparr>) s))"

section \<open>Asking for a report\<close>

text \<open>The body of the request; an unset end of the range, or a date out of range, throws.\<close>

definition report_request :: "report_form \<Rightarrow> int option list \<Rightarrow> js_error + jval" where
  "report_request f ends =
     (case ends of
        [Some a, Some b] \<Rightarrow>
          (case to_iso a of
             Inl e \<Rightarrow> Inl e
           | Inr from \<Rightarrow>
               (case to_iso b of
                  Inl e \<Rightarrow> Inl e
                | Inr until \<Rightarrow>
                    Inr (JObj
                      [(''type'', JStr ''security_summary''),
                       (''period'', JObj [(''from'', JStr from), (''to'', JStr until)]),
                       (''format'', JStr (rf_format f)),
                       (''sections'', JArr (map JStr (rf_sections f)))])))
      | _ \<Rightarrow> Inl TypeError)"

definition reports_generate :: "server \<Rightarrow> elevator \<Rightarrow> reports_view screen \<Rightarrow> reports_view screen" where
  "reports_generate srv el s =
     (let form = rp_form (sc_view s);
          idle = on_view (\<lambda>v. v\<lparr>rp_isGenerating := False\<rparr>);
          failed = (\<lambda>s1. idle (toast_error ''Failed to generate report'' s1))
      in case rf_dateRange form of
           None \<Rightarrow> toast_add ''warn'' ''Validation'' ''Please select a date range'' 3000 s
         | Some ends \<Rightarrow>
             if length ends \<noteq> 2
             then toast_add ''warn'' ''Validation'' ''Please select a date range'' 3000 s
             else
               (let s0 = on_view (\<lambda>v. v\<lparr>rp_isGenerating := True\<rparr>) s
                in case report_request form ends of
                     Inl _ \<Rightarrow> failed s0
                   | Inr request \<Rightarrow>
                       try_await (generateReport (srv_report srv) el request)
                         (\<lambda>report s1.
                            let s2 = on_view (\<lambda>v. v\<lparr>rp_showGenerate := False\<rparr>)
                                       (toast_add ''success'' ''Report Queued'' ''Your report is being generated'' 3000 s1)
                            in case report of
                                 None \<Rightarrow> failed s2
                               | Some r \<Rightarrow> pollReportStatus srv el (rs_report_id r) (idle s2))
                         failed s0))"

definition downloadReport :: "ReportStatus \<Rightarrow> reports_view \<Rightarrow> reports_view" where
  "downloadReport report v =
     (if rs_status report \<noteq> Completed then v
      else v\<lparr>rp_opened := rp_opened v @ [getReportDownloadUrl (rs_report_id report)]\<rparr>)"

section \<open>What is shown of a report\<close>

primrec report_state_string :: "ReportState \<Rightarrow> string" where
  "report_state_string Generating = ''generating''"
| "report_state_string Completed = ''completed''"
| "report_state_string Failed = ''failed''"

definition getStatusSeverity :: "string \<Rightarrow> string" where
  "getStatusSeverity status =
     (if status = ''completed'' then ''success''
      else if status = ''generating'' then ''info''
      else if status = ''failed'' then ''danger''
      else ''secondary'')"

definition reports_formatDate :: "date_lib \<Rightarrow> engine \<Rightarrow> string \<Rightarrow> js_error + string" where
  "reports_formatDate dl eng date = dl_format dl (date_parse eng date) ''MMM d, yyyy HH:mm''"

text \<open>The last column: the download button, or a text.\<close>

datatype report_cell = Cell_download | Cell_text string

definition report_action_cell :: "ReportStatus \<Rightarrow> report_cell" where
  "report_action_cell r =
     (if rs_status r = Completed then Cell_download
      else if rs_status r = Generating then Cell_text ''Processing...''
      else Cell_text ''Failed'')"

section \<open>The page as a machine\<close>

datatype reports_action =
    Open_dialog int
  | Close_dialog
  | Apply_preset string int
  | Quick_report string int
  | Pick_dates "int option list option"
  | Pick_format string
  | Toggle_section string
  | Generate
  | Download ReportStatus
  | Fire string

text \<open>A timer that fires is gone; its poll may set the next one.\<close>

definition fire :: "server \<Rightarrow> elevator \<Rightarrow> string \<Rightarrow> reports_view screen \<Rightarrow> reports_view screen" where
  "fire srv el r s =
     (if r \<in> set (rp_timers (sc_view s))
      then poll srv el r (on_view (\<lambda>v. v\<lparr>rp_timers := remove1 r (rp_timers v)\<rparr>) s)
      else s)"

primrec reports_act ::
    "server \<Rightarrow> elevator \<Rightarrow> range_lib \<Rightarrow> reports_action \<Rightarrow> reports_view screen \<Rightarrow> reports_view screen" where
  "reports_act srv el lib (Open_dialog now) = on_view (openGenerateDialog lib now)"
| "reports_act srv el lib Close_dialog = on_view (\<lambda>v. v\<lparr>rp_showGenerate := False\<rparr>)"
| "reports_act srv el lib (Apply_preset p now) = on_view (applyPreset lib now p)"
| "reports_act srv el lib (Quick_report p now) = on_view (quick_report lib now p)"
| "reports_act srv el lib (Pick_dates ds) =
     on_view (\<lambda>v. v\<lparr>rp_form := (rp_form v)\<lparr>rf_dateRange := ds\<rparr>, rp_preset := ''custom''\<rparr>)"
| "reports_act srv el lib (Pick_format f) = on_view (\<lambda>v. v\<lparr>rp_form := (rp_form v)\<lparr>rf_format := f\<rparr>\<rparr>)"
| "reports_act srv el lib (Toggle_section x) = on_view (toggleSection x)"
| "reports_act srv el lib Generate = reports_generate srv el"
| "reports_act srv el lib (Download r) = on_view (downloadReport r)"
| "reports_act srv el lib (Fire r) = fire srv el r"

section \<open>The quick reports\<close>

text \<open>Also: the preset of a quick report is lost: whichever of the buttons is pressed, the dialog opens
  with the last thirty days, because opening it resets the form that the button has just filled.\<close>

theorem quick_reports_lose_preset:
  "quick_report lib now preset v = openGenerateDialog lib now v"
  by (simp add: quick_report_def openGenerateDialog_def applyPreset_def set_range_def Let_def)

section \<open>One polling loop per report\<close>

text \<open>Between two actions every report that is being polled has exactly one pending timer.\<close>

definition polls_inv :: "reports_view screen \<Rightarrow> bool" where
  "polls_inv s \<longleftrightarrow>
     distinct (rp_polling (sc_view s)) \<and> distinct (rp_timers (sc_view s))
     \<and> set (rp_timers (sc_view s)) = set (rp_polling (sc_view s))"

lemma form_edits_keep_polls:
  "rp_polling (openGenerateDialog lib now v) = rp_polling v" "rp_timers (openGenerateDialog lib now v) = rp_timers v"
  "rp_polling (applyPreset lib now p v) = rp_polling v" "rp_timers (applyPreset lib now p v) = rp_timers v"
  "rp_polling (toggleSection x v) = rp_polling v" "rp_timers (toggleSection x v) = rp_timers v"
  "rp_polling (downloadReport r v) = rp_polling v" "rp_timers (downloadReport r v) = rp_timers v"
  by (simp_all add: openGenerateDialog_def applyPreset_def set_range_def toggleSection_def
      downloadReport_def Let_def split: option.splits)

text \<open>A poll of a report without a timer either stops it or gives it one.\<close>

lemma poll_effect:
  "(rp_polling (sc_view (poll srv el r s)) = filter (\<lambda>x. x \<noteq> r) (rp_polling (sc_view s))
      \<and> rp_timers (sc_view (poll srv el r s)) = rp_timers (sc_view s))
   \<or> (rp_polling (sc_view (poll srv el r s)) = rp_polling (sc_view s)
      \<and> rp_timers (sc_view (poll srv el r s)) = rp_timers (sc_view s) @ [r])"
  by (auto simp: poll_def try_await_def stop_polling_def
      split: prod.splits sum.splits option.splits ReportState.splits)

lemma poll_inv:
  assumes "distinct (rp_polling (sc_view s))" "distinct (rp_timers (sc_view s))"
    and "r \<in> set (rp_polling (sc_view s))"
    and "set (rp_timers (sc_view s)) = set (rp_polling (sc_view s)) - {r}"
  shows "polls_inv (poll srv el r s)"
proof -
  have "set (rp_polling (sc_view s)) - {r} = {x \<in> set (rp_polling (sc_view s)). x \<noteq> r}"
    "insert r (set (rp_polling (sc_view s)) - {r}) = set (rp_polling (sc_view s))"
    using assms(3) by auto
  then show ?thesis
    using poll_effect [of srv el r s] assms(1,2) unfolding polls_inv_def
    by (elim disjE conjE) (simp_all add: assms(4))
qed

lemma pollReportStatus_inv:
  assumes "polls_inv s"
  shows "polls_inv (pollReportStatus srv el r s)"
proof (cases "r \<in> set (rp_polling (sc_view s))")
  case False
  then have "polls_inv (poll srv el r (on_view (\<lambda>v. v\<lparr>rp_polling := rp_polling v @ [r]\<rparr>) s))"
    using assms by (intro poll_inv) (auto simp: polls_inv_def)
  then show ?thesis using False by (simp add: pollReportStatus_def)
qed (simp add: pollReportStatus_def assms)

lemma fire_inv:
  assumes "polls_inv s"
  shows "polls_inv (fire srv el r s)"
proof (cases "r \<in> set (rp_timers (sc_view s))")
  case True
  then have "polls_inv (poll srv el r (on_view (\<lambda>v. v\<lparr>rp_timers := remove1 r (rp_timers v)\<rparr>) s))"
    using assms by (intro poll_inv) (auto simp: polls_inv_def)
  then show ?thesis using True by (simp add: fire_def)
qed (simp add: fire_def assms)

definition same_polls :: "reports_view screen \<Rightarrow> reports_view screen \<Rightarrow> bool" where
  "same_polls s t \<longleftrightarrow>
     rp_polling (sc_view s) = rp_polling (sc_view t) \<and> rp_timers (sc_view s) = rp_timers (sc_view t)"

lemma polls_inv_same: "same_polls s t \<Longrightarrow> polls_inv s = polls_inv t"
  by (simp add: same_polls_def polls_inv_def)

text \<open>Asking for a report leaves the polls alone, or starts one.\<close>

lemma reports_generate_cases:
  obtains "same_polls (reports_generate srv el s) s"
  | r t where "reports_generate srv el s = pollReportStatus srv el r t" "same_polls t s"
proof (cases "\<exists>ends req report w. rf_dateRange (rp_form (sc_view s)) = Some ends \<and> length ends = 2
    \<and> report_request (rp_form (sc_view s)) ends = Inr req
    \<and> generateReport (srv_report srv) el req (sc_world s) = (Inr (Some report), w)")
  case True
  then obtain ends req report w where "rf_dateRange (rp_form (sc_view s)) = Some ends" "length ends = 2"
    "report_request (rp_form (sc_view s)) ends = Inr req"
    "generateReport (srv_report srv) el req (sc_world s) = (Inr (Some report), w)" by blast
  then show ?thesis
    by (intro that(2)) (simp_all add: reports_generate_def Let_def try_await_def, simp add: same_polls_def)
next
  case False
  then have "same_polls (reports_generate srv el s) s"
    by (simp add: reports_generate_def Let_def try_await_def same_polls_def
        split: option.splits sum.splits prod.splits) blast
  then show ?thesis by (rule that(1))
qed

lemma generate_inv:
  assumes "polls_inv s"
  shows "polls_inv (reports_generate srv el s)"
proof (cases rule: reports_generate_cases [where srv = srv and el = el and s = s])
  case (2 r t)
  then show ?thesis using assms polls_inv_same pollReportStatus_inv by metis
qed (use assms polls_inv_same in blast)

lemma user_act_same:
  "\<nexists>r. a = Fire r \<Longrightarrow> a \<noteq> Generate \<Longrightarrow> same_polls (reports_act srv el lib a s) s"
  by (cases a) (simp_all add: same_polls_def form_edits_keep_polls quick_report_def)

lemma reports_act_inv:
  assumes "polls_inv s"
  shows "polls_inv (reports_act srv el lib a s)"
proof (cases "a = Generate \<or> (\<exists>r. a = Fire r)")
  case True
  then show ?thesis using assms by (auto simp: fire_inv generate_inv)
next
  case False
  then have "same_polls (reports_act srv el lib a s) s" by (intro user_act_same) auto
  then show ?thesis using assms polls_inv_same by blast
qed

interpretation report_polls: invariant_system
  "\<lambda>s. rp_polling (sc_view s) = [] \<and> rp_timers (sc_view s) = []"
  "\<lambda>s t. \<exists>a. t = reports_act srv el lib a s" polls_inv
  by unfold_locales (simp add: polls_inv_def, use reports_act_inv in blast)

lemma count_list_distinct: "distinct xs \<Longrightarrow> count_list xs x = (if x \<in> set xs then 1 else 0)"
  by (induction xs) auto


section \<open>Polling ends\<close>

text \<open>From some request on the server no longer says that a report is still being made: each answer
  says that it is ready or has failed, or is an error.\<close>

definition settled_from :: "nat \<Rightarrow> ReportStatus net \<Rightarrow> bool" where
  "settled_from N net \<longleftrightarrow>
     (\<forall>n q r st. N \<le> n \<longrightarrow> net n q = Responded r \<longrightarrow> resp_ok r \<longrightarrow> resp_body r = Json st
        \<longrightarrow> rs_status st \<noteq> Generating)"

lemma poll_sends:
  "el_monotone el \<Longrightarrow> sent_count (sc_world s) < sent_count (sc_world (poll srv el r s))"
  using call_json_sends [of el "edited updateReport m_reports" "sc_world s" "srv_report srv"]
  by (auto simp: poll_def try_await_def fetchReportStatus_def stop_polling_def uses_keep_count
      split: prod.splits sum.splits option.splits ReportState.splits) (metis snd_conv)+

lemma poll_settles:
  assumes "el_monotone el" "settled_from N (srv_report srv)" "N \<le> sent_count (sc_world s)"
  shows "r \<notin> set (rp_polling (sc_view (poll srv el r s)))"
proof -
  have "rs_status st \<noteq> Generating"
    if c: "fetchReportStatus (srv_report srv) el r (sc_world s) = (Inr (Some st), w)" for st w
  proof -
    obtain n q x where "sent_count (sc_world s) \<le> n" "srv_report srv n q = Responded x" "resp_ok x"
      "resp_body x = Json st"
      using call_json_answer [OF assms(1) c [unfolded fetchReportStatus_def]] by blast
    then show ?thesis using assms(2,3) unfolding settled_from_def by (meson order_trans)
  qed
  then show ?thesis
    by (auto simp: poll_def try_await_def stop_polling_def
        split: prod.splits sum.splits option.splits ReportState.splits)
qed

lemma pollReportStatus_sends:
  assumes "el_monotone el"
  shows "sent_count (sc_world s) \<le> sent_count (sc_world (pollReportStatus srv el r s))"
proof (cases "r \<in> set (rp_polling (sc_view s))")
  case False
  then show ?thesis
    using poll_sends [OF assms, of "on_view (\<lambda>v. v\<lparr>rp_polling := rp_polling v @ [r]\<rparr>) s" srv r]
    by (simp add: pollReportStatus_def)
qed (simp add: pollReportStatus_def)

lemma generateReport_sends:
  "el_monotone el \<Longrightarrow> sent_count w < sent_count (snd (generateReport net el req w))"
  unfolding generateReport_def by (rule call_json_sends) (simp_all add: uses_keep_count)

lemma generate_sends:
  assumes "el_monotone el"
  shows "sent_count (sc_world s) \<le> sent_count (sc_world (reports_generate srv el s))"
proof -
  have g: "sent_count (sc_world s) \<le> sent_count w"
    if "generateReport (srv_report srv) el req (sc_world s) = (x, w)" for req x w
    using generateReport_sends [OF assms, of "sc_world s" "srv_report srv" req] that by simp
  have p: "sent_count (sc_world s) \<le> sent_count (sc_world (pollReportStatus srv el r t))"
    if "generateReport (srv_report srv) el req (sc_world s) = (x, w)" "sc_world t = w" for req x w r t
    using g [OF that(1)] pollReportStatus_sends [OF assms, of t srv r] that(2) by simp
  show ?thesis
    by (auto simp: reports_generate_def Let_def try_await_def intro: g p
        split: option.splits sum.splits prod.splits)
qed

lemma fire_sends:
  assumes "el_monotone el" "r \<in> set (rp_timers (sc_view s))"
  shows "sent_count (sc_world s) < sent_count (sc_world (fire srv el r s))"
  using poll_sends [OF assms(1), of "on_view (\<lambda>v. v\<lparr>rp_timers := remove1 r (rp_timers v)\<rparr>) s" srv r] assms(2)
  by (simp add: fire_def)

lemma reports_act_sends:
  assumes "el_monotone el"
  shows "sent_count (sc_world s) \<le> sent_count (sc_world (reports_act srv el lib a s))"
proof (cases a)
  case (Fire r)
  then show ?thesis
    using fire_sends [OF assms, of r s srv] by (cases "r \<in> set (rp_timers (sc_view s))") (auto simp: fire_def)
qed (simp_all add: generate_sends [OF assms])

text \<open>The states of a run in which the \<open>n\<close>-th action is \<open>f n\<close>.\<close>

primrec reports_run ::
    "server \<Rightarrow> elevator \<Rightarrow> range_lib \<Rightarrow> (nat \<Rightarrow> reports_action) \<Rightarrow> reports_view screen \<Rightarrow> nat \<Rightarrow> reports_view screen" where
  "reports_run srv el lib f s 0 = s"
| "reports_run srv el lib f s (Suc n) = reports_act srv el lib (f n) (reports_run srv el lib f s n)"

lemma reports_run_inv: "polls_inv s \<Longrightarrow> polls_inv (reports_run srv el lib f s n)"
  by (induction n) (simp_all add: reports_act_inv)

lemma reports_run_sends:
  "el_monotone el \<Longrightarrow> m \<le> n \<Longrightarrow>
    sent_count (sc_world (reports_run srv el lib f s m)) \<le> sent_count (sc_world (reports_run srv el lib f s n))"
  by (rule lift_Suc_mono_le [of "\<lambda>n. sent_count (sc_world (reports_run srv el lib f s n))"])
    (simp_all add: reports_act_sends)


definition sample_ranges :: range_lib where
  "sample_ranges = \<lparr>rl_subDays = (\<lambda>t n. t - n * 86400000), rl_startOfMonth = (\<lambda>t. t), rl_endOfMonth = (\<lambda>t. t)\<rparr>"

definition ready_report :: ReportStatus where
  "ready_report = \<lparr>rs_report_id = ''r1'', rs_status = Completed, rs_download_url = None,
     rs_expires_at = None, rs_created_at = ''2024-01-15T10:30:00Z'', rs_error = None\<rparr>"

definition ready_server :: server where
  "ready_server = sample_server\<lparr>srv_report := status_net 200 None ready_report\<rparr>"



end
