(* ===== verification/Tokens_View.thy ===== *)
theory Tokens_View
  imports Charts
begin

text \<open>
  \<open>src/src/views/TokensView.vue\<close>: the statistics of issued tokens, with a chart of their types, of the
  activity by hour and by application, and the count of suspicious uses.
\<close>

section \<open>State and loading\<close>

record tokens_view =
  tk_period :: string

definition tokens_init :: tokens_view where
  "tokens_init = \<lparr>tk_period = ''24h''\<rparr>"

definition tokens_periodOptions :: "select_option list" where
  "tokens_periodOptions =
     [\<lparr>so_label = ''Last 15 Minutes'', so_value = ''15m''\<rparr>,
      \<lparr>so_label = ''Last Hour'', so_value = ''1h''\<rparr>,
      \<lparr>so_label = ''Last 24 Hours'', so_value = ''24h''\<rparr>,
      \<lparr>so_label = ''Last 7 Days'', so_value = ''7d''\<rparr>,
      \<lparr>so_label = ''Last 30 Days'', so_value = ''30d''\<rparr>]"

definition loadTokenStats :: "server \<Rightarrow> elevator \<Rightarrow> tokens_view screen \<Rightarrow> tokens_view screen" where
  "loadTokenStats srv el s =
     load_or_toast (fetchTokenStats (srv_tokens srv) el (tk_period (sc_view s)))
       ''Failed to load token statistics'' s"

section \<open>Computed values\<close>

definition by_app :: "monitor_state \<Rightarrow> TokensByApp list" where
  "by_app st = (case m_tokenStats st of Some t \<Rightarrow> tst_by_app t | None \<Rightarrow> [])"

definition by_hour :: "monitor_state \<Rightarrow> TokensByHour list" where
  "by_hour st =
     (case m_tokenStats st of
        Some t \<Rightarrow> (case tst_by_hour t of Some hs \<Rightarrow> hs | None \<Rightarrow> [])
      | None \<Rightarrow> [])"

definition hasTokenTypeData :: "monitor_state \<Rightarrow> bool" where
  "hasTokenTypeData st \<longleftrightarrow>
     (case m_tokenStats st of
        None \<Rightarrow> False
      | Some t \<Rightarrow> ti_access_tokens (tst_issued t) + ti_refresh_tokens (tst_issued t) + ti_id_tokens (tst_issued t) > 0)"

definition hasHourlyData :: "monitor_state \<Rightarrow> bool" where
  "hasHourlyData st \<longleftrightarrow>
     (case m_tokenStats st of
        None \<Rightarrow> False
      | Some t \<Rightarrow> (case tst_by_hour t of Some hs \<Rightarrow> length hs > 0 | None \<Rightarrow> False))"

definition hasAppData :: "monitor_state \<Rightarrow> bool" where
  "hasAppData st \<longleftrightarrow> (case m_tokenStats st of None \<Rightarrow> False | Some t \<Rightarrow> length (tst_by_app t) > 0)"

definition totalIssued :: "monitor_state \<Rightarrow> int" where
  "totalIssued st =
     (case m_tokenStats st of
        None \<Rightarrow> 0
      | Some t \<Rightarrow> ti_access_tokens (tst_issued t) + ti_refresh_tokens (tst_issued t) + ti_id_tokens (tst_issued t))"

definition securityIssues :: "monitor_state \<Rightarrow> int" where
  "securityIssues st =
     (case m_tokenStats st of
        None \<Rightarrow> 0
      | Some t \<Rightarrow> tst_expired_usage_attempts t + tst_invalid_usage_attempts t)"

section \<open>Charts\<close>

definition tokenTypesChart :: "monitor_state \<Rightarrow> chart" where
  "tokenTypesChart st =
     \<lparr>ch_labels = [''Access Tokens'', ''Refresh Tokens'', ''ID Tokens''],
      ch_series =
        [pie_series
           (case m_tokenStats st of
              Some t \<Rightarrow> [ti_access_tokens (tst_issued t), ti_refresh_tokens (tst_issued t), ti_id_tokens (tst_issued t)]
            | None \<Rightarrow> [0, 0, 0])
           [''#3b82f6'', ''#8b5cf6'', ''#06b6d4'']]\<rparr>"

definition tokenTypesOptions :: "chart_colors \<Rightarrow> jval" where
  "tokenTypesOptions cc =
     JObj [(''responsive'', JBool True), (''maintainAspectRatio'', JBool False),
           (''plugins'', legend_option ''bottom'' (cc_legend cc) 20 [])]"

definition tokenActivityChart :: "date_lib \<Rightarrow> engine \<Rightarrow> monitor_state \<Rightarrow> js_error + chart" where
  "tokenActivityChart dl eng st =
     (case map_throw (\<lambda>h. dl_format dl (date_parse eng (tbh_hour h)) ''HH:mm'') (by_hour st) of
        Inl e \<Rightarrow> Inl e
      | Inr labels \<Rightarrow>
          Inr \<lparr>ch_labels = labels,
               ch_series =
                 [line_series ''Issued'' (map tbh_issued (by_hour st)) ''#3b82f6'' ''rgba(59, 130, 246, 0.1)'',
                  line_series ''Refreshed'' (map tbh_refreshed (by_hour st)) ''#8b5cf6'' ''rgba(139, 92, 246, 0.1)'',
                  line_series ''Revoked'' (map tbh_revoked (by_hour st)) ''#ef4444'' ''rgba(239, 68, 68, 0.1)'']\<rparr>)"

definition tokenActivityOptions :: "chart_colors \<Rightarrow> jval" where
  "tokenActivityOptions cc =
     JObj [(''responsive'', JBool True), (''maintainAspectRatio'', JBool False),
           (''plugins'', legend_option ''bottom'' (cc_legend cc) 20 []),
           (''scales'', JObj [(''x'', axis_option cc []), (''y'', axis_option cc [])])]"

definition byAppChart :: "monitor_state \<Rightarrow> chart" where
  "byAppChart st =
     \<lparr>ch_labels = map tba_app_name (by_app st),
      ch_series =
        [bar_series ''Issued'' (map tba_issued (by_app st)) ''#3b82f6'',
         bar_series ''Refreshed'' (map tba_refreshed (by_app st)) ''#8b5cf6'',
         bar_series ''Revoked'' (map tba_revoked (by_app st)) ''#ef4444'']\<rparr>"

definition byAppOptions :: "chart_colors \<Rightarrow> jval" where
  "byAppOptions cc =
     JObj [(''responsive'', JBool True), (''maintainAspectRatio'', JBool False),
           (''plugins'', legend_option ''bottom'' (cc_legend cc) 20 []),
           (''scales'', JObj [(''x'', axis_option cc [(''stacked'', JBool True)]),
                              (''y'', axis_option cc [(''stacked'', JBool True)])])]"

section \<open>Panels\<close>

text \<open>What the panel of a chart shows.\<close>

datatype panel = Panel_chart | Panel_empty | Panel_skeleton

definition types_panel :: "monitor_state \<Rightarrow> panel" where
  "types_panel st =
     (if hasTokenTypeData st then Panel_chart
      else if m_tokenStats st \<noteq> None then Panel_empty else Panel_skeleton)"

definition activity_panel :: "monitor_state \<Rightarrow> panel" where
  "activity_panel st =
     (if hasHourlyData st then Panel_chart
      else if m_tokenStats st \<noteq> None then Panel_empty else Panel_skeleton)"

definition app_panel :: "monitor_state \<Rightarrow> panel" where
  "app_panel st = (if hasAppData st then Panel_chart else Panel_empty)"

text \<open>The section of suspicious uses: its sentence and the two counts that are not zero.\<close>

definition alerts_section :: "monitor_state \<Rightarrow> (string \<times> string list) option" where
  "alerts_section st =
     (case m_tokenStats st of
        None \<Rightarrow> None
      | Some t \<Rightarrow>
          if securityIssues st > 0
          then Some (''Detected '' @ string_of_int (securityIssues st)
                       @ '' suspicious token usage attempts in the selected period.'',
                 (if tst_expired_usage_attempts t \<noteq> 0
                  then [string_of_int (tst_expired_usage_attempts t) @ '' expired token attempts''] else [])
                 @ (if tst_invalid_usage_attempts t \<noteq> 0
                  then [string_of_int (tst_invalid_usage_attempts t) @ '' invalid token attempts''] else []))
          else None)"

section \<open>The charts and the cards agree\<close>

text \<open>Also: the charts show what the cards say: the slices of the types add up to the tokens issued and
  the chart is shown exactly when there are any; every series of the other charts has one value for
  each label.\<close>

theorem token_charts_agree:
  "sum_list (concat (map ser_data (ch_series (tokenTypesChart st)))) = totalIssued st
    \<and> (types_panel st = Panel_chart \<longleftrightarrow> totalIssued st > 0)
    \<and> aligned (tokenTypesChart st) \<and> aligned (byAppChart st)
    \<and> (case tokenActivityChart dl eng st of Inl _ \<Rightarrow> True | Inr c \<Rightarrow> aligned c \<and> length (ch_labels c) = length (by_hour st))
    \<and> (alerts_section st \<noteq> None \<longleftrightarrow> securityIssues st > 0)"
  by (auto simp: tokenTypesChart_def pie_series_def totalIssued_def types_panel_def hasTokenTypeData_def
      aligned_def byAppChart_def bar_series_def tokenActivityChart_def line_series_def alerts_section_def
      securityIssues_def dest!: map_throw_length split: option.splits sum.splits)

end
