(* ===== verification/Geo_View.thy ===== *)
theory Geo_View
  imports Charts
begin

text \<open>
  \<open>src/src/views/GeoView.vue\<close>: logins by country and city, the charts of the countries, flags, failure
  rates and the anomalies.

  Country codes are ASCII.  A flag is given by its code points.  A failure rate is computed in
  floating point: \<open>fl\<close> rounds an exact result to the nearest number that the language can hold.
\<close>

section \<open>State and loading\<close>

record geo_view =
  gv_period :: string

definition geo_init :: geo_view where
  "geo_init = \<lparr>gv_period = ''24h''\<rparr>"

definition geo_periodOptions :: "select_option list" where
  "geo_periodOptions =
     [\<lparr>so_label = ''Last 15 Minutes'', so_value = ''15m''\<rparr>,
      \<lparr>so_label = ''Last Hour'', so_value = ''1h''\<rparr>,
      \<lparr>so_label = ''Last 24 Hours'', so_value = ''24h''\<rparr>,
      \<lparr>so_label = ''Last 7 Days'', so_value = ''7d''\<rparr>,
      \<lparr>so_label = ''Last 30 Days'', so_value = ''30d''\<rparr>]"

definition loadGeoData :: "server \<Rightarrow> elevator \<Rightarrow> geo_view screen \<Rightarrow> geo_view screen" where
  "loadGeoData srv el s =
     load_or_toast (fetchGeoAnalytics (srv_geo srv) el (gv_period (sc_view s)))
       ''Failed to load geographic data'' s"

section \<open>Summary\<close>

definition by_country :: "monitor_state \<Rightarrow> GeoCountry list" where
  "by_country st = (case m_geoAnalytics st of Some g \<Rightarrow> geo_by_country g | None \<Rightarrow> [])"

definition totalLogins :: "monitor_state \<Rightarrow> int" where
  "totalLogins st =
     (case m_geoAnalytics st of
        None \<Rightarrow> 0
      | Some g \<Rightarrow> foldl (\<lambda>s c. s + gco_login_count c) 0 (geo_by_country g))"

definition totalFailed :: "monitor_state \<Rightarrow> int" where
  "totalFailed st =
     (case m_geoAnalytics st of
        None \<Rightarrow> 0
      | Some g \<Rightarrow> foldl (\<lambda>s c. s + gco_failed_count c) 0 (geo_by_country g))"

definition uniqueCountries :: "monitor_state \<Rightarrow> nat" where
  "uniqueCountries st = (case m_geoAnalytics st of Some g \<Rightarrow> length (geo_by_country g) | None \<Rightarrow> 0)"

definition uniqueCities :: "monitor_state \<Rightarrow> nat" where
  "uniqueCities st = (case m_geoAnalytics st of Some g \<Rightarrow> length (geo_by_city g) | None \<Rightarrow> 0)"

definition anomalyCount :: "monitor_state \<Rightarrow> nat" where
  "anomalyCount st = (case m_geoAnalytics st of Some g \<Rightarrow> length (geo_anomalies g) | None \<Rightarrow> 0)"

definition hasCountryData :: "monitor_state \<Rightarrow> bool" where
  "hasCountryData st \<longleftrightarrow> (case m_geoAnalytics st of Some g \<Rightarrow> length (geo_by_country g) > 0 | None \<Rightarrow> False)"

definition hasCityData :: "monitor_state \<Rightarrow> bool" where
  "hasCityData st \<longleftrightarrow> (case m_geoAnalytics st of Some g \<Rightarrow> length (geo_by_city g) > 0 | None \<Rightarrow> False)"

definition hasAnomalies :: "monitor_state \<Rightarrow> bool" where
  "hasAnomalies st \<longleftrightarrow> (case m_geoAnalytics st of Some g \<Rightarrow> length (geo_anomalies g) > 0 | None \<Rightarrow> False)"

section \<open>Charts\<close>

definition countryChart :: "monitor_state \<Rightarrow> chart" where
  "countryChart st =
     (let countries = take 10 (by_country st)
      in \<lparr>ch_labels = map gco_country_name countries,
          ch_series =
            [bar_series ''Successful Logins'' (map (\<lambda>c. gco_login_count c - gco_failed_count c) countries) ''#3b82f6'',
             bar_series ''Failed Logins'' (map gco_failed_count countries) ''#ef4444'']\<rparr>)"

definition countryChartOptions :: "chart_colors \<Rightarrow> jval" where
  "countryChartOptions cc =
     JObj [(''indexAxis'', JStr ''y''), (''responsive'', JBool True), (''maintainAspectRatio'', JBool False),
           (''plugins'', legend_option ''bottom'' (cc_legend cc) 20 []),
           (''scales'', JObj
              [(''x'', JObj [(''stacked'', JBool True),
                             (''grid'', JObj [(''color'', JStr (cc_grid cc))]),
                             (''ticks'', JObj [(''color'', JStr (cc_tick cc))])]),
               (''y'', JObj [(''stacked'', JBool True),
                             (''grid'', JObj [(''display'', JBool False)]),
                             (''ticks'', JObj [(''color'', JStr (cc_legend cc))])])])]"

definition pie_colors :: "string list" where
  "pie_colors = [''#3b82f6'', ''#8b5cf6'', ''#06b6d4'', ''#10b981'', ''#f59e0b'', ''#ef4444'']"

definition countryPieChart :: "monitor_state \<Rightarrow> chart" where
  "countryPieChart st =
     (let countries = take 6 (by_country st)
      in \<lparr>ch_labels = map gco_country_name countries,
          ch_series = [pie_series (map gco_login_count countries) (take (length countries) pie_colors)]\<rparr>)"

definition pieChartOptions :: "chart_colors \<Rightarrow> jval" where
  "pieChartOptions cc =
     JObj [(''responsive'', JBool True), (''maintainAspectRatio'', JBool False),
           (''plugins'', legend_option ''right'' (cc_legend cc) 15
              [(''font'', JObj [(''size'', JNum 11)])])]"

section \<open>Flags\<close>

definition countryFlag :: "string \<Rightarrow> nat list" where
  "countryFlag code =
     (if code = [] \<or> length code \<noteq> 2 then [0x1F310]
      else if code = ''XX'' then [0x2753]
      else if code = ''LO'' then [0x1F3E0]
      else map (\<lambda>c. 127397 + of_char c) (map upper_char code))"

section \<open>Failure rates\<close>

text \<open>\<open>x.toFixed(1)\<close>: the nearest tenth, the larger of two.\<close>

definition tenths :: "rat \<Rightarrow> int" where
  "tenths x = \<lfloor>x * 10 + 1 / 2\<rfloor>"

definition toFixed1 :: "rat \<Rightarrow> string" where
  "toFixed1 x =
     (if x < 0 then CHR ''-'' # string_of_int (tenths (- x) div 10) @ ''.'' @ string_of_int (tenths (- x) mod 10)
      else string_of_int (tenths x div 10) @ ''.'' @ string_of_int (tenths x mod 10))"

definition failure_percent :: "(rat \<Rightarrow> rat) \<Rightarrow> GeoCountry \<Rightarrow> rat" where
  "failure_percent fl c = fl (fl (of_int (gco_failed_count c) / of_int (gco_login_count c)) * 100)"

definition failureRate :: "(rat \<Rightarrow> rat) \<Rightarrow> GeoCountry \<Rightarrow> string" where
  "failureRate fl c =
     (if gco_login_count c = 0 then ''0%'' else toFixed1 (failure_percent fl c) @ ''%'')"

text \<open>The tag beside a failed count; \<open>parseFloat\<close> reads the rate back, to a tenth.\<close>

definition rate_tag :: "(rat \<Rightarrow> rat) \<Rightarrow> GeoCountry \<Rightarrow> tag option" where
  "rate_tag fl c =
     (if gco_failed_count c > 0
      then Some \<lparr>tag_value = failureRate fl c,
                 tag_severity =
                   (if gco_login_count c \<noteq> 0 \<and> failure_percent fl c \<ge> 0 \<and> tenths (failure_percent fl c) > 200
                    then ''danger'' else ''warn'')\<rparr>
      else None)"

section \<open>Anomalies\<close>

definition getAnomalySeverity :: "GeoAnomaly \<Rightarrow> string" where
  "getAnomalySeverity a =
     (let desc = map lower_char (gan_description a)
      in if str_includes desc ''suspicious'' \<or> str_includes desc ''unusual'' then ''danger''
         else if str_includes desc ''multiple'' then ''warn''
         else ''info'')"

definition anomaly_border :: "GeoAnomaly \<Rightarrow> string" where
  "anomaly_border a =
     (if getAnomalySeverity a = ''danger'' then ''border-[var(--color-status-danger)]''
      else if getAnomalySeverity a = ''warn'' then ''border-[var(--color-status-warning)]''
      else ''border-[var(--color-accent-primary)]'')"

text \<open>This page catches what the date library throws.\<close>

definition geo_formatTime :: "date_lib \<Rightarrow> engine \<Rightarrow> int \<Rightarrow> string \<Rightarrow> string" where
  "geo_formatTime dl eng now dateStr =
     (case dl_distance dl (date_parse eng dateStr) now of Inr t \<Rightarrow> t | Inl _ \<Rightarrow> dateStr)"

section \<open>Panels\<close>

definition geo_banner :: "monitor_state \<Rightarrow> bool" where
  "geo_banner st \<longleftrightarrow> (case m_geoAnalytics st of Some g \<Rightarrow> \<not> geo_geo_configured g | None \<Rightarrow> False)"

datatype geo_panel = Geo_chart | Geo_empty | Geo_skeleton

definition country_panel :: "monitor_state \<Rightarrow> geo_panel" where
  "country_panel st =
     (if hasCountryData st then Geo_chart
      else if m_geoAnalytics st \<noteq> None then Geo_empty else Geo_skeleton)"

section \<open>A flag names its country\<close>

definition is_letter :: "char \<Rightarrow> bool" where
  "is_letter c \<longleftrightarrow>
     65 \<le> (of_char c :: nat) \<and> (of_char c :: nat) \<le> 90 \<or> 97 \<le> (of_char c :: nat) \<and> (of_char c :: nat) \<le> 122"

definition country_code :: "string \<Rightarrow> bool" where
  "country_code code \<longleftrightarrow> length code = 2 \<and> (\<forall>c \<in> set code. is_letter c) \<and> code \<noteq> ''XX'' \<and> code \<noteq> ''LO''"

lemma countryFlag_code:
  "country_code code \<Longrightarrow> countryFlag code = map (\<lambda>c. 127397 + of_char (upper_char c)) code"
  by (auto simp: country_code_def countryFlag_def)

lemma upper_letter:
  "is_letter c \<Longrightarrow> 65 \<le> (of_char (upper_char c) :: nat) \<and> (of_char (upper_char c) :: nat) \<le> 90"
  by (auto simp: is_letter_def upper_char_def)

text \<open>Also: a flag is that of its country: for a code of two letters it is a pair of regional
  indicators, from which the code can be read back up to its case, and no placeholder; so countries
  with the same flag have the same code up to case.\<close>

theorem flag_names_country:
  assumes "country_code code"
  shows "length (countryFlag code) = 2
    \<and> (\<forall>p \<in> set (countryFlag code). 0x1F1E6 \<le> p \<and> p \<le> 0x1F1FF)
    \<and> map (\<lambda>p. char_of (p - 127397)) (countryFlag code) = map upper_char code
    \<and> countryFlag code \<notin> {[0x1F310], [0x2753], [0x1F3E0]}"
proof -
  have len: "length code = 2" and letters: "\<And>c. c \<in> set code \<Longrightarrow> is_letter c"
    using assms by (auto simp: country_code_def)
  have "0x1F1E6 \<le> p \<and> p \<le> 0x1F1FF" if p: "p \<in> set (countryFlag code)" for p
  proof -
    obtain c where c: "c \<in> set code" "p = 127397 + of_char (upper_char c)"
      using p by (auto simp: countryFlag_code [OF assms])
    then show ?thesis using upper_letter [OF letters [OF c(1)]] by simp
  qed
  moreover have "map (\<lambda>p. char_of (p - 127397)) (countryFlag code) = map upper_char code"
    by (simp add: countryFlag_code [OF assms])
  moreover have "length (countryFlag code) = 2" using len by (simp add: countryFlag_code [OF assms])
  ultimately show ?thesis by auto
qed

theorem flag_names_country_witness:
  "countryFlag ''gb'' = [0x1F1EC, 0x1F1E7] \<and> map (\<lambda>p. char_of (p - 127397)) (countryFlag ''gb'') = ''GB''"
proof -
  have c: "country_code ''gb''" by (simp add: country_code_def is_letter_def)
  have u: "map upper_char ''gb'' = ''GB''" by code_simp
  have "countryFlag ''gb'' = [0x1F1EC, 0x1F1E7]" by (simp add: countryFlag_def upper_char_def)
  then show ?thesis using flag_names_country [OF c] u by simp
qed

section \<open>The numbers agree\<close>

lemma foldl_sum: "foldl (\<lambda>s c. s + f c) (a :: int) xs = a + sum_list (map f xs)"
  by (induction xs arbitrary: a) simp_all

text \<open>Also: the charts agree with the cards: the two parts of a bar add up to the logins of the country,
  every slice has a colour, and with at most ten countries the bars add up to the totals.\<close>

theorem geo_charts_agree:
  "aligned (countryChart st) \<and> aligned (countryPieChart st)
    \<and> map2 (+) (ser_data (ch_series (countryChart st) ! 0)) (ser_data (ch_series (countryChart st) ! 1))
        = map gco_login_count (take 10 (by_country st))
    \<and> length (ser_color (hd (ch_series (countryPieChart st)))) = length (ch_labels (countryPieChart st))
    \<and> (uniqueCountries st > 10 \<or>
        sum_list (ser_data (ch_series (countryChart st) ! 1)) = totalFailed st
        \<and> sum_list (map2 (+) (ser_data (ch_series (countryChart st) ! 0)) (ser_data (ch_series (countryChart st) ! 1)))
          = totalLogins st)"
proof -
  have z: "map2 (+) (map (\<lambda>c. gco_login_count c - gco_failed_count c) cs) (map gco_failed_count cs)
      = map gco_login_count cs" for cs
    by (induction cs) simp_all
  show ?thesis
    by (auto simp: countryChart_def countryPieChart_def bar_series_def pie_series_def aligned_def Let_def z
        pie_colors_def by_country_def totalFailed_def totalLogins_def uniqueCountries_def foldl_sum
        split: option.splits)
qed

text \<open>Also: a failure rate is a percentage: with no more failures than logins it lies between 0.0% and
  100.0%, whatever the rounding of the machine, as long as that is monotone and keeps whole numbers.\<close>

theorem failure_rate_bounds:
  assumes "mono fl" "\<And>n. fl (of_int n) = of_int n"
    and "0 \<le> gco_failed_count c" "gco_failed_count c \<le> gco_login_count c" "gco_login_count c \<noteq> 0"
  shows "0 \<le> tenths (failure_percent fl c) \<and> tenths (failure_percent fl c) \<le> 1000"
proof -
  define x where "x = (of_int (gco_failed_count c) / of_int (gco_login_count c) :: rat)"
  have fx: "fl 0 = 0" "fl 1 = 1" "fl 100 = 100"
    using assms(2) [of 0] assms(2) [of 1] assms(2) [of 100] by simp_all
  have "0 \<le> x" "x \<le> 1" using assms(3-5) by (simp_all add: x_def)
  then have "0 \<le> fl x" "fl x \<le> 1"
    using monoD [OF assms(1), of 0 x] monoD [OF assms(1), of x 1] fx by simp_all
  then have "0 \<le> fl (fl x * 100)" "fl (fl x * 100) \<le> 100"
    using monoD [OF assms(1), of 0 "fl x * 100"] monoD [OF assms(1), of "fl x * 100" 100] fx by simp_all
  then have p: "0 \<le> failure_percent fl c" "failure_percent fl c \<le> 100"
    by (simp_all add: failure_percent_def x_def)
  have "0 \<le> tenths (failure_percent fl c)" using p(1) by (simp add: tenths_def)
  moreover have "tenths (failure_percent fl c) < 1001" using p(2) unfolding tenths_def floor_less_iff by simp
  ultimately show ?thesis by simp
qed

theorem failure_rate_bounds_witness:
  "tenths (failure_percent (\<lambda>x. x) \<lparr>gco_country_code = ''DE'', gco_country_name = ''Germany'',
     gco_login_count = 8, gco_unique_users = 3, gco_failed_count = 1\<rparr>) \<le> 1000"
  using failure_rate_bounds [where fl = "\<lambda>x. x" and c = "\<lparr>gco_country_code = ''DE'', gco_country_name = ''Germany'',
     gco_login_count = 8, gco_unique_users = 3, gco_failed_count = 1\<rparr>"] by (simp add: mono_def)

end
