(* ===== verification/Events_View.thy ===== *)
theory Events_View
  imports Screen Date_Parse
begin

text \<open>
  \<open>src/src/views/EventsView.vue\<close>: the log of security events with its filters, the server-side paging of
  the table, and the details of an event.  The dates of the filters are the instants that the date
  picker chose.
\<close>

section \<open>State\<close>

record event_filters =
  ef_event_type :: "string list"
  ef_severity :: "Severity list"
  ef_ip_address :: string
  ef_user_email :: string
  ef_from :: "int option"
  ef_to :: "int option"

definition no_event_filters :: event_filters where
  "no_event_filters = \<lparr>ef_event_type = [], ef_severity = [], ef_ip_address = [], ef_user_email = [],
     ef_from = None, ef_to = None\<rparr>"

record events_view =
  ev_filters :: event_filters
  ev_page :: int
  ev_pageSize :: int
  ev_selected :: "SecurityEvent option"
  ev_showDetail :: bool

definition events_init :: events_view where
  "events_init = \<lparr>ev_filters = no_event_filters, ev_page = 1, ev_pageSize = 20, ev_selected = None,
     ev_showDetail = False\<rparr>"

definition events_eventTypeOptions :: "select_option list" where
  "events_eventTypeOptions = map (\<lambda>(v, l). \<lparr>so_label = l, so_value = v\<rparr>) EVENT_TYPE_LABELS"

definition events_severityOptions :: "select_option list" where
  "events_severityOptions =
     [\<lparr>so_label = ''Info'', so_value = ''info''\<rparr>, \<lparr>so_label = ''Warning'', so_value = ''warning''\<rparr>,
      \<lparr>so_label = ''Error'', so_value = ''error''\<rparr>, \<lparr>so_label = ''Critical'', so_value = ''critical''\<rparr>]"

section \<open>Operations\<close>

text \<open>\<open>s || undefined\<close> and \<open>date?.toISOString()\<close>\<close>

definition text_param :: "string \<Rightarrow> param" where
  "text_param s = (if s = [] then P_undefined else P_string s)"

definition date_param :: "int option \<Rightarrow> js_error + param" where
  "date_param d =
     (case d of
        None \<Rightarrow> Inr P_undefined
      | Some t \<Rightarrow> (case to_iso t of Inl e \<Rightarrow> Inl e | Inr s \<Rightarrow> Inr (P_string s)))"

definition events_params :: "events_view \<Rightarrow> js_error + (string \<times> param) list" where
  "events_params v =
     (let f = ev_filters v
      in case date_param (ef_from f) of
           Inl e \<Rightarrow> Inl e
         | Inr start \<Rightarrow>
             (case date_param (ef_to f) of
                Inl e \<Rightarrow> Inl e
              | Inr stop \<Rightarrow>
                  Inr [(''event_type'', text_param (join '','' (ef_event_type f))),
                       (''severity'', text_param (join '','' (map severity_string (ef_severity f)))),
                       (''ip_address'', text_param (ef_ip_address f)),
                       (''from'', start), (''to'', stop),
                       (''page'', P_number (ev_page v)), (''page_size'', P_number (ev_pageSize v))]))"

definition loadEvents :: "server \<Rightarrow> elevator \<Rightarrow> events_view screen \<Rightarrow> events_view screen" where
  "loadEvents srv el s =
     (case events_params (sc_view s) of
        Inl _ \<Rightarrow> toast_error ''Failed to load events'' s
      | Inr params \<Rightarrow>
          load_or_toast (fetchSecurityEvents (srv_events srv) el params) ''Failed to load events'' s)"

definition events_onPage ::
    "server \<Rightarrow> elevator \<Rightarrow> page_event \<Rightarrow> events_view screen \<Rightarrow> events_view screen" where
  "events_onPage srv el event s =
     loadEvents srv el (on_view (\<lambda>v. v\<lparr>ev_page := pe_page event + 1, ev_pageSize := pe_rows event\<rparr>) s)"

definition clearFilters :: "server \<Rightarrow> elevator \<Rightarrow> events_view screen \<Rightarrow> events_view screen" where
  "clearFilters srv el s =
     loadEvents srv el (on_view (\<lambda>v. v\<lparr>ev_filters := no_event_filters, ev_page := 1\<rparr>) s)"

definition events_showDetails :: "SecurityEvent \<Rightarrow> events_view screen \<Rightarrow> events_view screen" where
  "events_showDetails event = on_view (\<lambda>v. v\<lparr>ev_selected := Some event, ev_showDetail := True\<rparr>)"

section \<open>What is shown\<close>

primrec events_severityColor :: "Severity \<Rightarrow> string" where
  "events_severityColor Critical = ''danger''"
| "events_severityColor ErrorSeverity = ''danger''"
| "events_severityColor Warning = ''warning''"
| "events_severityColor Info = ''info''"

definition events_formatDate :: "date_lib \<Rightarrow> engine \<Rightarrow> string \<Rightarrow> js_error + string" where
  "events_formatDate dl eng date = dl_format dl (date_parse eng date) ''MMM d, yyyy HH:mm:ss''"

definition event_label :: "SecurityEvent \<Rightarrow> js_text" where
  "event_label e = table_or_key EVENT_TYPE_LABELS (event_type_string (se_event_type e))"

definition event_severity_tag :: "SecurityEvent \<Rightarrow> tag" where
  "event_severity_tag e =
     \<lparr>tag_value = map upper_char (severity_string (se_severity e)),
      tag_severity = events_severityColor (se_severity e)\<rparr>"

definition event_user :: "string \<Rightarrow> SecurityEvent \<Rightarrow> string" where
  "event_user missing e =
     (case se_user_email e of Some u \<Rightarrow> if u = [] then missing else u | None \<Rightarrow> missing)"

definition event_status_icon :: "SecurityEvent \<Rightarrow> string" where
  "event_status_icon e =
     (if se_success e then ''pi-check-circle text-[var(--color-status-secure)]''
      else ''pi-times-circle text-[var(--color-status-danger)]'')"

text \<open>The link to the policy decisions of the same request, as the query of the route.\<close>

definition decisions_link :: "SecurityEvent \<Rightarrow> (string \<times> (string \<times> string) list) option" where
  "decisions_link e =
     (case se_correlation_id e of
        Some c \<Rightarrow> if c = [] then None else Some (''policy-decisions'', [(''correlation_id'', c)])
      | None \<Rightarrow> None)"

section \<open>The filters reach the server\<close>

lemma join_empty: "join '','' ws = [] \<longleftrightarrow> ws = [] \<or> ws = [[]]"
  by (cases ws; cases "tl ws") auto

lemma severity_string_free: "CHR '','' \<notin> set (severity_string x)" "severity_string x \<noteq> []"
  by (cases x; simp)+



end
