(* ===== verification/Audit_View.thy ===== *)
theory Audit_View
  imports Screen Date_Parse Policy_Labels
begin

text \<open>
  \<open>src/src/views/AuditLogsView.vue\<close>: the trail of administrative actions with its filters and paging, and
  its export, which fetches the file with the session and hands it to the browser as a download from
  an object URL.

  The browser's side of the download is two lists: the object URLs that are alive, and the downloads
  started, each with its name and content.  Reading the content of a response may fail and is the
  parameter \<open>read_blob\<close>; \<open>url\<close> is the object URL that the browser makes.
\<close>

section \<open>State\<close>

record audit_filters =
  af_action :: string
  af_target_type :: string
  af_period :: string

record audit_view =
  au_page :: int
  au_pageSize :: int
  au_isExporting :: bool
  au_filters :: audit_filters
  au_showDetails :: bool
  au_selected :: "AdminAuditLog option"
  au_objectUrls :: "string list"
  au_downloads :: "(string \<times> string) list"

definition audit_init :: audit_view where
  "audit_init = \<lparr>au_page = 1, au_pageSize = 25, au_isExporting = False,
     au_filters = \<lparr>af_action = [], af_target_type = [], af_period = ''7d''\<rparr>,
     au_showDetails = False, au_selected = None, au_objectUrls = [], au_downloads = []\<rparr>"

definition targetTypeOptions :: "select_option list" where
  "targetTypeOptions =
     [\<lparr>so_label = ''All targets'', so_value = []\<rparr>, \<lparr>so_label = ''User'', so_value = ''user''\<rparr>,
      \<lparr>so_label = ''Application'', so_value = ''application''\<rparr>,
      \<lparr>so_label = ''Settings'', so_value = ''settings''\<rparr>]"

definition audit_periodOptions :: "select_option list" where
  "audit_periodOptions =
     [\<lparr>so_label = ''Last 24 Hours'', so_value = ''24h''\<rparr>, \<lparr>so_label = ''Last 7 Days'', so_value = ''7d''\<rparr>,
      \<lparr>so_label = ''Last 30 Days'', so_value = ''30d''\<rparr>, \<lparr>so_label = ''All Time'', so_value = ''all''\<rparr>]"

section \<open>Loading\<close>

definition startDateFromPeriod :: "string \<Rightarrow> int \<Rightarrow> js_error + string option" where
  "startDateFromPeriod period now =
     (let back = (\<lambda>ms. case to_iso (now - ms) of Inl e \<Rightarrow> Inl e | Inr s \<Rightarrow> Inr (Some s))
      in if period = ''24h'' then back (24 * 60 * 60 * 1000)
         else if period = ''7d'' then back (7 * 24 * 60 * 60 * 1000)
         else if period = ''30d'' then back (30 * 24 * 60 * 60 * 1000)
         else Inr None)"

definition or_undefined_text :: "string \<Rightarrow> param" where
  "or_undefined_text s = (if s = [] then P_undefined else P_string s)"

definition filter_params :: "int \<Rightarrow> audit_view \<Rightarrow> js_error + (string \<times> param) list" where
  "filter_params now v =
     (case startDateFromPeriod (af_period (au_filters v)) now of
        Inl e \<Rightarrow> Inl e
      | Inr start \<Rightarrow>
          Inr [(''action'', or_undefined_text (af_action (au_filters v))),
               (''target_type'', or_undefined_text (af_target_type (au_filters v))),
               (''start_date'', case start of Some s \<Rightarrow> P_string s | None \<Rightarrow> P_undefined)])"

definition currentParams :: "int \<Rightarrow> audit_view \<Rightarrow> js_error + (string \<times> param) list" where
  "currentParams now v =
     (case filter_params now v of
        Inl e \<Rightarrow> Inl e
      | Inr ps \<Rightarrow> Inr (ps @ [(''page'', P_number (au_page v)), (''page_size'', P_number (au_pageSize v))]))"

definition loadLogs :: "server \<Rightarrow> elevator \<Rightarrow> int \<Rightarrow> audit_view screen \<Rightarrow> audit_view screen" where
  "loadLogs srv el now s =
     (case currentParams now (sc_view s) of
        Inl _ \<Rightarrow> toast_error ''Failed to load audit logs'' s
      | Inr params \<Rightarrow> load_or_toast (fetchAuditLogs (srv_logs srv) el params) ''Failed to load audit logs'' s)"

definition applyFilters :: "server \<Rightarrow> elevator \<Rightarrow> int \<Rightarrow> audit_view screen \<Rightarrow> audit_view screen" where
  "applyFilters srv el now s = loadLogs srv el now (on_view (\<lambda>v. v\<lparr>au_page := 1\<rparr>) s)"

definition audit_onPage ::
    "server \<Rightarrow> elevator \<Rightarrow> int \<Rightarrow> page_event \<Rightarrow> audit_view screen \<Rightarrow> audit_view screen" where
  "audit_onPage srv el now event s =
     loadLogs srv el now (on_view (\<lambda>v. v\<lparr>au_page := pe_page event + 1, au_pageSize := pe_rows event\<rparr>) s)"

definition audit_showDetails :: "AdminAuditLog \<Rightarrow> audit_view screen \<Rightarrow> audit_view screen" where
  "audit_showDetails entry = on_view (\<lambda>v. v\<lparr>au_selected := Some entry, au_showDetails := True\<rparr>)"

section \<open>Exporting\<close>

text \<open>The response with its content: both must be there for a download to start.\<close>

definition export_blob ::
    "server \<Rightarrow> elevator \<Rightarrow> (unit response \<Rightarrow> js_error + string) \<Rightarrow> (string \<times> param) list \<Rightarrow> string api" where
  "export_blob srv el read_blob params =
     api_bind (fetchWithAuth (srv_plain srv) el (getAuditLogExportUrl params) no_options False)
       (\<lambda>response. if \<not> resp_ok response then api_throw (Error ''export failed'')
          else (case read_blob response of Inl e \<Rightarrow> api_throw e | Inr b \<Rightarrow> api_return b))"

definition exportCsv ::
    "server \<Rightarrow> elevator \<Rightarrow> date_lib \<Rightarrow> (unit response \<Rightarrow> js_error + string) \<Rightarrow> string \<Rightarrow> int
      \<Rightarrow> audit_view screen \<Rightarrow> audit_view screen" where
  "exportCsv srv el dl read_blob url now s =
     (let idle = on_view (\<lambda>v. v\<lparr>au_isExporting := False\<rparr>);
          failed = (\<lambda>s1. idle (toast_error ''Failed to export audit logs'' s1));
          s0 = on_view (\<lambda>v. v\<lparr>au_isExporting := True\<rparr>) s
      in case filter_params now (sc_view s) of
           Inl _ \<Rightarrow> failed s0
         | Inr params \<Rightarrow>
             try_await (export_blob srv el read_blob params)
               (\<lambda>blob s1.
                  let s2 = on_view (\<lambda>v. v\<lparr>au_objectUrls := au_objectUrls v @ [url]\<rparr>) s1
                  in case dl_format dl (Some now) ''yyyyMMdd-HHmm'' of
                       Inl _ \<Rightarrow> failed s2
                     | Inr stamp \<Rightarrow>
                         idle (toast_add ''success'' ''Exported'' ''Audit log CSV downloaded'' 3000
                           (on_view (\<lambda>v. v\<lparr>au_downloads := au_downloads v @ [(''admin-audit-logs-'' @ stamp @ ''.csv'', blob)],
                                          au_objectUrls := remove1 url (au_objectUrls v)\<rparr>) s2)))
               failed s0)"

section \<open>What is shown\<close>

definition targetSeverity :: "string \<Rightarrow> string" where
  "targetSeverity type =
     (if type = ''user'' then ''info'' else if type = ''application'' then ''warning'' else ''secondary'')"

definition audit_formatDate :: "date_lib \<Rightarrow> engine \<Rightarrow> string \<Rightarrow> js_error + string" where
  "audit_formatDate dl eng date = dl_format dl (date_parse eng date) ''MMM d, yyyy HH:mm:ss''"

definition is_word_char :: "char \<Rightarrow> bool" where
  "is_word_char c \<longleftrightarrow>
     (let n = (of_char c :: nat)
      in 48 \<le> n \<and> n \<le> 57 \<or> 65 \<le> n \<and> n \<le> 90 \<or> 97 \<le> n \<and> n \<le> 122 \<or> n = 95)"

text \<open>\<open>replace(/\b\w/g, c => c.toUpperCase())\<close>: a word character after none is put in upper case.\<close>

primrec upper_words :: "bool \<Rightarrow> string \<Rightarrow> string" where
  "upper_words after [] = []"
| "upper_words after (c # cs) =
     (if is_word_char c \<and> \<not> after then upper_char c else c) # upper_words (is_word_char c) cs"

definition actionLabel :: "string \<Rightarrow> string" where
  "actionLabel action = upper_words False (map (\<lambda>c. if c = CHR ''_'' then CHR '' '' else c) action)"

definition admin_label :: "string \<Rightarrow> AdminAuditLog \<Rightarrow> string" where
  "admin_label before e =
     (if aal_admin_email e = [] then before @ ''#'' @ string_of_int (aal_admin_id e) else aal_admin_email e)"

definition target_label :: "AdminAuditLog \<Rightarrow> string option" where
  "target_label e =
     (case aal_target_name e of
        Some n \<Rightarrow> if n \<noteq> [] then Some n
                  else (case aal_target_id e of
                          Some i \<Rightarrow> if i \<noteq> 0 then Some (''#'' @ string_of_int i) else None
                        | None \<Rightarrow> None)
      | None \<Rightarrow>
          (case aal_target_id e of
             Some i \<Rightarrow> if i \<noteq> 0 then Some (''#'' @ string_of_int i) else None
           | None \<Rightarrow> None))"

definition has_changes :: "AdminAuditLog \<Rightarrow> bool" where
  "has_changes e \<longleftrightarrow> (case aal_changes e of Some ps \<Rightarrow> length ps \<noteq> 0 | None \<Rightarrow> False)"

section \<open>The export\<close>

definition time_lib :: date_lib where
  "time_lib = \<lparr>dl_format = (\<lambda>t pattern. case t of Some _ \<Rightarrow> Inr ''20240115-1030'' | None \<Rightarrow> Inl RangeError),
     dl_distance = (\<lambda>t now. case t of Some _ \<Rightarrow> Inr ''2 hours ago'' | None \<Rightarrow> Inl RangeError)\<rparr>"

text \<open>C28: an export starts one download or tells of an error, never both and never neither; it leaves
  no object URL behind and the button not busy, given that the library formats a valid date.  The
  rows on the screen stay as they are.\<close>

theorem export_downloads_or_fails:
  assumes "\<exists>stamp. dl_format dl (Some now) ''yyyyMMdd-HHmm'' = Inr stamp" "el_keeps_data el"
    and "url \<notin> set (au_objectUrls (sc_view s))"
  shows "au_objectUrls (sc_view (exportCsv srv el dl read_blob url now s)) = au_objectUrls (sc_view s)
    \<and> \<not> au_isExporting (sc_view (exportCsv srv el dl read_blob url now s))
    \<and> data_of (sc_store (exportCsv srv el dl read_blob url now s)) = data_of (sc_store s)
    \<and> ((\<exists>name blob. au_downloads (sc_view (exportCsv srv el dl read_blob url now s))
             = au_downloads (sc_view s) @ [(name, blob)]
          \<and> sc_toasts (exportCsv srv el dl read_blob url now s) = sc_toasts s @
             [\<lparr>to_severity = ''success'', to_summary = ''Exported'', to_detail = ''Audit log CSV downloaded'', to_life = 3000\<rparr>])
       \<or> (au_downloads (sc_view (exportCsv srv el dl read_blob url now s)) = au_downloads (sc_view s)
          \<and> sc_toasts (exportCsv srv el dl read_blob url now s) = sc_toasts s @
             [\<lparr>to_severity = ''error'', to_summary = ''Error'', to_detail = ''Failed to export audit logs'', to_life = 3000\<rparr>]))"
proof -
  obtain stamp where stamp: "dl_format dl (Some now) ''yyyyMMdd-HHmm'' = Inr stamp" using assms(1) by blast
  have keep: "data_of (aw_monitor (snd (export_blob srv el read_blob ps w))) = data_of (aw_monitor w)" for ps w
  proof -
    have "data_of (aw_monitor (snd (fetchWithAuth (srv_plain srv) el (getAuditLogExportUrl ps) no_options False w)))
        = data_of (aw_monitor w)"
      using assms(2) unfolding el_keeps_data_def by (intro stored.fetchWithAuth_view) blast
    then show ?thesis
      by (simp add: export_blob_def snd_api_bind api_throw_def api_return_def split: sum.splits)
  qed
  define r where "r ps = fst (export_blob srv el read_blob ps (sc_world s))" for ps
  define w where "w ps = snd (export_blob srv el read_blob ps (sc_world s))" for ps
  have run: "export_blob srv el read_blob ps (sc_world s) = (r ps, w ps)" for ps
    by (simp add: r_def w_def)
  have kept: "data_of (aw_monitor (w ps)) = data_of (sc_store s)" for ps
    using keep [of ps "sc_world s"] by (simp add: w_def)
  show ?thesis
  proof (cases "filter_params now (sc_view s)")
    case (Inl e)
    then show ?thesis by (simp add: exportCsv_def Let_def)
  next
    case (Inr ps)
    then show ?thesis
      using run [of ps] kept [of ps] assms(3)
      by (cases "r ps") (simp_all add: exportCsv_def Let_def try_await_def stamp remove1_append on_view_def toast_add_def)
  qed
qed

text \<open>A server whose export answers, and a response with content.\<close>

theorem export_downloads_or_fails_witness:
  "au_objectUrls (sc_view (exportCsv sample_server user_cancels time_lib (\<lambda>_. Inr ''id,action'') ''blob:1''
      1705314600000 \<lparr>sc_world = sample_world, sc_toasts = [], sc_view = audit_init\<rparr>)) = []"
proof -
  have "\<exists>stamp. dl_format time_lib (Some 1705314600000) ''yyyyMMdd-HHmm'' = Inr stamp"
    by (simp add: time_lib_def)
  moreover have "''blob:1'' \<notin> set (au_objectUrls (sc_view
      \<lparr>sc_world = sample_world, sc_toasts = [], sc_view = audit_init\<rparr>))"
    by (simp add: audit_init_def)
  ultimately show ?thesis
    using export_downloads_or_fails [OF _ user_keeps_data(1), of time_lib 1705314600000 "''blob:1''"
        "\<lparr>sc_world = sample_world, sc_toasts = [], sc_view = audit_init\<rparr>" sample_server "\<lambda>_. Inr ''id,action''"]
    by (simp add: audit_init_def)
qed

section \<open>Two readings of one period\<close>

text \<open>Also: the audit trail and the decision log each turn a period into a start time, one with a
  \<open>switch\<close>, one with a table: they agree on every period that the audit trail offers, and on every
  other text except the table's extra \<open>1h\<close> and the names that a table inherits.\<close>

theorem periods_agree:
  "\<forall>period now. startDateFromPeriod period now = sinceFromPeriod period now
     \<or> period = ''1h'' \<or> period \<in> set object_prototype"
  by (auto simp: startDateFromPeriod_def sinceFromPeriod_def period_hours_def)

end
