(* ===== verification/Dashboard_View.thy ===== *)
theory Dashboard_View
  imports Charts Events_View Threats_View Sse_Connection Machines
begin

text \<open>
  \<open>src/src/views/DashboardView.vue\<close>: the chart of logins, the badges, the loading of six parts at once,
  what the feed of live events and the list of open alerts show, and the life of the page: the first
  load, then the event stream and a refresh every thirty seconds, until the page goes away.

  The life of the page is a machine.  Its stream is the machine of \<open>Sse_Connection\<close>; the browser's
  intervals are the list of those alive.  A load settles whatever becomes of its calls, because
  \<open>loadDashboardData\<close> catches their errors.
\<close>

section \<open>Charts and badges\<close>

definition dashboard_chartData :: "date_lib \<Rightarrow> engine \<Rightarrow> monitor_state \<Rightarrow> js_error + chart" where
  "dashboard_chartData dl eng st =
     (case map_throw (\<lambda>t. dl_format dl (date_parse eng (lt_date t)) ''MMM d'') (m_loginTrends st) of
        Inl e \<Rightarrow> Inl e
      | Inr labels \<Rightarrow> Inr
          \<lparr>ch_labels = labels,
           ch_series =
             [line_series ''Successful Logins'' (map lt_success_count (m_loginTrends st))
                ''#10b981'' ''rgba(16, 185, 129, 0.1)'',
              line_series ''Failed Logins'' (map lt_failure_count (m_loginTrends st))
                ''#ef4444'' ''rgba(239, 68, 68, 0.1)'']\<rparr>)"

definition dashboard_chartOptions :: "chart_colors \<Rightarrow> jval" where
  "dashboard_chartOptions cc =
     JObj [(''responsive'', JBool True), (''maintainAspectRatio'', JBool False),
       (''plugins'', legend_option ''bottom'' (cc_legend cc) 20 []),
       (''scales'', JObj [(''x'', axis_option cc []), (''y'', axis_option cc [])])]"

definition healthStatusColor :: "monitor_state \<Rightarrow> string" where
  "healthStatusColor st =
     (case m_health st of
        None \<Rightarrow> ''secondary''
      | Some h \<Rightarrow>
          (case sh_status h of
             Healthy \<Rightarrow> ''success''
           | Degraded \<Rightarrow> ''warning''
           | Unhealthy \<Rightarrow> ''danger''))"

record badge =
  bd_class :: string
  bd_label :: string

definition threatLevelBadge :: "monitor_state \<Rightarrow> badge" where
  "threatLevelBadge st =
     (case threatLevel st of
        Level_critical \<Rightarrow> \<lparr>bd_class = ''status-critical'', bd_label = ''CRITICAL''\<rparr>
      | Level_high \<Rightarrow> \<lparr>bd_class = ''status-danger'', bd_label = ''HIGH''\<rparr>
      | Level_medium \<Rightarrow> \<lparr>bd_class = ''status-warning'', bd_label = ''MEDIUM''\<rparr>
      | Level_low \<Rightarrow> \<lparr>bd_class = ''status-secure'', bd_label = ''LOW''\<rparr>
      | Level_unknown \<Rightarrow> \<lparr>bd_class = ''status-info'', bd_label = ''UNKNOWN''\<rparr>)"

definition getSeverityClass :: "Severity \<Rightarrow> string" where
  "getSeverityClass severity = ''severity-'' @ severity_string severity"

definition dashboard_formatTime :: "date_lib \<Rightarrow> engine \<Rightarrow> int \<Rightarrow> string \<Rightarrow> js_error + string" where
  "dashboard_formatTime dl eng now date = dl_distance dl (date_parse eng date) now"

section \<open>Loading\<close>

record dashboard_view =
  db_isInitialLoad :: bool
  db_route :: "string option"

definition dashboard_init :: dashboard_view where
  "dashboard_init = \<lparr>db_isInitialLoad = True, db_route = None\<rparr>"

definition dashboard_calls :: "server \<Rightarrow> elevator \<Rightarrow> unit api list" where
  "dashboard_calls srv el =
     [api_void (fetchDashboardStats (srv_stats srv) el),
      api_void (fetchRecentActivity (srv_activity srv) el 10),
      api_void (fetchLoginTrends (srv_trends srv) el 14),
      api_void (fetchHealth (srv_health srv) el),
      api_void (fetchThreatMetrics (srv_threats srv) el ''24h''),
      api_void (fetchAlertHistory (srv_alerts srv) el
        [(''page_size'', P_number 5), (''acknowledged'', P_bool False)])]"

definition loadDashboardData ::
    "server \<Rightarrow> elevator \<Rightarrow> dashboard_view screen \<Rightarrow> dashboard_view screen" where
  "loadDashboardData srv el s =
     (let loaded = on_view (\<lambda>v. v\<lparr>db_isInitialLoad := False\<rparr>)
      in try_await (promise_all (dashboard_calls srv el))
           (\<lambda>_ s1. loaded s1)
           (\<lambda>s1. loaded
              (if db_isInitialLoad (sc_view s1)
               then toast_add ''error'' ''Load Failed'' ''Could not load dashboard data'' 5000 s1
               else s1))
           s)"

definition navigateTo :: "string \<Rightarrow> dashboard_view screen \<Rightarrow> dashboard_view screen" where
  "navigateTo route = on_view (\<lambda>v. v\<lparr>db_route := Some route\<rparr>)"

section \<open>What is shown\<close>

text \<open>A card with its number, its label, and the note under it; a card without data shows a placeholder.\<close>

record dash_card =
  dc_value :: "int option"
  dc_label :: string
  dc_note :: "(string \<times> string) option"

definition dashboard_cards :: "monitor_state \<Rightarrow> dash_card list" where
  "dashboard_cards st =
     (let stat = (\<lambda>f. map_option f (m_stats st));
          summary = map_option tm_summary (m_threatMetrics st)
      in [\<lparr>dc_value = stat ds_total_users, dc_label = ''Total Users'',
           dc_note = map_option (\<lambda>d. (string_of_int (ds_active_users d), ''active today'')) (m_stats st)\<rparr>,
          \<lparr>dc_value = stat ds_today_logins, dc_label = ''Logins Today'',
           dc_note = map_option (\<lambda>d. (''+'' @ string_of_int (ds_today_signups d), ''new signups'')) (m_stats st)\<rparr>,
          \<lparr>dc_value = stat ds_failed_logins_24h, dc_label = ''Failed (24h)'',
           dc_note = map_option (\<lambda>t. (string_of_int (ts_unique_attackers t), ''unique attackers'')) summary\<rparr>,
          \<lparr>dc_value = stat ds_locked_accounts, dc_label = ''Locked Accounts'',
           dc_note = map_option (\<lambda>t. (string_of_int (ts_critical_events t), ''critical events'')) summary\<rparr>])"

primrec health_text :: "HealthStatus \<Rightarrow> string" where
  "health_text Healthy = ''healthy''"
| "health_text Degraded = ''degraded''"
| "health_text Unhealthy = ''unhealthy''"

definition health_rows :: "monitor_state \<Rightarrow> (string \<times> string) list option" where
  "health_rows st =
     map_option (\<lambda>h. [(''Status'', map upper_char (health_text (sh_status h))),
       (''Database'', hdb_latency (sh_database h)), (''Uptime'', sh_uptime h), (''Version'', sh_version h)])
       (m_health st)"

datatype feed =
    Feed_events "jval list"
  | Feed_activity "Activity list"
  | Feed_empty

definition dashboard_feed :: "monitor_state \<Rightarrow> feed" where
  "dashboard_feed st =
     (if length (m_liveEvents st) > 0 then Feed_events (take 10 (m_liveEvents st))
      else if length (m_recentActivity st) > 0 then Feed_activity (m_recentActivity st)
      else Feed_empty)"

text \<open>A live event is whatever the stream sent; its time is read when it is a text.\<close>

definition is_new_event :: "engine \<Rightarrow> int \<Rightarrow> string \<Rightarrow> bool" where
  "is_new_event eng now created_at =
     (case date_parse eng created_at of Some t \<Rightarrow> now - t < 5000 | None \<Rightarrow> False)"

definition event_tag :: "jval \<Rightarrow> jval \<times> jval" where
  "event_tag e =
     (opt_prop e ''severity'',
      if opt_prop e ''severity'' = JStr ''critical'' then JStr ''danger'' else opt_prop e ''severity'')"

definition activity_dot :: "Activity \<Rightarrow> string" where
  "activity_dot a = (if act_success a then ''severity-info'' else ''severity-warning'')"

text \<open>Who and where: the e-mail, when there is one, and the address.\<close>

definition event_who :: "jval \<Rightarrow> jval list" where
  "event_who e =
     (if truthy (opt_prop e ''user_email'') then [opt_prop e ''user_email''] else []) @ [opt_prop e ''ip_address'']"

definition activity_who :: "Activity \<Rightarrow> string list" where
  "activity_who a =
     (case act_user_email a of Some m \<Rightarrow> if m \<noteq> [] then [m] else [] | None \<Rightarrow> []) @ [act_ip_address a]"

definition dashboard_alerts :: "monitor_state \<Rightarrow> TriggeredAlert list" where
  "dashboard_alerts st =
     (if length (filter (\<lambda>a. \<not> ta_acknowledged a) (m_alertHistory st)) > 0
      then take 5 (filter (\<lambda>a. \<not> ta_acknowledged a) (m_alertHistory st)) else [])"

definition alerts_bell :: "monitor_state \<Rightarrow> int option" where
  "alerts_bell st = (if m_unacknowledgedAlerts st > 0 then Some (m_unacknowledgedAlerts st) else None)"

definition dashboard_alert_class :: "Severity \<Rightarrow> string option" where
  "dashboard_alert_class sev =
     (case sev of
        Critical \<Rightarrow> Some ''bg-[var(--color-status-critical)]/10 border-[var(--color-status-critical)]/30''
      | ErrorSeverity \<Rightarrow> Some ''bg-[var(--color-status-danger)]/10 border-[var(--color-status-danger)]/30''
      | Warning \<Rightarrow> Some ''bg-[var(--color-status-warning)]/10 border-[var(--color-status-warning)]/30''
      | _ \<Rightarrow> None)"

section \<open>What a load brings\<close>

lemma dashboard_load_parts:
  "sc_world (loadDashboardData srv el s) = snd (promise_all (dashboard_calls srv el) (sc_world s))"
  "db_isInitialLoad (sc_view (loadDashboardData srv el s)) = False"
  "\<not> db_isInitialLoad (sc_view s) \<Longrightarrow> sc_toasts (loadDashboardData srv el s) = sc_toasts s"
  by (simp_all add: loadDashboardData_def try_await_def Let_def split: prod.splits sum.splits)

text \<open>A loading call leaves a part of the world alone that its use of the body leaves alone.\<close>

context frame
begin

lemma loading_view:
  assumes "\<And>p w. view (snd (el p w)) = view w"
    and "\<And>b w. view (on_monitor (setLoading key b) w) = view w"
    and "\<And>d w. view (snd (use d w)) = view w"
  shows "view (snd (with_loading key (call_json net el url opts err use) w)) = view w"
proof -
  have "view (snd (call_json net el url opts err use v)) = view v" for v
    using checked_view [of el net url opts err v, OF assms(1)]
    by (simp add: call_json_def snd_api_bind api_return_def assms(3) json_view split: sum.splits)
  then show ?thesis
    by (simp add: with_loading_def api_finally_def case_prod_beta assms(2))
qed

end

interpretation threat_part: frame "\<lambda>w. m_threatMetrics (aw_monitor w)"
  by unfold_locales simp_all

lemma threats_loaded:
  assumes "replies net d"
  shows "m_threatMetrics (aw_monitor (snd (fetchThreatMetrics net el period w))) = Some d"
  by (simp add: fetchThreatMetrics_def with_loading_def api_finally_def case_prod_beta
      replied_call [OF assms] whole_def store_def on_monitor_def setLoading_def setThreatMetrics_def)

text \<open>C25: the parts of the dashboard load independently: when the server answers for the threats, the
  badge shows the level of that answer, whichever of the other five calls fail, in every order of
  failures; after the load a refresh is no longer the first, so that failures stay silent.\<close>

theorem dashboard_parts_independent:
  assumes "replies (srv_threats srv) d"
    and "\<forall>p w. m_threatMetrics (aw_monitor (snd (el p w))) = m_threatMetrics (aw_monitor w)"
  shows "threatLevelBadge (sc_store (loadDashboardData srv el s))
      = threatLevelBadge (monitor_init\<lparr>m_threatMetrics := Some d\<rparr>)
    \<and> sc_toasts (loadDashboardData srv el (loadDashboardData srv el s)) = sc_toasts (loadDashboardData srv el s)"
proof -
  note kept = threat_part.loading_view [of el, OF assms(2) [rule_format]]
  have alerts: "m_threatMetrics (aw_monitor (snd (fetchAlertHistory net el ps w))) = m_threatMetrics (aw_monitor w)"
    for net ps w
    unfolding fetchAlertHistory_def
    by (rule kept)
      (simp_all add: on_monitor_def setLoading_def members_def store_def api_throw_def setAlertHistory_def
        split: option.splits)
  have "m_threatMetrics (sc_store (loadDashboardData srv el s)) = Some d"
    by (simp add: dashboard_load_parts(1) dashboard_calls_def alerts threats_loaded [OF assms(1)]
        del: promise_all.simps)
  then show ?thesis
    by (simp add: threatLevelBadge_def threatLevel_def dashboard_load_parts(2,3))
qed

text \<open>A server that answers for the threats and for nothing else.\<close>

definition sample_threats :: ThreatMetrics where
  "sample_threats = \<lparr>tm_time_range = ''24h'',
     tm_summary = \<lparr>ts_total_events = 12, ts_critical_events = 0, ts_error_events = 0,
       ts_warning_events = 12, ts_unique_attackers = 2\<rparr>,
     tm_top_threats = [], tm_suspicious_ips = [], tm_locked_accounts = []\<rparr>"

definition threat_server :: server where
  "threat_server = sample_server\<lparr>srv_threats := status_net 200 None sample_threats\<rparr>"

theorem dashboard_parts_independent_witness:
  "bd_label (threatLevelBadge (sc_store (loadDashboardData threat_server user_cancels
      \<lparr>sc_world = sample_world, sc_toasts = [], sc_view = dashboard_init\<rparr>))) = ''LOW''"
proof -
  have "replies (srv_threats threat_server) sample_threats"
    by (simp add: threat_server_def replies_def status_net_def resp_ok_def)
  moreover have "\<forall>p w. m_threatMetrics (aw_monitor (snd (user_cancels p w))) = m_threatMetrics (aw_monitor w)"
    by (simp add: user_cancels_def)
  ultimately have "threatLevelBadge (sc_store (loadDashboardData threat_server user_cancels
      \<lparr>sc_world = sample_world, sc_toasts = [], sc_view = dashboard_init\<rparr>))
      = threatLevelBadge (monitor_init\<lparr>m_threatMetrics := Some sample_threats\<rparr>)"
    by (rule dashboard_parts_independent [THEN conjunct1])
  then show ?thesis
    by (simp add: threatLevelBadge_def threatLevel_def summary_level_def sample_threats_def)
qed

section \<open>Two readings of the level\<close>

text \<open>Also: the badge of the dashboard and the banner of the threats page name the same level, with one
  exception: without critical or error events but with more than ten warnings the banner says
  MEDIUM and the badge LOW.\<close>

theorem threat_levels_agree_unless_warnings:
  "case m_threatMetrics st of
     None \<Rightarrow> bd_label (threatLevelBadge st) = ''UNKNOWN'' \<and> li_level (threatLevelInfo st) = ''unknown''
   | Some t \<Rightarrow>
       (bd_label (threatLevelBadge st) = li_level (threatLevelInfo st))
         = (ts_critical_events (tm_summary t) > 0 \<or> ts_error_events (tm_summary t) > 0
            \<or> ts_warning_events (tm_summary t) \<le> 10)"
  by (simp add: threatLevelBadge_def threatLevel_def summary_level_def threatLevelInfo_def Let_def
      split: option.splits)

section \<open>The life of the page\<close>

record dash_page =
  dp_mounted :: bool
  dp_waiting :: bool
  dp_refreshInterval :: "nat option"
  dp_intervals :: "nat list"
  dp_loads :: nat
  dp_sse :: sse

datatype dash_action =
    First_load_settles
  | Interval_fires
  | Refresh_clicked
  | Page_leaves
  | Stream_acts sse_action

text \<open>A page that has just been mounted waits for its first load.  \<open>setInterval\<close> gives a positive number.\<close>

definition dash_mounted :: "sse \<Rightarrow> dash_page" where
  "dash_mounted stream = \<lparr>dp_mounted = True, dp_waiting = True, dp_refreshInterval = None,
     dp_intervals = [], dp_loads = 1, dp_sse = stream\<rparr>"

text \<open>\<open>onMounted\<close> after its \<open>await\<close>.\<close>

definition dash_first_loaded :: "dash_page \<Rightarrow> dash_page" where
  "dash_first_loaded s =
     s\<lparr>dp_waiting := False, dp_sse := connect (dp_sse s),
       dp_intervals := dp_intervals s @ [1], dp_refreshInterval := Some 1\<rparr>"

text \<open>Leaving: the hook of the stream, registered first, then the hook of the page.\<close>

definition dash_unmounted :: "dash_page \<Rightarrow> dash_page" where
  "dash_unmounted s =
     (let s1 = s\<lparr>dp_mounted := False, dp_sse := disconnect (dp_sse s)\<rparr>;
          s2 = (case dp_refreshInterval s1 of
                  Some i \<Rightarrow> if i \<noteq> 0 then s1\<lparr>dp_intervals := removeAll i (dp_intervals s1)\<rparr> else s1
                | None \<Rightarrow> s1)
      in s2\<lparr>dp_sse := disconnect (dp_sse s2)\<rparr>)"

text \<open>The page alone connects and disconnects its stream; everything else the stream does by itself.\<close>

fun dash_act :: "(string \<Rightarrow> jval option) \<Rightarrow> dash_action \<Rightarrow> dash_page \<Rightarrow> dash_page option" where
  "dash_act parse First_load_settles s = (if dp_waiting s then Some (dash_first_loaded s) else None)"
| "dash_act parse Interval_fires s =
     (if dp_intervals s \<noteq> [] then Some (s\<lparr>dp_loads := Suc (dp_loads s)\<rparr>) else None)"
| "dash_act parse Refresh_clicked s =
     (if dp_mounted s then Some (s\<lparr>dp_loads := Suc (dp_loads s)\<rparr>) else None)"
| "dash_act parse Page_leaves s = (if dp_mounted s then Some (dash_unmounted s) else None)"
| "dash_act parse (Stream_acts a) s =
     (if a = Page_connects \<or> a = Page_disconnects then None
      else (case sse_act parse a (dp_sse s) of None \<Rightarrow> None | Some t \<Rightarrow> Some (s\<lparr>dp_sse := t\<rparr>)))"

text \<open>The first load settled while the page was still there.\<close>

definition loaded_in_time :: "dash_action list \<Rightarrow> bool" where
  "loaded_in_time acts \<longleftrightarrow> First_load_settles \<in> set (takeWhile (\<lambda>a. a \<noteq> Page_leaves) acts)"

lemma loaded_in_time_snoc:
  "loaded_in_time (acts @ [a])
    \<longleftrightarrow> loaded_in_time acts \<or> Page_leaves \<notin> set acts \<and> a = First_load_settles"
proof (cases "Page_leaves \<in> set acts")
  case True
  then have "takeWhile (\<lambda>b. b \<noteq> Page_leaves) (acts @ [a]) = takeWhile (\<lambda>b. b \<noteq> Page_leaves) acts"
    by (intro takeWhile_append1) auto
  with True show ?thesis by (simp add: loaded_in_time_def)
next
  case False
  then have none: "\<And>b. b \<in> set acts \<Longrightarrow> b \<noteq> Page_leaves" by auto
  then have "takeWhile (\<lambda>b. b \<noteq> Page_leaves) acts = acts" by (simp add: takeWhile_eq_all_conv)
  then have "loaded_in_time acts \<longleftrightarrow> First_load_settles \<in> set acts"
    unfolding loaded_in_time_def by (simp only:)
  moreover have "takeWhile (\<lambda>b. b \<noteq> Page_leaves) (acts @ [a]) = acts @ (if a = Page_leaves then [] else [a])"
    using none by (subst takeWhile_append2) auto
  then have "loaded_in_time (acts @ [a]) \<longleftrightarrow> First_load_settles \<in> set (acts @ (if a = Page_leaves then [] else [a]))"
    unfolding loaded_in_time_def by (simp only:)
  ultimately show ?thesis using False by auto
qed

lemma loaded_before_leaving: "Page_leaves \<notin> set acts \<Longrightarrow> First_load_settles \<in> set acts \<Longrightarrow> loaded_in_time acts"
  by (metis (mono_tags, lifting) loaded_in_time_def takeWhile_eq_all_conv)

lemma loaded_in_time_happened: "loaded_in_time acts \<Longrightarrow> First_load_settles \<in> set acts"
  by (auto simp: loaded_in_time_def dest: set_takeWhileD)

lemma dash_run_state:
  assumes "run (dash_act parse) acts (dash_mounted stream) = Some s"
  shows "dp_mounted s = (Page_leaves \<notin> set acts) \<and> dp_waiting s = (First_load_settles \<notin> set acts)
    \<and> dp_refreshInterval s = (if First_load_settles \<in> set acts then Some 1 else None)
    \<and> dp_intervals s = (if First_load_settles \<in> set acts
          \<and> \<not> (Page_leaves \<in> set acts \<and> loaded_in_time acts) then [1] else [])"
  using assms
proof (induction acts arbitrary: s rule: rev_induct)
  case Nil
  then show ?case by (auto simp: dash_mounted_def)
next
  case (snoc a acts)
  then obtain u where u: "run (dash_act parse) acts (dash_mounted stream) = Some u" "dash_act parse a u = Some s"
    by (auto simp: run_append split: option.splits)
  note state = snoc.IH [OF u(1)]
  show ?case
    using state u(2)
    by (cases a) (auto simp: loaded_in_time_snoc dash_first_loaded_def dash_unmounted_def Let_def
        dest: loaded_in_time_happened loaded_before_leaving split: if_splits option.splits)
qed

text \<open>C35: a page that is left keeps refreshing exactly when it is left before its first load has
  settled: then the interval is set after the hook that would clear it, and nothing else clears it.
  A page that is left later has no interval.\<close>

theorem refresh_outlives_early_leaving:
  assumes "run (dash_act parse) acts (dash_mounted stream) = Some s" "Page_leaves \<in> set acts"
  shows "\<not> dp_mounted s
    \<and> (dash_act parse Interval_fires s \<noteq> None)
        = (First_load_settles \<in> set acts \<and> \<not> loaded_in_time acts)"
  using dash_run_state [OF assms(1)] assms(2) by auto

text \<open>Also: the page that was left also opens the stream, whose hook has run.\<close>

theorem refresh_outlives_early_leaving_witness:
  "\<exists>s. run (dash_act (\<lambda>_. None)) [Page_leaves, First_load_settles] (dash_mounted sse_init) = Some s
    \<and> dash_act (\<lambda>_. None) Interval_fires s \<noteq> None
    \<and> sse_sent (dp_sse s) = [stream_request] \<and> sse_controller (dp_sse s) = Some 0"
proof -
  define s where "s = dash_first_loaded (dash_unmounted (dash_mounted sse_init))"
  have r: "run (dash_act (\<lambda>_. None)) [Page_leaves, First_load_settles] (dash_mounted sse_init) = Some s"
    by (simp add: s_def dash_mounted_def dash_unmounted_def Let_def)
  have sent: "sse_sent (dp_sse s) = [stream_request]" "sse_controller (dp_sse s) = Some 0"
    by (simp_all add: s_def dash_mounted_def dash_unmounted_def dash_first_loaded_def Let_def connect_def
        disconnect_def set_connected_def setSSEConnected_def sse_init_def)
  from refresh_outlives_early_leaving [OF r] have "dash_act (\<lambda>_. None) Interval_fires s \<noteq> None"
    by (simp add: loaded_in_time_def)
  then show ?thesis using r sent by blast
qed

end
