(* ===== verification/Policy_View.thy ===== *)
theory Policy_View
  imports Policy_Log Screen Date_Parse
begin

text \<open>
  \<open>src/src/views/PolicyDecisionsView.vue\<close>: the page over the decision log of \<open>Policy_Log\<close>, with its
  filters, the mode and the summary, the details of a decision, the jump from one decision to all of
  its request, and the deep link that arrives from a security event.

  The page's own state is the selected decision and whether its dialog is open; \<open>now\<close> and the two
  parts of the server are those of \<open>load\<close>.
\<close>

section \<open>Options and texts\<close>

definition outcomeOptions :: "select_option list" where
  "outcomeOptions =
     [\<lparr>so_label = ''All outcomes'', so_value = ''all''\<rparr>, \<lparr>so_label = ''Denied'', so_value = ''denied''\<rparr>,
      \<lparr>so_label = ''Allowed (divergences)'', so_value = ''allowed''\<rparr>]"

definition sourceOptions :: "select_option list" where
  "sourceOptions =
     [\<lparr>so_label = ''All sources'', so_value = []\<rparr>, \<lparr>so_label = ''Admin API'', so_value = ''admin_pep''\<rparr>,
      \<lparr>so_label = ''Applications'', so_value = ''decide_api''\<rparr>]"

definition policy_periodOptions :: "select_option list" where
  "policy_periodOptions =
     [\<lparr>so_label = ''Last hour'', so_value = ''1h''\<rparr>, \<lparr>so_label = ''Last 24 hours'', so_value = ''24h''\<rparr>,
      \<lparr>so_label = ''Last 7 days'', so_value = ''7d''\<rparr>, \<lparr>so_label = ''Last 30 days'', so_value = ''30d''\<rparr>,
      \<lparr>so_label = ''All time'', so_value = ''all''\<rparr>]"

record mode_text =
  mt_label :: string
  mt_severity :: TagSeverity
  mt_text :: string

definition modeText :: "policy_log \<Rightarrow> mode_text" where
  "modeText s =
     (if pl_mode s = ''enforce'' then
        \<lparr>mt_label = ''ENFORCE'', mt_severity = Danger, mt_text = ''Denials are refused (403).''\<rparr>
      else if pl_mode s = ''shadow'' then
        \<lparr>mt_label = ''SHADOW'', mt_severity = Warn,
         mt_text = ''Nothing is refused; these are would-be denials and disagreements with the built-in checks.''\<rparr>
      else
        \<lparr>mt_label = ''OFF'', mt_severity = Secondary,
         mt_text = ''The policy is not being consulted; nothing new is recorded.''\<rparr>)"

text \<open>\<open>undefined\<close> for a period that is not offered.\<close>

definition summaryWindow :: "policy_log \<Rightarrow> string option" where
  "summaryWindow s =
     (if df_period (pl_filters s) = ''all'' then Some ''last 30 days''
      else map_option (\<lambda>p. map lower_char (so_label p))
             (find (\<lambda>p. so_value p = df_period (pl_filters s)) policy_periodOptions))"

section \<open>State and operations\<close>

record policy_page =
  pp_log :: policy_log
  pp_selected :: "PolicyDecisionRecord option"
  pp_showDetails :: bool

definition policy_page_init :: policy_page where
  "policy_page_init = \<lparr>pp_log = policy_log_init, pp_selected = None, pp_showDetails = False\<rparr>"

definition open_decision :: "PolicyDecisionRecord \<Rightarrow> policy_page \<Rightarrow> policy_page" where
  "open_decision d s = s\<lparr>pp_selected := Some d, pp_showDetails := True\<rparr>"

definition search_for :: "string \<Rightarrow> policy_log \<Rightarrow> policy_log" where
  "search_for cid s = s\<lparr>pl_filters := (pl_filters s)\<lparr>df_correlationId := cid\<rparr>\<rparr>"

definition load_page ::
    "PolicyDecisionsResponse net \<Rightarrow> PolicySummaryResponse net \<Rightarrow> elevator \<Rightarrow> bool \<Rightarrow> int
      \<Rightarrow> policy_page \<times> api_world \<Rightarrow> policy_page \<times> api_world" where
  "load_page n1 n2 el summary_first now = (\<lambda>(s, w).
     case load n1 n2 el summary_first now (pp_log s, w) of (l, w1) \<Rightarrow> (s\<lparr>pp_log := l\<rparr>, w1))"

definition byCorrelation ::
    "PolicyDecisionsResponse net \<Rightarrow> PolicySummaryResponse net \<Rightarrow> elevator \<Rightarrow> bool \<Rightarrow> int \<Rightarrow> string option
      \<Rightarrow> policy_page \<times> api_world \<Rightarrow> policy_page \<times> api_world" where
  "byCorrelation n1 n2 el summary_first now cid = (\<lambda>(s, w).
     case cid of
       None \<Rightarrow> (s, w)
     | Some i \<Rightarrow>
         if i = [] then (s, w)
         else load_page n1 n2 el summary_first now
                (s\<lparr>pp_log := search_for i (pp_log s), pp_showDetails := False\<rparr>, w))"

text \<open>A parameter of the address: absent, one text, or several.\<close>

definition policy_mounted ::
    "PolicyDecisionsResponse net \<Rightarrow> PolicySummaryResponse net \<Rightarrow> elevator \<Rightarrow> bool \<Rightarrow> int \<Rightarrow> string list
      \<Rightarrow> policy_page \<times> api_world \<Rightarrow> policy_page \<times> api_world" where
  "policy_mounted n1 n2 el summary_first now query = (\<lambda>(s, w).
     load_page n1 n2 el summary_first now
       (case query of
          [cid] \<Rightarrow> if cid \<noteq> [] then s\<lparr>pp_log := search_for cid (pp_log s)\<rparr> else s
        | _ \<Rightarrow> s, w))"

text \<open>The button that resets the filters loads as well.\<close>

definition reset_page ::
    "PolicyDecisionsResponse net \<Rightarrow> PolicySummaryResponse net \<Rightarrow> elevator \<Rightarrow> bool \<Rightarrow> int
      \<Rightarrow> policy_page \<times> api_world \<Rightarrow> policy_page \<times> api_world" where
  "reset_page n1 n2 el summary_first now = (\<lambda>(s, w).
     load_page n1 n2 el summary_first now (s\<lparr>pp_log := reset_filters (pp_log s)\<rparr>, w))"

definition policy_formatDate :: "date_lib \<Rightarrow> engine \<Rightarrow> string \<Rightarrow> js_error + string" where
  "policy_formatDate dl eng date = dl_format dl (date_parse eng date) ''MMM d, HH:mm:ss''"

section \<open>What is shown\<close>

definition or_zero_at :: "string \<Rightarrow> (string \<times> int) list \<Rightarrow> int" where
  "or_zero_at k tab = (case map_of tab k of Some n \<Rightarrow> n | None \<Rightarrow> 0)"

record summary_cards =
  sc_denials :: int
  sc_window :: "string option"
  sc_refused :: int
  sc_divergences :: int
  sc_stricter :: int
  sc_looser :: int
  sc_admin :: int
  sc_apps :: int

definition policy_cards :: "policy_log \<Rightarrow> summary_cards option" where
  "policy_cards s =
     map_option (\<lambda>r. let m = psr_summary r in
       \<lparr>sc_denials = ps_denials m, sc_window = summaryWindow s, sc_refused = ps_enforced_denials m,
        sc_divergences = divergenceTotal s,
        sc_stricter = or_zero_at ''pdp_deny_code_allow'' (ps_divergences m),
        sc_looser = or_zero_at ''pdp_allow_code_deny'' (ps_divergences m),
        sc_admin = or_zero_at ''admin_pep'' (ps_denials_by_source m),
        sc_apps = or_zero_at ''decide_api'' (ps_denials_by_source m)\<rparr>) (pl_summary s)"

definition shows_load_older :: "policy_log \<Rightarrow> bool" where
  "shows_load_older s \<longleftrightarrow> length (pl_decisions s) \<noteq> 0 \<and> \<not> pl_exhausted s"

definition or_dash :: "string option \<Rightarrow> string" where
  "or_dash t = (case t of Some x \<Rightarrow> if x \<noteq> [] then x else em_dash | None \<Rightarrow> em_dash)"

record decision_row =
  dr_outcome :: Outcome
  dr_action :: string
  dr_source :: js_text
  dr_why :: js_text
  dr_rule :: "(string \<times> int) option"
  dr_divergence :: "js_text option"
  dr_requires :: "string option"
  dr_who :: string
  dr_ip :: string

definition given_text :: "string option \<Rightarrow> string option" where
  "given_text t = (case t of Some x \<Rightarrow> if x \<noteq> [] then Some x else None | None \<Rightarrow> None)"

definition decision_row_of :: "PolicyDecisionRecord \<Rightarrow> decision_row" where
  "decision_row_of d =
     \<lparr>dr_outcome = outcome d, dr_action = pd_action d, dr_source = sourceLabel (pd_source d),
      dr_why = reasonLabel (pd_reason d),
      dr_rule = map_option (\<lambda>r. (r, pd_policy_version d)) (given_text (pd_rule d)),
      dr_divergence = map_option (\<lambda>_. divergenceLabel (pd_divergence d)) (given_text (pd_divergence d)),
      dr_requires =
        (case pd_obligations d of
           Some os \<Rightarrow> if length os \<noteq> 0 then Some (obligationsLabel (Some os)) else None
         | None \<Rightarrow> None),
      dr_who = principalLabel d, dr_ip = or_dash (pd_ip_address d)\<rparr>"

section \<open>The deep link\<close>

lemma load_page_world: "snd (load_page n1 n2 el sf now (s, w)) = snd (load n1 n2 el sf now (pp_log s, w))"
  by (simp add: load_page_def split: prod.splits)

lemma load_world:
  "toQuery (pl_filters s) now = Inr q \<Longrightarrow>
    snd (load n1 n2 el sf now (s, w)) = snd (load_both n1 n2 el sf now q (df_period (pl_filters s)) w)"
  by (simp add: load_def Let_def case_prod_beta split: prod.split sum.split)

lemma accepted_decisions:
  assumes "accepts n1"
  shows "snd (fetchPolicyDecisions n1 el q w) = after_first n1
    (getBaseUrl @ ''/api/admin/security/policy-decisions?'' @ params_string (policy_query q)) no_options w"
proof -
  obtain resp where "checked n1 el (getBaseUrl @ ''/api/admin/security/policy-decisions?'' @ params_string (policy_query q))
      no_options ''Failed to fetch policy decisions'' w
    = (Inr resp, after_first n1 (getBaseUrl @ ''/api/admin/security/policy-decisions?'' @ params_string (policy_query q)) no_options w)"
    using accepted_checked [OF assms] by blast
  then show ?thesis
    by (simp add: fetchPolicyDecisions_def snd_api_bind api_throw_def api_return_def
        split: sum.splits option.splits)
qed

lemma accepted_summary:
  assumes "accepts n2"
  shows "\<exists>r. br_sent (aw_browser (snd (fetchPolicySummary n2 el since w))) = br_sent (aw_browser w) @ [r]"
proof -
  have "\<exists>r. br_sent (aw_browser (snd (call_json n2 el url no_options err (\<lambda>_. api_return ()) w)))
      = br_sent (aw_browser w) @ [r]" for url err
  proof -
    obtain resp where "checked n2 el url no_options err w = (Inr resp, after_first n2 url no_options w)"
      using accepted_checked [OF assms] by blast
    then show ?thesis
      by (simp add: call_json_def snd_api_bind api_return_def split: sum.splits)
  qed
  then show ?thesis by (simp add: fetchPolicySummary_def)
qed

lemma load_both_first:
  assumes "accepts n1" "accepts n2"
  shows "br_sent (aw_browser (snd (load_both n1 n2 el sf now q period w))) ! sent_count w
    = api_request (aw_auth w)
        (''/api/admin/security/policy-decisions?'' @ params_string (policy_query q)) no_options"
proof -
  define w1 where "w1 = snd (fetchPolicyDecisions n1 el q w)"
  have w1: "br_sent (aw_browser w1) = br_sent (aw_browser w)
      @ [api_request (aw_auth w) (''/api/admin/security/policy-decisions?'' @ params_string (policy_query q)) no_options]"
    by (simp add: w1_def accepted_decisions [OF assms(1)] getBaseUrl_def)
  have "snd (load_both n1 n2 el sf now q period w) = w1
    \<or> (\<exists>since. snd (load_both n1 n2 el sf now q period w) = snd (fetchPolicySummary n2 el since w1))"
    by (auto simp: load_both_def w1_def case_prod_beta split: sum.splits)
  then show ?thesis
  proof (elim disjE exE)
    fix since
    assume "snd (load_both n1 n2 el sf now q period w) = snd (fetchPolicySummary n2 el since w1)"
    moreover obtain r where "br_sent (aw_browser (snd (fetchPolicySummary n2 el since w1))) = br_sent (aw_browser w1) @ [r]"
      using accepted_summary [OF assms(2)] by blast
    ultimately show ?thesis by (simp add: w1 sent_count_def nth_append)
  qed (simp add: w1 sent_count_def)
qed

text \<open>Also: a deep link searches for all decisions of one request: the first request that the page sends
  asks for the trimmed correlation id and nothing else, without a start time, whatever period the
  filters show.\<close>

theorem deep_link_searches_request:
  assumes "accepts n1" "accepts n2" "trim cid \<noteq> []"
  shows "br_sent (aw_browser (snd (policy_mounted n1 n2 el summary_first now [cid] (policy_page_init, w)))) ! sent_count w
    = api_request (aw_auth w)
        (''/api/admin/security/policy-decisions?''
          @ params_string [(''correlation_id'', trim cid), (''limit'', ''100'')]) no_options"
proof -
  have ne: "cid \<noteq> []" using assms(3) by (auto simp: trim_abc)
  define q where "q = \<lparr>pf_correlation_id = Some (trim cid), pf_allow = None, pf_divergence = None,
     pf_source = None, pf_client_id = None, pf_since = None, pf_before_id = None, pf_limit = Some PAGE_SIZE\<rparr>"
  have q: "toQuery (pl_filters (search_for cid policy_log_init)) now = Inr q"
    using assms(3) by (simp add: toQuery_def search_for_def policy_log_init_def defaultFilters_def q_def trim_abc Let_def)
  have "string_of_int 100 = ''100''" by code_simp
  then have "policy_query q = [(''correlation_id'', trim cid), (''limit'', ''100'')]"
    using assms(3) by (simp add: policy_query_def q_def PAGE_SIZE_def set_given_def Let_def)
  moreover have "snd (policy_mounted n1 n2 el summary_first now [cid] (policy_page_init, w))
      = snd (load n1 n2 el summary_first now (search_for cid policy_log_init, w))"
    using ne by (simp add: policy_mounted_def load_page_world policy_page_init_def)
  ultimately show ?thesis
    using load_both_first [OF assms(1,2), of el summary_first now q _ w] load_world [OF q] by simp
qed

theorem deep_link_searches_request_witness:
  "br_sent (aw_browser (snd (policy_mounted (status_net 200 None \<lparr>pdr_decisions = None, pdr_mode = None\<rparr>)
      sample_summary_net user_cancels True 0 [''abc''] (policy_page_init, sample_world)))) ! 0
    = api_request (aw_auth sample_world)
        (''/api/admin/security/policy-decisions?''
          @ params_string [(''correlation_id'', ''abc''), (''limit'', ''100'')]) no_options"
proof -
  have n1: "accepts (status_net 200 None \<lparr>pdr_decisions = None, pdr_mode = None\<rparr> :: PolicyDecisionsResponse net)"
    by (simp add: accepts_def status_net_def resp_ok_def)
  have n2: "accepts sample_summary_net"
    by (simp add: accepts_def sample_summary_net_def status_net_def resp_ok_def)
  have "trim ''abc'' \<noteq> []" by (simp add: trim_abc)
  from deep_link_searches_request [OF n1 n2 this, of user_cancels True 0 sample_world]
  show ?thesis by (simp add: trim_abc sent_count_def sample_world_def)
qed

end
