(* ===== verification/Shell_View.thy ===== *)
theory Shell_View
  imports Router_Guard Version_Info Theme_Store Monitor_Store Step_Up
begin

text \<open>
  The frame around the pages and the pages of the session: the sidebar of \<open>src/src/App.vue\<close>, the badge of
  \<open>src/src/components/VersionBadge.vue\<close>, \<open>src/src/views/SettingsView.vue\<close>,
  \<open>src/src/views/LoginView.vue\<close> and \<open>src/src/components/ErrorBoundary.vue\<close>.
\<close>

section \<open>The sidebar\<close>

record sidebar_link =
  sl_name :: string
  sl_active :: bool
  sl_badge :: "string option"

definition alert_badge :: "monitor_state \<Rightarrow> string" where
  "alert_badge st =
     (if m_unacknowledgedAlerts st > 9 then ''9+'' else string_of_int (m_unacknowledgedAlerts st))"

definition sidebar_link_of :: "monitor_state \<Rightarrow> string \<Rightarrow> nav_item \<Rightarrow> sidebar_link" where
  "sidebar_link_of st here item =
     \<lparr>sl_name = nav_name item, sl_active = (here = nav_route item),
      sl_badge = (if nav_badge item \<and> m_unacknowledgedAlerts st > 0 then Some (alert_badge st) else None)\<rparr>"

definition sidebar_links :: "monitor_state \<Rightarrow> string \<Rightarrow> sidebar_link list" where
  "sidebar_links st here =
     map (sidebar_link_of st here) navItems
     @ [\<lparr>sl_name = ''Settings'', sl_active = (here = ''settings''), sl_badge = None\<rparr>]"

record live_status =
  ls_live :: bool
  ls_alerts :: "int option"

definition live_status_of :: "monitor_state \<Rightarrow> live_status" where
  "live_status_of st =
     \<lparr>ls_live = m_isSSEConnected st,
      ls_alerts = (if m_unacknowledgedAlerts st > 0 then Some (m_unacknowledgedAlerts st) else None)\<rparr>"

text \<open>\<open>a || b\<close> on an optional text.\<close>

definition or_text :: "string option \<Rightarrow> string option \<Rightarrow> string option" where
  "or_text a b = (case a of Some x \<Rightarrow> if x \<noteq> [] then Some x else b | None \<Rightarrow> b)"

definition sidebar_name :: "auth_state \<Rightarrow> string option" where
  "sidebar_name s =
     or_text (Option.bind (auth_user s) ui_name) (or_text (Option.bind (auth_user s) ui_email) (Some ''Admin''))"

definition sidebar_contact :: "auth_state \<Rightarrow> string option" where
  "sidebar_contact s = or_text (Option.bind (auth_user s) ui_email) (map_option ui_sub (auth_user s))"

record theme_button =
  tb_label :: string
  tb_tooltip :: string
  tb_icon :: string

definition theme_button_of :: "bool \<Rightarrow> theme_button" where
  "theme_button_of dark =
     \<lparr>tb_label = (if dark then ''Switch to light mode'' else ''Switch to dark mode''),
      tb_tooltip = (if dark then ''Light mode'' else ''Dark mode''),
      tb_icon = (if dark then ''pi-sun'' else ''pi-moon'')\<rparr>"

record badge_text =
  bt_frontend :: string
  bt_backend :: string
  bt_commit :: "string option"
  bt_error :: bool

definition version_badge :: "version_info \<Rightarrow> badge_text" where
  "version_badge i =
     \<lparr>bt_frontend = withVPrefix (vi_clientVersion i), bt_backend = withVPrefix (vi_backendVersion i),
      bt_commit = (if vi_backendCommit i \<noteq> ellipsis then Some (vi_backendCommit i) else None),
      bt_error = vi_fetchError i\<rparr>"

section \<open>The session page\<close>

text \<open>The page awaits the logout before it navigates, like the sidebar.\<close>

definition settings_logout ::
    "unit net \<Rightarrow> role_config \<Rightarrow> (string \<Rightarrow> route option) \<Rightarrow> page \<Rightarrow> page option" where
  "settings_logout net cfg resolve pg =
     (let (s, b) = logout net (pg_auth pg, pg_browser pg)
      in push_route cfg resolve ''/login'' (pg\<lparr>pg_auth := s, pg_browser := b\<rparr>))"

record session_card =
  sn_name :: string
  sn_tag :: "string option"
  sn_roles :: "string list"
  sn_none :: bool

definition session_card_of :: "auth_state \<Rightarrow> session_card" where
  "session_card_of s =
     \<lparr>sn_name =
        (case or_text (Option.bind (auth_user s) ui_email)
                (or_text (Option.bind (auth_user s) ui_name)
                   (or_text (map_option ui_sub (auth_user s)) (Some em_dash))) of
           Some n \<Rightarrow> n | None \<Rightarrow> []),
      sn_tag = (if length (roles_of s) \<noteq> 0 then Some (roles_of s ! 0) else None),
      sn_roles = roles_of s,
      sn_none = (length (roles_of s) = 0)\<rparr>"

section \<open>The sign-in screen\<close>

record login_screen =
  lg_isLoading :: bool
  lg_browser :: browser

definition login_click :: "login_screen \<Rightarrow> login_screen" where
  "login_click s = s\<lparr>lg_isLoading := True, lg_browser := login (Some ''/'') (lg_browser s)\<rparr>"

section \<open>The error boundary\<close>

record error_boundary =
  eb_error :: "js_error option"
  eb_info :: string

definition boundary_init :: error_boundary where
  "boundary_init = \<lparr>eb_error = None, eb_info = []\<rparr>"

text \<open>What the hook returns says whether the error goes on to the parents.\<close>

definition error_captured :: "js_error \<Rightarrow> string \<Rightarrow> error_boundary \<Rightarrow> bool \<times> error_boundary" where
  "error_captured e errorInfo s = (False, s\<lparr>eb_error := Some e, eb_info := errorInfo\<rparr>)"

datatype shown =
    Shown_page
  | Shown_error string

definition boundary_shows :: "error_boundary \<Rightarrow> shown" where
  "boundary_shows s =
     (case eb_error s of
        None \<Rightarrow> Shown_page
      | Some e \<Rightarrow> Shown_error (error_message e @ [CHR 0x5C, CHR ''n''] @ eb_info s))"

section \<open>What holds of the frame\<close>

text \<open>Also: signing out from the session page ends on the sign-in screen without a session, as the
  sidebar's sign-out does, whatever becomes of the request.\<close>

theorem settings_logout_signs_out:
  assumes "matcher_ok resolve"
  shows "\<exists>pg'. settings_logout net cfg resolve pg = Some pg' \<and> pg_location pg' = Some login_route
    \<and> \<not> isAuthenticated (pg_auth pg') \<and> app_logout net cfg resolve pg = Some pg'"
  using logout_signs_out [of net "pg_auth pg" "pg_browser pg"]
  by (auto simp: settings_logout_def app_logout_def push_route_def case_prod_beta navigate_login [OF assms])

theorem settings_logout_signs_out_witness:
  "\<exists>pg'. settings_logout (\<lambda>_ _. Rejected NetworkError) sample_roles exact_match
       \<lparr>pg_auth = sample_user [''admin''], pg_browser = \<lparr>br_pathname = ''/settings'', br_search = [],
          br_assigned = [], br_sent = []\<rparr>, pg_location = None\<rparr> = Some pg'
     \<and> pg_location pg' = Some login_route"
  using settings_logout_signs_out [OF exact_match_ok] by blast

text \<open>Also: the sidebar marks at most one entry as the present page, whatever the route, and its badge
  has at most two characters.\<close>

lemma one_active_link: "length (filter sl_active (sidebar_links st here)) \<le> 1"
  by (simp add: sidebar_links_def sidebar_link_of_def navItems_def)

text \<open>After an error nothing but the message is shown, and the last error is the one shown.\<close>

lemma boundary_keeps_error:
  "boundary_shows (snd (error_captured e i s)) \<noteq> Shown_page \<and> \<not> fst (error_captured e i s)"
  by (simp add: error_captured_def boundary_shows_def)

end
