(* ===== verification/Console.thy ===== *)
theory Console
  imports Api_Client Router_Guard Sse_Connection
begin

text \<open>
  The parts of the console put together, with everything that can happen between two promises: the
  router (\<open>src/src/router/index.ts\<close>), the calls of \<open>src/src/composables/useApi.ts\<close>, the step-up store
  and its dialog, and the three ways of signing out (\<open>App.vue\<close>, \<open>SettingsView.vue\<close>,
  \<open>UnauthorisedView.vue\<close>), all over one session.

  \<open>fetchWithAuth\<close> is cut at its two \<open>await\<close>s, and put together again it is the function of
  \<open>Api_Client\<close>.  A navigation has two steps: the guard decides where it goes, and the page appears
  when its component, which the route imports on demand, has been loaded; a navigation that starts
  in between replaces the one under way, as the router documents.
\<close>

section \<open>A call between its awaits\<close>

definition fwa_send :: "string \<Rightarrow> request_init \<Rightarrow> api_world \<Rightarrow> api_world" where
  "fwa_send url opts w =
     w\<lparr>aw_browser := (aw_browser w)\<lparr>br_sent := br_sent (aw_browser w) @ [api_request (aw_auth w) url opts]\<rparr>\<rparr>"

datatype 'b call_next =
    Call_throws js_error
  | Call_returns "'b response"
  | Call_waits nat

definition fwa_receive :: "'b fetch_outcome \<Rightarrow> bool \<Rightarrow> api_world \<Rightarrow> 'b call_next \<times> api_world" where
  "fwa_receive out elevated w =
     (case out of
        Rejected e \<Rightarrow> (Call_throws e, w)
      | Responded r \<Rightarrow>
          if resp_status r = 401 then
            (Call_throws (Error ''Session expired''),
             w\<lparr>aw_auth := setUnauthenticated (aw_auth w), aw_browser := login None (aw_browser w)\<rparr>)
          else if resp_status r = 403 \<and> \<not> elevated then
            (if elevation_required r then
               (let (p, su) = su_request (aw_stepUp w) in (Call_waits p, w\<lparr>aw_stepUp := su\<rparr>))
             else (Call_returns r, w))
          else (Call_returns r, w))"

text \<open>The stretches, with a server that answers at once and \<open>el\<close> for the time of an elevation.\<close>

lemma fetchWithAuth_stretches:
  "fetchWithAuth net el url opts elevated w =
     (case fwa_receive (net (length (br_sent (aw_browser w))) (api_request (aw_auth w) url opts)) elevated
             (fwa_send url opts w) of
        (Call_throws e, w1) \<Rightarrow> (Inl e, w1)
      | (Call_returns r, w1) \<Rightarrow> (Inr r, w1)
      | (Call_waits p, w1) \<Rightarrow>
          (case el p w1 of
             (Inl e, w2) \<Rightarrow> (Inl e, w2)
           | (Inr _, w2) \<Rightarrow> fetchWithAuth net el url opts True w2))"
  by (subst fetchWithAuth.simps)
    (simp add: fwa_receive_def fwa_send_def fetch_def Let_def case_prod_beta split: fetch_outcome.split)

section \<open>The state\<close>

text \<open>A call waits for its response or for the promise of an elevation.\<close>

record api_call =
  ac_url :: string
  ac_options :: request_init
  ac_elevated :: bool
  ac_waits :: "nat option"

text \<open>Whether a sign-out under way is awaited before the navigation to the sign-in screen.\<close>

datatype sign_out = Awaited | Not_awaited

record console =
  co_world :: api_world
  co_dialog :: dialog
  co_elevations :: "(string \<times> string option) list"
  co_location :: "route option"
  co_going :: "route option option"
  co_calls :: "api_call list"
  co_signouts :: "sign_out list"

abbreviation co_auth :: "console \<Rightarrow> auth_state" where
  "co_auth c \<equiv> aw_auth (co_world c)"

abbreviation co_browser :: "console \<Rightarrow> browser" where
  "co_browser c \<equiv> aw_browser (co_world c)"

abbreviation co_stepUp :: "console \<Rightarrow> step_up" where
  "co_stepUp c \<equiv> aw_stepUp (co_world c)"

text \<open>The session has been resolved and the router has not navigated yet.\<close>

definition console_start :: "auth_state \<Rightarrow> monitor_state \<Rightarrow> browser \<Rightarrow> console" where
  "console_start s m b =
     \<lparr>co_world = \<lparr>aw_auth = s, aw_monitor = m, aw_stepUp = step_up_init, aw_browser = b\<rparr>,
      co_dialog = dialog_init, co_elevations = [], co_location = None, co_going = None,
      co_calls = [], co_signouts = []\<rparr>"

section \<open>Steps\<close>

text \<open>Of a body nothing but its \<open>error\<close> member is read here.\<close>

datatype console_action =
    Go string
  | Arrive
  | Call string request_init
  | Answer nat "unit fetch_outcome"
  | Elevated nat
  | Dialog su_action
  | Click_sign_out
  | Click_denied_sign_out
  | Signed_out nat

definition go ::
    "role_config \<Rightarrow> (string \<Rightarrow> route option) \<Rightarrow> string \<Rightarrow> console \<Rightarrow> console option" where
  "go cfg resolve path c =
     (case navigate cfg resolve (co_auth c) path of
        None \<Rightarrow> None
      | Some l \<Rightarrow> Some (c\<lparr>co_going := Some l\<rparr>))"

text \<open>The watcher of the dialog runs when the store has opened it.\<close>

definition set_world :: "api_world \<Rightarrow> console \<Rightarrow> console" where
  "set_world w c =
     c\<lparr>co_world := w,
       co_dialog := (if su_visible (co_stepUp c) then co_dialog c
                     else on_visible (su_visible (aw_stepUp w)) (co_dialog c))\<rparr>"

definition answer :: "nat \<Rightarrow> 'b fetch_outcome \<Rightarrow> console \<Rightarrow> console option" where
  "answer i out c =
     (if i < length (co_calls c) \<and> ac_waits (co_calls c ! i) = None
      then (let a = co_calls c ! i in
            case fwa_receive out (ac_elevated a) (co_world c) of
              (Call_waits p, w) \<Rightarrow>
                Some ((set_world w c)\<lparr>co_calls := (co_calls c)[i := a\<lparr>ac_waits := Some p\<rparr>]\<rparr>)
            | (_, w) \<Rightarrow> Some ((set_world w c)\<lparr>co_calls := remove_nth i (co_calls c)\<rparr>))
      else None)"

text \<open>The promise that a call waits for has settled: the call is sent again, or it throws.\<close>

definition elevated_call :: "nat \<Rightarrow> console \<Rightarrow> console option" where
  "elevated_call i c =
     (if i < length (co_calls c)
      then (let a = co_calls c ! i in
            case ac_waits a of
              None \<Rightarrow> None
            | Some p \<Rightarrow>
                (case su_promises (co_stepUp c) ! p of
                   Pending \<Rightarrow> None
                 | Resolved \<Rightarrow>
                     Some (c\<lparr>co_world := fwa_send (ac_url a) (ac_options a) (co_world c),
                             co_calls := (co_calls c)[i := a\<lparr>ac_elevated := True, ac_waits := None\<rparr>]\<rparr>)
                 | Rejected_with e \<Rightarrow> Some (c\<lparr>co_calls := remove_nth i (co_calls c)\<rparr>)))
      else None)"

text \<open>What the user does at the dialog, and the elevations that it sends.\<close>

definition dialog_view :: "console \<Rightarrow> step_up_sys" where
  "dialog_view c =
     \<lparr>sys_dialog = co_dialog c, sys_store = co_stepUp c, sys_sent = co_elevations c\<rparr>"

definition send_elevations ::
    "(string \<times> string option) list \<Rightarrow> auth_state \<Rightarrow> browser \<Rightarrow> browser" where
  "send_elevations es s b = b\<lparr>br_sent := br_sent b @ map (\<lambda>(pw, code). elevate_request s pw code) es\<rparr>"

definition at_dialog :: "su_action \<Rightarrow> console \<Rightarrow> console option" where
  "at_dialog a c =
     (if a = Ask then None
      else (case su_act a (dialog_view c) of
              None \<Rightarrow> None
            | Some x \<Rightarrow>
                Some (c\<lparr>co_world := (co_world c)\<lparr>aw_stepUp := sys_store x,
                            aw_browser := send_elevations (drop (length (co_elevations c)) (sys_sent x))
                                            (co_auth c) (co_browser c)\<rparr>,
                        co_dialog := sys_dialog x, co_elevations := sys_sent x\<rparr>)))"

definition send_logout :: "sign_out \<Rightarrow> console \<Rightarrow> console" where
  "send_logout k c =
     c\<lparr>co_world := (co_world c)\<lparr>aw_browser := (co_browser c)\<lparr>br_sent :=
           br_sent (co_browser c) @ [logout_request (co_auth c)]\<rparr>\<rparr>,
       co_signouts := co_signouts c @ [k]\<rparr>"

definition drop_identity :: "console \<Rightarrow> console" where
  "drop_identity c = c\<lparr>co_world := (co_world c)\<lparr>aw_auth := setUnauthenticated (co_auth c)\<rparr>\<rparr>"

text \<open>The sign-out of the sidebar and of the session page, which navigate when the request has
  settled, and the sign-out of the access-denied page, which navigates at once.\<close>

fun console_act ::
    "role_config \<Rightarrow> (string \<Rightarrow> route option) \<Rightarrow> console_action \<Rightarrow> console \<Rightarrow> console option" where
  "console_act cfg resolve (Go path) c = go cfg resolve path c"
| "console_act cfg resolve Arrive c =
     (case co_going c of
        None \<Rightarrow> None
      | Some l \<Rightarrow> Some (c\<lparr>co_location := l, co_going := None\<rparr>))"
| "console_act cfg resolve (Call url opts) c =
     Some (c\<lparr>co_world := fwa_send url opts (co_world c),
             co_calls := co_calls c @
               [\<lparr>ac_url = url, ac_options = opts, ac_elevated = False, ac_waits = None\<rparr>]\<rparr>)"
| "console_act cfg resolve (Answer i out) c = answer i out c"
| "console_act cfg resolve (Elevated i) c = elevated_call i c"
| "console_act cfg resolve (Dialog a) c = at_dialog a c"
| "console_act cfg resolve Click_sign_out c =
     (if showSidebar (co_auth c) (co_location c)
         \<or> map_option rt_name (co_location c) = Some ''settings''
      then Some (send_logout Awaited c) else None)"
| "console_act cfg resolve Click_denied_sign_out c =
     (if map_option rt_name (co_location c) = Some ''unauthorised''
      then go cfg resolve ''/login'' (send_logout Not_awaited c) else None)"
| "console_act cfg resolve (Signed_out i) c =
     (if i < length (co_signouts c)
      then (let c1 = (drop_identity c)\<lparr>co_signouts := remove_nth i (co_signouts c)\<rparr>
            in case co_signouts c ! i of
                 Awaited \<Rightarrow> go cfg resolve ''/login'' c1
               | Not_awaited \<Rightarrow> Some c1)
      else None)"

end
