(* ===== verification/Console_Rights.thy ===== *)
theory Console_Rights
  imports Console
begin

text \<open>
  Which page the console of \<open>Console\<close> shows to whom, whatever happens in between: the invariant of the
  rights, and the one way of signing out that breaks it.
\<close>

section \<open>The rights of the page shown\<close>

definition signing_in :: "browser \<Rightarrow> bool" where
  "signing_in b \<longleftrightarrow> (\<exists>a \<in> set (br_assigned b). take 21 a = ''/bff/login?return_to='')"

text \<open>The restriction: nobody signs out from the access-denied page while having the rights of a viewer.\<close>

definition careful :: "role_config \<Rightarrow> console_action \<Rightarrow> console \<Rightarrow> bool" where
  "careful cfg a c \<longleftrightarrow>
     (a = Click_denied_sign_out \<longrightarrow> \<not> (isAuthenticated (co_auth c) \<and> isViewer cfg (co_auth c)))"

definition careful_act ::
    "role_config \<Rightarrow> (string \<Rightarrow> route option) \<Rightarrow> console_action \<Rightarrow> console \<Rightarrow> console option" where
  "careful_act cfg resolve a c = (if careful cfg a c then console_act cfg resolve a c else None)"

definition console_init :: "console \<Rightarrow> bool" where
  "console_init c \<longleftrightarrow> (\<exists>s m b. c = console_start s m b \<and> br_assigned b = [])"

fun public :: "route option \<Rightarrow> bool" where
  "public None = True"
| "public (Some r) = (\<not> rm_requiresAuth (rt_meta r))"

fun allowed :: "role_config \<Rightarrow> auth_state \<Rightarrow> route option \<Rightarrow> bool" where
  "allowed cfg s None = True"
| "allowed cfg s (Some r) = (r \<in> set routes \<and> (rm_requiresAuth (rt_meta r) \<longrightarrow> admitted cfg s r))"

fun known :: "route option \<Rightarrow> bool" where
  "known None = True"
| "known (Some r) = (r \<in> set routes)"

lemma allowed_known: "allowed cfg s l \<Longrightarrow> known l"
  by (cases l) auto

lemma allowed_public: "allowed cfg s l \<Longrightarrow> \<not> (isAuthenticated s \<and> isViewer cfg s) \<Longrightarrow> public l"
  by (cases l) (auto simp: admitted_def intro: isAdmin_isViewer split: if_splits)

lemma landing_allowed:
  assumes "r \<in> set routes"
  shows "allowed cfg s (Some (landing cfg s r))"
  using assms table_auth [OF assms] fixed_in_table by (auto simp: landing_def admitted_def)

lemma navigate_allowed:
  assumes "matcher_ok resolve"
  shows "\<exists>l. navigate cfg resolve s path = Some l \<and> allowed cfg s l"
proof (cases "resolve path")
  case None
  then show ?thesis by (simp add: navigate_unmatched)
next
  case (Some r)
  then have "r \<in> set routes" using assms by (auto simp: matcher_ok_def)
  then show ?thesis using landing_allowed navigate_landing [OF assms Some] by auto
qed

lemma go_allowed:
  assumes "matcher_ok resolve"
  shows "\<exists>l. go cfg resolve path c = Some (c\<lparr>co_going := Some l\<rparr>) \<and> allowed cfg (co_auth c) l"
  using navigate_allowed [OF assms, of cfg "co_auth c" path] by (auto simp: go_def)

text \<open>With a session, the page shown and the page under way are allowed.  Without one, either both are
  public, or the browser is on its way to the sign-in at the BFF; a public page under way
  replaces a page that is not.\<close>

definition heading :: "console \<Rightarrow> route option" where
  "heading c = (case co_going c of Some l \<Rightarrow> l | None \<Rightarrow> co_location c)"

lemma heading_simps [simp]:
  "heading (c\<lparr>co_going := Some l\<rparr>) = l"
  "heading (c\<lparr>co_location := l, co_going := None\<rparr>) = l"
  by (simp_all add: heading_def)

lemma heading_cong:
  "co_location d = co_location c \<Longrightarrow> co_going d = co_going c \<Longrightarrow> heading d = heading c"
  by (simp add: heading_def split: option.split)

lemma heading_session [simp]:
  "heading (send_logout k c) = heading c"
  "heading ((drop_identity c)\<lparr>co_signouts := ks\<rparr>) = heading c"
  by (rule heading_cong; simp add: send_logout_def drop_identity_def)+

lemma session_parts [simp]:
  "co_location (send_logout k c) = co_location c" "co_going (send_logout k c) = co_going c"
  "co_auth (send_logout k c) = co_auth c" "co_signouts (send_logout k c) = co_signouts c @ [k]"
  "br_assigned (co_browser (send_logout k c)) = br_assigned (co_browser c)"
  "co_location (drop_identity c) = co_location c" "co_going (drop_identity c) = co_going c"
  "co_auth (drop_identity c) = setUnauthenticated (co_auth c)"
  "co_browser (drop_identity c) = co_browser c"
  by (simp_all add: send_logout_def drop_identity_def)

definition rights_inv :: "role_config \<Rightarrow> console \<Rightarrow> bool" where
  "rights_inv cfg c \<longleftrightarrow>
     known (co_location c) \<and> (\<forall>l. co_going c = Some l \<longrightarrow> known l)
     \<and> (isAuthenticated (co_auth c) \<longrightarrow>
          allowed cfg (co_auth c) (co_location c)
          \<and> (\<forall>l. co_going c = Some l \<longrightarrow> allowed cfg (co_auth c) l))
     \<and> (\<not> isAuthenticated (co_auth c) \<longrightarrow> signing_in (co_browser c) \<or> public (heading c))
     \<and> (Not_awaited \<in> set (co_signouts c) \<longrightarrow>
          \<not> (isAuthenticated (co_auth c) \<and> isViewer cfg (co_auth c)))"

lemma not_authenticated_dropped [simp]: "\<not> isAuthenticated (setUnauthenticated s)"
  by (simp add: setUnauthenticated_def isAuthenticated_def)

lemma signing_in_login: "signing_in (login None b)"
proof -
  have "take 21 (''/bff/login?return_to='' @ x) = ''/bff/login?return_to=''" for x
    by (simp add: numeral_eq_Suc)
  then show ?thesis by (simp add: signing_in_def login_def assign_location_def)
qed

lemma fwa_send_parts [simp]:
  "aw_auth (fwa_send url opts w) = aw_auth w"
  "signing_in (aw_browser (fwa_send url opts w)) = signing_in (aw_browser w)"
  "aw_stepUp (fwa_send url opts w) = aw_stepUp w"
  by (simp_all add: fwa_send_def signing_in_def)

lemma fwa_receive_cases:
  assumes "fwa_receive out elevated w = (n, v)"
  shows "aw_auth v = aw_auth w \<and> aw_browser v = aw_browser w
    \<or> aw_auth v = setUnauthenticated (aw_auth w) \<and> signing_in (aw_browser v)"
  using assms
  by (auto simp: fwa_receive_def case_prod_beta Let_def signing_in_login
      split: fetch_outcome.splits if_splits)

lemma rights_quiet:
  assumes "rights_inv cfg c" "co_location d = co_location c" "co_going d = co_going c"
    "co_auth d = co_auth c" "co_signouts d = co_signouts c" "signing_in (co_browser d) = signing_in (co_browser c)"
  shows "rights_inv cfg d"
  using assms heading_cong [OF assms(2,3)] by (simp add: rights_inv_def)

lemma rights_dropped:
  assumes "rights_inv cfg c" "co_location d = co_location c" "co_going d = co_going c"
    "\<not> isAuthenticated (co_auth d)" "signing_in (co_browser d)"
  shows "rights_inv cfg d"
  using assms by (simp add: rights_inv_def)

lemma answer_parts:
  assumes "answer i out c = Some d"
  shows "co_location d = co_location c \<and> co_going d = co_going c \<and> co_signouts d = co_signouts c
    \<and> (co_auth d = co_auth c \<and> co_browser d = co_browser c
       \<or> co_auth d = setUnauthenticated (co_auth c) \<and> signing_in (co_browser d))"
proof -
  obtain n v where r: "fwa_receive out (ac_elevated (co_calls c ! i)) (co_world c) = (n, v)" by force
  have "co_world d = v" "co_location d = co_location c" "co_going d = co_going c"
    "co_signouts d = co_signouts c"
    using assms r by (auto simp: answer_def Let_def set_world_def split: call_next.splits if_splits)
  then show ?thesis using fwa_receive_cases [OF r] by auto
qed

lemma elevated_call_parts:
  assumes "elevated_call i c = Some d"
  shows "co_location d = co_location c \<and> co_going d = co_going c \<and> co_signouts d = co_signouts c
    \<and> co_auth d = co_auth c \<and> signing_in (co_browser d) = signing_in (co_browser c)"
  using assms
  by (auto simp: elevated_call_def Let_def split: if_splits option.splits promise.splits)

lemma at_dialog_parts:
  assumes "at_dialog a c = Some d"
  shows "co_location d = co_location c \<and> co_going d = co_going c \<and> co_signouts d = co_signouts c
    \<and> co_auth d = co_auth c \<and> signing_in (co_browser d) = signing_in (co_browser c)
    \<and> co_calls d = co_calls c"
  using assms
  by (auto simp: at_dialog_def send_elevations_def signing_in_def split: if_splits option.splits)

lemma rights_go:
  assumes "matcher_ok resolve" "rights_inv cfg c" "go cfg resolve path c = Some d"
  shows "rights_inv cfg d"
proof -
  obtain l where l: "d = c\<lparr>co_going := Some l\<rparr>" "allowed cfg (co_auth c) l"
    using go_allowed [OF assms(1), of cfg path c] assms(3) by auto
  then show ?thesis
    using assms(2) allowed_known [OF l(2)] allowed_public [OF l(2)] by (auto simp: rights_inv_def)
qed

lemma rights_arrive:
  assumes "rights_inv cfg c" "co_going c = Some l"
  shows "rights_inv cfg (c\<lparr>co_location := l, co_going := None\<rparr>)"
  using assms by (simp add: rights_inv_def) (simp add: heading_def)

lemma rights_send_logout:
  assumes "rights_inv cfg c" "k = Not_awaited \<longrightarrow> \<not> (isAuthenticated (co_auth c) \<and> isViewer cfg (co_auth c))"
  shows "rights_inv cfg (send_logout k c)"
  using assms by (cases k) (auto simp: rights_inv_def signing_in_def)

lemma set_remove_nthD: "x \<in> set (remove_nth i xs) \<Longrightarrow> x \<in> set xs"
  using set_remove_nth by fast

text \<open>Where the sign-out is not awaited, the user had no rights, so the pages were public before.\<close>

lemma rights_signed_out:
  assumes "rights_inv cfg c" "i < length (co_signouts c)" "co_signouts c ! i = Not_awaited"
  shows "rights_inv cfg ((drop_identity c)\<lparr>co_signouts := remove_nth i (co_signouts c)\<rparr>)"
proof -
  have "Not_awaited \<in> set (co_signouts c)" using assms(2,3) nth_mem by force
  then have no: "\<not> (isAuthenticated (co_auth c) \<and> isViewer cfg (co_auth c))"
    using assms(1) by (simp add: rights_inv_def)
  show ?thesis
  proof (cases "isAuthenticated (co_auth c)")
    case True
    then have "public (co_location c)" "\<forall>l. co_going c = Some l \<longrightarrow> public l"
      using assms(1) no allowed_public unfolding rights_inv_def by blast+
    then show ?thesis
      using assms(1) by (auto simp: rights_inv_def heading_def split: option.split)
  next
    case False
    then show ?thesis using assms(1) by (simp add: rights_inv_def)
  qed
qed

lemma rights_signed_out_awaited:
  assumes "matcher_ok resolve" "rights_inv cfg c"
    "go cfg resolve ''/login'' ((drop_identity c)\<lparr>co_signouts := ks\<rparr>) = Some d"
  shows "rights_inv cfg d"
proof -
  define c1 where "c1 = (drop_identity c)\<lparr>co_signouts := ks\<rparr>"
  have out: "\<not> isAuthenticated (co_auth c1)" by (simp add: c1_def drop_identity_def)
  obtain l where l: "d = c1\<lparr>co_going := Some l\<rparr>" "allowed cfg (co_auth c1) l"
    using go_allowed [OF assms(1), of cfg "''/login''" c1] assms(3) by (auto simp: c1_def)
  have k: "known (co_location c1)" using assms(2) by (simp add: rights_inv_def c1_def drop_identity_def)
  show ?thesis
    unfolding rights_inv_def l(1)
    using out k allowed_known [OF l(2)] allowed_public [OF l(2)] by simp
qed

lemma rights_step:
  assumes "matcher_ok resolve" "rights_inv cfg c" "action_step (careful_act cfg resolve) c d"
  shows "rights_inv cfg d"
proof -
  obtain a where a: "careful cfg a c" "console_act cfg resolve a c = Some d"
    using assms(3) by (auto simp: action_step_def careful_act_def split: if_splits)
  show ?thesis
  proof (cases a)
    case (Go path)
    then show ?thesis using rights_go [OF assms(1,2)] a(2) by simp
  next
    case Arrive
    then show ?thesis using rights_arrive [OF assms(2)] a(2) by (auto split: option.splits)
  next
    case (Call url opts)
    then show ?thesis using a(2) by (intro rights_quiet [OF assms(2)]) auto
  next
    case (Answer i out)
    then have d: "answer i out c = Some d" using a(2) by simp
    from answer_parts [OF d] show ?thesis
      using rights_quiet [OF assms(2), of d] rights_dropped [OF assms(2), of d] by auto
  next
    case (Elevated i)
    then have "elevated_call i c = Some d" using a(2) by simp
    from elevated_call_parts [OF this] show ?thesis by (intro rights_quiet [OF assms(2)]) simp_all
  next
    case (Dialog u)
    then have "at_dialog u c = Some d" using a(2) by simp
    from at_dialog_parts [OF this] show ?thesis by (intro rights_quiet [OF assms(2)]) simp_all
  next
    case Click_sign_out
    then have "d = send_logout Awaited c" using a(2) by (simp split: if_splits)
    then show ?thesis using rights_send_logout [OF assms(2)] by simp
  next
    case Click_denied_sign_out
    then have "rights_inv cfg (send_logout Not_awaited c)"
      using a(1) by (intro rights_send_logout [OF assms(2)]) (simp add: careful_def)
    then show ?thesis
      using Click_denied_sign_out a(2) rights_go [OF assms(1)] by (auto split: if_splits)
  next
    case (Signed_out i)
    then show ?thesis
      using a(2) rights_signed_out [OF assms(2)] rights_signed_out_awaited [OF assms(1,2)]
      by (auto simp: Let_def split: if_splits sign_out.splits)
  qed
qed

lemma rights_start: "console_init c \<Longrightarrow> rights_inv cfg c"
  by (auto simp: console_init_def console_start_def rights_inv_def heading_def)

interpretation rights: invariant_system console_init "action_step (careful_act cfg resolve)"
    "\<lambda>c. matcher_ok resolve \<longrightarrow> rights_inv cfg c" for cfg resolve
  by unfold_locales (auto intro: rights_start rights_step)


definition sample_console :: "string list \<Rightarrow> console" where
  "sample_console rs = console_start (sample_user rs) monitor_init
     \<lparr>br_pathname = ''/'', br_search = [], br_assigned = [], br_sent = []\<rparr>"

lemma sample_console_init: "console_init (sample_console rs)"
  unfolding console_init_def sample_console_def by force

lemma sample_console_parts [simp]:
  "co_auth (sample_console rs) = sample_user rs" "co_calls (sample_console rs) = []"
  "co_signouts (sample_console rs) = []" "co_location (sample_console rs) = None"
  "co_going (sample_console rs) = None" "br_assigned (co_browser (sample_console rs)) = []"
  by (simp_all add: sample_console_def console_start_def)

lemma go_landing:
  "matcher_ok resolve \<Longrightarrow> resolve path = Some r \<Longrightarrow>
    go cfg resolve path c = Some (c\<lparr>co_going := Some (Some (landing cfg (co_auth c) r))\<rparr>)"
  by (simp add: go_def navigate_landing)




end
