(* ===== verification/Console_Calls.thy ===== *)
theory Console_Calls
  imports Console_Rights
begin

text \<open>
  The calls of the console of \<open>Console\<close> and the step-up dialog: no call waits behind a closed dialog.
\<close>

section \<open>The calls and the dialog\<close>

definition waiting_calls :: "console \<Rightarrow> api_call set" where
  "waiting_calls c =
     {a \<in> set (co_calls c). \<exists>p. ac_waits a = Some p \<and> su_promises (co_stepUp c) ! p = Pending}"

definition calls_inv :: "console \<Rightarrow> bool" where
  "calls_inv c \<longleftrightarrow>
     su_inv (co_stepUp c)
     \<and> (\<forall>a \<in> set (co_calls c). \<forall>p. ac_waits a = Some p \<longrightarrow>
          p < length (su_promises (co_stepUp c)) \<and> \<not> ac_elevated a)
     \<and> (\<forall>p. su_pending (co_stepUp c) = Some p \<longrightarrow> (\<exists>a \<in> set (co_calls c). ac_waits a = Some p))"

lemma set_updateD: "a \<in> set (xs[i := x]) \<Longrightarrow> a = x \<or> a \<in> set xs"
  using set_update_subset_insert by fast

lemma kept_by_update: "a \<in> set xs \<Longrightarrow> a \<noteq> xs ! i \<Longrightarrow> a \<in> set (xs[i := x])"
  by (metis in_set_conv_nth length_list_update nth_list_update_neq)

lemma kept_by_remove: "a \<in> set xs \<Longrightarrow> a \<noteq> xs ! i \<Longrightarrow> a \<in> set (remove_nth i xs)"
proof -
  assume "a \<in> set xs" "a \<noteq> xs ! i"
  then obtain j where j: "j < length xs" "xs ! j = a" "j \<noteq> i" by (auto simp: in_set_conv_nth)
  show "a \<in> set (remove_nth i xs)"
  proof (cases "j < i")
    case True
    then have "take i xs ! j = a" "j < length (take i xs)" using j by auto
    then have "a \<in> set (take i xs)" using nth_mem by blast
    then show ?thesis by (simp add: remove_nth_def)
  next
    case False
    then have "drop (Suc i) xs ! (j - Suc i) = a" "j - Suc i < length (drop (Suc i) xs)" using j by auto
    then have "a \<in> set (drop (Suc i) xs)" using nth_mem by blast
    then show ?thesis by (simp add: remove_nth_def)
  qed
qed

lemma calls_quiet:
  "calls_inv c \<Longrightarrow> co_stepUp d = co_stepUp c \<Longrightarrow> co_calls d = co_calls c \<Longrightarrow> calls_inv d"
  by (simp add: calls_inv_def)

lemma calls_settled_call:
  assumes "calls_inv c" "co_stepUp d = co_stepUp c"
    and "su_pending (co_stepUp c) = None \<or> ac_waits (co_calls c ! i) \<noteq> su_pending (co_stepUp c)"
    and "co_calls d = remove_nth i (co_calls c)
      \<or> co_calls d = (co_calls c)[i := x] \<and> ac_waits x = None"
  shows "calls_inv d"
proof -
  have sub: "a \<in> set (co_calls c)" if "a \<in> set (co_calls d)" "ac_waits a = Some p" for a p
    using assms(4) that set_updateD set_remove_nthD by fastforce
  have keep: "\<exists>a \<in> set (co_calls d). ac_waits a = Some p" if p: "su_pending (co_stepUp c) = Some p" for p
  proof -
    obtain a where a: "a \<in> set (co_calls c)" "ac_waits a = Some p"
      using assms(1) p by (auto simp: calls_inv_def)
    then have "a \<noteq> co_calls c ! i" using assms(3) p by auto
    then show ?thesis using a assms(4) kept_by_update kept_by_remove by metis
  qed
  show ?thesis using assms(1,2) sub keep unfolding calls_inv_def by auto
qed

lemma fwa_receive_stepUp:
  assumes "fwa_receive out elevated w = (n, v)"
  shows "case n of
      Call_waits p \<Rightarrow> \<not> elevated \<and> p = fst (su_request (aw_stepUp w)) \<and> aw_stepUp v = snd (su_request (aw_stepUp w))
    | _ \<Rightarrow> aw_stepUp v = aw_stepUp w"
  using assms
  by (auto simp: fwa_receive_def case_prod_beta Let_def split: fetch_outcome.splits if_splits)

lemma request_promises_length:
  "length (su_promises s) \<le> length (su_promises (snd (su_request s)))"
  by (simp add: promises_request split: option.split)

lemma calls_answer:
  assumes "calls_inv c" "answer i out c = Some d"
  shows "calls_inv d"
proof -
  have i: "i < length (co_calls c)" "ac_waits (co_calls c ! i) = None"
    using assms(2) by (auto simp: answer_def split: if_splits)
  obtain n v where r: "fwa_receive out (ac_elevated (co_calls c ! i)) (co_world c) = (n, v)" by force
  have inv: "su_inv (co_stepUp c)" using assms(1) by (simp add: calls_inv_def)
  show ?thesis
  proof (cases "\<exists>p. n = Call_waits p")
    case True
    then obtain p where p: "n = Call_waits p" by blast
    have su: "\<not> ac_elevated (co_calls c ! i)" "p = fst (su_request (co_stepUp c))"
        "aw_stepUp v = snd (su_request (co_stepUp c))"
      using fwa_receive_stepUp [OF r] p by auto
    define x where "x = (co_calls c ! i)\<lparr>ac_waits := Some p\<rparr>"
    have d: "co_stepUp d = snd (su_request (co_stepUp c))" "co_calls d = (co_calls c)[i := x]"
      using assms(2) r p su(3) i by (auto simp: answer_def Let_def set_world_def x_def)
    have pend: "su_pending (co_stepUp d) = Some p" by (simp add: d su su_request_pending)
    have new: "su_inv (co_stepUp d)" using inv by (simp add: d su_inv_request)
    then have "p < length (su_promises (co_stepUp d))" using pend by (simp add: su_inv_def)
    moreover have "x \<in> set (co_calls d)" using i by (simp add: d set_update_memI)
    moreover have "q < length (su_promises (co_stepUp d)) \<and> \<not> ac_elevated a"
      if a: "a \<in> set (co_calls d)" "ac_waits a = Some q" for a q
    proof (cases "a = x")
      case True
      then show ?thesis using a(2) su(1) calculation(1) by (simp add: x_def)
    next
      case False
      then have "a \<in> set (co_calls c)" using a(1) set_updateD unfolding d(2) by fast
      then have "q < length (su_promises (co_stepUp c)) \<and> \<not> ac_elevated a"
        using assms(1) a(2) by (simp add: calls_inv_def)
      then show ?thesis using request_promises_length [of "co_stepUp c"] by (simp add: d(1))
    qed
    moreover have "ac_waits x = Some p" by (simp add: x_def)
    ultimately show ?thesis using new pend unfolding calls_inv_def by auto
  next
    case False
    then have "co_stepUp d = co_stepUp c" "co_calls d = remove_nth i (co_calls c)"
      using assms(2) r i fwa_receive_stepUp [OF r]
      by (auto simp: answer_def Let_def set_world_def split: call_next.splits)
    then show ?thesis using i(2) by (intro calls_settled_call [OF assms(1), where i = i]) auto
  qed
qed

lemma calls_elevated:
  assumes "calls_inv c" "elevated_call i c = Some d"
  shows "calls_inv d"
proof -
  obtain p where p: "i < length (co_calls c)" "ac_waits (co_calls c ! i) = Some p"
      "su_promises (co_stepUp c) ! p \<noteq> Pending"
    using assms(2) by (auto simp: elevated_call_def Let_def split: if_splits option.splits promise.splits)
  have "su_pending (co_stepUp c) \<noteq> Some p"
    using assms(1) p(3) by (auto simp: calls_inv_def su_inv_def)
  then show ?thesis
    using assms(2) p
    by (intro calls_settled_call [OF assms(1), where i = i
          and x = "(co_calls c ! i)\<lparr>ac_elevated := True, ac_waits := None\<rparr>"])
      (auto simp: elevated_call_def Let_def split: promise.splits)
qed

lemma calls_dialog:
  assumes "calls_inv c" "at_dialog a c = Some d"
  shows "calls_inv d"
proof -
  obtain x where x: "su_act a (dialog_view c) = Some x" "a \<noteq> Ask" "co_stepUp d = sys_store x"
    using assms(2) by (auto simp: at_dialog_def split: if_splits option.splits)
  have inv: "su_inv (co_stepUp c)" using assms(1) by (simp add: calls_inv_def)
  have st: "sys_store x \<in> {co_stepUp c, su_complete (co_stepUp c), su_cancel (co_stepUp c)}"
    using su_act_store [OF x(1)] x(2) by (auto simp: dialog_view_def split: su_action.splits sum.splits)
  have len: "length (su_promises (sys_store x)) = length (su_promises (co_stepUp c))"
    using st inv by (auto simp: promises_complete promises_cancel split: option.splits)
  have new: "su_inv (sys_store x)" using st inv by (auto intro: su_inv_ops)
  have pend: "su_pending (sys_store x) = None \<or> sys_store x = co_stepUp c"
    using st by (auto simp: su_complete_def su_cancel_def su_reset_def Let_def)
  have "co_calls d = co_calls c" using at_dialog_parts [OF assms(2)] by simp
  then show ?thesis using assms(1) len new pend unfolding calls_inv_def x(3) by auto
qed

lemma go_parts:
  "go cfg resolve path c = Some d \<Longrightarrow> co_stepUp d = co_stepUp c \<and> co_calls d = co_calls c"
  by (auto simp: go_def split: option.splits)

lemma session_calls:
  "co_stepUp (send_logout k c) = co_stepUp c" "co_calls (send_logout k c) = co_calls c"
  "co_stepUp (drop_identity c) = co_stepUp c" "co_calls (drop_identity c) = co_calls c"
  by (simp_all add: send_logout_def drop_identity_def)

lemma calls_step:
  assumes "calls_inv c" "action_step (console_act cfg resolve) c d"
  shows "calls_inv d"
proof -
  obtain a where a: "console_act cfg resolve a c = Some d" using assms(2) by (auto simp: action_step_def)
  show ?thesis
  proof (cases a)
    case (Call url opts)
    then have "co_stepUp d = co_stepUp c" "co_calls d = co_calls c @
        [\<lparr>ac_url = url, ac_options = opts, ac_elevated = False, ac_waits = None\<rparr>]"
      using a by auto
    then show ?thesis using assms(1) by (auto simp: calls_inv_def)
  next
    case (Answer i out)
    then show ?thesis using calls_answer [OF assms(1)] a by simp
  next
    case (Elevated i)
    then show ?thesis using calls_elevated [OF assms(1)] a by simp
  next
    case (Dialog u)
    then show ?thesis using calls_dialog [OF assms(1)] a by simp
  next
    case (Go path)
    then show ?thesis using a go_parts by (auto intro: calls_quiet [OF assms(1)])
  next
    case Arrive
    then show ?thesis using a by (auto intro!: calls_quiet [OF assms(1)] split: option.splits)
  next
    case Click_sign_out
    then have "d = send_logout Awaited c" using a by (simp split: if_splits)
    then show ?thesis by (intro calls_quiet [OF assms(1)]) (simp_all add: session_calls)
  next
    case Click_denied_sign_out
    then have "go cfg resolve ''/login'' (send_logout Not_awaited c) = Some d"
      using a by (simp split: if_splits)
    from go_parts [OF this] show ?thesis
      by (intro calls_quiet [OF assms(1)]) (simp_all add: session_calls)
  next
    case (Signed_out i)
    define c1 where "c1 = (drop_identity c)\<lparr>co_signouts := remove_nth i (co_signouts c)\<rparr>"
    have "d = c1 \<or> go cfg resolve ''/login'' c1 = Some d"
      using a Signed_out by (simp add: c1_def Let_def split: if_splits sign_out.splits)
    then have "co_stepUp d = co_stepUp c1 \<and> co_calls d = co_calls c1" using go_parts by blast
    then show ?thesis by (intro calls_quiet [OF assms(1)]) (simp_all add: c1_def session_calls)
  qed
qed

lemma calls_start: "console_init c \<Longrightarrow> calls_inv c"
proof -
  assume "console_init c"
  then have "co_stepUp c = step_up_init" "co_calls c = []"
    unfolding console_init_def console_start_def by force+
  moreover have "su_pending step_up_init = None" by (simp add: step_up_init_def)
  ultimately show "calls_inv c" by (simp add: calls_inv_def)
qed

interpretation calls: invariant_system console_init "action_step (console_act cfg resolve)" calls_inv
    for cfg resolve
  by unfold_locales (blast intro: calls_start calls_step)+

text \<open>C5: the dialog is open exactly while some call of the API layer waits for the elevation, and
  once it is closed no call is left waiting: every one whose elevation has ended can go on, by being sent
  again or by throwing; a call that has been sent again never waits a second time.\<close>

theorem no_call_waits_behind_closed_dialog:
  assumes "reachable console_init (action_step (console_act cfg resolve)) c"
  shows "(su_visible (co_stepUp c) \<longleftrightarrow> waiting_calls c \<noteq> {})
    \<and> (\<forall>i < length (co_calls c). ac_waits (co_calls c ! i) \<noteq> None \<longrightarrow>
         \<not> ac_elevated (co_calls c ! i)
         \<and> (\<not> su_visible (co_stepUp c) \<longrightarrow> (\<exists>d. console_act cfg resolve (Elevated i) c = Some d)))"
proof -
  have inv: "calls_inv c" using calls.reachable_inv [OF assms] .
  then have su: "su_inv (co_stepUp c)" by (simp add: calls_inv_def)
  have pend: "su_promises (co_stepUp c) ! p = Pending \<longleftrightarrow> su_pending (co_stepUp c) = Some p"
    if "a \<in> set (co_calls c)" "ac_waits a = Some p" for a p
    using inv su that by (simp add: calls_inv_def su_inv_def)
  have "su_visible (co_stepUp c) \<longleftrightarrow> (\<exists>p. su_pending (co_stepUp c) = Some p)"
    using su by (simp add: su_inv_def)
  also have "\<dots> \<longleftrightarrow> waiting_calls c \<noteq> {}"
  proof
    assume "\<exists>p. su_pending (co_stepUp c) = Some p"
    then obtain p where p: "su_pending (co_stepUp c) = Some p" by blast
    then obtain a where a: "a \<in> set (co_calls c)" "ac_waits a = Some p"
      using inv unfolding calls_inv_def by blast
    then have "a \<in> waiting_calls c" using p pend [OF a] by (simp add: waiting_calls_def)
    then show "waiting_calls c \<noteq> {}" by blast
  next
    assume "waiting_calls c \<noteq> {}"
    then obtain a p where "a \<in> set (co_calls c)" "ac_waits a = Some p"
        "su_promises (co_stepUp c) ! p = Pending"
      by (auto simp: waiting_calls_def)
    then show "\<exists>p. su_pending (co_stepUp c) = Some p" using pend by blast
  qed
  finally have "su_visible (co_stepUp c) \<longleftrightarrow> waiting_calls c \<noteq> {}" .
  moreover have "\<not> ac_elevated (co_calls c ! i)
      \<and> (\<not> su_visible (co_stepUp c) \<longrightarrow> (\<exists>d. console_act cfg resolve (Elevated i) c = Some d))"
    if i: "i < length (co_calls c)" "ac_waits (co_calls c ! i) \<noteq> None" for i
  proof -
    obtain p where p: "ac_waits (co_calls c ! i) = Some p" using i(2) by blast
    moreover have m: "co_calls c ! i \<in> set (co_calls c)" using i(1) by simp
    ultimately have q: "p < length (su_promises (co_stepUp c))" "\<not> ac_elevated (co_calls c ! i)"
      using inv by (simp_all add: calls_inv_def)
    have "\<not> su_visible (co_stepUp c) \<Longrightarrow> su_promises (co_stepUp c) ! p \<noteq> Pending"
      using su q(1) by (simp add: su_inv_def)
    then show ?thesis
      using i(1) p q(2) by (auto simp: elevated_call_def Let_def split: promise.splits)
  qed
  ultimately show ?thesis by blast
qed

theorem no_call_waits_behind_closed_dialog_witness:
  "\<exists>c. reachable console_init (action_step (console_act sample_roles exact_match)) c
     \<and> su_visible (co_stepUp c) \<and> waiting_calls c \<noteq> {}"
proof -
  define as where "as = [Call ''/api/x'' (no_options\<lparr>ri_method := Some ''POST''\<rparr>),
    Answer 0 (Responded \<lparr>resp_status = 403, resp_error = Some ''elevation_required'', resp_body = Json ()\<rparr>)]"
  obtain c where c: "run (console_act sample_roles exact_match) as (sample_console [''admin'']) = Some c"
      "su_visible (co_stepUp c)"
    by (simp add: as_def answer_def fwa_receive_def elevation_required_def su_request_def Let_def
        set_world_def sample_console_def console_start_def fwa_send_def step_up_init_def)
  from run_reachable [OF _ c(1)] have reach: "reachable console_init
      (action_step (console_act sample_roles exact_match)) c"
    using sample_console_init by (simp add: reachable.start)
  from no_call_waits_behind_closed_dialog [OF reach] show ?thesis using reach c(2) by blast
qed

end
