(* ===== verification/Console_Expiry.thy ===== *)
theory Console_Expiry
  imports Console_Calls
begin

text \<open>
  The console of \<open>Console\<close> after a call has been answered with a 401.
\<close>

section \<open>After an expired session\<close>

definition has_token :: "request \<Rightarrow> bool" where
  "has_token q \<longleftrightarrow> ''X-CSRF-Token'' \<in> set (map fst (req_headers q))"

definition plain_call :: "console_action \<Rightarrow> bool" where
  "plain_call a \<longleftrightarrow> (case a of Call url opts \<Rightarrow> ri_headers opts = [] | _ \<Rightarrow> True)"

text \<open>Since \<open>n\<close> requests: the same signed-out session, no token sent, no page but the present one or public ones.\<close>

definition signed_off :: "nat \<Rightarrow> route option \<Rightarrow> auth_state \<Rightarrow> console \<Rightarrow> bool" where
  "signed_off n h s c \<longleftrightarrow>
     co_auth c = setUnauthenticated s \<and> (heading c = h \<or> public (heading c))
     \<and> n \<le> length (br_sent (co_browser c)) \<and> (\<forall>q \<in> set (drop n (br_sent (co_browser c))). \<not> has_token q)
     \<and> (\<forall>a \<in> set (co_calls c). ri_headers (ac_options a) = [])"

lemma csrf_dropped [simp]: "csrfHeaders (setUnauthenticated s) = []"
  by (simp add: csrfHeaders_def setUnauthenticated_def)

lemma dropped_twice [simp]: "setUnauthenticated (setUnauthenticated s) = setUnauthenticated s"
  by (simp add: setUnauthenticated_def)

lemma no_token_when_dropped:
  "ri_headers opts = [] \<Longrightarrow> \<not> has_token (api_request (setUnauthenticated s) url opts)"
  "\<not> has_token (logout_request (setUnauthenticated s))"
  "\<not> has_token (elevate_request (setUnauthenticated s) pw code)"
  by (simp_all add: has_token_def api_request_def logout_request_def elevate_request_def spread_def)

lemma signed_off_sends:
  assumes "signed_off n h s c" "co_auth d = setUnauthenticated s"
    and "heading d = heading c \<or> public (heading d)"
    and "br_sent (co_browser d) = br_sent (co_browser c) @ qs" "\<forall>q \<in> set qs. \<not> has_token q"
    and "\<forall>a \<in> set (co_calls d). ri_headers (ac_options a) = []"
  shows "signed_off n h s d"
  using assms by (auto simp: signed_off_def)

lemma go_signed_off:
  assumes "matcher_ok resolve" "signed_off n h s c" "go cfg resolve path c = Some d"
  shows "signed_off n h s d"
proof -
  obtain l where l: "d = c\<lparr>co_going := Some l\<rparr>" "allowed cfg (co_auth c) l"
    using go_allowed [OF assms(1), of cfg path c] assms(3) by auto
  have "co_auth c = setUnauthenticated s" using assms(2) by (simp add: signed_off_def)
  then have "public l" using allowed_public [OF l(2)] by simp
  then show ?thesis
    using assms(2) by (intro signed_off_sends [OF assms(2), where qs = "[]"]) (auto simp: l(1) signed_off_def)
qed

lemma fwa_receive_sent:
  "fwa_receive out elevated w = (n, v) \<Longrightarrow> br_sent (aw_browser v) = br_sent (aw_browser w)"
  by (auto simp: fwa_receive_def case_prod_beta Let_def login_def assign_location_def
      split: fetch_outcome.splits if_splits)

lemma answer_keeps:
  assumes "answer i out c = Some d"
  shows "br_sent (co_browser d) = br_sent (co_browser c)"
    and "\<forall>a \<in> set (co_calls d). \<exists>b \<in> set (co_calls c). ac_options a = ac_options b"
proof -
  have i: "i < length (co_calls c)" using assms by (simp add: answer_def split: if_splits)
  obtain n v where r: "fwa_receive out (ac_elevated (co_calls c ! i)) (co_world c) = (n, v)" by force
  have d: "co_world d = v" "co_calls d = remove_nth i (co_calls c)
      \<or> (\<exists>p. co_calls d = (co_calls c)[i := (co_calls c ! i)\<lparr>ac_waits := Some p\<rparr>])"
    using assms r by (auto simp: answer_def Let_def set_world_def split: call_next.splits if_splits)
  show "br_sent (co_browser d) = br_sent (co_browser c)" using fwa_receive_sent [OF r] d(1) by simp
  have m: "co_calls c ! i \<in> set (co_calls c)" using i by simp
  show "\<forall>a \<in> set (co_calls d). \<exists>b \<in> set (co_calls c). ac_options a = ac_options b"
    using d(2)
  proof (elim disjE exE)
    fix p
    assume "co_calls d = (co_calls c)[i := (co_calls c ! i)\<lparr>ac_waits := Some p\<rparr>]"
    then show ?thesis using m set_updateD by fastforce
  qed (auto dest: set_remove_nthD)
qed

lemma elevated_call_keeps:
  assumes "elevated_call i c = Some d"
  shows "(br_sent (co_browser d) = br_sent (co_browser c)
      \<or> (\<exists>a \<in> set (co_calls c). br_sent (co_browser d)
            = br_sent (co_browser c) @ [api_request (co_auth c) (ac_url a) (ac_options a)]))
    \<and> (\<forall>a \<in> set (co_calls d). \<exists>b \<in> set (co_calls c). ac_options a = ac_options b)"
proof -
  define a where "a = co_calls c ! i"
  have i: "a \<in> set (co_calls c)" using assms by (auto simp: elevated_call_def a_def split: if_splits)
  obtain p where p: "ac_waits a = Some p"
    using assms by (auto simp: elevated_call_def Let_def a_def split: if_splits option.splits)
  show ?thesis
  proof (cases "su_promises (co_stepUp c) ! p")
    case Pending
    then show ?thesis using assms p by (simp add: elevated_call_def Let_def a_def split: if_splits)
  next
    case Resolved
    then have d: "d = c\<lparr>co_world := fwa_send (ac_url a) (ac_options a) (co_world c),
        co_calls := (co_calls c)[i := a\<lparr>ac_elevated := True, ac_waits := None\<rparr>]\<rparr>"
      using assms p by (simp add: elevated_call_def Let_def a_def split: if_splits)
    then have "\<forall>x \<in> set (co_calls d). x = a\<lparr>ac_elevated := True, ac_waits := None\<rparr> \<or> x \<in> set (co_calls c)"
      using set_updateD by fastforce
    then show ?thesis using i d by (force simp: fwa_send_def)
  next
    case (Rejected_with e)
    then have "d = c\<lparr>co_calls := remove_nth i (co_calls c)\<rparr>"
      using assms p by (simp add: elevated_call_def Let_def a_def split: if_splits)
    then show ?thesis by (auto dest: set_remove_nthD)
  qed
qed

lemma at_dialog_sent:
  assumes "at_dialog a c = Some d"
  shows "\<exists>es. br_sent (co_browser d) = br_sent (co_browser c)
    @ map (\<lambda>(pw, code). elevate_request (co_auth c) pw code) es"
  using assms by (auto simp: at_dialog_def send_elevations_def split: if_splits option.splits)

lemma logout_signed_off:
  assumes "signed_off n h s c"
  shows "signed_off n h s (send_logout k c)"
proof -
  have "co_auth c = setUnauthenticated s" "\<forall>a \<in> set (co_calls c). ri_headers (ac_options a) = []"
    using assms by (simp_all add: signed_off_def)
  then show ?thesis
    using no_token_when_dropped(2)
    by (intro signed_off_sends [OF assms, where qs = "[logout_request (co_auth c)]"])
      (simp_all add: session_calls, simp add: send_logout_def)
qed

lemma signed_off_step:
  assumes "matcher_ok resolve" "signed_off n h s c" "plain_call a" "console_act cfg resolve a c = Some d"
  shows "signed_off n h s d"
proof -
  have au: "co_auth c = setUnauthenticated s" and pl: "\<forall>a \<in> set (co_calls c). ri_headers (ac_options a) = []"
    using assms(2) by (simp_all add: signed_off_def)
  note sends = signed_off_sends [OF assms(2)]
  show ?thesis
  proof (cases a)
    case (Go path)
    then show ?thesis using go_signed_off [OF assms(1,2)] assms(4) by simp
  next
    case Arrive
    then obtain l where l: "co_going c = Some l" "d = c\<lparr>co_location := l, co_going := None\<rparr>"
      using assms(4) by (auto split: option.splits)
    then have "heading d = heading c" by (simp add: heading_def)
    then show ?thesis using au pl l(2) by (intro sends [where qs = "[]"]) auto
  next
    case (Call url opts)
    then have d: "co_auth d = co_auth c" "br_sent (co_browser d) = br_sent (co_browser c) @ [api_request (co_auth c) url opts]"
        "co_calls d = co_calls c @ [\<lparr>ac_url = url, ac_options = opts, ac_elevated = False, ac_waits = None\<rparr>]"
        "heading d = heading c"
      using assms(4) by (auto simp: fwa_send_def heading_def split: option.split)
    have "ri_headers opts = []" using assms(3) Call by (simp add: plain_call_def)
    then show ?thesis
      using au pl d no_token_when_dropped
      by (intro sends [where qs = "[api_request (co_auth c) url opts]"]) auto
  next
    case (Answer i out)
    then have d: "answer i out c = Some d" using assms(4) by simp
    have "heading d = heading c" using answer_parts [OF d] by (intro heading_cong) simp_all
    moreover have "co_auth d = setUnauthenticated s" using answer_parts [OF d] au by auto
    moreover have "\<forall>a \<in> set (co_calls d). ri_headers (ac_options a) = []"
      using answer_keeps(2) [OF d] pl by fastforce
    ultimately show ?thesis
      using answer_keeps(1) [OF d] by (intro sends [where qs = "[]"]) simp_all
  next
    case (Elevated i)
    then have d: "elevated_call i c = Some d" using assms(4) by simp
    have "heading d = heading c" using elevated_call_parts [OF d] by (intro heading_cong) simp_all
    moreover have "co_auth d = setUnauthenticated s" using elevated_call_parts [OF d] au by simp
    moreover have "\<forall>a \<in> set (co_calls d). ri_headers (ac_options a) = []"
      using elevated_call_keeps [OF d] pl by fastforce
    moreover have "\<exists>qs. br_sent (co_browser d) = br_sent (co_browser c) @ qs \<and> (\<forall>q \<in> set qs. \<not> has_token q)"
      using elevated_call_keeps [OF d] pl au no_token_when_dropped(1) by fastforce
    ultimately show ?thesis using sends by blast
  next
    case (Dialog u)
    then have d: "at_dialog u c = Some d" using assms(4) by simp
    obtain es where es: "br_sent (co_browser d) = br_sent (co_browser c)
        @ map (\<lambda>(pw, code). elevate_request (co_auth c) pw code) es"
      using at_dialog_sent [OF d] by blast
    have "heading d = heading c" using at_dialog_parts [OF d] by (intro heading_cong) simp_all
    then show ?thesis
      using at_dialog_parts [OF d] au pl no_token_when_dropped(3)
      by (intro sends [OF _ _ es]) auto
  next
    case Click_sign_out
    then have d: "d = send_logout Awaited c" using assms(4) by (simp split: if_splits)
    show ?thesis unfolding d by (rule logout_signed_off [OF assms(2)])
  next
    case Click_denied_sign_out
    then show ?thesis
      using assms(4) go_signed_off [OF assms(1) logout_signed_off [OF assms(2)]] by (simp split: if_splits)
  next
    case (Signed_out i)
    define c1 where "c1 = (drop_identity c)\<lparr>co_signouts := remove_nth i (co_signouts c)\<rparr>"
    have c1: "signed_off n h s c1"
      using au pl by (intro sends [where qs = "[]"]) (simp_all add: c1_def session_calls)
    have "d = c1 \<or> go cfg resolve ''/login'' c1 = Some d"
      using assms(4) Signed_out by (simp add: c1_def Let_def split: if_splits sign_out.splits)
    then show ?thesis using c1 go_signed_off [OF assms(1) c1] by blast
  qed
qed

lemma signed_off_run:
  "matcher_ok resolve \<Longrightarrow> list_all plain_call as \<Longrightarrow> signed_off n h s c \<Longrightarrow>
    run (console_act cfg resolve) as c = Some d \<Longrightarrow> signed_off n h s d"
proof (induction as arbitrary: c)
  case (Cons a as)
  then obtain c1 where "console_act cfg resolve a c = Some c1" "run (console_act cfg resolve) as c1 = Some d"
    by (auto split: option.splits)
  moreover from calculation(1) have "signed_off n h s c1"
    using Cons.prems(2) by (intro signed_off_step [OF Cons.prems(1,3)]) simp_all
  ultimately show ?case using Cons.IH [OF Cons.prems(1)] Cons.prems(2) by simp
qed simp



end
