(* ===== verification/Period_Race.thy ===== *)
theory Period_Race
  imports Threats_View Tokens_View Geo_View Machines
begin

text \<open>
  The interleavings of the pages that show one period: \<open>src/src/views/ThreatsView.vue\<close>,
  \<open>TokensView.vue\<close> and \<open>GeoView.vue\<close>.  Each has a selection of the period whose change starts a call of
  \<open>src/src/composables/useApi.ts\<close>, and none waits for the call before it.  The call is cut at its
  \<open>await\<close>; the three pages share the contract \<open>period_slot\<close> of the place in the store that they fill.
\<close>

section \<open>The pieces\<close>

definition period_settle ::
    "string \<Rightarrow> ('d option \<Rightarrow> monitor_state \<Rightarrow> monitor_state) \<Rightarrow> js_error + 'd option \<Rightarrow> monitor_state \<Rightarrow> monitor_state" where
  "period_settle key fill r m =
     setLoading key False (case r of Inl _ \<Rightarrow> m | Inr x \<Rightarrow> fill x m)"

definition put_threats :: "ThreatMetrics option \<Rightarrow> monitor_state \<Rightarrow> monitor_state" where
  "put_threats x m = (case x of Some d \<Rightarrow> setThreatMetrics d m | None \<Rightarrow> m\<lparr>m_threatMetrics := None\<rparr>)"

definition put_tokens :: "TokenStats option \<Rightarrow> monitor_state \<Rightarrow> monitor_state" where
  "put_tokens x m = (case x of Some d \<Rightarrow> setTokenStats d m | None \<Rightarrow> m\<lparr>m_tokenStats := None\<rparr>)"

definition put_geo :: "GeoAnalytics option \<Rightarrow> monitor_state \<Rightarrow> monitor_state" where
  "put_geo x m = (case x of Some d \<Rightarrow> setGeoAnalytics d m | None \<Rightarrow> m\<lparr>m_geoAnalytics := None\<rparr>)"

lemma with_loading_eq:
  "with_loading key m w =
     (fst (m (on_monitor (setLoading key True) w)),
      on_monitor (setLoading key False) (snd (m (on_monitor (setLoading key True) w))))"
  by (simp add: with_loading_def api_finally_def case_prod_beta)

lemma call_whole_monitor:
  assumes "\<And>p w. aw_monitor (snd (el p w)) = aw_monitor w"
  shows "aw_monitor (snd (call_json net el url opts err (whole f n) w)) =
     (case fst (call_json net el url opts err (whole f n) w) of
        Inl _ \<Rightarrow> aw_monitor w
      | Inr x \<Rightarrow> (case x of Some d \<Rightarrow> f d | None \<Rightarrow> n) (aw_monitor w))"
proof -
  obtain r v where c: "checked net el url opts err w = (r, v)" by force
  have v: "aw_monitor v = aw_monitor w"
    using whole_store.checked_view [of el net url opts err w, OF assms] c by simp
  show ?thesis
  proof (cases r)
    case (Inl e)
    then show ?thesis using c v by (simp add: call_json_def api_bind_def)
  next
    case (Inr resp)
    then show ?thesis
      using c v by (cases "resp_body resp")
        (simp_all add: call_json_def api_bind_def json_def api_throw_def api_return_def whole_def store_def
          on_monitor_def)
  qed
qed

lemma loading_call_pieces:
  assumes "\<And>p w. aw_monitor (snd (el p w)) = aw_monitor w"
  shows "aw_monitor (snd (with_loading key (call_json net el url opts err (whole f n)) w)) =
     period_settle key (\<lambda>x. case x of Some d \<Rightarrow> f d | None \<Rightarrow> n)
       (fst (with_loading key (call_json net el url opts err (whole f n)) w)) (setLoading key True (aw_monitor w))"
  unfolding with_loading_eq
  by (simp add: call_whole_monitor [OF assms] on_monitor_def period_settle_def split: sum.split)

lemma fill_cases:
  "put_threats = (\<lambda>x. case x of Some d \<Rightarrow> setThreatMetrics d | None \<Rightarrow> (\<lambda>m. m\<lparr>m_threatMetrics := None\<rparr>))"
  "put_tokens = (\<lambda>x. case x of Some d \<Rightarrow> setTokenStats d | None \<Rightarrow> (\<lambda>m. m\<lparr>m_tokenStats := None\<rparr>))"
  "put_geo = (\<lambda>x. case x of Some d \<Rightarrow> setGeoAnalytics d | None \<Rightarrow> (\<lambda>m. m\<lparr>m_geoAnalytics := None\<rparr>))"
  by (intro ext; simp add: put_threats_def put_tokens_def put_geo_def split: option.split)+

text \<open>Also: a call of the three pages that nothing interrupts is its pieces: the store is what settling
  with the call's own result makes of it after the start.\<close>

theorem period_calls_are_their_pieces:
  assumes "\<And>p w. aw_monitor (snd (el p w)) = aw_monitor w"
  shows "aw_monitor (snd (fetchThreatMetrics n1 el period w)) =
      period_settle ''threats'' put_threats (fst (fetchThreatMetrics n1 el period w))
        (setLoading ''threats'' True (aw_monitor w))
    \<and> aw_monitor (snd (fetchTokenStats n2 el period w)) =
      period_settle ''tokenStats'' put_tokens (fst (fetchTokenStats n2 el period w))
        (setLoading ''tokenStats'' True (aw_monitor w))
    \<and> aw_monitor (snd (fetchGeoAnalytics n3 el period w)) =
      period_settle ''geo'' put_geo (fst (fetchGeoAnalytics n3 el period w))
        (setLoading ''geo'' True (aw_monitor w))"
  unfolding fetchThreatMetrics_def fetchTokenStats_def fetchGeoAnalytics_def fill_cases
  by (intro conjI loading_call_pieces assms)

theorem period_calls_are_their_pieces_witness:
  "aw_monitor (snd (fetchTokenStats (\<lambda>_ _. Rejected NetworkError) user_cancels ''24h'' sample_world)) =
     setLoading ''tokenStats'' False (setLoading ''tokenStats'' True (aw_monitor sample_world))"
proof -
  define net :: "TokenStats net" where "net = (\<lambda>_ _. Rejected NetworkError)"
  have r: "fst (fetchTokenStats net user_cancels ''24h'' sample_world) = Inl NetworkError"
    by (simp add: fetchTokenStats_def with_loading_eq call_json_def checked_def api_bind_def
        fetchWithAuth.simps fetch_def net_def)
  have "aw_monitor (snd (user_cancels p w)) = aw_monitor w" for p w
    by (simp add: user_cancels_def)
  from period_calls_are_their_pieces [of user_cancels, OF this, where ?n2.0 = net and w = sample_world
      and period = "''24h''"] r
  show ?thesis by (simp add: period_settle_def net_def)
qed

section \<open>The machine\<close>

record period_page =
  pp_period :: string
  pp_store :: monitor_state
  pp_calls :: "string list"

datatype 'd period_action =
    Period_selected string
  | Period_answered nat "js_error + 'd option"

text \<open>The server answers for the period that it was asked for.\<close>

fun period_act ::
    "string \<Rightarrow> ('d option \<Rightarrow> monitor_state \<Rightarrow> monitor_state) \<Rightarrow> ('d \<Rightarrow> string)
      \<Rightarrow> 'd period_action \<Rightarrow> period_page \<Rightarrow> period_page option" where
  "period_act key fill period_of (Period_selected p) x =
     Some (x\<lparr>pp_period := p, pp_store := setLoading key True (pp_store x), pp_calls := pp_calls x @ [p]\<rparr>)"
| "period_act key fill period_of (Period_answered i r) x =
     (if i < length (pp_calls x)
         \<and> (case r of Inr (Some d) \<Rightarrow> period_of d = pp_calls x ! i | _ \<Rightarrow> True)
      then Some (x\<lparr>pp_store := period_settle key fill r (pp_store x),
                   pp_calls := take i (pp_calls x) @ drop (Suc i) (pp_calls x)\<rparr>)
      else None)"

definition says_loading :: "string \<Rightarrow> period_page \<Rightarrow> bool" where
  "says_loading key x \<longleftrightarrow> m_isLoading (pp_store x) key = Some True"

text \<open>A user who waits for each answer, on a page whose calls succeed.\<close>

fun patient_period :: "'d period_action \<Rightarrow> period_page \<Rightarrow> bool" where
  "patient_period (Period_selected p) x = (pp_calls x = [])"
| "patient_period (Period_answered i r) x = (case r of Inl _ \<Rightarrow> False | Inr _ \<Rightarrow> True)"

definition patient_period_act ::
    "string \<Rightarrow> ('d option \<Rightarrow> monitor_state \<Rightarrow> monitor_state) \<Rightarrow> ('d \<Rightarrow> string)
      \<Rightarrow> 'd period_action \<Rightarrow> period_page \<Rightarrow> period_page option" where
  "patient_period_act key fill period_of a x =
     (if patient_period a x then period_act key fill period_of a x else None)"

definition period_init :: "string \<Rightarrow> (monitor_state \<Rightarrow> 'd option) \<Rightarrow> period_page \<Rightarrow> bool" where
  "period_init key held x \<longleftrightarrow> pp_calls x = [] \<and> held (pp_store x) = None \<and> \<not> says_loading key x"

definition slot_inv ::
    "string \<Rightarrow> (monitor_state \<Rightarrow> 'd option) \<Rightarrow> ('d \<Rightarrow> string) \<Rightarrow> period_page \<Rightarrow> bool" where
  "slot_inv key held period_of x \<longleftrightarrow>
     (says_loading key x \<longleftrightarrow> pp_calls x \<noteq> [])
     \<and> (pp_calls x = [] \<or> pp_calls x = [pp_period x])
     \<and> (pp_calls x = [] \<longrightarrow> (\<forall>d. held (pp_store x) = Some d \<longrightarrow> period_of d = pp_period x))"

section \<open>The contract of the place in the store\<close>

locale period_slot =
  fixes key :: string
    and fill :: "'d option \<Rightarrow> monitor_state \<Rightarrow> monitor_state"
    and held :: "monitor_state \<Rightarrow> 'd option"
    and period_of :: "'d \<Rightarrow> string"
  assumes held_fill: "held (fill x m) = x"
    and flags_fill: "m_isLoading (fill x m) = m_isLoading m"
    and held_loading: "held (setLoading key b m) = held m"
begin

lemma held_settle: "held (period_settle key fill r m) = (case r of Inl _ \<Rightarrow> held m | Inr x \<Rightarrow> x)"
  by (simp add: period_settle_def held_loading held_fill split: sum.split)

lemma flag_settle: "m_isLoading (period_settle key fill r m) key = Some False"
  by (simp add: period_settle_def setLoading_def)

lemma slot_inv_init: "period_init key held x \<Longrightarrow> slot_inv key held period_of x"
  by (simp add: slot_inv_def period_init_def)

lemma slot_inv_step:
  assumes "slot_inv key held period_of x" "patient_period_act key fill period_of a x = Some y"
  shows "slot_inv key held period_of y"
proof (cases a)
  case (Period_selected p)
  then show ?thesis
    using assms by (auto simp: patient_period_act_def slot_inv_def says_loading_def setLoading_def split: if_splits)
next
  case (Period_answered i r)
  then obtain d where r: "r = Inr d" "i < length (pp_calls x)"
      "case d of Some d \<Rightarrow> period_of d = pp_calls x ! i | None \<Rightarrow> True"
    using assms(2) by (auto simp: patient_period_act_def split: if_splits sum.splits option.splits)
  then have calls: "pp_calls x = [pp_period x]" "i = 0" using assms(1) by (auto simp: slot_inv_def)
  have "y = x\<lparr>pp_store := period_settle key fill (Inr d) (pp_store x), pp_calls := []\<rparr>"
    using assms(2) Period_answered r(1) calls
    by (auto simp: patient_period_act_def split: if_splits)
  then show ?thesis
    using r(3) calls by (auto simp: slot_inv_def says_loading_def flag_settle held_settle)
qed

lemma late_answer_wins:
  assumes "pp_calls x = []" "period_of d1 = p" "period_of d2 = q"
  shows "\<exists>y z. run (period_act key fill period_of)
        [Period_selected p, Period_selected q, Period_answered 1 (Inr (Some d2))] x = Some y
    \<and> period_act key fill period_of (Period_answered 0 (Inr (Some d1))) y = Some z
    \<and> \<not> says_loading key y \<and> pp_calls y = [p]
    \<and> pp_period z = q \<and> held (pp_store z) = Some d1 \<and> \<not> says_loading key z \<and> pp_calls z = []"
  using assms by (simp add: says_loading_def flag_settle held_settle)

lemma failed_change_keeps:
  assumes "pp_calls x = []"
  shows "\<exists>y. run (period_act key fill period_of) [Period_selected q, Period_answered 0 (Inl e)] x = Some y
    \<and> pp_period y = q \<and> held (pp_store y) = held (pp_store x) \<and> \<not> says_loading key y"
  using assms by (simp add: says_loading_def flag_settle held_settle held_loading)

end

sublocale period_slot \<subseteq> patient: invariant_system
    "period_init key held" "action_step (patient_period_act key fill period_of)" "slot_inv key held period_of"
  by unfold_locales (auto simp: action_step_def intro: slot_inv_init slot_inv_step)

lemma fill_simps [simp]:
  "m_threatMetrics (put_threats x m) = x" "m_isLoading (put_threats x m) = m_isLoading m"
  "m_tokenStats (put_tokens y m) = y" "m_isLoading (put_tokens y m) = m_isLoading m"
  "m_geoAnalytics (put_geo z m) = z" "m_isLoading (put_geo z m) = m_isLoading m"
  by (simp_all add: put_threats_def put_tokens_def put_geo_def setThreatMetrics_def setTokenStats_def
      setGeoAnalytics_def split: option.split)

interpretation threats_slot: period_slot "''threats''" put_threats m_threatMetrics tm_time_range
  by unfold_locales (simp_all add: setLoading_def)

interpretation tokens_slot: period_slot "''tokenStats''" put_tokens m_tokenStats tst_period
  by unfold_locales (simp_all add: setLoading_def)

interpretation geo_slot: period_slot "''geo''" put_geo m_geoAnalytics geo_period
  by unfold_locales (simp_all add: setLoading_def)

section \<open>What the pages show\<close>


text \<open>C16: when the period of the threats page is changed twice and the answers arrive in the other
  order, the page ends up showing the threats of the first period under the second, and it already said
  that nothing was loading while the late answer was still to come.  The pages of the tokens and the
  places do the same.\<close>

theorem threats_of_other_period:
  assumes "pp_calls x = []" "tm_time_range d1 = p" "tm_time_range d2 = q"
  shows "\<exists>y z. run (period_act ''threats'' put_threats tm_time_range)
        [Period_selected p, Period_selected q, Period_answered 1 (Inr (Some d2))] x = Some y
    \<and> \<not> says_loading ''threats'' y \<and> pp_calls y = [p]
    \<and> period_act ''threats'' put_threats tm_time_range (Period_answered 0 (Inr (Some d1))) y = Some z
    \<and> pp_period z = q \<and> m_threatMetrics (pp_store z) = Some d1 \<and> \<not> says_loading ''threats'' z"
  using threats_slot.late_answer_wins [OF assms] by blast

lemma run_snoc: "run f as x = Some y \<Longrightarrow> f a y = Some z \<Longrightarrow> run f (as @ [a]) x = Some z"
  by (simp add: run_append)

definition threats_of :: "string \<Rightarrow> ThreatMetrics" where
  "threats_of p = \<lparr>tm_time_range = p,
     tm_summary = \<lparr>ts_total_events = 0, ts_critical_events = 0, ts_error_events = 0,
                   ts_warning_events = 0, ts_unique_attackers = 0\<rparr>,
     tm_top_threats = [], tm_suspicious_ips = [], tm_locked_accounts = []\<rparr>"

definition period_page_init :: "string \<Rightarrow> period_page" where
  "period_page_init p = \<lparr>pp_period = p, pp_store = monitor_init, pp_calls = []\<rparr>"

lemma period_page_init: "period_init ''threats'' m_threatMetrics (period_page_init p)"
  by (simp add: period_init_def period_page_init_def says_loading_def monitor_init_def)

theorem threats_of_other_period_witness:
  "\<exists>z. run (period_act ''threats'' put_threats tm_time_range)
      [Period_selected ''30d'', Period_selected ''1h'', Period_answered 1 (Inr (Some (threats_of ''1h''))),
       Period_answered 0 (Inr (Some (threats_of ''30d'')))] (period_page_init ''24h'') = Some z
    \<and> pp_period z = ''1h'' \<and> m_threatMetrics (pp_store z) = Some (threats_of ''30d'')"
proof -
  define f where "f = period_act ''threats'' put_threats tm_time_range"
  have "pp_calls (period_page_init ''24h'') = []" "tm_time_range (threats_of p) = p" for p
    by (simp_all add: period_page_init_def threats_of_def)
  from threats_of_other_period [OF this(1) this(2) [of "''30d''"] this(2) [of "''1h''"]]
  obtain y z where y: "run f [Period_selected ''30d'', Period_selected ''1h'',
        Period_answered 1 (Inr (Some (threats_of ''1h'')))] (period_page_init ''24h'') = Some y"
      "f (Period_answered 0 (Inr (Some (threats_of ''30d'')))) y = Some z"
      "pp_period z = ''1h''" "m_threatMetrics (pp_store z) = Some (threats_of ''30d'')"
    unfolding f_def by blast
  from run_snoc [OF y(1,2)] y(3,4) show ?thesis unfolding f_def by simp
qed


text \<open>Also: a change of period whose call fails leaves the data of the old period under the new one.\<close>

theorem failed_period_keeps_old_data:
  assumes "pp_calls x = []"
  shows "\<exists>y. run (period_act ''threats'' put_threats tm_time_range)
        [Period_selected q, Period_answered 0 (Inl e)] x = Some y
    \<and> pp_period y = q \<and> m_threatMetrics (pp_store y) = m_threatMetrics (pp_store x)
    \<and> \<not> says_loading ''threats'' y"
  by (rule threats_slot.failed_change_keeps [OF assms])

theorem failed_period_keeps_old_data_witness:
  "\<exists>y. run (period_act ''threats'' put_threats tm_time_range)
      [Period_selected ''1h'', Period_answered 0 (Inl NetworkError)] (period_page_init ''24h'') = Some y
    \<and> pp_period y = ''1h''"
  using failed_period_keeps_old_data [of "period_page_init ''24h''" "''1h''" NetworkError]
  by (simp add: period_page_init_def)

end
