(* ===== verification/Store_Spec.thy ===== *)
theory Store_Spec
  imports Monitor_Store Refinement
begin

text \<open>
  What \<open>src/src/stores/monitorStore.ts\<close> promises of the lists that it edits in place, without lists:
  alert rules, blocked addresses and reports are tables from identifiers to items, and an action is an
  update of a table.  The store refines these tables for every sequence of its actions in which a
  rule that is added is not listed yet.
\<close>

section \<open>Tables\<close>

record tables =
  tb_rules :: "int \<rightharpoonup> AlertRule"
  tb_blocked :: "int \<rightharpoonup> BlockedIP"
  tb_reports :: "string \<rightharpoonup> ReportStatus"

definition table_of :: "('a \<Rightarrow> 'k) \<Rightarrow> 'a list \<Rightarrow> 'k \<rightharpoonup> 'a" where
  "table_of key xs = map_of (map (\<lambda>x. (key x, x)) xs)"

definition tables_init :: tables where
  "tables_init = \<lparr>tb_rules = Map.empty, tb_blocked = Map.empty, tb_reports = Map.empty\<rparr>"

text \<open>An update of an identifier that the table has.\<close>

definition revise :: "'k \<Rightarrow> 'a \<Rightarrow> ('k \<rightharpoonup> 'a) \<Rightarrow> 'k \<rightharpoonup> 'a" where
  "revise k x t = (if t k = None then t else t(k \<mapsto> x))"

definition tables_act :: "monitor_op \<Rightarrow> tables \<Rightarrow> tables" where
  "tables_act a t =
     (case a of
        Op_setAlertRules rs \<Rightarrow> t\<lparr>tb_rules := table_of ar_id rs\<rparr>
      | Op_addAlertRule r \<Rightarrow> t\<lparr>tb_rules := (tb_rules t)(ar_id r \<mapsto> r)\<rparr>
      | Op_updateAlertRule r \<Rightarrow> t\<lparr>tb_rules := revise (ar_id r) r (tb_rules t)\<rparr>
      | Op_removeAlertRule i \<Rightarrow> t\<lparr>tb_rules := (tb_rules t)(i := None)\<rparr>
      | Op_setBlockedIPs bs \<Rightarrow> t\<lparr>tb_blocked := table_of bip_id bs\<rparr>
      | Op_addBlockedIP b \<Rightarrow> t\<lparr>tb_blocked := (tb_blocked t)(bip_id b \<mapsto> b)\<rparr>
      | Op_removeBlockedIP i \<Rightarrow> t\<lparr>tb_blocked := (tb_blocked t)(i := None)\<rparr>
      | Op_addReport p \<Rightarrow> t\<lparr>tb_reports := (tb_reports t)(rs_report_id p \<mapsto> p)\<rparr>
      | Op_updateReport p \<Rightarrow> t\<lparr>tb_reports := revise (rs_report_id p) p (tb_reports t)\<rparr>
      | _ \<Rightarrow> t)"

section \<open>The abstraction\<close>

definition tables_of :: "monitor_state \<Rightarrow> tables" where
  "tables_of s =
     \<lparr>tb_rules = table_of ar_id (m_alertRules s), tb_blocked = table_of bip_id (m_blockedIPs s),
      tb_reports = table_of rs_report_id (m_reports s)\<rparr>"

text \<open>The store, with a server that gives a new rule a new identifier.\<close>

definition store_act :: "monitor_op \<Rightarrow> monitor_state \<Rightarrow> monitor_state option" where
  "store_act a s =
     (case a of
        Op_addAlertRule r \<Rightarrow>
          (if ar_id r \<in> ar_id ` set (m_alertRules s) then None else Some (addAlertRule r s))
      | _ \<Rightarrow> Some (monitor_apply a s))"

lemma table_of_Nil [simp]: "table_of key [] = Map.empty"
  and table_of_Cons [simp]: "table_of key (x # xs) = (table_of key xs)(key x \<mapsto> x)"
  by (simp_all add: table_of_def)

lemma table_of_snoc:
  "key x \<notin> key ` set xs \<Longrightarrow> table_of key (xs @ [x]) = (table_of key xs)(key x \<mapsto> x)"
  by (induction xs) (auto simp: fun_upd_twist)

lemma table_of_filter: "table_of key (filter (\<lambda>y. key y \<noteq> k) xs) = (table_of key xs)(k := None)"
  by (induction xs) (auto simp: fun_upd_twist)

lemma table_of_None: "table_of key xs k = None \<longleftrightarrow> k \<notin> key ` set xs"
  by (induction xs) auto

lemma revise_other: "k' \<noteq> k \<Longrightarrow> revise k x (t(k' \<mapsto> y)) = (revise k x t)(k' \<mapsto> y)"
  by (simp add: revise_def fun_upd_twist)

lemma table_of_findIndex:
  "table_of key (case findIndex (\<lambda>y. key y = key x) xs of Some i \<Rightarrow> xs[i := x] | None \<Rightarrow> xs)
    = revise (key x) x (table_of key xs)"
proof (induction xs)
  case (Cons y ys)
  show ?case
  proof (cases "key y = key x")
    case True
    then show ?thesis by (simp add: revise_def fun_eq_iff)
  next
    case False
    have ne: "revise (key x) x (table_of key (y # ys)) = (revise (key x) x (table_of key ys))(key y \<mapsto> y)"
      using False by (simp only: table_of_Cons revise_other not_False_eq_True)
    have "table_of key (case findIndex (\<lambda>y. key y = key x) (y # ys) of
          Some i \<Rightarrow> (y # ys)[i := x] | None \<Rightarrow> y # ys)
        = table_of key (y # (case findIndex (\<lambda>y. key y = key x) ys of Some i \<Rightarrow> ys[i := x] | None \<Rightarrow> ys))"
      using False by (cases "findIndex (\<lambda>y. key y = key x) ys") simp_all
    then show ?thesis unfolding ne using Cons.IH by (simp only: table_of_Cons)
  qed
qed (simp add: revise_def)

context updatable_list
begin

lemma table_of_update:
  "table_of key (items (update x s)) = revise (key x) x (table_of key (items s))"
  by (simp add: items_update table_of_findIndex)

end

context removable_list
begin

lemma table_of_remove: "table_of key (items (remove k s)) = (table_of key (items s))(k := None)"
  by (simp add: items_remove table_of_filter)

end

lemma lists_kept:
  "m_alertRules (monitor_apply a s) = (case a of
      Op_setAlertRules rs \<Rightarrow> rs
    | Op_addAlertRule r \<Rightarrow> m_alertRules s @ [r]
    | Op_updateAlertRule r \<Rightarrow> m_alertRules (updateAlertRule r s)
    | Op_removeAlertRule i \<Rightarrow> m_alertRules (removeAlertRule i s)
    | _ \<Rightarrow> m_alertRules s)"
  "m_blockedIPs (monitor_apply a s) = (case a of
      Op_setBlockedIPs bs \<Rightarrow> bs
    | Op_addBlockedIP b \<Rightarrow> b # m_blockedIPs s
    | Op_removeBlockedIP i \<Rightarrow> m_blockedIPs (removeBlockedIP i s)
    | _ \<Rightarrow> m_blockedIPs s)"
  "m_reports (monitor_apply a s) = (case a of
      Op_addReport p \<Rightarrow> p # m_reports s
    | Op_updateReport p \<Rightarrow> m_reports (updateReport p s)
    | _ \<Rightarrow> m_reports s)"
  by (cases a; simp add: store_simps addLiveEvent_def Let_def split: option.split)+

lemma tables_step:
  assumes "store_act a s = Some t"
  shows "tables_of t = tables_act a (tables_of s)"
proof -
  have t: "t = monitor_apply a s" using assms by (cases a) (auto simp: store_act_def split: if_splits)
  have fresh: "ar_id r \<notin> ar_id ` set (m_alertRules s)" if "a = Op_addAlertRule r" for r
    using assms that by (simp add: store_act_def split: if_splits)
  show ?thesis
    unfolding t tables_of_def tables_act_def lists_kept
    by (cases a) (simp_all add: table_of_snoc fresh rules.table_of_update rules.table_of_remove
        blocked.table_of_remove reports.table_of_update)
qed

interpretation store_tables: forward_simulation monitor_init store_act "\<lambda>_. True" tables_of tables_init tables_act
proof
  show "tables_of monitor_init = tables_init"
    by (simp add: tables_of_def tables_init_def monitor_init_def)
qed (simp_all add: tables_step)



end
