(* ===== verification/Render.thy ===== *)
theory Render
  imports Charts Date_Parse
begin

text \<open>
  What the templates of \<open>src/src/views\<close> have in common.  A template is a function from the state to
  what it puts on the page: texts, coloured tags, buttons, tables, in the order of the template; layout and
  styles are left out.  An expression that throws while a page is rendered, be it in a cell or a dialog,
  is captured by the boundary around the pages, which shows its message instead of the page; so rendering
  returns a sum whose left side is the error.

  \<open>toLocaleString\<close> and the text of a number that may have a fraction belong to the engine and are
  the parameter \<open>numbers\<close>.
\<close>

section \<open>Pieces of a page\<close>

record button =
  bu_label :: string
  bu_icon :: string
  bu_severity :: string
  bu_loading :: bool
  bu_disabled :: bool

definition button :: "string \<Rightarrow> string \<Rightarrow> string \<Rightarrow> button" where
  "button label icon severity =
     \<lparr>bu_label = label, bu_icon = icon, bu_severity = severity, bu_loading = False, bu_disabled = False\<rparr>"

definition plain_tag :: "string \<Rightarrow> string \<Rightarrow> tag" where
  "plain_tag value severity = \<lparr>tag_value = value, tag_severity = severity\<rparr>"

text \<open>A number with its label and the colour variable of its card.\<close>

record metric =
  me_accent :: string
  me_value :: string
  me_label :: string

definition metric :: "string \<Rightarrow> string \<Rightarrow> string \<Rightarrow> metric" where
  "metric accent value label = \<lparr>me_accent = accent, me_value = value, me_label = label\<rparr>"

text \<open>The content of a cell (\<open>Cell_chars\<close> is a text given by its code points, \<open>Cell_lookup\<close> one from an object table, and \<open>Cell_label\<close> a tag with such a text), and a table with its columns, rows and the lines of an empty one.\<close>

datatype cell =
    Cell_text string
  | Cell_tag tag
  | Cell_button button
  | Cell_label js_text string
  | Cell_lookup js_text
  | Cell_chars "nat list"
  | Cell_list "cell list"

record data_table =
  dt_loading :: bool
  dt_headers :: "string list"
  dt_rows :: "cell list list"
  dt_empty :: "string list"

definition table_fits :: "data_table \<Rightarrow> bool" where
  "table_fits t \<longleftrightarrow> (\<forall>r \<in> set (dt_rows t). length r = length (dt_headers t))"

text \<open>The field of a form: its label, its hint, and what it is bound to; a number with its bounds, a choice with
  the labels and values of its options.\<close>

datatype field =
    Field_text string string string
  | Field_number string "int option" int int
  | Field_flag string bool
  | Field_select string "(string \<times> jval) list" jval
  | Field_choices string "(string \<times> string) list" "string list"
  | Field_count string "int option" int
  | Field_date string "int option"

text \<open>A card whose value is a skeleton until the data have been loaded.\<close>

record loaded_metric =
  lm_accent :: string
  lm_value :: "string option"
  lm_label :: string

definition loaded_metric :: "'d option \<Rightarrow> string \<Rightarrow> ('d \<Rightarrow> string) \<Rightarrow> string \<Rightarrow> loaded_metric" where
  "loaded_metric data accent value label =
     \<lparr>lm_accent = accent, lm_value = map_option value data, lm_label = label\<rparr>"

text \<open>A panel has a chart, the sentences of an empty one, or a skeleton.\<close>

datatype chart_panel =
    Shows_chart chart jval
  | Shows_text "string list"
  | Shows_skeleton

text \<open>A paginator of the server's pages: the rows of a page, the total, the sizes to choose from.\<close>

record paginator =
  pn_rows :: int
  pn_total :: int
  pn_options :: "int list"

section \<open>Numbers\<close>

record numbers =
  nu_locale :: "int \<Rightarrow> string"
  nu_string :: "rat \<Rightarrow> string"

definition plain_numbers :: numbers where
  "plain_numbers = \<lparr>nu_locale = string_of_int, nu_string = (\<lambda>r. string_of_int (floor r))\<rparr>"

text \<open>\<open>x?.toLocaleString() || dash\<close>, and \<open>x || 0\<close> shown as a text\<close>

definition locale_or_dash :: "numbers \<Rightarrow> int option \<Rightarrow> string" where
  "locale_or_dash nu x =
     (case x of
        Some n \<Rightarrow> (if nu_locale nu n \<noteq> [] then nu_locale nu n else em_dash)
      | None \<Rightarrow> em_dash)"

definition count_text :: "int option \<Rightarrow> string" where
  "count_text x = string_of_int (case x of Some n \<Rightarrow> n | None \<Rightarrow> 0)"

definition bullet :: string where
  "bullet = [CHR 0xE2, CHR 0x80, CHR 0xA2]"

text \<open>\<open>v-if="n"\<close> around a count: nothing for zero.\<close>

definition some_count :: "string \<Rightarrow> int option \<Rightarrow> string option" where
  "some_count what x =
     (case x of Some n \<Rightarrow> if n \<noteq> 0 then Some (string_of_int n @ what) else None | None \<Rightarrow> None)"

text \<open>A list with items, or the sentence of an empty one.\<close>

datatype 'a listing = Items "'a list" | Nothing_to_show string

definition listing_of :: "string \<Rightarrow> 'a list \<Rightarrow> 'a listing" where
  "listing_of empty_text xs = (if xs = [] then Nothing_to_show empty_text else Items xs)"

section \<open>Rendering that may throw\<close>

named_theorems render_simps

definition ap :: "js_error + ('a \<Rightarrow> 'b) \<Rightarrow> js_error + 'a \<Rightarrow> js_error + 'b" where
  "ap f r =
     (case f of
        Inl e \<Rightarrow> Inl e
      | Inr g \<Rightarrow> (case r of Inl e \<Rightarrow> Inl e | Inr x \<Rightarrow> Inr (g x)))"

text \<open>A part that is shown only under a condition: \<open>v-if\<close>.\<close>

definition v_if :: "bool \<Rightarrow> js_error + 'a \<Rightarrow> js_error + 'a option" where
  "v_if c r = (if c then ap (Inr Some) r else Inr None)"

definition renders :: "js_error + 'a \<Rightarrow> bool" where
  "renders r \<longleftrightarrow> (\<exists>x. r = Inr x)"

lemma renders_Inl [simp]: "\<not> renders (Inl e)"
  and renders_Inr [simp]: "renders (Inr x)"
  by (simp_all add: renders_def)

lemma renders_ap [render_simps]: "renders (ap f r) \<longleftrightarrow> renders f \<and> renders r"
  by (cases f; cases r) (simp_all add: ap_def)

lemma renders_v_if [render_simps]: "renders (v_if c r) \<longleftrightarrow> (c \<longrightarrow> renders r)"
  by (simp add: v_if_def render_simps)

lemma renders_case [render_simps]:
  "renders (case r of Inl e \<Rightarrow> Inl e | Inr x \<Rightarrow> Inr (f x)) \<longleftrightarrow> renders r"
  by (cases r) simp_all

lemma renders_if [render_simps]: "renders (if c then r else t) \<longleftrightarrow> (if c then renders r else renders t)"
  by simp

lemma ap_Inr: "ap f r = Inr y \<longleftrightarrow> (\<exists>g x. f = Inr g \<and> r = Inr x \<and> y = g x)"
  by (cases f; cases r) (auto simp: ap_def)

lemma renders_map_throw [render_simps]: "renders (map_throw f xs) \<longleftrightarrow> (\<forall>x \<in> set xs. renders (f x))"
  by (induction xs) (auto simp: renders_def split: sum.splits)

text \<open>The documented behaviour of the date library: a formatter throws exactly on an invalid date.\<close>

definition throws_on_invalid :: "date_lib \<Rightarrow> bool" where
  "throws_on_invalid dl \<longleftrightarrow>
     (\<forall>d p. renders (dl_format dl d p) \<longleftrightarrow> d \<noteq> None) \<and> (\<forall>d now. renders (dl_distance dl d now) \<longleftrightarrow> d \<noteq> None)"

lemma throws_on_invalidD [render_simps]:
  "throws_on_invalid dl \<Longrightarrow> renders (dl_format dl d p) \<longleftrightarrow> d \<noteq> None"
  "throws_on_invalid dl \<Longrightarrow> renders (dl_distance dl d now) \<longleftrightarrow> d \<noteq> None"
  by (simp_all add: throws_on_invalid_def)

text \<open>A plain library: the instant as a number.\<close>

definition plain_dates :: date_lib where
  "plain_dates =
     \<lparr>dl_format = (\<lambda>d p. case d of Some t \<Rightarrow> Inr (string_of_int t) | None \<Rightarrow> Inl RangeError),
      dl_distance = (\<lambda>d now. case d of Some t \<Rightarrow> Inr (string_of_int (now - t)) | None \<Rightarrow> Inl RangeError)\<rparr>"

lemma plain_dates_ok: "throws_on_invalid plain_dates"
  by (simp add: throws_on_invalid_def plain_dates_def split: option.split)

lemma map_throw_origin: "map_throw f xs = Inr ys \<Longrightarrow> y \<in> set ys \<Longrightarrow> \<exists>x \<in> set xs. f x = Inr y"
  by (induction xs arbitrary: ys) (auto split: sum.splits)

definition all_valid :: "engine \<Rightarrow> string list \<Rightarrow> bool" where
  "all_valid eng ds \<longleftrightarrow> (\<forall>d \<in> set ds. date_parse eng d \<noteq> None)"

lemma all_valid_simps [simp]:
  "all_valid eng []" "all_valid eng (d # ds) \<longleftrightarrow> date_parse eng d \<noteq> None \<and> all_valid eng ds"
  "all_valid eng (xs @ ys) \<longleftrightarrow> all_valid eng xs \<and> all_valid eng ys"
  by (auto simp: all_valid_def)

lemma all_valid_map: "all_valid eng (map f xs) \<longleftrightarrow> (\<forall>x \<in> set xs. date_parse eng (f x) \<noteq> None)"
  by (simp add: all_valid_def)

definition loading :: "string \<Rightarrow> monitor_state \<Rightarrow> bool" where
  "loading key st \<longleftrightarrow> m_isLoading st key = Some True"

definition refresh_button :: "string \<Rightarrow> monitor_state \<Rightarrow> button" where
  "refresh_button key st = (button [] ''pi-refresh'' ''secondary'')\<lparr>bu_loading := loading key st\<rparr>"

definition select_field :: "select_option list \<Rightarrow> string \<Rightarrow> field" where
  "select_field options value = Field_select [] (map (\<lambda>x. (so_label x, JStr (so_value x))) options) (JStr value)"

end
