(* ===== verification/Json_Text.thy ===== *)
theory Json_Text
  imports Http
begin

text \<open>
  The texts of \<open>JSON.stringify\<close>, with and without a gap (the details of an event and the changes of an
  audit entry are shown with a gap of two spaces, request bodies are sent without one), and a reader of
  such texts: what the console writes is read back as the value that it had, with either layout.
\<close>

section \<open>Writing with a gap\<close>

definition layout :: "string \<Rightarrow> string \<Rightarrow> string" where
  "layout gap indent = (if gap = [] then [] else CHR 0x0A # indent)"

definition colon :: "string \<Rightarrow> string" where
  "colon gap = (if gap = [] then '':'' else '': '')"

text \<open>The members of an object that are written: all but the undefined ones.\<close>

abbreviation defined :: "(string \<times> jval) list \<Rightarrow> (string \<times> jval) list" where
  "defined ps \<equiv> filter (\<lambda>p. snd p \<noteq> JUndef) ps"

function json_text :: "string \<Rightarrow> string \<Rightarrow> jval \<Rightarrow> string" where
  "json_text gap indent JUndef = ''null''"
| "json_text gap indent JNull = ''null''"
| "json_text gap indent (JBool b) = string_of_bool b"
| "json_text gap indent (JNum n) = string_of_int n"
| "json_text gap indent (JStr s) = json_quote s"
| "json_text gap indent (JArr xs) =
     (if xs = [] then ''[]''
      else ''['' @ layout gap (indent @ gap)
        @ join ('','' @ layout gap (indent @ gap)) (map (json_text gap (indent @ gap)) xs)
        @ layout gap indent @ '']'')"
| "json_text gap indent (JObj ps) =
     (if defined ps = [] then [CHR 0x7B, CHR 0x7D]
      else [CHR 0x7B] @ layout gap (indent @ gap)
        @ join ('','' @ layout gap (indent @ gap))
            (map (\<lambda>p. json_quote (fst p) @ colon gap @ json_text gap (indent @ gap) (snd p)) (defined ps))
        @ layout gap indent @ [CHR 0x7D])"
  by pat_completeness auto

termination
  by (relation "measure (\<lambda>(gap, indent, v). size v)")
    (auto simp: less_Suc_eq_le size_list_estimation' dest!: size_member)

lemma json_text_no_gap: "json_text [] indent v = stringify v"
proof (induction v arbitrary: indent rule: stringify.induct)
  case (6 xs)
  then have "map (json_text [] indent) xs = map stringify xs" by simp
  then show ?case by (simp add: layout_def del: map_eq_conv)
next
  case (7 ps)
  then have "map (\<lambda>p. json_quote (fst p) @ '':'' @ json_text [] indent (snd p)) (defined ps)
      = map (\<lambda>p. json_quote (fst p) @ '':'' @ stringify (snd p)) (defined ps)" by simp
  then show ?case by (simp add: layout_def colon_def del: map_eq_conv)
qed simp_all

text \<open>\<open>JSON.stringify(v, null, 2)\<close>\<close>

definition stringify_indented :: "jval \<Rightarrow> string" where
  "stringify_indented = json_text ''  '' []"

section \<open>Reading\<close>

definition is_space :: "char \<Rightarrow> bool" where
  "is_space c \<longleftrightarrow> c = CHR '' '' \<or> c = CHR 0x0A \<or> c = CHR 0x0D \<or> c = CHR 0x09"

abbreviation skip :: "string \<Rightarrow> string" where
  "skip \<equiv> dropWhile is_space"

definition hex_digit :: "char \<Rightarrow> nat option" where
  "hex_digit c =
     (let n = (of_char c :: nat)
      in if 48 \<le> n \<and> n \<le> 57 then Some (n - 48)
         else if 97 \<le> n \<and> n \<le> 102 then Some (n - 87)
         else if 65 \<le> n \<and> n \<le> 70 then Some (n - 55) else None)"

text \<open>The escapes of one letter, and \<open>\u00xy\<close>; larger code points are never escaped by the writer.\<close>

definition escape :: "char \<Rightarrow> char option" where
  "escape e =
     (if e = CHR 0x22 \<or> e = CHR 0x5C \<or> e = CHR ''/'' then Some e
      else if e = CHR ''b'' then Some (CHR 0x08) else if e = CHR ''f'' then Some (CHR 0x0C)
      else if e = CHR ''n'' then Some (CHR 0x0A) else if e = CHR ''r'' then Some (CHR 0x0D)
      else if e = CHR ''t'' then Some (CHR 0x09) else None)"

definition code_escape :: "string \<Rightarrow> char option" where
  "code_escape cs =
     (case cs of
        [a, b, x, y] \<Rightarrow>
          (case (hex_digit x, hex_digit y) of
             (Some m, Some n) \<Rightarrow>
               if a = CHR ''0'' \<and> b = CHR ''0'' \<and> 16 * m + n < 128 then Some (char_of (16 * m + n)) else None
           | _ \<Rightarrow> None)
      | _ \<Rightarrow> None)"

function json_string :: "string \<Rightarrow> (string \<times> string) option" where
  "json_string s =
     (case s of
        [] \<Rightarrow> None
      | c # cs \<Rightarrow>
          if c = CHR 0x22 then Some ([], cs)
          else if c = CHR 0x5C then
            (case cs of
               [] \<Rightarrow> None
             | e # ds \<Rightarrow>
                 (if e = CHR ''u'' then
                    (case code_escape (take 4 ds) of
                       None \<Rightarrow> None
                     | Some x \<Rightarrow> map_option (\<lambda>(t, r). (x # t, r)) (json_string (drop 4 ds)))
                  else
                    (case escape e of
                       None \<Rightarrow> None
                     | Some x \<Rightarrow> map_option (\<lambda>(t, r). (x # t, r)) (json_string ds))))
          else map_option (\<lambda>(t, r). (c # t, r)) (json_string cs))"
  by pat_completeness auto

termination by (relation "measure length") auto

declare json_string.simps [simp del]

definition decimal :: "string \<Rightarrow> nat" where
  "decimal = foldl (\<lambda>n c. 10 * n + (of_char c - 48)) 0"

definition json_number :: "string \<Rightarrow> (jval \<times> string) option" where
  "json_number s =
     (let t = (if s \<noteq> [] \<and> hd s = CHR ''-'' then tl s else s);
          n = int (decimal (takeWhile is_digit t))
      in if t = [] \<or> \<not> is_digit (hd t) then None
         else Some (JNum (if t = s then n else - n), dropWhile is_digit t))"

definition literal :: "string \<Rightarrow> jval \<Rightarrow> string \<Rightarrow> (jval \<times> string) option" where
  "literal word v s = (if prefix word s then Some (v, drop (length word) s) else None)"

fun json_value :: "nat \<Rightarrow> string \<Rightarrow> (jval \<times> string) option"
  and json_items :: "nat \<Rightarrow> string \<Rightarrow> (jval list \<times> string) option"
  and json_members :: "nat \<Rightarrow> string \<Rightarrow> ((string \<times> jval) list \<times> string) option" where
  "json_value 0 s = None"
| "json_value (Suc n) s =
     (case skip s of
        [] \<Rightarrow> None
      | c # r \<Rightarrow>
          if c = CHR 0x22 then map_option (\<lambda>(x, t). (JStr x, t)) (json_string r)
          else if c = CHR ''['' then
            (if take 1 (skip r) = '']'' then Some (JArr [], drop 1 (skip r))
             else map_option (\<lambda>(xs, t). (JArr xs, t)) (json_items n r))
          else if c = CHR 0x7B then
            (if take 1 (skip r) = [CHR 0x7D] then Some (JObj [], drop 1 (skip r))
             else map_option (\<lambda>(ps, t). (JObj ps, t)) (json_members n r))
          else if c = CHR ''n'' then literal ''null'' JNull (c # r)
          else if c = CHR ''t'' then literal ''true'' (JBool True) (c # r)
          else if c = CHR ''f'' then literal ''false'' (JBool False) (c # r)
          else json_number (c # r))"
| "json_items 0 s = None"
| "json_items (Suc n) s =
     (case json_value n s of
        None \<Rightarrow> None
      | Some (x, r) \<Rightarrow>
          (case skip r of
             [] \<Rightarrow> None
           | c # t \<Rightarrow>
               if c = CHR '','' then map_option (\<lambda>(xs, u). (x # xs, u)) (json_items n t)
               else if c = CHR '']'' then Some ([x], t) else None))"
| "json_members 0 s = None"
| "json_members (Suc n) s =
     (if take 1 (skip s) \<noteq> [CHR 0x22] then None
      else (case json_string (drop 1 (skip s)) of
              None \<Rightarrow> None
            | Some (k, r) \<Rightarrow>
                if take 1 (skip r) \<noteq> '':'' then None
                else (case json_value n (drop 1 (skip r)) of
                        None \<Rightarrow> None
                      | Some (x, t) \<Rightarrow>
                          (case skip t of
                             [] \<Rightarrow> None
                           | c # u \<Rightarrow>
                               if c = CHR '','' then map_option (\<lambda>(ps, w). ((k, x) # ps, w)) (json_members n u)
                               else if c = CHR 0x7D then Some ([(k, x)], u) else None))))"

definition json_parse :: "string \<Rightarrow> jval option" where
  "json_parse s =
     (case json_value (Suc (length s)) s of
        None \<Rightarrow> None
      | Some (v, r) \<Rightarrow> if skip r = [] then Some v else None)"

text \<open>A value as it is after it has been written: without undefined members, and with \<open>null\<close> for other
  undefined values.\<close>

function settled :: "jval \<Rightarrow> jval" where
  "settled JUndef = JNull"
| "settled JNull = JNull"
| "settled (JBool b) = JBool b"
| "settled (JNum n) = JNum n"
| "settled (JStr s) = JStr s"
| "settled (JArr xs) = JArr (map settled xs)"
| "settled (JObj ps) = JObj (map (\<lambda>p. (fst p, settled (snd p))) (defined ps))"
  by pat_completeness auto

termination
  by (relation "measure size")
    (auto simp: less_Suc_eq_le size_list_estimation' dest!: size_member)

section \<open>What is written is read back\<close>

lemma skip_blank: "list_all is_space w \<Longrightarrow> skip (w @ s) = skip s"
  by (induction w) auto

lemma skip_start: "s \<noteq> [] \<Longrightarrow> \<not> is_space (hd s) \<Longrightarrow> skip s = s"
  by (cases s) auto

lemma skip_char: "\<not> is_space c \<Longrightarrow> skip (c # s) = c # s"
  by simp

lemma json_value_blank: "list_all is_space w \<Longrightarrow> json_value n (w @ s) = json_value n s"
  by (cases n) (simp_all add: skip_blank)

lemma json_members_blank: "list_all is_space w \<Longrightarrow> json_members n (w @ s) = json_members n s"
  by (cases n) (simp_all add: skip_blank)

lemma json_items_blank: "list_all is_space w \<Longrightarrow> json_items n (w @ s) = json_items n s"
  by (cases n) (simp_all add: json_value_blank)

text \<open>Numbers.\<close>

lemma decimal_snoc: "decimal (s @ [c]) = 10 * decimal s + (of_char c - 48)"
  by (simp add: decimal_def)

lemma decimal_digits: "decimal (digits n) = n"
proof (induction n rule: digits.induct)
  case (1 n)
  show ?case
  proof (cases "n < 10")
    case True
    then show ?thesis by (subst digits.simps) (simp add: decimal_def)
  next
    case False
    then have "decimal (digits n) = 10 * decimal (digits (n div 10)) + n mod 10"
      by (subst digits.simps) (simp add: decimal_snoc)
    then show ?thesis using 1 False by simp
  qed
qed

lemma digits_span:
  assumes "rest = [] \<or> \<not> is_digit (hd rest)"
  shows "takeWhile is_digit (digits n @ rest) = digits n" "dropWhile is_digit (digits n @ rest) = rest"
proof -
  have d: "\<forall>c \<in> set (digits n). is_digit c" using digits_are_digits by blast
  have r: "takeWhile is_digit rest = []" "dropWhile is_digit rest = rest" using assms by (cases rest; simp)+
  show "takeWhile is_digit (digits n @ rest) = digits n" using d r(1) by (simp add: takeWhile_append2)
  show "dropWhile is_digit (digits n @ rest) = rest" using d r(2) by (simp add: dropWhile_append2)
qed

lemma digits_start: "digits n @ rest \<noteq> [] \<and> is_digit (hd (digits n @ rest))"
  using digits_are_digits [of "hd (digits n)" n] by simp

lemma not_digit: "\<not> is_digit CHR ''-''" "\<not> is_digit CHR '',''" "\<not> is_digit CHR '']''" "\<not> is_digit CHR 0x7D"
    "\<not> is_digit CHR 0x0A" "\<not> is_digit CHR 0x20"
  by (simp_all add: is_digit_def)

lemma json_number_int:
  assumes "rest = [] \<or> \<not> is_digit (hd rest)"
  shows "json_number (string_of_int m @ rest) = Some (JNum m, rest)"
proof (cases "m < 0")
  case True
  then show ?thesis
    using digits_start [of "nat (- m)" rest] digits_span [OF assms, of "nat (- m)"]
    by (simp add: json_number_def string_of_int_def Let_def decimal_digits)
next
  case False
  have "hd (digits (nat m) @ rest) \<noteq> CHR ''-''"
    using digits_start [of "nat m" rest] not_digit(1) by auto
  then show ?thesis
    using False digits_start [of "nat m" rest] digits_span [OF assms, of "nat m"]
    by (simp add: json_number_def string_of_int_def Let_def decimal_digits)
qed

text \<open>Strings.\<close>

lemma hex_digit_low: "k < 16 \<Longrightarrow> hex_digit (hex_low k) = Some k"
  by (auto simp: hex_digit_def hex_low_def Let_def)

lemma json_string_quote: "json_string (CHR 0x22 # r) = Some ([], r)"
  by (subst json_string.simps) simp

lemma json_string_plain:
  "c \<noteq> CHR 0x22 \<Longrightarrow> c \<noteq> CHR 0x5C \<Longrightarrow>
    json_string (c # r) = map_option (\<lambda>(t, u). (c # t, u)) (json_string r)"
  by (subst json_string.simps) simp

lemma json_string_escape:
  "e \<noteq> CHR ''u'' \<Longrightarrow> escape e = Some c \<Longrightarrow>
    json_string (CHR 0x5C # e # r) = map_option (\<lambda>(t, u). (c # t, u)) (json_string r)"
  by (subst json_string.simps) simp

lemma json_string_code:
  "code_escape [a, b, x, y] = Some c \<Longrightarrow>
    json_string (CHR 0x5C # CHR ''u'' # a # b # x # y # r) = map_option (\<lambda>(t, u). (c # t, u)) (json_string r)"
  by (subst json_string.simps) simp

lemma code_escape_low:
  assumes "(of_char c :: nat) < 32"
  shows "code_escape [CHR ''0'', CHR ''0'', hex_low (of_char c div 16), hex_low (of_char c mod 16)] = Some c"
proof -
  define n where "n = (of_char c :: nat)"
  have "hex_digit (hex_low (n div 16)) = Some (n div 16)" "hex_digit (hex_low (n mod 16)) = Some (n mod 16)"
    using assms by (auto simp: n_def intro!: hex_digit_low)
  moreover have "16 * (n div 16) + n mod 16 = n" by simp
  moreover have "n < 128" "char_of n = c" using assms by (simp_all add: n_def)
  ultimately show ?thesis by (simp add: code_escape_def n_def)
qed

lemma json_string_char:
  "json_string (json_char c @ r) = map_option (\<lambda>(t, u). (c # t, u)) (json_string r)"
proof (cases "c \<in> {CHR 0x22, CHR 0x5C, CHR 0x08, CHR 0x0C, CHR 0x0A, CHR 0x0D, CHR 0x09}")
  case True
  have e: "json_string (CHR 0x5C # e # r) = map_option (\<lambda>(t, u). (c # t, u)) (json_string r)"
    if "escape e = Some c" for e
    using that by (intro json_string_escape) (auto simp: escape_def)
  consider "c = CHR 0x22" | "c = CHR 0x5C" | "c = CHR 0x08" | "c = CHR 0x0C" | "c = CHR 0x0A" | "c = CHR 0x0D"
    | "c = CHR 0x09" using True by blast
  then have "\<exists>e. json_char c = [CHR 0x5C, e] \<and> escape e = Some c"
    by cases (simp_all add: json_char_def escape_def)
  then show ?thesis using e by auto
next
  case False
  then have plain: "c \<noteq> CHR 0x22" "c \<noteq> CHR 0x5C" by simp_all
  show ?thesis
  proof (cases "(of_char c :: nat) < 32")
    case True
    then have "json_char c = [CHR 0x5C, CHR ''u'', CHR ''0'', CHR ''0'', hex_low (of_char c div 16), hex_low (of_char c mod 16)]"
      using False by (simp add: json_char_def)
    then show ?thesis using json_string_code [OF code_escape_low [OF True]] by simp
  next
    case big: False
    then have "json_char c = [c]" using False by (simp add: json_char_def)
    then show ?thesis using json_string_plain [OF plain] by simp
  qed
qed

lemma json_string_read:
  "json_string (concat (map json_char s) @ CHR 0x22 # r) = Some (s, r)"
  by (induction s) (simp_all add: json_string_quote json_string_char)

text \<open>Where a value starts.\<close>

definition starts_value :: "char \<Rightarrow> bool" where
  "starts_value c \<longleftrightarrow> \<not> is_space c \<and> c \<noteq> CHR '']'' \<and> c \<noteq> CHR 0x7D \<and> c \<noteq> CHR '',''"

lemma digit_starts: "is_digit c \<Longrightarrow> starts_value c"
  by (auto simp: starts_value_def is_space_def is_digit_def)

lemma json_text_starts: "json_text gap indent v \<noteq> [] \<and> starts_value (hd (json_text gap indent v))"
proof (cases v)
  case (JNum m)
  have "starts_value CHR ''-''" by (simp add: starts_value_def is_space_def)
  then show ?thesis
    using JNum digit_starts [OF digits_are_digits [of "hd (digits (nat m))" "nat m"]] by (simp add: string_of_int_def)
qed (simp_all add: starts_value_def is_space_def string_of_bool_def json_quote_def)

lemma layout_blank: "list_all is_space gap \<Longrightarrow> list_all is_space indent \<Longrightarrow> list_all is_space (layout gap indent)"
  by (simp add: layout_def is_space_def)

lemma colon_blank: "\<exists>w. colon gap = CHR '':'' # w \<and> list_all is_space w"
  by (simp add: colon_def is_space_def)

lemma join_start: "xs \<noteq> [] \<Longrightarrow> hd xs \<noteq> [] \<Longrightarrow> hd (join sep xs) = hd (hd xs) \<and> join sep xs \<noteq> []"
  by (cases xs; cases "tl xs") auto

text \<open>The text after a value must not go on with a digit.\<close>

definition rest_ok :: "string \<Rightarrow> bool" where
  "rest_ok rest \<longleftrightarrow> rest = [] \<or> \<not> is_digit (hd rest)"

lemma rest_ok_simps [simp]: "rest_ok []" "rest_ok (c # s) \<longleftrightarrow> \<not> is_digit c"
  by (simp_all add: rest_ok_def)

lemma space_no_digit: "is_space c \<Longrightarrow> \<not> is_digit c"
  by (auto simp: is_space_def is_digit_def)

lemma rest_ok_blank: "list_all is_space u \<Longrightarrow> \<not> is_digit c \<Longrightarrow> rest_ok (u @ c # rest)"
  by (cases u) (simp_all add: space_no_digit)

lemma stops: "\<not> is_space CHR '',''" "\<not> is_space CHR '']''" "\<not> is_space CHR 0x7D" "\<not> is_space CHR '':''"
    "\<not> is_space CHR 0x22" "\<not> is_space CHR ''[''" "\<not> is_space CHR 0x7B"
  by (simp_all add: is_space_def)

lemma read_items:
  assumes "\<And>x n rest. x \<in> set xs \<Longrightarrow> length (f x) < n \<Longrightarrow> rest_ok rest \<Longrightarrow> json_value n (f x @ rest) = Some (g x, rest)"
    and "list_all is_space w" "list_all is_space u" "xs \<noteq> []"
    and "length (join ('','' @ w) (map f xs)) + 1 < n"
  shows "json_items n (join ('','' @ w) (map f xs) @ u @ CHR '']'' # rest) = Some (map g xs, rest)"
  using assms(1,4,5)
proof (induction xs arbitrary: n)
  case (Cons x xs)
  obtain m where n: "n = Suc m" using Cons.prems(3) by (cases n) auto
  show ?case
  proof (cases xs)
    case Nil
    then have "length (f x) < m" using Cons.prems(3) n by simp
    with Cons.prems(1) [of x m "u @ CHR '']'' # rest"] show ?thesis
      using Nil n rest_ok_blank [OF assms(3) not_digit(3), of rest] skip_blank [OF assms(3)] stops(2) by simp
  next
    case two: (Cons y ys)
    define more where "more = join ('','' @ w) (map f xs) @ u @ CHR '']'' # rest"
    have j: "join ('','' @ w) (map f (x # xs)) = f x @ CHR '','' # w @ join ('','' @ w) (map f xs)"
      by (simp add: two)
    then have len: "length (f x) < m" "length (join ('','' @ w) (map f xs)) + 1 < m"
      using Cons.prems(3) n by simp_all
    have ne: "xs \<noteq> []" using two by simp
    have "json_items m more = Some (map g xs, rest)"
      unfolding more_def by (rule Cons.IH [OF Cons.prems(1) ne len(2)]) simp_all
    moreover have "json_value m (f x @ CHR '','' # w @ more) = Some (g x, CHR '','' # w @ more)"
      by (rule Cons.prems(1)) (simp_all add: len(1) not_digit)
    ultimately show ?thesis
      using n stops(1) json_items_blank [OF assms(2), of m more] unfolding j by (simp add: more_def)
  qed
qed simp

lemma read_members:
  assumes "\<And>p n rest. p \<in> set ps \<Longrightarrow> length (f (snd p)) < n \<Longrightarrow> rest_ok rest \<Longrightarrow>
      json_value n (f (snd p) @ rest) = Some (g (snd p), rest)"
    and "list_all is_space w" "list_all is_space u" "ps \<noteq> []"
    and "length (join ('','' @ w) (map (\<lambda>p. json_quote (fst p) @ colon gap @ f (snd p)) ps)) + 1 < n"
  shows "json_members n (join ('','' @ w) (map (\<lambda>p. json_quote (fst p) @ colon gap @ f (snd p)) ps) @ u @ CHR 0x7D # rest)
     = Some (map (\<lambda>p. (fst p, g (snd p))) ps, rest)"
  using assms(1,4,5)
proof (induction ps arbitrary: n)
  case (Cons p ps)
  define h where "h = (\<lambda>p. json_quote (fst p) @ colon gap @ f (snd p))"
  obtain cw where cw: "colon gap = CHR '':'' # cw" "list_all is_space cw" using colon_blank by blast
  obtain m where n: "n = Suc m" using Cons.prems(3) by (cases n) auto
  have key: "json_members (Suc m) (h p @ t) =
      (case json_value m (f (snd p) @ t) of
         None \<Rightarrow> None
       | Some (x, t) \<Rightarrow>
           (case skip t of
              [] \<Rightarrow> None
            | c # u \<Rightarrow>
                if c = CHR '','' then map_option (\<lambda>(qs, w). ((fst p, x) # qs, w)) (json_members m u)
                else if c = CHR 0x7D then Some ([(fst p, x)], u) else None))" for t
  proof -
    have "h p @ t = CHR 0x22 # concat (map json_char (fst p)) @ CHR 0x22 # CHR '':'' # cw @ f (snd p) @ t"
      by (simp add: h_def json_quote_def cw(1))
    then show ?thesis
      using stops(4,5) json_value_blank [OF cw(2)] by (simp add: json_string_read)
  qed
  show ?case unfolding h_def [symmetric] n
  proof (cases ps)
    case Nil
    then have "length (f (snd p)) < m" using Cons.prems(3) n by simp
    with Cons.prems(1) [of p m "u @ CHR 0x7D # rest"]
    show "json_members (Suc m) (join ('','' @ w) (map h (p # ps)) @ u @ CHR 0x7D # rest)
        = Some (map (\<lambda>p. (fst p, g (snd p))) (p # ps), rest)"
      using Nil rest_ok_blank [OF assms(3) not_digit(4), of rest] skip_blank [OF assms(3)] stops(3) by (simp add: key del: json_members.simps)
  next
    case two: (Cons y ys)
    define more where "more = join ('','' @ w) (map h ps) @ u @ CHR 0x7D # rest"
    have j: "join ('','' @ w) (map h (p # ps)) = h p @ CHR '','' # w @ join ('','' @ w) (map h ps)"
      by (simp add: two)
    have len: "length (f (snd p)) < m" "length (join ('','' @ w) (map h ps)) + 1 < m"
      using Cons.prems(3) n unfolding h_def [symmetric] j by (simp_all add: h_def)
    have ne: "ps \<noteq> []" using two by simp
    have whole: "join ('','' @ w) (map h (p # ps)) @ u @ CHR 0x7D # rest = h p @ CHR '','' # w @ more"
      unfolding j more_def by simp
    have "json_members m more = Some (map (\<lambda>p. (fst p, g (snd p))) ps, rest)"
      unfolding more_def h_def by (rule Cons.IH [OF Cons.prems(1) ne len(2) [unfolded h_def]]) simp_all
    moreover have "json_value m (f (snd p) @ CHR '','' # w @ more) = Some (g (snd p), CHR '','' # w @ more)"
      by (rule Cons.prems(1)) (simp_all add: len(1) not_digit)
    ultimately show "json_members (Suc m) (join ('','' @ w) (map h (p # ps)) @ u @ CHR 0x7D # rest)
        = Some (map (\<lambda>p. (fst p, g (snd p))) (p # ps), rest)"
      using stops(1) json_members_blank [OF assms(2), of m more] unfolding whole
      by (simp add: key del: json_members.simps)
  qed
qed simp

lemma first_of_items: "xs \<noteq> [] \<Longrightarrow> \<exists>c t. join sep (map (json_text gap indent) xs) = c # t \<and> starts_value c"
  using json_text_starts [of gap indent "hd xs"] join_start [of "map (json_text gap indent) xs" sep]
  by (cases "join sep (map (json_text gap indent) xs)"; cases xs) auto

lemma first_of_members: "ps \<noteq> [] \<Longrightarrow> take 1 (join sep (map (\<lambda>p. json_quote (fst p) @ f p) ps)) = [CHR 0x22]"
  by (cases ps; cases "tl ps") (simp_all add: json_quote_def)

theorem json_value_text:
  assumes "list_all is_space gap" "list_all is_space indent"
    and "length (json_text gap indent v) < n" "rest_ok rest"
  shows "json_value n (json_text gap indent v @ rest) = Some (settled v, rest)"
  using assms(2-)
proof (induction v arbitrary: indent n rest rule: settled.induct)
  case 1
  then show ?case by (cases n) (simp_all add: literal_def is_space_def)
next
  case 2
  then show ?case by (cases n) (simp_all add: literal_def is_space_def)
next
  case (3 b)
  then show ?case by (cases n) (simp_all add: string_of_bool_def literal_def is_space_def)
next
  case (4 m)
  obtain k where n: "n = Suc k" using 4 by (cases n) auto
  have s: "string_of_int m \<noteq> []" "\<not> is_space (hd (string_of_int m))" "hd (string_of_int m) = CHR ''-'' \<or> is_digit (hd (string_of_int m))"
    using json_text_starts [of gap indent "JNum m"] digits_are_digits [of "hd (digits (nat m))" "nat m"]
    by (auto simp: starts_value_def string_of_int_def)
  have other: "is_digit c \<Longrightarrow> c \<notin> {CHR 0x22, CHR ''['', CHR 0x7B, CHR ''n'', CHR ''t'', CHR ''f''}" for c
    by (auto simp: is_digit_def)
  obtain c t where ct: "string_of_int m @ rest = c # t" using s(1) by (cases "string_of_int m") auto
  then have "hd (string_of_int m) = c" using s(1) by (cases "string_of_int m") auto
  then have "\<not> is_space c" "c \<notin> {CHR 0x22, CHR ''['', CHR 0x7B, CHR ''n'', CHR ''t'', CHR ''f''}"
    using s(2,3) other by auto
  then show ?case
    using json_number_int [of rest m] 4(3) ct n by (simp add: rest_ok_def)
next
  case (5 s)
  then show ?case
    using stops(5) json_string_read [of s rest] by (cases n) (simp_all add: json_quote_def)
next
  case (6 xs)
  show ?case
  proof (cases "xs = []")
    case True
    then show ?thesis using 6 stops(2,6) by (cases n) auto
  next
    case False
    obtain k where n: "n = Suc k" using 6(3) by (cases n) auto
    define w where "w = layout gap (indent @ gap)"
    have b: "list_all is_space (indent @ gap)" "list_all is_space w" "list_all is_space (layout gap indent)"
      using 6(2) assms(1) by (simp_all add: w_def layout_blank)
    define body where "body = join ('','' @ w) (map (json_text gap (indent @ gap)) xs)"
    have whole: "json_text gap indent (JArr xs) @ rest = CHR ''['' # w @ body @ layout gap indent @ CHR '']'' # rest"
      using False by (simp add: body_def w_def)
    have "length body + 1 < k"
      using 6(3) False n by (simp add: body_def w_def)
    then have "json_items k (body @ layout gap indent @ CHR '']'' # rest) = Some (map settled xs, rest)"
      unfolding body_def using False b by (intro read_items) (auto intro: 6(1))
    moreover obtain c t where "body = c # t" "starts_value c"
      using first_of_items [OF False] unfolding body_def by blast
    ultimately show ?thesis
      unfolding whole n using stops(6) b(2) skip_blank [OF b(2)] json_items_blank [OF b(2)]
      by (simp add: starts_value_def)
  qed
next
  case (7 ps)
  show ?case
  proof (cases "defined ps = []")
    case True
    then show ?thesis using 7 stops(3,7) by (cases n) auto
  next
    case False
    obtain k where n: "n = Suc k" using 7(3) by (cases n) auto
    define w where "w = layout gap (indent @ gap)"
    have b: "list_all is_space (indent @ gap)" "list_all is_space w" "list_all is_space (layout gap indent)"
      using 7(2) assms(1) by (simp_all add: w_def layout_blank)
    define body where "body = join ('','' @ w)
      (map (\<lambda>p. json_quote (fst p) @ colon gap @ json_text gap (indent @ gap) (snd p)) (defined ps))"
    have whole: "json_text gap indent (JObj ps) @ rest = CHR 0x7B # w @ body @ layout gap indent @ CHR 0x7D # rest"
      using False by (simp add: body_def w_def)
    have "length body + 1 < k"
      using 7(3) False n by (simp add: body_def w_def)
    then have "json_members k (body @ layout gap indent @ CHR 0x7D # rest)
        = Some (map (\<lambda>p. (fst p, settled (snd p))) (defined ps), rest)"
      unfolding body_def using False b by (intro read_members) (auto intro: 7(1))
    moreover have "take 1 body = [CHR 0x22]"
      unfolding body_def by (rule first_of_members [OF False])
    then obtain t where "body = CHR 0x22 # t" by (cases body) auto
    ultimately show ?thesis
      unfolding whole n using stops(5,7) b(2) skip_blank [OF b(2)] json_members_blank [OF b(2)]
      by simp
  qed
qed

lemma json_parse_text:
  assumes "list_all is_space gap"
  shows "json_parse (json_text gap [] v) = Some (settled v)"
  using json_value_text [OF assms, of "[]" v "Suc (length (json_text gap [] v))" "[]"]
  by (simp add: json_parse_def)

text \<open>Both texts of a value are read back as the value; the one with a gap differs in its layout only.\<close>

theorem json_roundtrip:
  "json_parse (stringify v) = Some (settled v) \<and> json_parse (stringify_indented v) = Some (settled v)"
  using json_parse_text [of "[]" v] json_parse_text [of "''  ''" v]
  by (simp add: json_text_no_gap stringify_indented_def is_space_def)

end
