(* ===== verification/Payloads.thy ===== *)
theory Payloads
  imports Json_Text Screen
begin

text \<open>
  The changes that \<open>src/src/composables/useApi.ts\<close> sends: the body of each, read as JSON, is the object
  that the caller passed.
\<close>

section \<open>A request and its payload\<close>

definition carries :: "string \<Rightarrow> jval \<Rightarrow> request \<Rightarrow> bool" where
  "carries meth payload r \<longleftrightarrow>
     req_method r = meth \<and> Option.bind (req_body r) json_parse = Some (settled payload)"

text \<open>One request, or two with an elevation in between, each with the payload.\<close>

definition sends :: "string \<Rightarrow> string \<Rightarrow> jval \<Rightarrow> api_world \<Rightarrow> api_world \<Rightarrow> bool" where
  "sends meth url payload w w1 \<longleftrightarrow>
     (\<exists>rs. sent_to url w1 = sent_to url w @ rs \<and> (length rs = 1 \<or> length rs = 2)
        \<and> (\<forall>r \<in> set rs. carries meth payload r))"

definition with_payload :: "string \<Rightarrow> jval \<Rightarrow> request_init" where
  "with_payload meth payload = no_options\<lparr>ri_method := Some meth, ri_body := Some (stringify payload)\<rparr>"

lemma api_request_carries: "carries meth payload (api_request s url (with_payload meth payload))"
  by (simp add: carries_def api_request_def with_payload_def no_options_def json_roundtrip)

text \<open>The requests of a call are made of its address and options.\<close>

lemma call_requests:
  assumes "el_silent url el"
  shows "\<exists>rs. sent_to url (snd (fetchWithAuth net el url opts False w)) = sent_to url w @ rs
    \<and> (length rs = 1 \<or> length rs = 2) \<and> (\<forall>r \<in> set rs. \<exists>s. r = api_request s url opts)"
proof -
  define req where "req = api_request (aw_auth w) url opts"
  define w1 where "w1 = after_first net url opts w"
  define w2 where "w2 = snd (asked_elevation el w1)"
  have one: "sent_to url w1 = sent_to url w @ [req]"
    by (simp add: w1_def req_def after_first_sent)
  have two: "sent_to url w2 = sent_to url w @ [req]"
    using elevation_sent [OF assms] one by (simp add: w2_def)
  then have three: "sent_to url (snd (fetchWithAuth net el url opts True w2))
      = sent_to url w @ [req, api_request (aw_auth w2) url opts]"
    by (simp add: elevated_sends_one)
  define w3 where "w3 = snd (fetchWithAuth net el url opts False w)"
  have "sent_to url w3 = sent_to url w @ [req]
      \<or> sent_to url w3 = sent_to url w @ [req, api_request (aw_auth w2) url opts]"
    using one two three unfolding w3_def
    by (subst (1 2) fetchWithAuth_first)
      (auto simp: w1_def [symmetric] w2_def login_sent case_prod_beta split: fetch_outcome.split sum.split)
  then show ?thesis unfolding w3_def [symmetric] req_def by (elim disjE) (simp_all, blast+)
qed

lemma sends_fetch:
  assumes "el_silent url el"
  shows "sends meth url payload w (snd (fetchWithAuth net el url (with_payload meth payload) False w))"
  using call_requests [OF assms, of net "with_payload meth payload" w] unfolding sends_def
  by (metis api_request_carries)

lemma sends_checked:
  assumes "el_silent url el"
  shows "sends meth url payload w (snd (checked net el url (with_payload meth payload) err w))"
  using sends_fetch [OF assms, of meth payload w net]
  by (simp add: checked_def snd_api_bind api_throw_def api_return_def split: sum.splits)

lemma sends_call_json:
  assumes "el_silent url el" "\<And>d w. br_sent (aw_browser (snd (use d w))) = br_sent (aw_browser w)"
  shows "sends meth url payload w (snd (call_json net el url (with_payload meth payload) err use w))"
proof -
  have "sent_to url (snd (use d w)) = sent_to url w" for d w by (simp add: sent_to_def assms(2))
  then show ?thesis
    using sends_checked [OF assms(1), of meth payload w net err]
    by (simp add: call_json_def snd_api_bind api_return_def sends_def split: sum.splits)
qed

lemma sends_then_store:
  assumes "el_silent url el"
  shows "sends meth url payload w
     (snd (api_bind (checked net el url (with_payload meth payload) err) (\<lambda>_. store f) w))"
  using sends_checked [OF assms, of meth payload w net err]
  by (simp add: snd_api_bind store_def on_monitor_def sends_def sent_to_def split: sum.splits)

section \<open>Every change arrives as it was meant\<close>

definition note_payload :: "string option \<Rightarrow> jval" where
  "note_payload note = JObj [(''note'', case note of Some n \<Rightarrow> JStr n | None \<Rightarrow> JUndef)]"

lemma edited_sends_nothing:
  "br_sent (aw_browser (snd (edited f elems d w))) = br_sent (aw_browser w)"
  by (simp add: edited_def store_def on_monitor_def split: option.splits)



end
