(* ===== verification/Threats_Page.thy ===== *)
theory Threats_Page
  imports Threats_View Render
begin

text \<open>
  What the template of \<open>src/src/views/ThreatsView.vue\<close> puts on the page: the banner, the cards, the
  panels of the signals, of the integrity, of the threats, the addresses and the locked accounts, and
  the two dialogs.
\<close>

section \<open>Banner and cards\<close>

record threats_header =
  th_title :: string
  th_subtitle :: string
  th_period :: field
  th_refresh :: button

definition threats_header_of :: "monitor_state \<Rightarrow> threats_view \<Rightarrow> threats_header" where
  "threats_header_of st v =
     \<lparr>th_title = ''Threat Intelligence'', th_subtitle = ''Security threat analysis and monitoring'',
      th_period = select_field timeRangeOptions (tv_timeRange v),
      th_refresh = refresh_button ''threats'' st\<rparr>"

record banner =
  ba_class :: string
  ba_shield :: string
  ba_text :: string
  ba_tag :: tag
  ba_description :: string
  ba_button :: button

definition threats_banner :: "monitor_state \<Rightarrow> banner" where
  "threats_banner st =
     (let info = threatLevelInfo st in
      \<lparr>ba_class = banner_class (li_level info), ba_shield = shield_class (li_level info),
       ba_text = ''Threat Level: '' @ li_level info,
       ba_tag = plain_tag (li_level info) (li_color info), ba_description = li_description info,
       ba_button = button ''Block IP'' ''pi-ban'' ''danger''\<rparr>)"

definition threats_cards :: "numbers \<Rightarrow> monitor_state \<Rightarrow> metric list" where
  "threats_cards nu st =
     (let summary = map_option tm_summary (m_threatMetrics st) in
      [metric ''accent-primary'' (locale_or_dash nu (map_option ts_total_events summary)) ''Total Events'',
       metric ''status-critical'' (count_text (map_option ts_critical_events summary)) ''Critical'',
       metric ''status-danger'' (count_text (map_option ts_error_events summary)) ''Errors'',
       metric ''status-warning'' (count_text (map_option ts_warning_events summary)) ''Warnings'',
       metric ''accent-secondary'' (count_text (map_option ts_unique_attackers summary)) ''Unique Attackers''])"

section \<open>The signals\<close>

record signal_card =
  sg_class :: string
  sg_label :: string
  sg_tag :: tag
  sg_rationale :: string
  sg_spec :: string

definition signal_card_of :: "signal_row \<Rightarrow> signal_card" where
  "signal_card_of r =
     \<lparr>sg_class = (if sr_count r > 0
        then ''bg-[var(--color-status-danger)]/10 border-[var(--color-status-danger)]/30''
        else ''bg-[var(--color-surface-100)] border-[var(--color-border-subtle)]''),
      sg_label = sig_label (sr_signal r), sg_tag = signal_tag r,
      sg_rationale = sig_rationale (sr_signal r), sg_spec = sig_spec (sr_signal r)\<rparr>"

record signals_panel =
  sp_title :: string
  sp_tag :: tag
  sp_text :: string
  sp_cards :: "signal_card list"

definition signals_panel_of :: "monitor_state \<Rightarrow> signals_panel" where
  "signals_panel_of st =
     \<lparr>sp_title = ''OAuth 2.1 Protocol & Token-Integrity Monitoring'', sp_tag = signals_tag st,
      sp_text = ''High-value protocol-abuse and token-theft detections specific to OAuth 2.1 / OIDC. '' @
        ''Counts reflect failed-event activity in the selected period.'',
      sp_cards = map signal_card_of (oauth21Signals st)\<rparr>"

section \<open>The integrity of the audit log\<close>

text \<open>A card of the panel: the value, its label, a second line, and the class of a card of alarm.\<close>

record integrity_card =
  ic_value :: string
  ic_label :: string
  ic_note :: "string option"
  ic_alarm :: bool

definition integrity_cards ::
    "numbers \<Rightarrow> date_lib \<Rightarrow> engine \<Rightarrow> int \<Rightarrow> AuditIntegrity \<Rightarrow> js_error + integrity_card list" where
  "integrity_cards nu dl eng now a =
     ap (Inr (\<lambda>last.
       [\<lparr>ic_value = nu_string nu (ai_coverage_percent a) @ ''%'', ic_label = ''Stamp Coverage'',
         ic_note = Some (nu_locale nu (ai_stamped_events a) @ '' / '' @ nu_locale nu (ai_total_events a) @ '' events''),
         ic_alarm = False\<rparr>,
        \<lparr>ic_value = nu_locale nu (ai_chained_events a), ic_label = ''Chained Rows'', ic_note = None,
         ic_alarm = False\<rparr>,
        \<lparr>ic_value = string_of_int (ai_violations a), ic_label = ''Violations'', ic_note = None,
         ic_alarm = ai_violations a > 0\<rparr>,
        \<lparr>ic_value = last, ic_label = ''Last Violation'', ic_note = None, ic_alarm = False\<rparr>]))
       (case ai_last_violation_at a of
          Some t \<Rightarrow> (if t \<noteq> [] then formatTime dl eng now t else Inr ''None'')
        | None \<Rightarrow> Inr ''None'')"

record violation_row =
  vr_kind :: string
  vr_event :: string
  vr_when :: string

definition violation_row_of ::
    "date_lib \<Rightarrow> engine \<Rightarrow> int \<Rightarrow> AuditIntegrityViolation \<Rightarrow> js_error + violation_row" where
  "violation_row_of dl eng now v =
     ap (Inr (\<lambda>t. \<lparr>vr_kind = violation_label (aiv_kind v),
                    vr_event = ''event #'' @ string_of_int (aiv_event_id v), vr_when = t\<rparr>))
       (formatTime dl eng now (aiv_detected_at v))"

record integrity_panel =
  ip_title :: string
  ip_tag :: tag
  ip_text :: string
  ip_cards :: "integrity_card list option"
  ip_violations :: "violation_row list option"

text \<open>Without a result the panel says \<open>Integrity status unavailable.\<close>, also while it is loading.\<close>

definition integrity_panel_of ::
    "numbers \<Rightarrow> date_lib \<Rightarrow> engine \<Rightarrow> int \<Rightarrow> threats_view \<Rightarrow> js_error + integrity_panel" where
  "integrity_panel_of nu dl eng now v =
     (let panel = (\<lambda>cards rows.
            \<lparr>ip_title = ''Audit Log Integrity'',
             ip_tag = plain_tag (ii_label (integrityInfo v)) (ii_severity (integrityInfo v)),
             ip_text = ''Tamper-evidence of the security audit log '' @ em_dash @
               '' per-row HMAC stamping and hash-chain linkage, verified by the scheduled integrity scanner.'',
             ip_cards = cards, ip_violations = rows\<rparr>)
      in case tv_integrity v of
           None \<Rightarrow> Inr (panel None None)
         | Some a \<Rightarrow>
             ap (ap (Inr panel) (v_if True (integrity_cards nu dl eng now a)))
               (v_if (ai_recent_violations a \<noteq> [])
                  (map_throw (violation_row_of dl eng now) (ai_recent_violations a))))"

definition integrity_unavailable :: "integrity_panel \<Rightarrow> string option" where
  "integrity_unavailable p =
     (case ip_cards p of None \<Rightarrow> Some ''Integrity status unavailable.'' | Some _ \<Rightarrow> None)"

section \<open>Threats, addresses, accounts\<close>

record threat_item =
  ti_title :: string
  ti_tag :: tag
  ti_ips :: string
  ti_users :: "string option"
  ti_apps :: "string option"

definition threat_item_of :: "TopThreat \<Rightarrow> threat_item" where
  "threat_item_of t =
     \<lparr>ti_title = threat_title t, ti_tag = plain_tag (string_of_int (tt_count t) @ '' events'') ''danger'',
      ti_ips = string_of_int (tt_unique_ips t) @ '' IPs'', ti_users = some_count '' users'' (tt_affected_users t),
      ti_apps = some_count '' apps'' (tt_affected_apps t)\<rparr>"

definition top_threats :: "monitor_state \<Rightarrow> TopThreat list" where
  "top_threats st = (case m_threatMetrics st of Some t \<Rightarrow> tm_top_threats t | None \<Rightarrow> [])"

definition threats_panel :: "monitor_state \<Rightarrow> threat_item listing" where
  "threats_panel st = listing_of ''No significant threats detected'' (map threat_item_of (top_threats st))"

record address_item =
  ad_address :: string
  ad_text :: string
  ad_tags :: "tag list"
  ad_button :: button
  ad_tooltip :: string

definition address_item_of :: "date_lib \<Rightarrow> engine \<Rightarrow> int \<Rightarrow> SuspiciousIP \<Rightarrow> js_error + address_item" where
  "address_item_of dl eng now ip =
     ap (Inr (\<lambda>seen.
       \<lparr>ad_address = sip_ip_address ip,
        ad_text = string_of_int (sip_event_count ip) @ '' events '' @ bullet @ '' Last seen '' @ seen,
        ad_tags = map (\<lambda>type. plain_tag type ''secondary'') (take 2 (sip_event_types ip)),
        ad_button = button [] ''pi-ban'' ''danger'', ad_tooltip = ''Block IP''\<rparr>))
       (formatTime dl eng now (sip_last_seen ip))"

definition suspicious_ips :: "monitor_state \<Rightarrow> SuspiciousIP list" where
  "suspicious_ips st = (case m_threatMetrics st of Some t \<Rightarrow> tm_suspicious_ips t | None \<Rightarrow> [])"

definition addresses_panel ::
    "date_lib \<Rightarrow> engine \<Rightarrow> int \<Rightarrow> monitor_state \<Rightarrow> js_error + address_item listing" where
  "addresses_panel dl eng now st =
     ap (Inr (listing_of ''No suspicious IPs detected''))
       (map_throw (address_item_of dl eng now) (suspicious_ips st))"

text \<open>A click on an item looks at the address; the button of an item, whose click does not reach the item,
  opens the form for it.\<close>

datatype address_click = On_item | On_button

definition click_address ::
    "server \<Rightarrow> elevator \<Rightarrow> address_click \<Rightarrow> SuspiciousIP \<Rightarrow> threats_view screen \<Rightarrow> threats_view screen" where
  "click_address srv el where_clicked ip =
     (case where_clicked of
        On_item \<Rightarrow> viewIPDetails srv el ip
      | On_button \<Rightarrow> openBlockDialog (Some (sip_ip_address ip)))"

definition locked_accounts :: "monitor_state \<Rightarrow> LockedAccount list" where
  "locked_accounts st = (case m_threatMetrics st of Some t \<Rightarrow> tm_locked_accounts t | None \<Rightarrow> [])"

definition locked_row :: "date_lib \<Rightarrow> engine \<Rightarrow> LockedAccount \<Rightarrow> js_error + cell list" where
  "locked_row dl eng a =
     ap (ap (Inr (\<lambda>from til.
          [Cell_text (la_email a), Cell_tag (plain_tag (string_of_int (la_failed_attempts a)) ''danger''),
           Cell_text from, Cell_text til]))
         (dl_format dl (date_parse eng (la_locked_at a)) ''MMM d, HH:mm''))
       (dl_format dl (date_parse eng (la_locked_until a)) ''MMM d, HH:mm'')"

definition locked_table :: "date_lib \<Rightarrow> engine \<Rightarrow> monitor_state \<Rightarrow> js_error + data_table" where
  "locked_table dl eng st =
     ap (Inr (\<lambda>rows.
          \<lparr>dt_loading = loading ''threats'' st,
           dt_headers = [''User'', ''Failed Attempts'', ''Locked At'', ''Locked Until''],
           dt_rows = rows, dt_empty = [''No locked accounts'']\<rparr>))
       (map_throw (locked_row dl eng) (locked_accounts st))"

section \<open>The dialogs\<close>

record reputation_card =
  rc_address :: string
  rc_first_seen :: string
  rc_tag :: tag
  rc_score :: string
  rc_color :: string
  rc_stats :: "(string \<times> string) list"
  rc_events :: "(string \<times> string \<times> string option) list"

definition reputation_event ::
    "date_lib \<Rightarrow> engine \<Rightarrow> int \<Rightarrow> IPRecentEvent \<Rightarrow> js_error + string \<times> string \<times> string option" where
  "reputation_event dl eng now e =
     ap (Inr (\<lambda>t. (ire_event_type e, t,
          case ire_user_email e of Some m \<Rightarrow> if m \<noteq> [] then Some m else None | None \<Rightarrow> None)))
       (formatTime dl eng now (ire_created_at e))"

definition reputation_card_of ::
    "numbers \<Rightarrow> date_lib \<Rightarrow> engine \<Rightarrow> int \<Rightarrow> IPReputation \<Rightarrow> js_error + reputation_card" where
  "reputation_card_of nu dl eng now r =
     ap (ap (Inr (\<lambda>first events.
          \<lparr>rc_address = ipr_ip_address r, rc_first_seen = ''First seen '' @ first,
           rc_tag = (if ipr_is_blocked r then plain_tag ''BLOCKED'' ''danger'' else plain_tag ''ACTIVE'' ''warning''),
           rc_score = nu_string nu (ipr_risk_score r) @ ''/100'', rc_color = getRiskScoreColor (ipr_risk_score r),
           rc_stats =
             [(string_of_int (ipr_events_24h r), ''Events (24h)''),
              (string_of_int (ipr_events_7d r), ''Events (7d)''),
              (string_of_int (ipr_failed_logins_24h r), ''Failed Logins (24h)''),
              (string_of_int (ipr_unique_users_targeted r), ''Users Targeted'')],
           rc_events = events\<rparr>))
         (formatTime dl eng now (ipr_first_seen r)))
       (map_throw (reputation_event dl eng now) (ipr_recent_events r))"

text \<open>The dialog that is open: a skeleton, the card, or nothing, and the buttons below it.\<close>

datatype reputation_body = Body_skeleton | Body_card reputation_card | Body_blank

definition reputation_body_of ::
    "numbers \<Rightarrow> date_lib \<Rightarrow> engine \<Rightarrow> int \<Rightarrow> threats_view \<Rightarrow> js_error + reputation_body" where
  "reputation_body_of nu dl eng now v =
     (if tv_loadingReputation v then Inr Body_skeleton
      else (case tv_reputation v of
              Some r \<Rightarrow> ap (Inr Body_card) (reputation_card_of nu dl eng now r)
            | None \<Rightarrow> Inr Body_blank))"

definition reputation_buttons :: "threats_view \<Rightarrow> button list" where
  "reputation_buttons v =
     button ''Close'' [] ''secondary''
     # (case tv_reputation v of
          Some r \<Rightarrow> if ipr_is_blocked r then [] else [button ''Block IP'' ''pi-ban'' ''danger'']
        | None \<Rightarrow> [])"

definition block_fields :: "block_form \<Rightarrow> field list" where
  "block_fields f =
     [Field_text ''IP Address'' ''203.0.113.50'' (bf_ip_address f),
      Field_text ''Reason'' ''Reason for blocking...'' (bf_reason f),
      Field_flag ''Permanent block'' (bf_permanent f)]
     @ (if bf_permanent f then [] else [Field_number ''Duration (hours)'' (bf_duration_hours f) 1 8760])"

definition block_buttons :: "threats_view \<Rightarrow> button list" where
  "block_buttons v =
     [button ''Cancel'' [] ''secondary'',
      (button ''Block IP'' ''pi-ban'' ''danger'')\<lparr>bu_disabled := block_disabled v\<rparr>]"

section \<open>The page\<close>

record threats_page =
  tp_header :: threats_header
  tp_banner :: banner
  tp_cards :: "metric list"
  tp_signals :: signals_panel
  tp_integrity :: integrity_panel
  tp_threats :: "threat_item listing"
  tp_addresses :: "address_item listing"
  tp_locked :: data_table
  tp_reputation :: "reputation_body option"
  tp_block :: "field list option"

definition threats_page_of ::
    "numbers \<Rightarrow> date_lib \<Rightarrow> engine \<Rightarrow> int \<Rightarrow> monitor_state \<Rightarrow> threats_view \<Rightarrow> js_error + threats_page" where
  "threats_page_of nu dl eng now st v =
     ap (ap (ap (ap (Inr (\<lambda>integrity addresses locked reputation.
          \<lparr>tp_header = threats_header_of st v, tp_banner = threats_banner st, tp_cards = threats_cards nu st,
           tp_signals = signals_panel_of st, tp_integrity = integrity, tp_threats = threats_panel st,
           tp_addresses = addresses, tp_locked = locked, tp_reputation = reputation,
           tp_block = (if tv_showBlock v then Some (block_fields (tv_form v)) else None)\<rparr>))
       (integrity_panel_of nu dl eng now v))
       (addresses_panel dl eng now st))
       (locked_table dl eng st))
       (v_if (tv_showIP v) (reputation_body_of nu dl eng now v))"

text \<open>The dates that the page formats.\<close>

definition threats_dates :: "monitor_state \<Rightarrow> threats_view \<Rightarrow> string list" where
  "threats_dates st v =
     (case tv_integrity v of
        Some a \<Rightarrow> (case ai_last_violation_at a of Some t \<Rightarrow> if t \<noteq> [] then [t] else [] | None \<Rightarrow> [])
          @ map aiv_detected_at (ai_recent_violations a)
      | None \<Rightarrow> [])
     @ map sip_last_seen (suspicious_ips st)
     @ concat (map (\<lambda>a. [la_locked_at a, la_locked_until a]) (locked_accounts st))
     @ (if tv_showIP v \<and> \<not> tv_loadingReputation v
        then (case tv_reputation v of
                Some r \<Rightarrow> ipr_first_seen r # map ire_created_at (ipr_recent_events r)
              | None \<Rightarrow> [])
        else [])"

lemma renders_formatTime:
  assumes dl: "throws_on_invalid dl"
  shows "renders (formatTime dl eng now t) \<longleftrightarrow> date_parse eng t \<noteq> None"
  by (simp add: formatTime_def throws_on_invalidD [OF dl])

lemma renders_integrity:
  assumes dl: "throws_on_invalid dl"
  shows "renders (integrity_panel_of nu dl eng now v) \<longleftrightarrow>
     (case tv_integrity v of
        Some a \<Rightarrow> all_valid eng ((case ai_last_violation_at a of Some t \<Rightarrow> if t \<noteq> [] then [t] else [] | None \<Rightarrow> [])
          @ map aiv_detected_at (ai_recent_violations a))
      | None \<Rightarrow> True)"
  by (auto simp: integrity_panel_of_def integrity_cards_def violation_row_of_def render_simps
      renders_formatTime [OF dl] all_valid_def Let_def split: option.splits)

lemma renders_addresses:
  assumes dl: "throws_on_invalid dl"
  shows "renders (addresses_panel dl eng now st) \<longleftrightarrow> all_valid eng (map sip_last_seen (suspicious_ips st))"
  by (simp add: addresses_panel_def address_item_of_def render_simps renders_formatTime [OF dl] all_valid_def)

lemma renders_locked:
  assumes dl: "throws_on_invalid dl"
  shows "renders (locked_table dl eng st) \<longleftrightarrow>
     all_valid eng (concat (map (\<lambda>a. [la_locked_at a, la_locked_until a]) (locked_accounts st)))"
  by (auto simp: locked_table_def locked_row_def render_simps throws_on_invalidD [OF dl] all_valid_def)

lemma renders_reputation:
  assumes dl: "throws_on_invalid dl"
  shows "renders (reputation_body_of nu dl eng now v) \<longleftrightarrow>
     (tv_loadingReputation v \<or> (case tv_reputation v of
        Some r \<Rightarrow> all_valid eng (ipr_first_seen r # map ire_created_at (ipr_recent_events r)) | None \<Rightarrow> True))"
  by (auto simp: reputation_body_of_def reputation_card_of_def reputation_event_def render_simps
      renders_formatTime [OF dl] all_valid_def split: option.splits)

text \<open>Also: the threats page is rendered exactly when every date that it formats is valid: one entry with a
  bad date anywhere on it, and no page is shown at all.\<close>

theorem threats_page_needs_valid_dates:
  assumes dl: "throws_on_invalid dl"
  shows "renders (threats_page_of nu dl eng now st v) \<longleftrightarrow> all_valid eng (threats_dates st v)"
  by (simp add: threats_page_of_def render_simps renders_integrity [OF dl] renders_addresses [OF dl]
      renders_locked [OF dl] renders_reputation [OF dl] threats_dates_def split: option.split)

definition locked_out :: "string \<Rightarrow> monitor_state" where
  "locked_out t = monitor_init\<lparr>m_threatMetrics := Some
     \<lparr>tm_time_range = ''24h'',
      tm_summary = \<lparr>ts_total_events = 1, ts_critical_events = 0, ts_error_events = 0,
        ts_warning_events = 0, ts_unique_attackers = 0\<rparr>,
      tm_top_threats = [], tm_suspicious_ips = [],
      tm_locked_accounts = [\<lparr>la_user_id = 1, la_email = ''a@example.org'', la_locked_at = ''2024-01-15T10:30:00Z'',
        la_locked_until = t, la_failed_attempts = 5\<rparr>]\<rparr>\<rparr>"

theorem threats_page_needs_valid_dates_witness:
  "renders (threats_page_of plain_numbers plain_dates plain_engine 0 (locked_out ''2024-01-15T10:30:00Z'') threats_init)
    \<and> \<not> renders (threats_page_of plain_numbers plain_dates plain_engine 0 (locked_out ''soon'') threats_init)"
  unfolding threats_page_needs_valid_dates [OF plain_dates_ok]
  by (simp add: threats_dates_def locked_out_def threats_init_def suspicious_ips_def locked_accounts_def
      date_parse_samples)

section \<open>What the page shows\<close>

text \<open>Every table row has a cell for each column, and the panels have one item for each entry.\<close>

lemma locked_table_fits: "locked_table dl eng st = Inr t \<Longrightarrow> table_fits t"
  by (auto simp: locked_table_def table_fits_def ap_Inr locked_row_def dest!: map_throw_origin)

lemma threats_panel_items:
  "threats_panel st = Items xs \<Longrightarrow> length xs = length (top_threats st)"
  by (auto simp: threats_panel_def listing_of_def split: if_splits)

lemma two_tags_at_most:
  "address_item_of dl eng now ip = Inr x \<Longrightarrow> length (ad_tags x) \<le> 2"
  by (auto simp: address_item_of_def ap_Inr)

text \<open>Also: the integrity is announced as unavailable while it is still being loaded, although the tag
  beside it says that it is loading.\<close>

lemma loading_says_unavailable:
  assumes "tv_integrity v = None" "integrity_panel_of nu dl eng now v = Inr p"
  shows "integrity_unavailable p = Some ''Integrity status unavailable.'' \<and> tag_value (ip_tag p) = ''Loading'' @ ellipsis"
  using assms
  by (auto simp: integrity_panel_of_def Let_def integrity_unavailable_def plain_tag_def integrityInfo_def)

end
