(* ===== verification/Tokens_Page.thy ===== *)
theory Tokens_Page
  imports Tokens_View Render
begin

text \<open>
  What the template of \<open>src/src/views/TokensView.vue\<close> puts on the page: the cards, the panels of the
  three charts, the table of the applications and the section of suspicious uses.
\<close>

section \<open>Cards\<close>

definition tokens_cards :: "numbers \<Rightarrow> monitor_state \<Rightarrow> loaded_metric list" where
  "tokens_cards nu st =
     [loaded_metric (m_tokenStats st) ''accent-primary'' (\<lambda>_. nu_locale nu (totalIssued st)) ''Tokens Issued'',
      loaded_metric (m_tokenStats st) ''accent-secondary'' (\<lambda>t. nu_locale nu (tst_refreshed t)) ''Refreshed'',
      loaded_metric (m_tokenStats st) ''status-warning'' (\<lambda>t. string_of_int (tst_revoked t)) ''Revoked'',
      loaded_metric (m_tokenStats st) ''status-danger'' (\<lambda>t. string_of_int (tst_expired_usage_attempts t)) ''Expired Usage'',
      loaded_metric (m_tokenStats st) ''status-critical'' (\<lambda>t. string_of_int (tst_invalid_usage_attempts t)) ''Invalid Usage'']"

section \<open>Panels\<close>

definition types_panel_of :: "chart_colors \<Rightarrow> monitor_state \<Rightarrow> string \<times> chart_panel" where
  "types_panel_of cc st =
     (''Token Types Distribution'',
      case types_panel st of
        Panel_chart \<Rightarrow> Shows_chart (tokenTypesChart st) (tokenTypesOptions cc)
      | Panel_empty \<Rightarrow> Shows_text [''No tokens issued in this period'']
      | Panel_skeleton \<Rightarrow> Shows_skeleton)"

definition activity_panel_of ::
    "date_lib \<Rightarrow> engine \<Rightarrow> chart_colors \<Rightarrow> monitor_state \<Rightarrow> js_error + string \<times> chart_panel" where
  "activity_panel_of dl eng cc st =
     (case activity_panel st of
        Panel_chart \<Rightarrow>
          ap (Inr (\<lambda>c. (''Token Activity Over Time'', Shows_chart c (tokenActivityOptions cc))))
            (tokenActivityChart dl eng st)
      | Panel_empty \<Rightarrow>
          Inr (''Token Activity Over Time'',
            Shows_text [''No hourly data available'', ''Token activity will appear here over time''])
      | Panel_skeleton \<Rightarrow> Inr (''Token Activity Over Time'', Shows_skeleton))"

definition app_panel_of :: "chart_colors \<Rightarrow> monitor_state \<Rightarrow> string \<times> chart_panel" where
  "app_panel_of cc st =
     (''Token Activity by Application'',
      if app_panel st = Panel_chart then Shows_chart (byAppChart st) (byAppOptions cc)
      else Shows_text [''No application data available''])"

definition app_row :: "numbers \<Rightarrow> TokensByApp \<Rightarrow> cell list" where
  "app_row nu a =
     [Cell_text (tba_app_name a),
      Cell_tag (plain_tag (nu_locale nu (tba_issued a)) ''info''),
      Cell_tag (plain_tag (nu_locale nu (tba_refreshed a)) ''secondary''),
      Cell_tag (plain_tag (nu_locale nu (tba_revoked a)) (if tba_revoked a > 0 then ''warning'' else ''secondary''))]"

definition app_table :: "numbers \<Rightarrow> monitor_state \<Rightarrow> data_table" where
  "app_table nu st =
     \<lparr>dt_loading = loading ''tokenStats'' st,
      dt_headers = [''Application'', ''Issued'', ''Refreshed'', ''Revoked''],
      dt_rows = map (app_row nu) (by_app st), dt_empty = [''No application data available'']\<rparr>"

section \<open>The page\<close>

record tokens_page =
  tkp_title :: "string \<times> string"
  tkp_period :: field
  tkp_refresh :: button
  tkp_cards :: "loaded_metric list"
  tkp_types :: "string \<times> chart_panel"
  tkp_activity :: "string \<times> chart_panel"
  tkp_apps :: "string \<times> chart_panel"
  tkp_table :: data_table
  tkp_alerts :: "(string \<times> string list) option"

definition tokens_page_of ::
    "numbers \<Rightarrow> date_lib \<Rightarrow> engine \<Rightarrow> chart_colors \<Rightarrow> monitor_state \<Rightarrow> tokens_view \<Rightarrow> js_error + tokens_page" where
  "tokens_page_of nu dl eng cc st v =
     ap (Inr (\<lambda>activity.
          \<lparr>tkp_title = (''Token Analytics'', ''OAuth2 token usage and statistics''),
           tkp_period = select_field tokens_periodOptions (tk_period v),
           tkp_refresh = refresh_button ''tokenStats'' st,
           tkp_cards = tokens_cards nu st, tkp_types = types_panel_of cc st, tkp_activity = activity,
           tkp_apps = app_panel_of cc st, tkp_table = app_table nu st, tkp_alerts = alerts_section st\<rparr>))
       (activity_panel_of dl eng cc st)"

section \<open>What holds of the page\<close>

lemma by_hour_panel: "activity_panel st = Panel_chart \<longleftrightarrow> by_hour st \<noteq> []"
  by (auto simp: activity_panel_def hasHourlyData_def by_hour_def split: option.splits)

lemma app_table_fits: "table_fits (app_table nu st)"
  by (auto simp: table_fits_def app_table_def app_row_def)

text \<open>Also: the token page is rendered exactly when the hours of its activity are valid dates.\<close>

theorem tokens_page_needs_valid_hours:
  assumes dl: "throws_on_invalid dl"
  shows "renders (tokens_page_of nu dl eng cc st v) \<longleftrightarrow> all_valid eng (map tbh_hour (by_hour st))"
proof -
  have "renders (tokenActivityChart dl eng st) \<longleftrightarrow> all_valid eng (map tbh_hour (by_hour st))"
    by (simp add: tokenActivityChart_def render_simps throws_on_invalidD [OF dl] all_valid_map)
  then show ?thesis
    using by_hour_panel [of st]
    by (auto simp: tokens_page_of_def activity_panel_of_def render_simps split: panel.split)
qed

text \<open>While nothing has been loaded every card is a skeleton, the first two panels too, and the others say
  that there is nothing.\<close>

lemma unloaded_tokens:
  assumes "m_tokenStats st = None"
  shows "\<forall>c \<in> set (tokens_cards nu st). lm_value c = None"
    and "snd (types_panel_of cc st) = Shows_skeleton" "activity_panel_of dl eng cc st = Inr (''Token Activity Over Time'', Shows_skeleton)"
    and "dt_rows (app_table nu st) = []"
  using assms
  by (simp_all add: tokens_cards_def loaded_metric_def types_panel_of_def types_panel_def hasTokenTypeData_def
      activity_panel_of_def activity_panel_def hasHourlyData_def app_table_def by_app_def)

theorem tokens_page_needs_valid_hours_witness:
  "renders (tokens_page_of plain_numbers plain_dates plain_engine cc monitor_init tokens_init)"
  unfolding tokens_page_needs_valid_hours [OF plain_dates_ok] by (simp add: by_hour_def monitor_init_def)

end
