(* ===== verification/Geo_Page.thy ===== *)
theory Geo_Page
  imports Geo_View Render
begin

text \<open>
  What the template of \<open>src/src/views/GeoView.vue\<close> puts on the page: the banner, the cards, the two
  charts, the anomalies and the tables of the countries and the cities.  This page catches what the date
  library throws, so it is always rendered.
\<close>

section \<open>Header, banner, cards\<close>

definition geo_banner_text :: "monitor_state \<Rightarrow> (string \<times> string) option" where
  "geo_banner_text st =
     (if geo_banner st
      then Some (''GeoIP database not configured.'',
        ''Geographic data is limited. Configure MaxMind GeoLite2 for full location intelligence.'')
      else None)"

text \<open>The last card is coloured when there are anomalies.\<close>

record geo_cards =
  gk_cards :: "loaded_metric list"
  gk_warns :: bool

definition geo_cards_of :: "numbers \<Rightarrow> monitor_state \<Rightarrow> geo_cards" where
  "geo_cards_of nu st =
     (let geo = m_geoAnalytics st in
      \<lparr>gk_cards =
        [loaded_metric geo ''accent-primary'' (\<lambda>_. nu_locale nu (totalLogins st)) ''Total Logins'',
         loaded_metric geo ''status-danger'' (\<lambda>_. nu_locale nu (totalFailed st)) ''Failed Logins'',
         loaded_metric geo ''accent-secondary'' (\<lambda>_. string_of_int (int (uniqueCountries st))) ''Countries'',
         loaded_metric geo ''accent-tertiary'' (\<lambda>_. string_of_int (int (uniqueCities st))) ''Cities'',
         loaded_metric geo ''status-warning'' (\<lambda>_. string_of_int (int (anomalyCount st))) ''Anomalies''],
       gk_warns = anomalyCount st > 0\<rparr>)"

section \<open>Charts\<close>

definition pie_panel_of :: "chart_colors \<Rightarrow> monitor_state \<Rightarrow> string \<times> chart_panel" where
  "pie_panel_of cc st =
     (''Login Distribution by Country'',
      case country_panel st of
        Geo_chart \<Rightarrow> Shows_chart (countryPieChart st) (pieChartOptions cc)
      | Geo_empty \<Rightarrow> Shows_text [''No geographic data available'']
      | Geo_skeleton \<Rightarrow> Shows_skeleton)"

definition bar_panel_of :: "chart_colors \<Rightarrow> monitor_state \<Rightarrow> string \<times> chart_panel" where
  "bar_panel_of cc st =
     (''Top Countries by Login Activity'',
      case country_panel st of
        Geo_chart \<Rightarrow> Shows_chart (countryChart st) (countryChartOptions cc)
      | Geo_empty \<Rightarrow> Shows_text [''No country data available'']
      | Geo_skeleton \<Rightarrow> Shows_skeleton)"

section \<open>Anomalies\<close>

record anomaly_card =
  an_border :: string
  an_icon :: "string option"
  an_user :: string
  an_when :: string
  an_description :: string
  an_usual :: string
  an_current :: string

definition anomaly_card_of :: "date_lib \<Rightarrow> engine \<Rightarrow> int \<Rightarrow> GeoAnomaly \<Rightarrow> anomaly_card" where
  "anomaly_card_of dl eng now a =
     \<lparr>an_border = anomaly_border a,
      an_icon =
        (if getAnomalySeverity a = ''danger'' then Some ''text-[var(--color-status-danger)]''
         else if getAnomalySeverity a = ''warn'' then Some ''text-[var(--color-status-warning)]''
         else None),
      an_user = gan_user_email a, an_when = geo_formatTime dl eng now (gan_created_at a),
      an_description = gan_description a, an_usual = ''Usual: '' @ gan_usual_country a,
      an_current = ''Current: '' @ gan_login_country a\<rparr>"

definition geo_anomalies_of :: "monitor_state \<Rightarrow> GeoAnomaly list" where
  "geo_anomalies_of st = (case m_geoAnalytics st of Some g \<Rightarrow> geo_anomalies g | None \<Rightarrow> [])"

definition anomalies_panel ::
    "date_lib \<Rightarrow> engine \<Rightarrow> int \<Rightarrow> monitor_state \<Rightarrow> (tag \<times> anomaly_card list) option" where
  "anomalies_panel dl eng now st =
     (if hasAnomalies st
      then Some (plain_tag (string_of_int (int (anomalyCount st))) ''warn'',
                 map (anomaly_card_of dl eng now) (geo_anomalies_of st))
      else None)"

section \<open>Tables\<close>

definition country_row :: "numbers \<Rightarrow> (rat \<Rightarrow> rat) \<Rightarrow> GeoCountry \<Rightarrow> cell list" where
  "country_row nu fl c =
     [Cell_list [Cell_chars (countryFlag (gco_country_code c)), Cell_text (gco_country_name c),
                 Cell_text (gco_country_code c)],
      Cell_text (nu_locale nu (gco_login_count c)),
      Cell_text (string_of_int (gco_unique_users c)),
      Cell_list (Cell_text (string_of_int (gco_failed_count c))
        # (case rate_tag fl c of Some t \<Rightarrow> [Cell_tag t] | None \<Rightarrow> []))]"

definition country_table :: "numbers \<Rightarrow> (rat \<Rightarrow> rat) \<Rightarrow> monitor_state \<Rightarrow> data_table" where
  "country_table nu fl st =
     \<lparr>dt_loading = loading ''geo'' st, dt_headers = [''Country'', ''Logins'', ''Users'', ''Failed''],
      dt_rows = map (country_row nu fl) (by_country st), dt_empty = [''No country data available'']\<rparr>"

definition by_city :: "monitor_state \<Rightarrow> GeoCity list" where
  "by_city st = (case m_geoAnalytics st of Some g \<Rightarrow> geo_by_city g | None \<Rightarrow> [])"

text \<open>\<open>x.toFixed(2)\<close>: the nearest hundredth, the larger of two.\<close>

definition hundredths :: "rat \<Rightarrow> int" where
  "hundredths x = \<lfloor>x * 100 + 1 / 2\<rfloor>"

definition toFixed2 :: "rat \<Rightarrow> string" where
  "toFixed2 x =
     (let digits = (\<lambda>n. string_of_int (n div 100) @ ''.'' @ string_of_int (n div 10 mod 10) @ string_of_int (n mod 10))
      in if x < 0 then CHR ''-'' # digits (hundredths (- x)) else digits (hundredths x))"

definition degree :: string where
  "degree = [CHR 0xC2, CHR 0xB0]"

definition city_row :: "numbers \<Rightarrow> GeoCity \<Rightarrow> cell list" where
  "city_row nu c =
     [Cell_list [Cell_chars (countryFlag (gci_country_code c)), Cell_text (gci_city c),
        Cell_text (toFixed2 (gci_latitude c) @ degree @ '', '' @ toFixed2 (gci_longitude c) @ degree)],
      Cell_text (nu_locale nu (gci_login_count c)),
      Cell_text (string_of_int (gci_failed_count c))]"

definition city_table :: "numbers \<Rightarrow> monitor_state \<Rightarrow> data_table" where
  "city_table nu st =
     \<lparr>dt_loading = loading ''geo'' st, dt_headers = [''City'', ''Logins'', ''Failed''],
      dt_rows = map (city_row nu) (by_city st), dt_empty = [''No city data available'']\<rparr>"

section \<open>The page\<close>

record geo_page =
  gp_title :: "string \<times> string"
  gp_period :: field
  gp_refresh :: button
  gp_banner :: "(string \<times> string) option"
  gp_cards :: geo_cards
  gp_pie :: "string \<times> chart_panel"
  gp_bars :: "string \<times> chart_panel"
  gp_anomalies :: "(tag \<times> anomaly_card list) option"
  gp_countries :: data_table
  gp_cities :: data_table

definition geo_page_of ::
    "numbers \<Rightarrow> (rat \<Rightarrow> rat) \<Rightarrow> date_lib \<Rightarrow> engine \<Rightarrow> int \<Rightarrow> chart_colors \<Rightarrow> monitor_state \<Rightarrow> geo_view \<Rightarrow> geo_page" where
  "geo_page_of nu fl dl eng now cc st v =
     \<lparr>gp_title = (''Geographic Analytics'', ''Global authentication activity and anomaly detection''),
      gp_period = select_field geo_periodOptions (gv_period v),
      gp_refresh = (button [] ''pi-refresh'' [])\<lparr>bu_loading := loading ''geo'' st\<rparr>,
      gp_banner = geo_banner_text st, gp_cards = geo_cards_of nu st, gp_pie = pie_panel_of cc st,
      gp_bars = bar_panel_of cc st, gp_anomalies = anomalies_panel dl eng now st,
      gp_countries = country_table nu fl st, gp_cities = city_table nu st\<rparr>"

section \<open>What holds of the page\<close>

lemma geo_tables_fit: "table_fits (country_table nu fl st)" "table_fits (city_table nu st)"
  by (auto simp: table_fits_def country_table_def country_row_def city_table_def city_row_def)

text \<open>Also: the numbers of the cards are those of the tables and the panel: one row for each country and
  city, one card for each anomaly, and a panel of anomalies exactly when their card is coloured.\<close>

theorem geo_page_adds_up:
  "length (dt_rows (gp_countries (geo_page_of nu fl dl eng now cc st v))) = uniqueCountries st
    \<and> length (dt_rows (gp_cities (geo_page_of nu fl dl eng now cc st v))) = uniqueCities st
    \<and> (case gp_anomalies (geo_page_of nu fl dl eng now cc st v) of
         Some (t, cards) \<Rightarrow> length cards = anomalyCount st \<and> gk_warns (geo_cards_of nu st)
       | None \<Rightarrow> anomalyCount st = 0 \<and> \<not> gk_warns (geo_cards_of nu st))"
  by (auto simp: geo_page_of_def country_table_def city_table_def by_country_def by_city_def uniqueCountries_def
      uniqueCities_def anomalies_panel_def hasAnomalies_def anomalyCount_def geo_anomalies_of_def geo_cards_of_def Let_def
      split: option.split)

text \<open>A bad date is shown as it is.\<close>

lemma geo_bad_date_shown:
  assumes "throws_on_invalid dl" "date_parse eng (gan_created_at a) = None"
  shows "an_when (anomaly_card_of dl eng now a) = gan_created_at a"
proof -
  have "\<not> renders (dl_distance dl None now)" using assms(1) by (simp add: throws_on_invalidD)
  then obtain e where "dl_distance dl None now = Inl e" by (cases "dl_distance dl None now") auto
  then show ?thesis by (simp add: anomaly_card_of_def geo_formatTime_def assms(2))
qed

end
