(* ===== verification/Sessions_Page.thy ===== *)
theory Sessions_Page
  imports Sessions_View Render
begin

text \<open>
  What the template of \<open>src/src/views/SessionsView.vue\<close> puts on the page: the cards, the table of the
  sessions with its buttons and paginator, and the dialog of the details.
\<close>

section \<open>Header and cards\<close>

record sessions_header =
  sh_title :: "string \<times> string"
  sh_revoke :: "button option"
  sh_refresh :: button

definition sessions_header_of :: "monitor_state \<Rightarrow> sessions_view \<Rightarrow> sessions_header" where
  "sessions_header_of st v =
     \<lparr>sh_title = (''Active Sessions'', 
        ''Sessions inferred from recent activity. Revoking signs the user out of every app.''),
      sh_revoke = map_option (\<lambda>label. button label ''pi-ban'' ''danger'') (revoke_button v),
      sh_refresh = refresh_button ''sessions'' st\<rparr>"

definition sessions_cards :: "engine \<Rightarrow> int \<Rightarrow> monitor_state \<Rightarrow> metric list" where
  "sessions_cards eng now st =
     [metric ''accent-primary'' (string_of_int (m_sessionsTotal st)) ''Total Sessions'',
      metric ''status-secure'' (string_of_int (int (active_count eng now st))) ''Active'',
      metric ''status-warning'' (string_of_int (int (expiring_count eng now st))) ''Expiring Soon'']"

section \<open>The table\<close>

definition session_row :: "date_lib \<Rightarrow> engine \<Rightarrow> int \<Rightarrow> Session \<Rightarrow> js_error + cell list" where
  "session_row dl eng now x =
     ap (Inr (\<lambda>active.
          [Cell_list [],
           Cell_list [Cell_text (ses_user_email x), Cell_text (''ID: '' @ string_of_int (ses_user_id x))],
           Cell_tag (plain_tag (ses_app_name x) ''info''),
           Cell_text (ses_ip_address x),
           Cell_list [Cell_text (device_icon (ses_user_agent x)),
                      Cell_text (ua_browser (parseUserAgent (ses_user_agent x)))],
           Cell_text active,
           Cell_tag (session_tag eng now x),
           Cell_list [Cell_button (button [] ''pi-eye'' ''secondary''),
                      Cell_button (button [] ''pi-ban'' ''danger'')]]))
       (sessions_formatRelative dl eng now (ses_last_activity x))"

text \<open>The first column holds the boxes of the selection.\<close>

definition sessions_table :: "date_lib \<Rightarrow> engine \<Rightarrow> int \<Rightarrow> monitor_state \<Rightarrow> js_error + data_table" where
  "sessions_table dl eng now st =
     ap (Inr (\<lambda>rows.
          \<lparr>dt_loading = loading ''sessions'' st,
           dt_headers = [[], ''User'', ''Application'', ''IP Address'', ''Device'', ''Last Activity'', ''Status'',
             ''Actions''],
           dt_rows = rows, dt_empty = []\<rparr>))
       (map_throw (session_row dl eng now) (m_sessions st))"

datatype row_button = Eye | Ban

definition click_session :: "row_button \<Rightarrow> Session \<Rightarrow> sessions_view screen \<Rightarrow> sessions_view screen" where
  "click_session b x = (case b of Eye \<Rightarrow> sessions_showDetails x | Ban \<Rightarrow> confirmRevoke x)"

definition sessions_paginator :: "monitor_state \<Rightarrow> sessions_view \<Rightarrow> paginator" where
  "sessions_paginator st v =
     \<lparr>pn_rows = sn_pageSize v, pn_total = m_sessionsTotal st, pn_options = [10, 20, 50]\<rparr>"

section \<open>The details\<close>

record session_details =
  sd_user :: string
  sd_user_id :: string
  sd_grid :: "(string \<times> cell) list"
  sd_user_agent :: "string option"

definition session_details_of :: "date_lib \<Rightarrow> engine \<Rightarrow> int \<Rightarrow> Session \<Rightarrow> js_error + session_details" where
  "session_details_of dl eng now x =
     ap (ap (ap (Inr (\<lambda>created active expires.
          \<lparr>sd_user = ses_user_email x, sd_user_id = ''User ID: '' @ string_of_int (ses_user_id x),
           sd_grid =
             [(''Session ID'', Cell_text (ses_id x)),
              (''Application'', Cell_tag (plain_tag (ses_app_name x) ''info'')),
              (''IP Address'', Cell_text (ses_ip_address x)),
              (''Device'', Cell_text (ua_browser (parseUserAgent (ses_user_agent x)) @ '' / ''
                 @ ua_os (parseUserAgent (ses_user_agent x)))),
              (''Created'', Cell_text created),
              (''Last Activity'', Cell_text active),
              (''Expires'', Cell_list (Cell_text expires
                 # (case details_tag eng now x of Some t \<Rightarrow> [Cell_tag t] | None \<Rightarrow> [])))],
           sd_user_agent =
             (case ses_user_agent x of Some ua \<Rightarrow> if ua \<noteq> [] then Some ua else None | None \<Rightarrow> None)\<rparr>))
       (sessions_formatDate dl eng (ses_created_at x)))
       (sessions_formatRelative dl eng now (ses_last_activity x)))
       (sessions_formatDate dl eng (ses_expires_at x))"

definition details_buttons :: "button list" where
  "details_buttons =
     [button ''Close'' [] ''secondary'', button ''Revoke User Tokens'' ''pi-ban'' ''danger'']"

section \<open>The page\<close>

record sessions_page =
  snp_header :: sessions_header
  snp_cards :: "metric list"
  snp_table :: data_table
  snp_paginator :: paginator
  snp_details :: "session_details option option"

definition sessions_page_of ::
    "date_lib \<Rightarrow> engine \<Rightarrow> int \<Rightarrow> monitor_state \<Rightarrow> sessions_view \<Rightarrow> js_error + sessions_page" where
  "sessions_page_of dl eng now st v =
     ap (ap (Inr (\<lambda>table details.
          \<lparr>snp_header = sessions_header_of st v, snp_cards = sessions_cards eng now st, snp_table = table,
           snp_paginator = sessions_paginator st v, snp_details = details\<rparr>))
       (sessions_table dl eng now st))
       (v_if (sn_showDetails v)
          (case sn_session v of
             Some x \<Rightarrow> ap (Inr Some) (session_details_of dl eng now x)
           | None \<Rightarrow> Inr None))"

section \<open>What holds of the page\<close>

lemma sessions_table_fits: "sessions_table dl eng now st = Inr t \<Longrightarrow> table_fits t"
  by (auto simp: sessions_table_def table_fits_def ap_Inr session_row_def dest!: map_throw_origin)

definition sessions_dates :: "monitor_state \<Rightarrow> sessions_view \<Rightarrow> string list" where
  "sessions_dates st v =
     map ses_last_activity (m_sessions st)
     @ (if sn_showDetails v
        then (case sn_session v of
                Some x \<Rightarrow> [ses_created_at x, ses_last_activity x, ses_expires_at x]
              | None \<Rightarrow> [])
        else [])"

text \<open>Also: the page of the sessions is rendered exactly when the dates it formats are valid; a bad date of
  expiry alone does not take it away, the session is then shown as active.\<close>

theorem sessions_page_needs_valid_dates:
  assumes dl: "throws_on_invalid dl"
  shows "renders (sessions_page_of dl eng now st v) \<longleftrightarrow> all_valid eng (sessions_dates st v)"
  by (auto simp: sessions_page_of_def sessions_table_def session_row_def session_details_of_def sessions_dates_def
      sessions_formatRelative_def sessions_formatDate_def render_simps throws_on_invalidD [OF dl]
      all_valid_map split: option.split)

theorem sessions_page_needs_valid_dates_witness:
  "renders (sessions_page_of plain_dates plain_engine 0 monitor_init sessions_init)"
  unfolding sessions_page_needs_valid_dates [OF plain_dates_ok]
  by (simp add: sessions_dates_def sessions_init_def monitor_init_def)

lemma bad_expiry_is_active:
  "date_parse eng (ses_expires_at x) = None \<Longrightarrow> tag_value (session_tag eng now x) = ''Active''"
  by (simp add: session_tag_def isExpired_def isExpiringSoon_def)

end
