(* ===== verification/Blocked_Page.thy ===== *)
theory Blocked_Page
  imports Blocked_View Render
begin

text \<open>
  What the template of \<open>src/src/views/BlockedIPsView.vue\<close> puts on the page: the cards, the table of the
  blocked addresses with its buttons, the form that blocks one and the dialog of a reputation.
\<close>

section \<open>Header and cards\<close>

record blocked_header =
  bh_title :: "string \<times> string"
  bh_buttons :: "button list"

definition blocked_header_of :: "monitor_state \<Rightarrow> blocked_header" where
  "blocked_header_of st =
     \<lparr>bh_title = (''Blocked IPs'', ''Manage IP address blocking and reputation''),
      bh_buttons = [refresh_button ''blockedIPs'' st, button ''Block IP'' ''pi-plus'' []]\<rparr>"

definition blocked_metrics :: "monitor_state \<Rightarrow> metric list" where
  "blocked_metrics st =
     (case blocked_cards st of
        (n, permanent, temporary) \<Rightarrow>
          [metric ''#ef4444'' (string_of_int (int n)) ''Total Blocked'',
           metric ''#8b5cf6'' (string_of_int (int permanent)) ''Permanent Blocks'',
           metric ''#f59e0b'' (string_of_int (int temporary)) ''Temporary Blocks''])"

section \<open>The table\<close>

text \<open>The cell of the expiry: \<open>Never\<close>, a dash, or the date over a note.\<close>

definition expires_cell :: "date_lib \<Rightarrow> engine \<Rightarrow> int \<Rightarrow> BlockedIP \<Rightarrow> js_error + cell" where
  "expires_cell dl eng now ip =
     (case expiry_cell dl eng now ip of
        Inl e \<Rightarrow> Inl e
      | Inr Never \<Rightarrow> Inr (Cell_text ''Never'')
      | Inr No_expiry \<Rightarrow> Inr (Cell_text ''-'')
      | Inr (Expires date note) \<Rightarrow> ap (Inr (\<lambda>n. Cell_list [Cell_text date, Cell_text n])) note)"

definition blocked_row :: "date_lib \<Rightarrow> engine \<Rightarrow> int \<Rightarrow> BlockedIP \<Rightarrow> js_error + cell list" where
  "blocked_row dl eng now ip =
     ap (ap (ap (Inr (\<lambda>date ago expires.
          [Cell_button (button (bip_ip_address ip) [] []),
           Cell_text (if bip_reason ip \<noteq> [] then bip_reason ip else ''-''),
           Cell_tag (block_type_tag ip),
           Cell_list [Cell_text date, Cell_text ago],
           expires,
           Cell_text (blocked_by ip),
           Cell_list [Cell_button (button [] ''pi-eye'' ''secondary''),
                      Cell_button (button [] ''pi-unlock'' ''success'')]]))
       (blocked_formatDate dl eng (bip_blocked_at ip)))
       (blocked_formatRelative dl eng now (bip_blocked_at ip)))
       (expires_cell dl eng now ip)"

definition blocked_table :: "date_lib \<Rightarrow> engine \<Rightarrow> int \<Rightarrow> monitor_state \<Rightarrow> js_error + data_table" where
  "blocked_table dl eng now st =
     ap (Inr (\<lambda>rows.
          \<lparr>dt_loading = loading ''blockedIPs'' st,
           dt_headers = [''IP Address'', ''Reason'', ''Type'', ''Blocked At'', ''Expires'', ''Blocked By'', ''Actions''],
           dt_rows = rows, dt_empty = [''No blocked IPs'']\<rparr>))
       (map_throw (blocked_row dl eng now) (m_blockedIPs st))"

datatype blocked_button = Address_button | Eye_button | Unlock_button

definition click_blocked ::
    "server \<Rightarrow> elevator \<Rightarrow> blocked_button \<Rightarrow> BlockedIP \<Rightarrow> blocked_view screen \<Rightarrow> blocked_view screen" where
  "click_blocked srv el b ip =
     (case b of
        Address_button \<Rightarrow> viewReputation srv el (bip_ip_address ip)
      | Eye_button \<Rightarrow> viewReputation srv el (bip_ip_address ip)
      | Unlock_button \<Rightarrow> on_view (blocked_unblockIP ip))"

section \<open>The form\<close>

definition blocked_form_fields :: "block_form \<Rightarrow> field list" where
  "blocked_form_fields f =
     [Field_text ''IP Address *'' ''192.168.1.100'' (bf_ip_address f),
      Field_text ''Reason'' ''Reason for blocking...'' (bf_reason f),
      Field_flag ''Permanent block'' (bf_permanent f)]
     @ (if bf_permanent f then [] else [Field_number ''Duration (hours)'' (bf_duration_hours f) 1 8760])"

definition blocked_form_warning :: "block_form \<Rightarrow> string option" where
  "blocked_form_warning f =
     (if bf_permanent f then Some ''Permanent blocks must be manually removed.'' else None)"

definition blocked_form_buttons :: "blocked_view \<Rightarrow> button list" where
  "blocked_form_buttons v =
     [button ''Cancel'' [] ''secondary'',
      (button ''Block IP'' ''pi-ban'' ''danger'')\<lparr>bu_loading := bv_isBlocking v\<rparr>]"

section \<open>The reputation\<close>

record risk_card =
  rk_score :: string
  rk_class :: string
  rk_stats :: "(string \<times> string) list"
  rk_lines :: "(string \<times> cell) list"
  rk_events :: "(string \<times> string) list option"

definition risk_event :: "date_lib \<Rightarrow> engine \<Rightarrow> int \<Rightarrow> IPRecentEvent \<Rightarrow> js_error + string \<times> string" where
  "risk_event dl eng now e =
     ap (Inr (\<lambda>t. (ire_event_type e, t))) (blocked_formatRelative dl eng now (ire_created_at e))"

text \<open>Of the recent events the first five are shown.\<close>

definition risk_card_of ::
    "numbers \<Rightarrow> date_lib \<Rightarrow> engine \<Rightarrow> int \<Rightarrow> IPReputation \<Rightarrow> js_error + risk_card" where
  "risk_card_of nu dl eng now r =
     ap (ap (ap (Inr (\<lambda>first last events.
          \<lparr>rk_score = nu_string nu (ipr_risk_score r), rk_class = risk_class (ipr_risk_score r),
           rk_stats =
             [(string_of_int (ipr_events_24h r), ''Events (24h)''),
              (string_of_int (ipr_events_7d r), ''Events (7d)''),
              (string_of_int (ipr_failed_logins_24h r), ''Failed Logins (24h)''),
              (string_of_int (ipr_unique_users_targeted r), ''Users Targeted'')],
           rk_lines =
             [(''First Seen'', Cell_text first), (''Last Seen'', Cell_text last),
              (''Status'', Cell_tag (if ipr_is_blocked r then plain_tag ''BLOCKED'' ''danger''
                                      else plain_tag ''ACTIVE'' ''success''))],
           rk_events = events\<rparr>))
       (blocked_formatDate dl eng (ipr_first_seen r)))
       (blocked_formatDate dl eng (ipr_last_seen r)))
       (v_if (ipr_recent_events r \<noteq> []) (map_throw (risk_event dl eng now) (take 5 (ipr_recent_events r))))"

datatype risk_body = Risk_spinner | Risk_card risk_card | Risk_blank

definition risk_dialog ::
    "numbers \<Rightarrow> date_lib \<Rightarrow> engine \<Rightarrow> int \<Rightarrow> blocked_view \<Rightarrow> js_error + (string \<times> risk_body) option" where
  "risk_dialog nu dl eng now v =
     v_if (bv_showReputation v)
       (ap (Inr (Pair (''IP Reputation: '' @ (case bv_selectedIP v of Some ip \<Rightarrow> ip | None \<Rightarrow> ''null''))))
         (if bv_loadingReputation v then Inr Risk_spinner
          else (case bv_reputation v of
                  Some r \<Rightarrow> ap (Inr Risk_card) (risk_card_of nu dl eng now r)
                | None \<Rightarrow> Inr Risk_blank)))"

section \<open>The page\<close>

record blocked_page =
  bp_header :: blocked_header
  bp_cards :: "metric list"
  bp_table :: data_table
  bp_form :: "(field list \<times> string option \<times> button list) option"
  bp_reputation :: "(string \<times> risk_body) option"

definition blocked_page_of ::
    "numbers \<Rightarrow> date_lib \<Rightarrow> engine \<Rightarrow> int \<Rightarrow> monitor_state \<Rightarrow> blocked_view \<Rightarrow> js_error + blocked_page" where
  "blocked_page_of nu dl eng now st v =
     ap (ap (Inr (\<lambda>table reputation.
          \<lparr>bp_header = blocked_header_of st, bp_cards = blocked_metrics st, bp_table = table,
           bp_form =
             (if bv_showBlock v
              then Some (blocked_form_fields (bv_newBlock v), blocked_form_warning (bv_newBlock v),
                         blocked_form_buttons v)
              else None),
           bp_reputation = reputation\<rparr>))
       (blocked_table dl eng now st))
       (risk_dialog nu dl eng now v)"

section \<open>What holds of the page\<close>

lemma blocked_table_fits: "blocked_table dl eng now st = Inr t \<Longrightarrow> table_fits t"
  by (auto simp: blocked_table_def table_fits_def ap_Inr blocked_row_def dest!: map_throw_origin)

definition blocked_dates :: "monitor_state \<Rightarrow> blocked_view \<Rightarrow> string list" where
  "blocked_dates st v =
     concat (map (\<lambda>ip. bip_blocked_at ip #
        (if \<not> bip_permanent ip \<and> given (bip_expires_at ip) then [the (bip_expires_at ip)] else [])) (m_blockedIPs st))
     @ (if bv_showReputation v \<and> \<not> bv_loadingReputation v
        then (case bv_reputation v of
                Some r \<Rightarrow> ipr_first_seen r # ipr_last_seen r # map ire_created_at (take 5 (ipr_recent_events r))
              | None \<Rightarrow> [])
        else [])"

lemma renders_expires:
  assumes dl: "throws_on_invalid dl"
  shows "renders (expires_cell dl eng now ip) \<longleftrightarrow>
    (\<not> bip_permanent ip \<and> given (bip_expires_at ip) \<longrightarrow> date_parse eng (the (bip_expires_at ip)) \<noteq> None)"
proof (cases "\<not> bip_permanent ip \<and> given (bip_expires_at ip)")
  case True
  define d where "d = date_parse eng (the (bip_expires_at ip))"
  have f: "renders (dl_format dl d ''MMM d, yyyy HH:mm'') \<longleftrightarrow> d \<noteq> None" "renders (dl_distance dl d now) \<longleftrightarrow> d \<noteq> None"
    by (rule throws_on_invalidD [OF dl])+
  show ?thesis
  proof (cases "dl_format dl d ''MMM d, yyyy HH:mm''")
    case (Inl e)
    then show ?thesis
      using True f(1) by (simp add: expires_cell_def expiry_cell_def blocked_formatDate_def d_def [symmetric])
  next
    case (Inr t)
    then have "d \<noteq> None" using f(1) by simp
    then show ?thesis
      using True Inr f(2)
      by (simp add: expires_cell_def expiry_cell_def blocked_formatDate_def blocked_formatRelative_def
          d_def [symmetric] renders_ap)
  qed
qed (auto simp: expires_cell_def expiry_cell_def)

lemma renders_blocked_table:
  assumes dl: "throws_on_invalid dl"
  shows "renders (blocked_table dl eng now st) \<longleftrightarrow>
    all_valid eng (concat (map (\<lambda>ip. bip_blocked_at ip #
        (if \<not> bip_permanent ip \<and> given (bip_expires_at ip) then [the (bip_expires_at ip)] else [])) (m_blockedIPs st)))"
  by (auto simp: blocked_table_def blocked_row_def render_simps renders_expires [OF dl] blocked_formatDate_def
      blocked_formatRelative_def throws_on_invalidD [OF dl] all_valid_def split: if_splits)

lemma renders_risk_dialog:
  assumes dl: "throws_on_invalid dl"
  shows "renders (risk_dialog nu dl eng now v) \<longleftrightarrow>
    all_valid eng (if bv_showReputation v \<and> \<not> bv_loadingReputation v
        then (case bv_reputation v of
                Some r \<Rightarrow> ipr_first_seen r # ipr_last_seen r # map ire_created_at (take 5 (ipr_recent_events r))
              | None \<Rightarrow> [])
        else [])"
  by (auto simp: risk_dialog_def risk_card_of_def risk_event_def render_simps blocked_formatDate_def
      blocked_formatRelative_def throws_on_invalidD [OF dl] all_valid_map split: option.split)

text \<open>Also: the page of the blocked addresses is rendered exactly when the dates that it formats are
  valid; of a permanent block the end is not looked at, and of a reputation only five events are.\<close>

theorem blocked_page_needs_valid_dates:
  assumes dl: "throws_on_invalid dl"
  shows "renders (blocked_page_of nu dl eng now st v) \<longleftrightarrow> all_valid eng (blocked_dates st v)"
  by (simp add: blocked_page_of_def render_simps renders_blocked_table [OF dl] renders_risk_dialog [OF dl]
      blocked_dates_def)

theorem blocked_page_needs_valid_dates_witness:
  "renders (blocked_page_of plain_numbers plain_dates plain_engine 0 monitor_init blocked_init)"
  unfolding blocked_page_needs_valid_dates [OF plain_dates_ok]
  by (simp add: blocked_dates_def blocked_init_def monitor_init_def)

end
