(* ===== verification/Alerts_Page.thy ===== *)
theory Alerts_Page
  imports Alerts_View Render
begin

text \<open>
  What the template of \<open>src/src/views/AlertsView.vue\<close> puts on the page: the banner, the two tabs with
  the tables of the rules and of the history, and the two dialogs.  Both tabs are rendered, whichever of
  them is in front.
\<close>

section \<open>Header and banner\<close>

record alerts_header =
  ah_title :: "string \<times> string"
  ah_tag :: "tag option"
  ah_refresh :: button
  ah_banner :: "string option"

definition alerts_header_of :: "monitor_state \<Rightarrow> alerts_header" where
  "alerts_header_of st =
     \<lparr>ah_title = (''Alerts'', ''Configure and manage security alerts''), ah_tag = unacknowledged_tag st,
      ah_refresh = (button [] ''pi-refresh'' ''secondary'')
        \<lparr>bu_loading := loading ''alertRules'' st \<or> loading ''alertHistory'' st\<rparr>,
      ah_banner =
        (if m_unacknowledgedAlerts st > 0
         then Some (''You have '' @ string_of_int (m_unacknowledgedAlerts st)
                      @ '' unacknowledged alert(s) that require attention.'')
         else None)\<rparr>"

section \<open>The rules\<close>

definition rule_row :: "AlertRule \<Rightarrow> cell list" where
  "rule_row r =
     [Cell_list [Cell_text (ar_name r), Cell_text (ar_description r)],
      Cell_label (table_or_key EVENT_TYPE_LABELS (ar_event_type r)) ''info'',
      Cell_text (condition_text (ar_condition r)),
      Cell_tag (severity_tag (ar_severity r)),
      Cell_tag (rule_status_tag r),
      Cell_list [Cell_button (button [] ''pi-pencil'' ''secondary''), Cell_button (button [] ''pi-trash'' ''danger'')]]"

definition rules_table :: "monitor_state \<Rightarrow> data_table" where
  "rules_table st =
     \<lparr>dt_loading = loading ''alertRules'' st,
      dt_headers = [''Rule Name'', ''Event Type'', ''Condition'', ''Severity'', ''Status'', ''Actions''],
      dt_rows = map rule_row (m_alertRules st),
      dt_empty = [''No alert rules configured'', ''Create First Rule'']\<rparr>"

text \<open>A click on the status switches the rule; the pencil edits it, the bin asks before it deletes.\<close>

datatype rule_click = On_status | On_pencil | On_bin

definition click_rule ::
    "server \<Rightarrow> elevator \<Rightarrow> rule_click \<Rightarrow> nat \<Rightarrow> AlertRule \<Rightarrow> alerts_view screen \<Rightarrow> alerts_view screen" where
  "click_rule srv el where_clicked k r =
     (case where_clicked of
        On_status \<Rightarrow> toggleRuleEnabled srv el k
      | On_pencil \<Rightarrow> on_view (openEditRuleDialog r)
      | On_bin \<Rightarrow> on_view (confirmDeleteRule r))"

section \<open>The history\<close>

definition severity_filter :: "alerts_view \<Rightarrow> field" where
  "severity_filter v =
     Field_select ''Severity''
       ((''All Severities'', JNull) # map (\<lambda>(l, x). (l, JStr (severity_string x))) alerts_severityOptions)
       (case hf_severity (al_filters v) of Some x \<Rightarrow> JStr (severity_string x) | None \<Rightarrow> JNull)"

definition status_filter :: "alerts_view \<Rightarrow> field" where
  "status_filter v =
     Field_select ''Status''
       [(''All'', JNull), (''Unacknowledged'', JBool False), (''Acknowledged'', JBool True)]
       (case hf_acknowledged (al_filters v) of Some b \<Rightarrow> JBool b | None \<Rightarrow> JNull)"

text \<open>Choosing one of the filters loads the page again.\<close>

definition choose_severity ::
    "server \<Rightarrow> elevator \<Rightarrow> Severity option \<Rightarrow> alerts_view screen \<Rightarrow> alerts_view screen" where
  "choose_severity srv el x s =
     alerts_loadData srv el (on_view (\<lambda>v. v\<lparr>al_filters := (al_filters v)\<lparr>hf_severity := x\<rparr>\<rparr>) s)"

definition choose_status ::
    "server \<Rightarrow> elevator \<Rightarrow> bool option \<Rightarrow> alerts_view screen \<Rightarrow> alerts_view screen" where
  "choose_status srv el b s =
     alerts_loadData srv el (on_view (\<lambda>v. v\<lparr>al_filters := (al_filters v)\<lparr>hf_acknowledged := b\<rparr>\<rparr>) s)"

text \<open>The date of an acknowledgement that is missing is an invalid date.\<close>

definition date_of :: "engine \<Rightarrow> string option \<Rightarrow> int option" where
  "date_of eng t = Option.bind t (date_parse eng)"

definition alert_status_cell :: "date_lib \<Rightarrow> engine \<Rightarrow> int \<Rightarrow> TriggeredAlert \<Rightarrow> js_error + cell" where
  "alert_status_cell dl eng now a =
     (if ta_acknowledged a
      then ap (Inr (\<lambda>t. Cell_list [Cell_tag (alert_status_tag a), Cell_text t]))
             (dl_distance dl (date_of eng (ta_acknowledged_at a)) now)
      else Inr (Cell_tag (alert_status_tag a)))"

definition alert_message :: "TriggeredAlert \<Rightarrow> cell" where
  "alert_message a =
     Cell_list (Cell_text (ta_message a)
       # (case Option.bind (ta_details a) ad_ip_address of
            Some ip \<Rightarrow> if ip \<noteq> [] then [Cell_text (''IP: '' @ ip)] else []
          | None \<Rightarrow> []))"

definition alert_row :: "date_lib \<Rightarrow> engine \<Rightarrow> int \<Rightarrow> TriggeredAlert \<Rightarrow> js_error + cell list" where
  "alert_row dl eng now a =
     ap (ap (ap (Inr (\<lambda>ago date status.
          [Cell_list [Cell_text ago, Cell_text date],
           Cell_tag (severity_tag (ta_severity a)),
           Cell_text (ta_rule_name a),
           alert_message a,
           status,
           Cell_list (if ta_acknowledged a then [] else [Cell_button (button ''Ack'' ''pi-check'' [])])]))
       (alerts_formatTime dl eng now (ta_triggered_at a)))
       (dl_format dl (date_parse eng (ta_triggered_at a)) ''MMM d, HH:mm''))
       (alert_status_cell dl eng now a)"

definition history_table :: "date_lib \<Rightarrow> engine \<Rightarrow> int \<Rightarrow> monitor_state \<Rightarrow> js_error + data_table" where
  "history_table dl eng now st =
     ap (Inr (\<lambda>rows.
          \<lparr>dt_loading = loading ''alertHistory'' st,
           dt_headers = [''Time'', ''Severity'', ''Rule'', ''Message'', ''Status'', ''Action''],
           dt_rows = rows, dt_empty = [''No alerts in history'']\<rparr>))
       (map_throw (alert_row dl eng now) (m_alertHistory st))"

section \<open>The dialogs\<close>

definition rule_fields :: "rule_form \<Rightarrow> field list" where
  "rule_fields f =
     [Field_text ''Rule Name'' ''e.g., Brute Force Detection'' (fo_name f),
      Field_text ''Description'' [] (fo_description f),
      Field_select ''Event Type'' (map (\<lambda>x. (so_label x, JStr (so_value x))) alerts_eventTypeOptions)
        (JStr (fo_event_type f)),
      Field_count ''Threshold'' (fc_threshold (fo_condition f)) 1,
      Field_count ''Window (minutes)'' (fc_window_minutes (fo_condition f)) 1,
      Field_select ''Group By''
        (map (\<lambda>(l, g). (l, case g of Some x \<Rightarrow> JStr (group_by_string x) | None \<Rightarrow> JUndef)) groupByOptions)
        (case fc_group_by (fo_condition f) of Some x \<Rightarrow> JStr (group_by_string x) | None \<Rightarrow> JUndef),
      Field_select ''Severity'' (map (\<lambda>(l, x). (l, JStr (severity_string x))) alerts_severityOptions)
        (JStr (severity_string (fo_severity f))),
      Field_choices ''Actions'' (map (\<lambda>(l, x). (l, action_string x)) actionOptions) (map action_string (fo_actions f)),
      Field_flag ''Enable this rule'' (fo_enabled f)]"

record dialog_page =
  dg_header :: string
  dg_fields :: "field list"
  dg_buttons :: "button list"

definition rule_dialog :: "alerts_view \<Rightarrow> dialog_page" where
  "rule_dialog v =
     \<lparr>dg_header = fst (rule_dialog_texts v), dg_fields = rule_fields (al_form v),
      dg_buttons =
        [button ''Cancel'' [] ''secondary'',
         (button (snd (rule_dialog_texts v)) ''pi-check'' [])\<lparr>bu_disabled := save_disabled v\<rparr>]\<rparr>"

record acknowledge_page =
  ak_alert :: "(tag \<times> string \<times> string) option"
  ak_dialog :: dialog_page

definition acknowledge_dialog :: "alerts_view \<Rightarrow> acknowledge_page" where
  "acknowledge_dialog v =
     \<lparr>ak_alert = map_option (\<lambda>a. (severity_tag (ta_severity a), ta_rule_name a, ta_message a)) (al_selected v),
      ak_dialog =
        \<lparr>dg_header = ''Acknowledge Alert'',
         dg_fields =
           (case al_selected v of
              Some _ \<Rightarrow> [Field_text ''Acknowledgment Note (optional)''
                          ''Add notes about investigation or resolution...'' (al_note v)]
            | None \<Rightarrow> []),
         dg_buttons = [button ''Cancel'' [] ''secondary'', button ''Acknowledge'' ''pi-check'' []]\<rparr>\<rparr>"

section \<open>The page\<close>

record alerts_page =
  alp_header :: alerts_header
  alp_new :: button
  alp_rules :: data_table
  alp_filters :: "field list"
  alp_history :: data_table
  alp_rule_dialog :: "dialog_page option"
  alp_acknowledge :: "acknowledge_page option"

definition alerts_page_of ::
    "date_lib \<Rightarrow> engine \<Rightarrow> int \<Rightarrow> monitor_state \<Rightarrow> alerts_view \<Rightarrow> js_error + alerts_page" where
  "alerts_page_of dl eng now st v =
     ap (Inr (\<lambda>history.
          \<lparr>alp_header = alerts_header_of st, alp_new = button ''New Rule'' ''pi-plus'' [],
           alp_rules = rules_table st, alp_filters = [severity_filter v, status_filter v],
           alp_history = history,
           alp_rule_dialog = (if al_showRule v then Some (rule_dialog v) else None),
           alp_acknowledge = (if al_showAcknowledge v then Some (acknowledge_dialog v) else None)\<rparr>))
       (history_table dl eng now st)"

section \<open>What holds of the page\<close>

lemma alerts_tables_fit:
  "table_fits (rules_table st)" "history_table dl eng now st = Inr t \<Longrightarrow> table_fits t"
  by (auto simp: rules_table_def rule_row_def history_table_def table_fits_def ap_Inr alert_row_def
      dest!: map_throw_origin)

text \<open>Also: the alerts page is rendered exactly when every alert has a valid time, and every acknowledged
  one a valid time of its acknowledgement; this does not depend on the tab in front or on a dialog.\<close>

theorem alerts_page_needs_valid_dates:
  assumes dl: "throws_on_invalid dl"
  shows "renders (alerts_page_of dl eng now st v) \<longleftrightarrow>
    (\<forall>a \<in> set (m_alertHistory st). date_parse eng (ta_triggered_at a) \<noteq> None
       \<and> (ta_acknowledged a \<longrightarrow> date_of eng (ta_acknowledged_at a) \<noteq> None))"
  by (auto simp: alerts_page_of_def history_table_def alert_row_def alert_status_cell_def alerts_formatTime_def
      render_simps throws_on_invalidD [OF dl])

theorem alerts_page_needs_valid_dates_witness:
  "renders (alerts_page_of plain_dates plain_engine 0 monitor_init alerts_init)"
  unfolding alerts_page_needs_valid_dates [OF plain_dates_ok] by (simp add: monitor_init_def)

text \<open>The banner, the tag and the badge of the sidebar appear together.\<close>

lemma alerts_announced:
  "ah_banner (alerts_header_of st) \<noteq> None \<longleftrightarrow> ah_tag (alerts_header_of st) \<noteq> None"
  by (simp add: alerts_header_of_def unacknowledged_tag_def)

end
