(* ===== verification/Reports_Page.thy ===== *)
theory Reports_Page
  imports Reports_View Render
begin

text \<open>
  What the template of \<open>src/src/views/ReportsView.vue\<close> puts on the page: the three cards, the table of
  the reports and the dialog that asks for one.
\<close>

section \<open>Cards\<close>

record report_template =
  rt_heading :: "string \<times> string"
  rt_text :: string
  rt_tags :: "tag list"

definition summary_template :: report_template where
  "summary_template =
     \<lparr>rt_heading = (''Security Summary'', ''Comprehensive security overview''),
      rt_text = ''Overview of security events, threats, user activity, and system health for a specified time period.'',
      rt_tags = [plain_tag ''Events'' ''info'', plain_tag ''Threats'' ''warning'', plain_tag ''Users'' ''secondary'']\<rparr>"

text \<open>The buttons of the quick reports, each with the preset that it applies before it opens the dialog.\<close>

definition quick_buttons :: "(button \<times> string) list" where
  "quick_buttons =
     [(button ''Last 7 Days Summary'' ''pi-calendar'' ''secondary'', ''week''),
      (button ''This Month Summary'' ''pi-calendar'' ''secondary'', ''this_month''),
      (button ''Last Month Summary'' ''pi-calendar'' ''secondary'', ''last_month'')]"

definition format_notes :: "(string \<times> string \<times> string) list" where
  "format_notes =
     [(''pi-file'', ''JSON'', ''Structured data for integration''),
      (''pi-file-excel'', ''CSV'', ''Spreadsheet compatible'')]"

text \<open>A click on the first card opens the dialog, a click on a quick report applies its preset first.\<close>

definition click_template :: "range_lib \<Rightarrow> int \<Rightarrow> reports_view \<Rightarrow> reports_view" where
  "click_template lib now = openGenerateDialog lib now"

definition click_quick :: "range_lib \<Rightarrow> int \<Rightarrow> nat \<Rightarrow> reports_view \<Rightarrow> reports_view" where
  "click_quick lib now k = quick_report lib now (snd (quick_buttons ! k))"

section \<open>The table\<close>

text \<open>\<open>data.type?.replace(/_/g, ' ') || 'Security Summary'\<close>; the interface of a report has no member \<open>type\<close>,
  so the row asks for an absent one.\<close>

definition report_type_text :: "string option \<Rightarrow> string" where
  "report_type_text t =
     (case t of
        Some x \<Rightarrow> if x \<noteq> [] then map (\<lambda>c. if c = CHR ''_'' then CHR '' '' else c) x else ''Security Summary''
      | None \<Rightarrow> ''Security Summary'')"

definition status_cell :: "ReportStatus \<Rightarrow> cell" where
  "status_cell r =
     Cell_list
       ((if rs_status r = Generating then [cell.Cell_text ''spinner''] else [])
        @ [Cell_tag (plain_tag (map upper_char (report_state_string (rs_status r)))
             (getStatusSeverity (report_state_string (rs_status r))))])"

definition report_row :: "date_lib \<Rightarrow> engine \<Rightarrow> ReportStatus \<Rightarrow> js_error + cell list" where
  "report_row dl eng r =
     ap (Inr (\<lambda>created.
          [cell.Cell_text (rs_report_id r), cell.Cell_text (report_type_text None), status_cell r,
           cell.Cell_text created,
           (case report_action_cell r of
              Cell_download \<Rightarrow> Cell_button (button [] ''pi-download'' ''success'')
            | report_cell.Cell_text t \<Rightarrow> cell.Cell_text t)]))
       (reports_formatDate dl eng (rs_created_at r))"

text \<open>Without reports there is no table, only the two sentences.\<close>

datatype reports_panel = Report_table data_table | No_reports "string list"

definition reports_panel_of :: "date_lib \<Rightarrow> engine \<Rightarrow> monitor_state \<Rightarrow> js_error + reports_panel" where
  "reports_panel_of dl eng st =
     (if length (m_reports st) > 0
      then ap (Inr (\<lambda>rows. Report_table
             \<lparr>dt_loading = False, dt_headers = [''Report ID'', ''Type'', ''Status'', ''Created'', ''Actions''],
              dt_rows = rows, dt_empty = []\<rparr>))
           (map_throw (report_row dl eng) (m_reports st))
      else Inr (No_reports
             [''No reports generated yet'',
              ''Click '' @ [CHR 0x22] @ ''Generate Report'' @ [CHR 0x22] @ '' to create your first report'']))"

section \<open>The dialog\<close>

record preset_button =
  pb_button :: button
  pb_outlined :: bool

definition preset_buttons :: "reports_view \<Rightarrow> preset_button list" where
  "preset_buttons v =
     map (\<lambda>(label, value).
         \<lparr>pb_button = button label [] (if rp_preset v = value then ''primary'' else ''secondary''),
          pb_outlined = (rp_preset v \<noteq> value)\<rparr>) presetRanges"

record format_choice =
  fm_icon :: string
  fm_label :: string
  fm_chosen :: bool

definition format_choices :: "reports_view \<Rightarrow> format_choice list" where
  "format_choices v =
     map (\<lambda>(label, value).
         \<lparr>fm_icon = (if value = ''json'' then ''pi-file'' else ''pi-file-excel''), fm_label = label,
          fm_chosen = (rf_format (rp_form v) = value)\<rparr>) formatOptions"

definition section_boxes :: "reports_view \<Rightarrow> field list" where
  "section_boxes v =
     map (\<lambda>(label, value). Field_flag label (value \<in> set (rf_sections (rp_form v)))) sectionOptions"

record generate_dialog =
  gd_header :: string
  gd_type :: field
  gd_presets :: "preset_button list"
  gd_dates :: "int option list option"
  gd_formats :: "format_choice list"
  gd_sections :: "field list"
  gd_buttons :: "button list"

definition generate_dialog_of :: "reports_view \<Rightarrow> generate_dialog" where
  "generate_dialog_of v =
     \<lparr>gd_header = ''Generate Security Report'',
      gd_type = Field_select ''Report Type'' (map (\<lambda>(l, t). (l, JStr t)) reportTypes) (JStr (rf_type (rp_form v))),
      gd_presets = preset_buttons v, gd_dates = rf_dateRange (rp_form v), gd_formats = format_choices v,
      gd_sections = section_boxes v,
      gd_buttons =
        [button ''Cancel'' [] ''secondary'',
         (button ''Generate Report'' ''pi-file'' [])
           \<lparr>bu_loading := rp_isGenerating v, bu_disabled := generate_disabled v\<rparr>]\<rparr>"

section \<open>The page\<close>

record reports_page =
  rpp_title :: "string \<times> string"
  rpp_generate :: button
  rpp_template :: report_template
  rpp_quick :: "button list"
  rpp_formats :: "(string \<times> string \<times> string) list"
  rpp_panel :: reports_panel
  rpp_dialog :: "generate_dialog option"

definition reports_page_of :: "date_lib \<Rightarrow> engine \<Rightarrow> monitor_state \<Rightarrow> reports_view \<Rightarrow> js_error + reports_page" where
  "reports_page_of dl eng st v =
     ap (Inr (\<lambda>panel.
          \<lparr>rpp_title = (''Security Reports'', ''Generate and download security audit reports''),
           rpp_generate = button ''Generate Report'' ''pi-plus'' [], rpp_template = summary_template,
           rpp_quick = map fst quick_buttons, rpp_formats = format_notes, rpp_panel = panel,
           rpp_dialog = (if rp_showGenerate v then Some (generate_dialog_of v) else None)\<rparr>))
       (reports_panel_of dl eng st)"

section \<open>What holds of the page\<close>

lemma reports_table_fits: "reports_panel_of dl eng st = Inr (Report_table t) \<Longrightarrow> table_fits t"
  by (auto simp: reports_panel_of_def table_fits_def ap_Inr report_row_def split: if_splits dest!: map_throw_origin)

text \<open>Also: the page of the reports is rendered exactly when every report has a valid date of creation.\<close>

theorem reports_page_needs_valid_dates:
  assumes dl: "throws_on_invalid dl"
  shows "renders (reports_page_of dl eng st v) \<longleftrightarrow> all_valid eng (map rs_created_at (m_reports st))"
  by (auto simp: reports_page_of_def reports_panel_of_def report_row_def reports_formatDate_def render_simps
      throws_on_invalidD [OF dl] all_valid_map)

theorem reports_page_needs_valid_dates_witness:
  "renders (reports_page_of plain_dates plain_engine monitor_init (reports_init
     \<lparr>rl_subDays = (\<lambda>t n. t - n * 86400000), rl_startOfMonth = (\<lambda>t. t), rl_endOfMonth = (\<lambda>t. t)\<rparr> 0))"
  unfolding reports_page_needs_valid_dates [OF plain_dates_ok] by (simp add: monitor_init_def)

text \<open>Exactly one preset is marked, and the boxes are those of the chosen sections: a click on a box turns
  it over and leaves the others.\<close>

lemma one_preset_marked:
  assumes "rp_preset v \<in> set (map snd presetRanges)"
  shows "length (filter (\<lambda>b. \<not> pb_outlined b) (preset_buttons v)) = 1"
  using assms by (auto simp: preset_buttons_def presetRanges_def)

lemma quick_reports_open_the_same:
  "k < 3 \<Longrightarrow> generate_dialog_of (click_quick lib now k v) = generate_dialog_of (click_template lib now v)"
  by (simp add: click_quick_def click_template_def quick_report_def openGenerateDialog_def applyPreset_def Let_def
      set_range_def generate_dialog_of_def preset_buttons_def format_choices_def section_boxes_def generate_disabled_def)

lemma section_box_toggles:
  assumes "distinct (rf_sections (rp_form v))"
  shows "x \<in> set (rf_sections (rp_form (toggleSection y v))) \<longleftrightarrow>
    (if x = y then x \<notin> set (rf_sections (rp_form v)) else x \<in> set (rf_sections (rp_form v)))"
proof (cases "findIndex (\<lambda>x. x = y) (rf_sections (rp_form v))")
  case None
  then have "y \<notin> set (rf_sections (rp_form v))" by (auto simp: findIndex_None)
  then show ?thesis using None by (auto simp: toggleSection_def)
next
  case (Some i)
  define xs where "xs = rf_sections (rp_form v)"
  have i: "i < length xs" "xs ! i = y" using Some by (simp_all add: findIndex_Some xs_def)
  have split: "xs = take i xs @ y # drop (Suc i) xs" using i by (metis id_take_nth_drop)
  then have "distinct (take i xs @ y # drop (Suc i) xs)" using assms by (simp add: xs_def)
  then have "y \<notin> set (take i xs) \<union> set (drop (Suc i) xs)" by simp
  moreover have "set xs = insert y (set (take i xs) \<union> set (drop (Suc i) xs))"
    using arg_cong [OF split, of set] by auto
  ultimately show ?thesis using Some by (auto simp: toggleSection_def xs_def [symmetric])
qed

end
