(* ===== verification/Events_Page.thy ===== *)
theory Events_Page
  imports Events_View Render Json_Text
begin

text \<open>
  What the template of \<open>src/src/views/EventsView.vue\<close> puts on the page: the filters, the table of the
  events with its paginator, and the dialog of the details, which shows the details of an event as JSON.
\<close>

section \<open>Header and filters\<close>

record events_header =
  eh_title :: "string \<times> string"
  eh_refresh :: button

definition events_header_of :: "monitor_state \<Rightarrow> events_header" where
  "events_header_of st =
     \<lparr>eh_title = (''Security Events'', ''Browse and filter security audit logs''),
      eh_refresh = refresh_button ''events'' st\<rparr>"

definition events_filter_fields :: "event_filters \<Rightarrow> field list" where
  "events_filter_fields f =
     [Field_choices ''Event Type'' (map (\<lambda>o1. (so_label o1, so_value o1)) events_eventTypeOptions) (ef_event_type f),
      Field_choices ''Severity'' (map (\<lambda>o1. (so_label o1, so_value o1)) events_severityOptions)
        (map severity_string (ef_severity f)),
      Field_text ''IP Address'' ''Filter by IP'' (ef_ip_address f),
      Field_date ''From'' (ef_from f), Field_date ''To'' (ef_to f)]"

definition events_filter_buttons :: "button list" where
  "events_filter_buttons = [button ''Clear'' [] ''secondary'', button ''Apply Filters'' ''pi-filter'' []]"

datatype filter_click = Click_clear | Click_apply

definition click_filters ::
    "server \<Rightarrow> elevator \<Rightarrow> filter_click \<Rightarrow> events_view screen \<Rightarrow> events_view screen" where
  "click_filters srv el b = (case b of Click_clear \<Rightarrow> clearFilters srv el | Click_apply \<Rightarrow> loadEvents srv el)"

section \<open>The table\<close>

definition event_row :: "date_lib \<Rightarrow> engine \<Rightarrow> SecurityEvent \<Rightarrow> js_error + cell list" where
  "event_row dl eng e =
     ap (Inr (\<lambda>time.
          [Cell_text time, Cell_tag (event_severity_tag e), Cell_lookup (event_label e),
           Cell_text (event_user ''-'' e), Cell_text (se_ip_address e), Cell_text (event_status_icon e)]))
       (events_formatDate dl eng (se_created_at e))"

definition events_table :: "date_lib \<Rightarrow> engine \<Rightarrow> monitor_state \<Rightarrow> js_error + data_table" where
  "events_table dl eng st =
     ap (Inr (\<lambda>rows.
          \<lparr>dt_loading = loading ''events'' st,
           dt_headers = [''Time'', ''Severity'', ''Event'', ''User'', ''IP Address'', ''Status''],
           dt_rows = rows, dt_empty = []\<rparr>))
       (map_throw (event_row dl eng) (m_securityEvents st))"

definition events_paginator :: "monitor_state \<Rightarrow> events_view \<Rightarrow> paginator" where
  "events_paginator st v =
     \<lparr>pn_rows = ev_pageSize v, pn_total = m_securityEventsTotal st, pn_options = [10, 20, 50, 100]\<rparr>"

section \<open>The details\<close>

text \<open>The dialog reads the label from the table without a fallback.\<close>

definition detail_label :: "SecurityEvent \<Rightarrow> string" where
  "detail_label e =
     (case map_of EVENT_TYPE_LABELS (event_type_string (se_event_type e)) of Some l \<Rightarrow> l | None \<Rightarrow> [])"

definition details_text :: "SecurityEvent \<Rightarrow> string option" where
  "details_text e = map_option (\<lambda>ps. stringify_indented (JObj ps)) (se_details e)"

definition nonempty :: "string option \<Rightarrow> string option" where
  "nonempty x = (case x of Some s \<Rightarrow> if s \<noteq> [] then Some s else None | None \<Rightarrow> None)"

record event_details =
  ed_grid :: "(string \<times> cell) list"
  ed_correlation :: "(string \<times> (string \<times> (string \<times> string) list) option \<times> string) option"
  ed_user_agent :: "string option"
  ed_details :: "string option"

definition event_details_of :: "date_lib \<Rightarrow> engine \<Rightarrow> SecurityEvent \<Rightarrow> js_error + event_details" where
  "event_details_of dl eng e =
     ap (Inr (\<lambda>time.
          \<lparr>ed_grid =
             [(''Event Type'', Cell_text (detail_label e)), (''Severity'', Cell_tag (event_severity_tag e)),
              (''Time'', Cell_text time), (''Status'', Cell_text (if se_success e then ''Success'' else ''Failed'')),
              (''IP Address'', Cell_text (se_ip_address e)), (''User'', Cell_text (event_user ''N/A'' e))],
           ed_correlation =
             map_option (\<lambda>c. (c, decisions_link e, ''Policy decisions for this request''))
               (nonempty (se_correlation_id e)),
           ed_user_agent = nonempty (se_user_agent e), ed_details = details_text e\<rparr>))
       (events_formatDate dl eng (se_created_at e))"

section \<open>The page\<close>

record events_page =
  evp_header :: events_header
  evp_filters :: "field list"
  evp_buttons :: "button list"
  evp_table :: data_table
  evp_paginator :: paginator
  evp_details :: "event_details option option"

definition events_page_of ::
    "date_lib \<Rightarrow> engine \<Rightarrow> monitor_state \<Rightarrow> events_view \<Rightarrow> js_error + events_page" where
  "events_page_of dl eng st v =
     ap (ap (Inr (\<lambda>table details.
          \<lparr>evp_header = events_header_of st, evp_filters = events_filter_fields (ev_filters v),
           evp_buttons = events_filter_buttons, evp_table = table, evp_paginator = events_paginator st v,
           evp_details = details\<rparr>))
       (events_table dl eng st))
       (v_if (ev_showDetail v)
          (case ev_selected v of
             Some e \<Rightarrow> ap (Inr Some) (event_details_of dl eng e)
           | None \<Rightarrow> Inr None))"

section \<open>What holds of the page\<close>

lemma events_table_fits: "events_table dl eng st = Inr t \<Longrightarrow> table_fits t"
  by (auto simp: events_table_def table_fits_def ap_Inr event_row_def dest!: map_throw_origin)

text \<open>The label of the dialog is the one of the row.\<close>

lemma detail_label_of_row:
  "map_of EVENT_TYPE_LABELS (event_type_string (se_event_type e)) = Some l \<Longrightarrow>
    detail_label e = l \<and> event_label e = table_or_key EVENT_TYPE_LABELS (event_type_string (se_event_type e))"
  by (simp add: detail_label_def event_label_def)

definition events_dates :: "monitor_state \<Rightarrow> events_view \<Rightarrow> string list" where
  "events_dates st v =
     map se_created_at (m_securityEvents st)
     @ (if ev_showDetail v then (case ev_selected v of Some e \<Rightarrow> [se_created_at e] | None \<Rightarrow> []) else [])"

text \<open>Also: the page of the events is rendered exactly when the times of its events are valid dates.\<close>

theorem events_page_needs_valid_dates:
  assumes dl: "throws_on_invalid dl"
  shows "renders (events_page_of dl eng st v) \<longleftrightarrow> all_valid eng (events_dates st v)"
  by (auto simp: events_page_of_def events_table_def event_row_def event_details_of_def events_dates_def
      events_formatDate_def render_simps throws_on_invalidD [OF dl] all_valid_map split: option.split)

theorem events_page_needs_valid_dates_witness:
  "renders (events_page_of plain_dates plain_engine monitor_init events_init)"
  unfolding events_page_needs_valid_dates [OF plain_dates_ok]
  by (simp add: events_dates_def events_init_def monitor_init_def)

text \<open>Also: a click on a row shows the details of its event, and the text that is shown of them reads as JSON
  and is the object that the server sent.\<close>

theorem shown_details_read_back:
  assumes "events_page_of dl eng st (sc_view (events_showDetails e s)) = Inr page" "se_details e = Some ps"
  shows "\<exists>d t. evp_details page = Some (Some d) \<and> ed_details d = Some t
    \<and> json_parse t = Some (settled (JObj ps))"
  using assms json_roundtrip
  by (auto simp: events_page_of_def events_showDetails_def on_view_def v_if_def ap_Inr event_details_of_def
      details_text_def)

theorem shown_details_read_back_witness:
  "\<exists>page d t. events_page_of plain_dates plain_engine monitor_init
      (sc_view (events_showDetails
        \<lparr>se_id = 1, se_user_id = None, se_user_email = None, se_app_id = None, se_app_name = None,
         se_event_type = Login_failed, se_severity = Warning, se_ip_address = ''192.0.2.1'', se_user_agent = None,
         se_correlation_id = None, se_details = Some [(''attempts'', JNum 3)], se_success = False,
         se_created_at = ''2024-01-15T10:30:00Z''\<rparr>
        \<lparr>sc_world = sample_world, sc_toasts = [], sc_view = events_init\<rparr>)) = Inr page
     \<and> evp_details page = Some (Some d) \<and> ed_details d = Some t \<and> json_parse t = Some (JObj [(''attempts'', JNum 3)])"
proof -
  define e where "e = \<lparr>se_id = 1, se_user_id = None, se_user_email = None, se_app_id = None, se_app_name = None,
         se_event_type = Login_failed, se_severity = Warning, se_ip_address = ''192.0.2.1'', se_user_agent = None,
         se_correlation_id = None, se_details = Some [(''attempts'', JNum 3)], se_success = False,
         se_created_at = ''2024-01-15T10:30:00Z''\<rparr>"
  define v where "v = sc_view (events_showDetails e \<lparr>sc_world = sample_world, sc_toasts = [], sc_view = events_init\<rparr>)"
  have "all_valid plain_engine (events_dates monitor_init v)"
    by (simp add: v_def events_showDetails_def on_view_def events_dates_def monitor_init_def e_def date_parse_samples)
  then obtain page where p: "events_page_of plain_dates plain_engine monitor_init v = Inr page"
    using events_page_needs_valid_dates [OF plain_dates_ok, of plain_engine monitor_init v] by (auto simp: renders_def)
  have "se_details e = Some [(''attempts'', JNum 3)]" by (simp add: e_def)
  from shown_details_read_back [OF p [unfolded v_def] this] show ?thesis
    using p unfolding v_def e_def [symmetric] by auto
qed

end
