(* ===== verification/Audit_Page.thy ===== *)
theory Audit_Page
  imports Audit_View Render Json_Text
begin

text \<open>
  What the template of \<open>src/src/views/AuditLogsView.vue\<close> puts on the page: the filters, the table of the
  administrative actions with its paginator, and the dialog of an entry, which shows its changes as JSON.
\<close>

section \<open>Header and filters\<close>

record audit_header =
  auh_title :: "string \<times> string"
  auh_export :: button
  auh_refresh :: button

definition audit_header_of :: "monitor_state \<Rightarrow> audit_view \<Rightarrow> audit_header" where
  "audit_header_of st v =
     \<lparr>auh_title = (''Admin Audit Trail'', ''Every administrative action '' @ em_dash @ '' who changed what, and when''),
      auh_export = (button ''Export CSV'' ''pi-download'' ''secondary'')\<lparr>bu_loading := au_isExporting v\<rparr>,
      auh_refresh = refresh_button ''auditLogs'' st\<rparr>"

definition audit_filter_fields :: "audit_filters \<Rightarrow> field list" where
  "audit_filter_fields f =
     [Field_text ''Action'' ''e.g. unlock_user'' (af_action f),
      Field_select ''Target Type'' (map (\<lambda>o1. (so_label o1, JStr (so_value o1))) targetTypeOptions)
        (JStr (af_target_type f)),
      Field_select ''Period'' (map (\<lambda>o1. (so_label o1, JStr (so_value o1))) audit_periodOptions)
        (JStr (af_period f))]"

section \<open>The table\<close>

definition dash_for_empty :: "string option \<Rightarrow> string" where
  "dash_for_empty x = (case x of Some s \<Rightarrow> if s \<noteq> [] then s else em_dash | None \<Rightarrow> em_dash)"

definition audit_row :: "date_lib \<Rightarrow> engine \<Rightarrow> AdminAuditLog \<Rightarrow> js_error + cell list" where
  "audit_row dl eng e =
     ap (Inr (\<lambda>time.
          [Cell_text time,
           Cell_text (admin_label ''Admin '' e),
           Cell_text (actionLabel (aal_action e)),
           Cell_list (Cell_tag (plain_tag (aal_target_type e) (targetSeverity (aal_target_type e)))
             # (case target_label e of Some t \<Rightarrow> [Cell_text t] | None \<Rightarrow> [])),
           Cell_text (dash_for_empty (aal_ip_address e)),
           Cell_button (button [] ''pi-eye'' ''secondary'')]))
       (audit_formatDate dl eng (aal_created_at e))"

definition audit_table :: "date_lib \<Rightarrow> engine \<Rightarrow> monitor_state \<Rightarrow> js_error + data_table" where
  "audit_table dl eng st =
     ap (Inr (\<lambda>rows.
          \<lparr>dt_loading = loading ''auditLogs'' st,
           dt_headers = [''Time'', ''Admin'', ''Action'', ''Target'', ''IP'', ''Details''],
           dt_rows = rows, dt_empty = [''No administrative actions recorded for this period.'']\<rparr>))
       (map_throw (audit_row dl eng) (m_auditLogs st))"

definition audit_paginator :: "monitor_state \<Rightarrow> audit_view \<Rightarrow> paginator" where
  "audit_paginator st v =
     \<lparr>pn_rows = au_pageSize v, pn_total = m_auditLogsTotal st, pn_options = [25, 50, 100]\<rparr>"

section \<open>The details\<close>

record audit_details =
  ade_grid :: "(string \<times> cell) list"
  ade_changes :: string

definition changes_text :: "AdminAuditLog \<Rightarrow> string" where
  "changes_text e =
     (if has_changes e
      then (case aal_changes e of Some ps \<Rightarrow> stringify_indented (JObj ps) | None \<Rightarrow> [])
      else ''No change payload recorded.'')"

definition audit_details_of :: "date_lib \<Rightarrow> engine \<Rightarrow> AdminAuditLog \<Rightarrow> js_error + audit_details" where
  "audit_details_of dl eng e =
     ap (Inr (\<lambda>time.
          \<lparr>ade_grid =
             [(''Admin'', Cell_text (admin_label [] e)), (''Action'', Cell_text (actionLabel (aal_action e))),
              (''Target'', Cell_list
                 [Cell_tag (plain_tag (aal_target_type e) (targetSeverity (aal_target_type e))),
                  Cell_text (case target_label e of Some t \<Rightarrow> t | None \<Rightarrow> em_dash)]),
              (''When'', Cell_text time)],
           ade_changes = changes_text e\<rparr>))
       (audit_formatDate dl eng (aal_created_at e))"

section \<open>The page\<close>

record audit_page =
  aup_header :: audit_header
  aup_filters :: "field list"
  aup_apply :: button
  aup_table :: data_table
  aup_paginator :: paginator
  aup_details :: "audit_details option option"

definition audit_page_of ::
    "date_lib \<Rightarrow> engine \<Rightarrow> monitor_state \<Rightarrow> audit_view \<Rightarrow> js_error + audit_page" where
  "audit_page_of dl eng st v =
     ap (ap (Inr (\<lambda>table details.
          \<lparr>aup_header = audit_header_of st v, aup_filters = audit_filter_fields (au_filters v),
           aup_apply = button ''Apply Filters'' ''pi-filter'' [], aup_table = table,
           aup_paginator = audit_paginator st v, aup_details = details\<rparr>))
       (audit_table dl eng st))
       (v_if (au_showDetails v)
          (case au_selected v of
             Some e \<Rightarrow> ap (Inr Some) (audit_details_of dl eng e)
           | None \<Rightarrow> Inr None))"

section \<open>What holds of the page\<close>

lemma audit_table_fits: "audit_table dl eng st = Inr t \<Longrightarrow> table_fits t"
  by (auto simp: audit_table_def table_fits_def ap_Inr audit_row_def dest!: map_throw_origin)

definition audit_dates :: "monitor_state \<Rightarrow> audit_view \<Rightarrow> string list" where
  "audit_dates st v =
     map aal_created_at (m_auditLogs st)
     @ (if au_showDetails v then (case au_selected v of Some e \<Rightarrow> [aal_created_at e] | None \<Rightarrow> []) else [])"

text \<open>Also: the page of the audit trail is rendered exactly when the times of its entries are valid dates.\<close>

theorem audit_page_needs_valid_dates:
  assumes dl: "throws_on_invalid dl"
  shows "renders (audit_page_of dl eng st v) \<longleftrightarrow> all_valid eng (audit_dates st v)"
  by (auto simp: audit_page_of_def audit_table_def audit_row_def audit_details_of_def audit_dates_def
      audit_formatDate_def render_simps throws_on_invalidD [OF dl] all_valid_map split: option.split)

theorem audit_page_needs_valid_dates_witness:
  "renders (audit_page_of plain_dates plain_engine monitor_init audit_init)"
  unfolding audit_page_needs_valid_dates [OF plain_dates_ok]
  by (simp add: audit_dates_def audit_init_def monitor_init_def)

text \<open>The changes of an entry that has some are shown as JSON that reads back as them.\<close>

lemma shown_changes_read_back:
  "aal_changes e = Some ps \<Longrightarrow> ps \<noteq> [] \<Longrightarrow> json_parse (changes_text e) = Some (settled (JObj ps))"
  using json_roundtrip [of "JObj ps"] by (simp add: changes_text_def has_changes_def)

end
