(* ===== verification/Dashboard_Page.thy ===== *)
theory Dashboard_Page
  imports Dashboard_View Render Json_Text
begin

text \<open>
  What the template of \<open>src/src/views/DashboardView.vue\<close> puts on the page: the cards, the chart of the logins,
  the health of the system, the feed of live events and the active alerts.

  A live event is whatever the stream sent, so the template's reading of it is spelled out on JSON values: the
  text of an interpolation, the key of a table, a template literal, and \<open>new Date\<close>.
\<close>

section \<open>Values in a template\<close>

lemma map_throw_cong [fundef_cong]:
  "xs = ys \<Longrightarrow> (\<And>x. x \<in> set ys \<Longrightarrow> f x = g x) \<Longrightarrow> map_throw f xs = map_throw g ys"
  by (induction xs arbitrary: ys) (auto cong: sum.case_cong)

text \<open>\<open>String(v)\<close>; an object with a member \<open>toString\<close> of its own, which is not a function, has no text.\<close>

function js_string :: "jval \<Rightarrow> js_error + string" where
  "js_string JUndef = Inr ''undefined''"
| "js_string JNull = Inr ''null''"
| "js_string (JBool b) = Inr (string_of_bool b)"
| "js_string (JNum n) = Inr (string_of_int n)"
| "js_string (JStr s) = Inr s"
| "js_string (JArr xs) =
     (case map_throw (\<lambda>x. if nullish x then Inr [] else js_string x) xs of
        Inl e \<Rightarrow> Inl e
      | Inr ss \<Rightarrow> Inr (join '','' ss))"
| "js_string (JObj ps) = (if own ps ''toString'' \<noteq> JUndef then Inl TypeError else Inr ''[object Object]'')"
  by pat_completeness auto

termination
  by (relation "measure size") (auto simp: less_Suc_eq_le size_list_estimation')

text \<open>\<open>{{ v }}\<close>\<close>

definition display :: "jval \<Rightarrow> string" where
  "display v =
     (case v of
        JUndef \<Rightarrow> []
      | JNull \<Rightarrow> []
      | JBool b \<Rightarrow> string_of_bool b
      | JNum n \<Rightarrow> string_of_int n
      | JStr s \<Rightarrow> s
      | _ \<Rightarrow> stringify_indented v)"

definition date_of_value :: "engine \<Rightarrow> jval \<Rightarrow> js_error + int option" where
  "date_of_value eng v =
     (case v of
        JUndef \<Rightarrow> Inr None
      | JNull \<Rightarrow> Inr (Some 0)
      | JBool b \<Rightarrow> Inr (Some (if b then 1 else 0))
      | JNum n \<Rightarrow> Inr (if abs n \<le> 8640000000000000 then Some n else None)
      | JStr s \<Rightarrow> Inr (date_parse eng s)
      | _ \<Rightarrow> ap (Inr (date_parse eng)) (js_string v))"

text \<open>\<open>EVENT_TYPE_LABELS[v] || v\<close>\<close>

definition live_label :: "jval \<Rightarrow> js_error + js_text" where
  "live_label v =
     ap (Inr (\<lambda>k. case table_lookup EVENT_TYPE_LABELS k of Some t \<Rightarrow> t | None \<Rightarrow> Text (display v))) (js_string v)"

section \<open>Header, cards, chart, health\<close>

record dashboard_header =
  dh_title :: "string \<times> string"
  dh_badge :: "string \<times> string"
  dh_refresh :: button

definition dashboard_header_of :: "monitor_state \<Rightarrow> dashboard_header" where
  "dashboard_header_of st =
     \<lparr>dh_title = (''Security Dashboard'', ''Real-time security monitoring overview''),
      dh_badge = (bd_class (threatLevelBadge st), ''Threat Level: '' @ bd_label (threatLevelBadge st)),
      dh_refresh = refresh_button ''stats'' st\<rparr>"

text \<open>The numbers of the first two cards are written in the format of the locale.\<close>

definition dashboard_metrics :: "numbers \<Rightarrow> monitor_state \<Rightarrow> (loaded_metric \<times> (string \<times> string) option) list" where
  "dashboard_metrics nu st =
     map (\<lambda>(color, write, c).
         (\<lparr>lm_accent = color, lm_value = map_option write (dc_value c), lm_label = dc_label c\<rparr>, dc_note c))
       (zip [''#3b82f6'', ''#10b981'', ''#f59e0b'', ''#ef4444'']
         (zip [nu_locale nu, nu_locale nu, string_of_int, string_of_int] (dashboard_cards st)))"

definition trends_panel ::
    "date_lib \<Rightarrow> engine \<Rightarrow> chart_colors \<Rightarrow> monitor_state \<Rightarrow> js_error + string \<times> chart_panel" where
  "trends_panel dl eng cc st =
     (if length (m_loginTrends st) > 0
      then ap (Inr (\<lambda>c. (''Login Trends (14 Days)'', Shows_chart c (dashboard_chartOptions cc))))
             (dashboard_chartData dl eng st)
      else Inr (''Login Trends (14 Days)'', Shows_skeleton))"

datatype health_panel = Health_rows "(string \<times> cell) list" | Health_skeletons nat

definition health_panel_of :: "monitor_state \<Rightarrow> health_panel" where
  "health_panel_of st =
     (case health_rows st of
        Some (status # rows) \<Rightarrow>
          Health_rows ((fst status, Cell_tag (plain_tag (snd status) (healthStatusColor st)))
            # map (\<lambda>(l, t). (l, Cell_text t)) rows)
      | _ \<Rightarrow> Health_skeletons 4)"

section \<open>The feed\<close>

record feed_item =
  fi_new :: bool
  fi_dot :: string
  fi_title :: js_text
  fi_tag :: "(jval \<times> jval) option"
  fi_who :: string
  fi_when :: string

definition who_text :: "string list \<Rightarrow> string" where
  "who_text ws = join ('' '' @ bullet @ '' '') ws"

text \<open>\<open>formatTime(v)\<close> for a value\<close>

definition live_time :: "date_lib \<Rightarrow> engine \<Rightarrow> int \<Rightarrow> jval \<Rightarrow> js_error + string" where
  "live_time dl eng now v = (case date_of_value eng v of Inl e \<Rightarrow> Inl e | Inr d \<Rightarrow> dl_distance dl d now)"

definition live_item :: "date_lib \<Rightarrow> engine \<Rightarrow> int \<Rightarrow> jval \<Rightarrow> js_error + feed_item" where
  "live_item dl eng now e =
     (if nullish e then Inl TypeError
      else ap (ap (ap (ap (Inr (\<lambda>d severity label time.
          \<lparr>fi_new = (case d of Some t \<Rightarrow> now - t < 5000 | None \<Rightarrow> False), fi_dot = ''severity-'' @ severity,
           fi_title = label, fi_tag = Some (event_tag e), fi_who = who_text (map display (event_who e)),
           fi_when = time\<rparr>))
         (date_of_value eng (opt_prop e ''created_at'')))
         (js_string (opt_prop e ''severity'')))
         (live_label (opt_prop e ''event_type'')))
         (live_time dl eng now (opt_prop e ''created_at'')))"

definition activity_item :: "date_lib \<Rightarrow> engine \<Rightarrow> int \<Rightarrow> Activity \<Rightarrow> js_error + feed_item" where
  "activity_item dl eng now a =
     ap (Inr (\<lambda>time.
          \<lparr>fi_new = False, fi_dot = activity_dot a, fi_title = Text (act_description a), fi_tag = None,
           fi_who = who_text (activity_who a), fi_when = time\<rparr>))
       (dashboard_formatTime dl eng now (act_created_at a))"

definition feed_panel :: "date_lib \<Rightarrow> engine \<Rightarrow> int \<Rightarrow> monitor_state \<Rightarrow> js_error + feed_item listing" where
  "feed_panel dl eng now st =
     (case dashboard_feed st of
        Feed_events es \<Rightarrow> ap (Inr Items) (map_throw (live_item dl eng now) es)
      | Feed_activity as \<Rightarrow> ap (Inr Items) (map_throw (activity_item dl eng now) as)
      | Feed_empty \<Rightarrow> Inr (Nothing_to_show ''No recent events''))"

section \<open>The active alerts\<close>

record alert_item =
  ali_class :: "string option"
  ali_icon :: "string option"
  ali_rule :: string
  ali_message :: string

definition alert_icon_class :: "Severity \<Rightarrow> string option" where
  "alert_icon_class sev =
     (case sev of
        Critical \<Rightarrow> Some ''text-[var(--color-status-critical)]''
      | ErrorSeverity \<Rightarrow> Some ''text-[var(--color-status-danger)]''
      | Warning \<Rightarrow> Some ''text-[var(--color-status-warning)]''
      | _ \<Rightarrow> None)"

definition alert_item_of :: "TriggeredAlert \<Rightarrow> alert_item" where
  "alert_item_of a =
     \<lparr>ali_class = dashboard_alert_class (ta_severity a), ali_icon = alert_icon_class (ta_severity a),
      ali_rule = ta_rule_name a, ali_message = ta_message a\<rparr>"

definition alerts_panel :: "monitor_state \<Rightarrow> int option \<times> alert_item listing" where
  "alerts_panel st = (alerts_bell st, listing_of ''No active alerts'' (map alert_item_of (dashboard_alerts st)))"

datatype dashboard_click = Click_view_all | Click_manage | Click_alert

definition click_dashboard :: "dashboard_click \<Rightarrow> dashboard_view screen \<Rightarrow> dashboard_view screen" where
  "click_dashboard b = (case b of Click_view_all \<Rightarrow> navigateTo ''events'' | _ \<Rightarrow> navigateTo ''alerts'')"

section \<open>The page\<close>

record dashboard_page =
  dbp_header :: dashboard_header
  dbp_metrics :: "(loaded_metric \<times> (string \<times> string) option) list"
  dbp_trends :: "string \<times> chart_panel"
  dbp_health :: health_panel
  dbp_feed :: "feed_item listing"
  dbp_alerts :: "int option \<times> alert_item listing"

definition dashboard_page_of ::
    "numbers \<Rightarrow> date_lib \<Rightarrow> engine \<Rightarrow> int \<Rightarrow> chart_colors \<Rightarrow> monitor_state \<Rightarrow> js_error + dashboard_page" where
  "dashboard_page_of nu dl eng now cc st =
     ap (ap (Inr (\<lambda>trends feed.
          \<lparr>dbp_header = dashboard_header_of st, dbp_metrics = dashboard_metrics nu st, dbp_trends = trends,
           dbp_health = health_panel_of st, dbp_feed = feed, dbp_alerts = alerts_panel st\<rparr>))
       (trends_panel dl eng cc st))
       (feed_panel dl eng now st)"

section \<open>What holds of the page\<close>

text \<open>A live event can be shown when it is an object (or another value that has members) with a severity
  and a type that have a text, and a time that is a valid date.\<close>

definition live_ok :: "engine \<Rightarrow> jval \<Rightarrow> bool" where
  "live_ok eng e \<longleftrightarrow>
     \<not> nullish e \<and> renders (js_string (opt_prop e ''severity'')) \<and> renders (js_string (opt_prop e ''event_type''))
     \<and> (\<exists>t. date_of_value eng (opt_prop e ''created_at'') = Inr (Some t))"

lemma renders_live_item:
  assumes dl: "throws_on_invalid dl"
  shows "renders (live_item dl eng now e) \<longleftrightarrow> live_ok eng e"
proof -
  have "renders (live_time dl eng now v) \<longleftrightarrow> (\<exists>t. date_of_value eng v = Inr (Some t))" for v
    by (cases "date_of_value eng v") (auto simp: live_time_def throws_on_invalidD [OF dl])
  then show ?thesis
    by (auto simp: live_item_def live_ok_def live_label_def render_simps)
qed

text \<open>Also: the dashboard is rendered exactly when the days of its trends are valid dates and every entry of
  its feed can be shown: the ten newest live events or, without any, the activities.\<close>

theorem dashboard_page_needs_showable_feed:
  assumes dl: "throws_on_invalid dl"
  shows "renders (dashboard_page_of nu dl eng now cc st) \<longleftrightarrow>
     all_valid eng (map lt_date (m_loginTrends st))
     \<and> (if m_liveEvents st \<noteq> [] then \<forall>e \<in> set (take 10 (m_liveEvents st)). live_ok eng e
        else all_valid eng (map act_created_at (m_recentActivity st)))"
proof -
  have "renders (trends_panel dl eng cc st) \<longleftrightarrow> all_valid eng (map lt_date (m_loginTrends st))"
    by (auto simp: trends_panel_def dashboard_chartData_def render_simps throws_on_invalidD [OF dl] all_valid_map)
  moreover have "renders (feed_panel dl eng now st) \<longleftrightarrow>
      (if m_liveEvents st \<noteq> [] then \<forall>e \<in> set (take 10 (m_liveEvents st)). live_ok eng e
       else all_valid eng (map act_created_at (m_recentActivity st)))"
    by (simp add: feed_panel_def dashboard_feed_def render_simps renders_live_item [OF dl] activity_item_def
        dashboard_formatTime_def throws_on_invalidD [OF dl] all_valid_map)
  ultimately show ?thesis by (simp add: dashboard_page_of_def render_simps)
qed

theorem dashboard_page_needs_showable_feed_witness:
  "\<forall>cc. \<not> renders (dashboard_page_of plain_numbers plain_dates plain_engine 0 cc
      (addLiveEvent (JObj [(''severity'', JStr ''info'')]) monitor_init))"
  unfolding dashboard_page_needs_showable_feed [OF plain_dates_ok]
  by (simp add: addLiveEvent_def monitor_init_def live_ok_def date_of_value_def)

end
