(* ===== verification/Policy_Page.thy ===== *)
theory Policy_Page
  imports Policy_View Render
begin

text \<open>
  What the template of \<open>src/src/views/PolicyDecisionsView.vue\<close> puts on the page: the mode, the cards of the
  summary, the filters, the table of the decisions with the button for older ones, and the dialog of a
  decision.
\<close>

section \<open>Header, mode, summary\<close>

primrec severity_text :: "TagSeverity \<Rightarrow> string" where
  "severity_text Danger = ''danger''"
| "severity_text Warn = ''warn''"
| "severity_text Success = ''success''"
| "severity_text Secondary = ''secondary''"

definition outcome_tag :: "PolicyDecisionRecord \<Rightarrow> tag" where
  "outcome_tag d = plain_tag (out_label (outcome d)) (severity_text (out_severity (outcome d)))"

record policy_header =
  ph_title :: "string \<times> string"
  ph_refresh :: button

definition policy_header_of :: "policy_log \<Rightarrow> policy_header" where
  "policy_header_of l =
     \<lparr>ph_title = (''Policy Decisions'',
        ''Requests the access policy refused or would refuse, and every disagreement with the built-in checks''),
      ph_refresh = (button [] ''pi-refresh'' ''secondary'')\<lparr>bu_loading := pl_loading l\<rparr>\<rparr>"

record mode_panel =
  mp_tag :: tag
  mp_version :: "string option"
  mp_text :: string

definition mode_panel_of :: "policy_log \<Rightarrow> mode_panel" where
  "mode_panel_of l =
     \<lparr>mp_tag = plain_tag (mt_label (modeText l)) (severity_text (mt_severity (modeText l))),
      mp_version = map_option (\<lambda>r. ''policy v'' @ string_of_int (psr_policy_version r)) (pl_summary l),
      mp_text = mt_text (modeText l)\<rparr>"

definition summary_metrics :: "policy_log \<Rightarrow> metric list option" where
  "summary_metrics l =
     map_option (\<lambda>c.
       [metric ''status-warning'' (string_of_int (sc_denials c))
          (''Denials '' @ middle_dot @ '' '' @ (case sc_window c of Some w \<Rightarrow> w | None \<Rightarrow> [])),
        metric ''status-critical'' (string_of_int (sc_refused c)) ''Refused (enforced)'',
        metric ''accent-primary'' (string_of_int (sc_divergences c))
          (''Divergences '' @ em_dash @ '' '' @ string_of_int (sc_stricter c) @ '' stricter, ''
             @ string_of_int (sc_looser c) @ '' looser''),
        metric ''accent-cyan''
          (string_of_int (sc_admin c) @ '' admin '' @ middle_dot @ '' '' @ string_of_int (sc_apps c) @ '' apps'')
          ''Denials by source'']) (policy_cards l)"

section \<open>Filters\<close>

primrec outcome_filter_text :: "OutcomeFilter \<Rightarrow> string" where
  "outcome_filter_text Outcome_all = ''all''"
| "outcome_filter_text Outcome_denied = ''denied''"
| "outcome_filter_text Outcome_allowed = ''allowed''"

definition choice :: "string \<Rightarrow> select_option list \<Rightarrow> string \<Rightarrow> field" where
  "choice label options value = Field_select label (map (\<lambda>o1. (so_label o1, JStr (so_value o1))) options) (JStr value)"

definition policy_fields :: "DecisionFilters \<Rightarrow> field list" where
  "policy_fields f =
     [Field_text ''Correlation ID'' ''From a user's error report or a security event'' (df_correlationId f),
      choice ''Outcome'' outcomeOptions (outcome_filter_text (df_outcome f)),
      choice ''Source'' sourceOptions (df_source f),
      Field_text ''Application (client ID)'' [] (df_clientId f),
      choice ''Period'' policy_periodOptions (df_period f),
      Field_flag ''Divergences only'' (df_divergenceOnly f)]"

definition policy_filter_buttons :: "button list" where
  "policy_filter_buttons = [button ''Apply'' ''pi-filter'' [], button ''Reset'' [] ''secondary'']"

definition period_hint :: "DecisionFilters \<Rightarrow> string option" where
  "period_hint f =
     (if df_correlationId f \<noteq> [] then Some ''A correlation ID searches all time, whatever the period.'' else None)"

section \<open>The log\<close>

definition why_cells :: "decision_row \<Rightarrow> cell list" where
  "why_cells r =
     Cell_lookup (dr_why r)
     # (case dr_rule r of
          Some (rule, n) \<Rightarrow> [Cell_text (rule @ '' '' @ middle_dot @ '' v'' @ string_of_int n)] | None \<Rightarrow> [])
     @ (case dr_divergence r of Some t \<Rightarrow> [Cell_lookup t] | None \<Rightarrow> [])
     @ (case dr_requires r of Some t \<Rightarrow> [Cell_text (''Requires '' @ t)] | None \<Rightarrow> [])"

definition policy_row :: "date_lib \<Rightarrow> engine \<Rightarrow> PolicyDecisionRecord \<Rightarrow> js_error + cell list" where
  "policy_row dl eng d =
     ap (Inr (\<lambda>time.
          [Cell_text time, Cell_tag (outcome_tag d),
           Cell_list [Cell_text (dr_action (decision_row_of d)), Cell_lookup (dr_source (decision_row_of d))],
           Cell_list (why_cells (decision_row_of d)), Cell_text (dr_who (decision_row_of d)),
           Cell_text (dr_ip (decision_row_of d)), Cell_button (button [] ''pi-eye'' ''secondary'')]))
       (policy_formatDate dl eng (pd_created_at d))"

definition policy_table :: "date_lib \<Rightarrow> engine \<Rightarrow> policy_log \<Rightarrow> js_error + data_table" where
  "policy_table dl eng l =
     ap (Inr (\<lambda>rows.
          \<lparr>dt_loading = pl_loading l, dt_headers = [''Time'', ''Outcome'', ''Action'', ''Why'', ''Who'', ''IP'', []],
           dt_rows = rows, dt_empty = [''No denials or divergences for these filters.'']\<rparr>))
       (map_throw (policy_row dl eng) (pl_decisions l))"

definition older_button :: "policy_log \<Rightarrow> button option" where
  "older_button l =
     (if shows_load_older l
      then Some ((button ''Load older'' ''pi-angle-down'' ''secondary'')\<lparr>bu_loading := pl_loading l\<rparr>) else None)"

section \<open>The dialog\<close>

text \<open>The label of the rule and version behind the reason, and of the codes behind the obligations.\<close>

definition why_text :: "PolicyDecisionRecord \<Rightarrow> string" where
  "why_text d =
     text_string (reasonLabel (pd_reason d))
     @ (case given_text (pd_rule d) of
          Some r \<Rightarrow> '' '' @ em_dash @ '' rule '' @ r @ '', policy v'' @ string_of_int (pd_policy_version d)
        | None \<Rightarrow> [])"

definition text_or_empty :: "string option \<Rightarrow> string" where
  "text_or_empty t = (case t of Some x \<Rightarrow> x | None \<Rightarrow> [])"

definition decision_details :: "PolicyDecisionRecord \<Rightarrow> (string \<times> cell) list" where
  "decision_details d =
     [(''Outcome'', Cell_tag (outcome_tag d)),
      (''Mode'', Cell_text (pd_mode d @ (if pd_enforced d then '' (honoured)'' else []))),
      (''Action'', Cell_text (pd_action d)),
      (''Why'', Cell_text (why_text d))]
     @ (case pd_obligations d of
          Some os \<Rightarrow>
            (if length os \<noteq> 0
             then [(''Obligations'', Cell_text (obligationsLabel (Some os) @ '' ('' @ join '', '' os @ '')''))] else [])
        | None \<Rightarrow> [])
     @ (case given_text (pd_divergence d) of
          Some k \<Rightarrow>
            [(''Divergence'', Cell_list [Cell_lookup (divergenceLabel (Some k)),
               Cell_text (''(the request ended with HTTP ''
                 @ (case pd_status_code d of Some n \<Rightarrow> string_of_int n | None \<Rightarrow> []) @ '')'')])]
        | None \<Rightarrow> [])
     @ [(''Source'', Cell_lookup (sourceLabel (pd_source d))), (''Who'', Cell_text (principalLabel d))]
     @ (if given_text (pd_resource_type d) \<noteq> None \<or> given_text (pd_resource_id d) \<noteq> None
        then [(''Resource'', Cell_text (text_or_empty (pd_resource_type d) @ '' '' @ text_or_empty (pd_resource_id d)))]
        else [])
     @ [(''IP'', Cell_text (or_dash (pd_ip_address d)))]
     @ (case given_text (pd_correlation_id d) of
          Some c \<Rightarrow>
            [(''Correlation ID'', Cell_list [Cell_text c, Cell_button (button ''All decisions for this request'' [] [])])]
        | None \<Rightarrow> [])"

section \<open>The page\<close>

record policy_shown =
  psh_header :: policy_header
  psh_mode :: mode_panel
  psh_summary :: "metric list option"
  psh_fields :: "field list"
  psh_hint :: "string option"
  psh_error :: "string option"
  psh_table :: data_table
  psh_older :: "button option"
  psh_details :: "(string \<times> cell) list option option"

definition policy_page_of :: "date_lib \<Rightarrow> engine \<Rightarrow> policy_page \<Rightarrow> js_error + policy_shown" where
  "policy_page_of dl eng s =
     (let l = pp_log s in
      ap (Inr (\<lambda>table.
          \<lparr>psh_header = policy_header_of l, psh_mode = mode_panel_of l, psh_summary = summary_metrics l,
           psh_fields = policy_fields (pl_filters l), psh_hint = period_hint (pl_filters l),
           psh_error = given_text (pl_error l), psh_table = table, psh_older = older_button l,
           psh_details =
             (if pp_showDetails s then Some (map_option decision_details (pp_selected s)) else None)\<rparr>))
        (policy_table dl eng l))"

section \<open>What holds of the page\<close>

lemma policy_table_fits: "policy_table dl eng l = Inr t \<Longrightarrow> table_fits t"
  by (auto simp: policy_table_def table_fits_def ap_Inr policy_row_def dest!: map_throw_origin)

text \<open>Also: the page of the decisions is rendered exactly when every decision has a valid time; the dialog
  formats no date.\<close>

theorem policy_page_needs_valid_dates:
  assumes dl: "throws_on_invalid dl"
  shows "renders (policy_page_of dl eng s) \<longleftrightarrow> all_valid eng (map pd_created_at (pl_decisions (pp_log s)))"
  by (simp add: policy_page_of_def Let_def policy_table_def policy_row_def policy_formatDate_def render_simps
      throws_on_invalidD [OF dl] all_valid_map)

theorem policy_page_needs_valid_dates_witness:
  "renders (policy_page_of plain_dates plain_engine policy_page_init)"
  unfolding policy_page_needs_valid_dates [OF plain_dates_ok]
  by (simp add: policy_page_init_def policy_log_init_def)

text \<open>Older rows are offered only below rows, and never while the log says that there are no more.\<close>

lemma older_button_when: "older_button l \<noteq> None \<longleftrightarrow> pl_decisions l \<noteq> [] \<and> \<not> pl_exhausted l"
  by (simp add: older_button_def shows_load_older_def)

end
