(* ===== verification/Shell_Page.thy ===== *)
theory Shell_Page
  imports Shell_View Render
begin

text \<open>
  What the remaining templates put on the screen: the frame of \<open>src/src/App.vue\<close>, the dialog of
  \<open>src/src/components/StepUpDialog.vue\<close>, and the pages \<open>LoginView.vue\<close>, \<open>SettingsView.vue\<close> and
  \<open>UnauthorisedView.vue\<close> of \<open>src/src/views\<close>.  None of them formats a date.
\<close>

section \<open>The frame\<close>

record frame_page =
  fp_brand :: "string \<times> string"
  fp_live :: string
  fp_alerts :: "int option"
  fp_links :: "sidebar_link list"
  fp_user :: "string option \<times> string option"
  fp_theme :: theme_button
  fp_sign_out :: string
  fp_version :: badge_text

definition frame_page_of ::
    "auth_state \<Rightarrow> monitor_state \<Rightarrow> route option \<Rightarrow> bool \<Rightarrow> version_info \<Rightarrow> frame_page option" where
  "frame_page_of s st here dark i =
     (if showSidebar s here
      then Some
        \<lparr>fp_brand = (''Security'', ''Monitor''),
         fp_live = (if ls_live (live_status_of st) then ''Live'' else ''Offline''),
         fp_alerts = ls_alerts (live_status_of st),
         fp_links = sidebar_links st (case here of Some r \<Rightarrow> rt_name r | None \<Rightarrow> []),
         fp_user = (sidebar_name s, sidebar_contact s), fp_theme = theme_button_of dark,
         fp_sign_out = ''Sign Out'', fp_version = version_badge i\<rparr>
      else None)"

section \<open>The step-up dialog\<close>

record step_up_page =
  sup_header :: string
  sup_text :: string
  sup_error :: "string option"
  sup_fields :: "field list"
  sup_buttons :: "button list"

definition step_up_page_of :: "step_up \<Rightarrow> dialog \<Rightarrow> step_up_page option" where
  "step_up_page_of su d =
     (if su_visible su
      then Some
        \<lparr>sup_header = ''Confirm your identity'',
         sup_text = ''This is a privileged action. Re-enter your credentials to obtain a short-lived '' @
           ''elevated session (step-up authentication).'',
         sup_error = (case dl_error d of Some e \<Rightarrow> if e \<noteq> [] then Some e else None | None \<Rightarrow> None),
         sup_fields =
           Field_text ''Password'' [] (dl_password d)
           # (if dl_mfaRequired d then [Field_text ''MFA Code'' ''123456'' (dl_mfaCode d)] else []),
         sup_buttons =
           [(button ''Cancel'' [] ''secondary'')\<lparr>bu_disabled := dl_loading d\<rparr>,
            (button ''Confirm'' ''pi-check'' [])\<lparr>bu_loading := dl_loading d\<rparr>]\<rparr>
      else None)"

section \<open>The pages without data\<close>

record plain_page =
  pla_heading :: "string \<times> string"
  pla_card :: "string \<times> string"
  pla_button :: button

definition login_page_of :: "login_screen \<Rightarrow> plain_page" where
  "login_page_of s =
     \<lparr>pla_heading = (''Security Monitor'', ''OAuth2 Security Operations Center''),
      pla_card = (''Sign In'',
        ''Authenticate with Socrate to access the security dashboard. Your session is held server-side '' @ em_dash
          @ '' no tokens are stored in this browser.''),
      pla_button = (button ''Sign In with Socrate'' ''pi-sign-in'' [])\<lparr>bu_loading := lg_isLoading s\<rparr>\<rparr>"

definition denied_page :: plain_page where
  "denied_page =
     \<lparr>pla_heading = (''Access Denied'', []),
      pla_card = ([],
        ''Your account does not have the required admin role to access this dashboard. '' @
        ''Contact your administrator to request access.''),
      pla_button = button ''Sign Out'' ''pi-sign-out'' ''danger''\<rparr>"

record settings_page =
  stp_page :: plain_page
  stp_signed_in :: "string \<times> tag option"
  stp_roles :: "cell list"

definition settings_page_of :: "auth_state \<Rightarrow> settings_page" where
  "settings_page_of s =
     (let c = session_card_of s in
      \<lparr>stp_page =
        \<lparr>pla_heading = (''Settings'', ''Your session''),
         pla_card = (''Session'',
           ''Your session is held server-side by the BFF. No access or refresh tokens are stored in this browser.''),
         pla_button = button ''Sign Out'' ''pi-sign-out'' ''danger''\<rparr>,
       stp_signed_in = (sn_name c, map_option (\<lambda>r. plain_tag r ''info'') (sn_tag c)),
       stp_roles =
         map (\<lambda>r. Cell_tag (plain_tag r ''secondary'')) (sn_roles c)
         @ (if sn_none c then [Cell_text em_dash] else [])\<rparr>)"

section \<open>What holds of them\<close>

text \<open>The frame is drawn only around the pages of a session, with one link marked on every page that has one.\<close>

lemma frame_only_signed_in: "frame_page_of s st here dark i \<noteq> None \<Longrightarrow> isAuthenticated s"
  by (auto simp: frame_page_of_def showSidebar_def split: if_splits)

text \<open>While a confirmation is under way the dialog cannot be cancelled; the code is asked for when the server
  has asked for it.\<close>

lemma step_up_page_parts:
  assumes "step_up_page_of su d = Some p"
  shows "su_visible su" "map bu_disabled (sup_buttons p) = [dl_loading d, False]"
    "length (sup_fields p) = (if dl_mfaRequired d then 2 else 1)"
  using assms by (auto simp: step_up_page_of_def button_def split: if_splits)

end
