(* ===== verification/Pages.thy ===== *)
theory Pages
  imports
    Threats_Page Tokens_Page Geo_Page Sessions_Page Blocked_Page Alerts_Page Reports_Page
    Events_Page Audit_Page Dashboard_Page Policy_Page Shell_Page
begin

text \<open>
  All the pages in the place that \<open>src/src/App.vue\<close> gives them: the view of the route inside the error
  boundary of \<open>src/src/components/ErrorBoundary.vue\<close>.  The boundary is around the place, not around the
  page, so it outlives a navigation, and nothing but a reload of the application resets it.
\<close>

section \<open>What a page is rendered from\<close>

text \<open>The libraries, the engine and the clock at a rendering.\<close>

record looks =
  lk_numbers :: numbers
  lk_floor :: "rat \<Rightarrow> rat"
  lk_dates :: date_lib
  lk_engine :: engine
  lk_now :: int
  lk_colors :: chart_colors

text \<open>The page that is mounted, with its own state.\<close>

datatype mounted =
    At_dashboard
  | At_events events_view
  | At_threats threats_view
  | At_geo geo_view
  | At_sessions sessions_view
  | At_tokens tokens_view
  | At_alerts alerts_view
  | At_blocked blocked_view
  | At_policy policy_page
  | At_audit audit_view
  | At_reports reports_view
  | At_settings auth_state
  | At_login login_screen
  | At_denied

text \<open>What rendering comes to: the error that it throws, or nothing.\<close>

definition outcome_of :: "js_error + 'p \<Rightarrow> js_error option" where
  "outcome_of r = (case r of Inl e \<Rightarrow> Some e | Inr _ \<Rightarrow> None)"

definition render_page :: "looks \<Rightarrow> monitor_state \<Rightarrow> mounted \<Rightarrow> js_error option" where
  "render_page lk st p =
     (let nu = lk_numbers lk; dl = lk_dates lk; eng = lk_engine lk; now = lk_now lk; cc = lk_colors lk
      in case p of
           At_dashboard \<Rightarrow> outcome_of (dashboard_page_of nu dl eng now cc st)
         | At_events v \<Rightarrow> outcome_of (events_page_of dl eng st v)
         | At_threats v \<Rightarrow> outcome_of (threats_page_of nu dl eng now st v)
         | At_geo v \<Rightarrow> outcome_of (Inr (geo_page_of nu (lk_floor lk) dl eng now cc st v))
         | At_sessions v \<Rightarrow> outcome_of (sessions_page_of dl eng now st v)
         | At_tokens v \<Rightarrow> outcome_of (tokens_page_of nu dl eng cc st v)
         | At_alerts v \<Rightarrow> outcome_of (alerts_page_of dl eng now st v)
         | At_blocked v \<Rightarrow> outcome_of (blocked_page_of nu dl eng now st v)
         | At_policy s \<Rightarrow> outcome_of (policy_page_of dl eng s)
         | At_audit v \<Rightarrow> outcome_of (audit_page_of dl eng st v)
         | At_reports v \<Rightarrow> outcome_of (reports_page_of dl eng st v)
         | At_settings s \<Rightarrow> outcome_of (Inr (settings_page_of s))
         | At_login s \<Rightarrow> outcome_of (Inr (login_page_of s))
         | At_denied \<Rightarrow> outcome_of (Inr denied_page))"

section \<open>The boundary around them\<close>

text \<open>Rendering in the boundary: its slot is rendered only while it has no error; \<open>info\<close> is what the framework
  says of the place of the error.\<close>

definition render_in_boundary ::
    "string \<Rightarrow> looks \<Rightarrow> monitor_state \<Rightarrow> mounted \<Rightarrow> error_boundary \<Rightarrow> error_boundary" where
  "render_in_boundary info lk st p b =
     (case boundary_shows b of
        Shown_page \<Rightarrow>
          (case render_page lk st p of None \<Rightarrow> b | Some e \<Rightarrow> snd (error_captured e info b))
      | Shown_error _ \<Rightarrow> b)"

text \<open>One rendering after another: of one page as its data change, and of others after navigations.\<close>

fun renderings :: "string \<Rightarrow> (looks \<times> monitor_state \<times> mounted) list \<Rightarrow> error_boundary \<Rightarrow> error_boundary" where
  "renderings info [] b = b"
| "renderings info ((lk, st, p) # rs) b = renderings info rs (render_in_boundary info lk st p b)"

section \<open>Which renderings go well\<close>

text \<open>A date that the page formats must be valid.  The map formats its dates with a fallback, and the last three pages
  format none.\<close>

definition alerts_dates_ok :: "engine \<Rightarrow> monitor_state \<Rightarrow> bool" where
  "alerts_dates_ok eng st \<longleftrightarrow>
     (\<forall>a \<in> set (m_alertHistory st). date_parse eng (ta_triggered_at a) \<noteq> None
        \<and> (ta_acknowledged a \<longrightarrow> date_of eng (ta_acknowledged_at a) \<noteq> None))"

definition feed_ok :: "engine \<Rightarrow> monitor_state \<Rightarrow> bool" where
  "feed_ok eng st \<longleftrightarrow>
     all_valid eng (map lt_date (m_loginTrends st))
     \<and> (if m_liveEvents st \<noteq> [] then list_all (live_ok eng) (take 10 (m_liveEvents st))
        else all_valid eng (map act_created_at (m_recentActivity st)))"

definition page_ok :: "engine \<Rightarrow> monitor_state \<Rightarrow> mounted \<Rightarrow> bool" where
  "page_ok eng st p =
     (case p of
        At_dashboard \<Rightarrow> feed_ok eng st
      | At_events v \<Rightarrow> all_valid eng (events_dates st v)
      | At_threats v \<Rightarrow> all_valid eng (threats_dates st v)
      | At_geo v \<Rightarrow> True
      | At_sessions v \<Rightarrow> all_valid eng (sessions_dates st v)
      | At_tokens v \<Rightarrow> all_valid eng (map tbh_hour (by_hour st))
      | At_alerts v \<Rightarrow> alerts_dates_ok eng st
      | At_blocked v \<Rightarrow> all_valid eng (blocked_dates st v)
      | At_policy s \<Rightarrow> all_valid eng (map pd_created_at (pl_decisions (pp_log s)))
      | At_audit v \<Rightarrow> all_valid eng (audit_dates st v)
      | At_reports v \<Rightarrow> all_valid eng (map rs_created_at (m_reports st))
      | _ \<Rightarrow> True)"

lemma outcome_of_renders: "outcome_of r = None \<longleftrightarrow> renders r"
  by (cases r) (simp_all add: outcome_of_def)

lemmas pages_need_valid_dates =
  dashboard_page_needs_showable_feed events_page_needs_valid_dates threats_page_needs_valid_dates
  sessions_page_needs_valid_dates tokens_page_needs_valid_hours alerts_page_needs_valid_dates
  blocked_page_needs_valid_dates policy_page_needs_valid_dates audit_page_needs_valid_dates
  reports_page_needs_valid_dates

lemma render_page_ok:
  assumes "throws_on_invalid (lk_dates lk)"
  shows "render_page lk st p = None \<longleftrightarrow> page_ok (lk_engine lk) st p"
  by (cases p) (simp_all add: render_page_def page_ok_def Let_def outcome_of_renders
    pages_need_valid_dates [OF assms] feed_ok_def alerts_dates_ok_def list_all_iff)

lemma renderings_after_error:
  "boundary_shows b \<noteq> Shown_page \<Longrightarrow> renderings info rs b = b"
  by (induction info rs b rule: renderings.induct) (simp_all add: render_in_boundary_def split: shown.split)

lemma boundary_init_shows: "boundary_shows boundary_init = Shown_page"
  by (simp add: boundary_init_def boundary_shows_def)

lemma render_in_boundary_good: "render_page lk st p = None \<Longrightarrow> render_in_boundary info lk st p b = b"
  by (simp add: render_in_boundary_def split: shown.split)

text \<open>C4: the application shows its pages exactly until the first rendering that formats an invalid date (or a
  live event that has no text or no time): from then on every page of the application, whichever the user goes to
  and however good its data are, is replaced by the message of that first error, until the application is
  reloaded.\<close>

theorem pages_until_first_bad_date:
  assumes "\<forall>(lk, st, p) \<in> set rs. throws_on_invalid (lk_dates lk)"
  shows "boundary_shows (renderings info rs boundary_init) =
     (case find (\<lambda>(lk, st, p). \<not> page_ok (lk_engine lk) st p) rs of
        None \<Rightarrow> Shown_page
      | Some (lk, st, p) \<Rightarrow>
          (case render_page lk st p of
             None \<Rightarrow> Shown_page
           | Some e \<Rightarrow> Shown_error (error_message e @ [CHR 0x5C, CHR ''n''] @ info)))"
  using assms
proof (induction rs)
  case Nil
  show ?case by (simp add: boundary_init_shows)
next
  case (Cons r rs)
  obtain lk st p where r: "r = (lk, st, p)" by (cases r) auto
  have ok: "render_page lk st p = None \<longleftrightarrow> page_ok (lk_engine lk) st p"
    using render_page_ok Cons.prems r by auto
  show ?case
  proof (cases "render_page lk st p")
    case None
    then show ?thesis
      using Cons ok by (simp add: r render_in_boundary_good boundary_init_shows)
  next
    case (Some e)
    define b where "b = snd (error_captured e info boundary_init)"
    have b: "boundary_shows b = Shown_error (error_message e @ [CHR 0x5C, CHR ''n''] @ info)"
      by (simp add: b_def error_captured_def boundary_shows_def)
    have "render_in_boundary info lk st p boundary_init = b"
      using Some by (simp add: render_in_boundary_def boundary_init_shows b_def)
    then show ?thesis using ok Some b by (simp add: r renderings_after_error)
  qed
qed

definition sample_looks :: "chart_colors \<Rightarrow> looks" where
  "sample_looks cc =
     \<lparr>lk_numbers = plain_numbers, lk_floor = id, lk_dates = plain_dates, lk_engine = plain_engine, lk_now = 0,
      lk_colors = cc\<rparr>"

text \<open>One account with a bad date on the threats page, and the session page is gone as well.\<close>

theorem pages_until_first_bad_date_witness:
  "\<forall>cc. boundary_shows (renderings ''render''
      [(sample_looks cc, locked_out ''2024-01-15T10:30:00Z'', At_threats threats_init)] boundary_init) = Shown_page
    \<and> boundary_shows (renderings ''render''
      [(sample_looks cc, locked_out ''soon'', At_threats threats_init),
       (sample_looks cc, monitor_init, At_settings auth_init)] boundary_init) \<noteq> Shown_page"
proof
  fix cc
  have ok: "page_ok plain_engine (locked_out t) (At_threats threats_init) \<longleftrightarrow> all_valid plain_engine [t]" for t
    by (simp add: page_ok_def threats_dates_def locked_out_def threats_init_def suspicious_ips_def
        locked_accounts_def date_parse_samples)
  have v: "all_valid plain_engine [''2024-01-15T10:30:00Z'']" "\<not> all_valid plain_engine [''soon'']"
    by (simp_all add: date_parse_samples)
  have lk: "throws_on_invalid (lk_dates (sample_looks cc))" "lk_engine (sample_looks cc) = plain_engine"
    by (simp_all add: sample_looks_def plain_dates_ok)
  have bad: "render_page (sample_looks cc) (locked_out ''soon'') (At_threats threats_init) \<noteq> None"
    using render_page_ok [OF lk(1)] ok v(2) lk(2) by simp
  have "boundary_shows (renderings ''render''
      [(sample_looks cc, locked_out ''2024-01-15T10:30:00Z'', At_threats threats_init)] boundary_init) = Shown_page"
    by (subst pages_until_first_bad_date) (simp_all add: lk ok v(1) del: all_valid_simps renderings.simps)
  moreover have "boundary_shows (renderings ''render''
      [(sample_looks cc, locked_out ''soon'', At_threats threats_init),
       (sample_looks cc, monitor_init, At_settings auth_init)] boundary_init) \<noteq> Shown_page"
    using bad by (subst pages_until_first_bad_date)
      (auto simp: lk ok v(2) simp del: all_valid_simps renderings.simps)
  ultimately show "boundary_shows (renderings ''render''
      [(sample_looks cc, locked_out ''2024-01-15T10:30:00Z'', At_threats threats_init)] boundary_init) = Shown_page
    \<and> boundary_shows (renderings ''render''
      [(sample_looks cc, locked_out ''soon'', At_threats threats_init),
       (sample_looks cc, monitor_init, At_settings auth_init)] boundary_init) \<noteq> Shown_page"
    by blast
qed

end
