(* ===== verification/Live_Feed.thy ===== *)
theory Live_Feed
  imports Pages
begin

text \<open>
  From the event stream to the screen: an event that \<open>src/src/composables/useSSE.ts\<close> puts into the store and what
  becomes of the dashboard that shows it.
\<close>

lemma newest_shown:
  "m_liveEvents st = e # es \<Longrightarrow> page_ok eng st At_dashboard \<Longrightarrow> live_ok eng e"
  by (simp add: page_ok_def feed_ok_def)

lemma live_ok_iso:
  assumes "renders (js_string (own ps ''severity''))" "renders (js_string (own ps ''event_type''))"
    and "own ps ''created_at'' = JStr t" "date_parse eng t \<noteq> None"
  shows "live_ok eng (JObj ps)"
  using assms by (auto simp: live_ok_def date_of_value_def)

text \<open>Also: the same event without a time, sent in the two ways that the stream knows, has two ends: as a
  \<open>security_event\<close> it gets the time of its arrival and can be shown; wrapped in a message without a name it goes
  into the feed as it is, and the dashboard cannot be rendered any more.\<close>

theorem event_without_time:
  assumes "parse d1 = Some (JObj qs)" "own qs ''created_at'' = JUndef"
    and "renders (js_string (own qs ''severity''))" "renders (js_string (own qs ''event_type''))"
    and "date_parse eng now \<noteq> None"
    and "parse d2 = Some (JObj [(''type'', JStr ''security_event''), (''data'', JObj qs)])"
    and "name \<notin> {''security_event'', ''alert'', ''heartbeat''}"
  shows "live_ok eng (hd (m_liveEvents (processEvent parse now (''security_event'', d1) st)))
    \<and> \<not> page_ok eng (processEvent parse now (name, d2) st) At_dashboard"
proof
  show "live_ok eng (hd (m_liveEvents (processEvent parse now (''security_event'', d1) st)))"
    using assms(1-5)
    by (auto simp: processEvent_def security_event_value_def Let_def addLiveEvent_def coalesce_def
        intro!: live_ok_iso)
  have "m_liveEvents (processEvent parse now (name, d2) st) = JObj qs # take 99 (m_liveEvents st)"
    using assms(6,7) by (simp add: processEvent_def addLiveEvent_def Let_def)
  moreover have "\<not> live_ok eng (JObj qs)"
    using assms(2) by (simp add: live_ok_def date_of_value_def)
  ultimately show "\<not> page_ok eng (processEvent parse now (name, d2) st) At_dashboard"
    using newest_shown by blast
qed

theorem event_without_time_witness:
  "\<exists>parse. \<not> page_ok plain_engine
      (processEvent parse ''2024-01-15T10:30:00Z'' ([], ''wrapped'') monitor_init) At_dashboard
    \<and> live_ok plain_engine
      (hd (m_liveEvents (processEvent parse ''2024-01-15T10:30:00Z'' (''security_event'', ''plain'') monitor_init)))"
proof -
  define qs where "qs = [(''id'', JNum 7), (''event_type'', JStr ''login_failed''), (''severity'', JStr ''warning'')]"
  define parse where "parse s = Some (if s = ''plain'' then JObj qs
    else JObj [(''type'', JStr ''security_event''), (''data'', JObj qs)])" for s :: string
  have "own qs ''created_at'' = JUndef" "renders (js_string (own qs ''severity''))"
    "renders (js_string (own qs ''event_type''))" by (simp_all add: qs_def)
  moreover have "date_parse plain_engine ''2024-01-15T10:30:00Z'' \<noteq> None" by (simp add: date_parse_samples)
  moreover have "parse ''plain'' = Some (JObj qs)"
    "parse ''wrapped'' = Some (JObj [(''type'', JStr ''security_event''), (''data'', JObj qs)])"
    by (simp_all add: parse_def)
  ultimately show ?thesis
    using event_without_time [of parse "''plain''" qs plain_engine "''2024-01-15T10:30:00Z''" "''wrapped''" "[]" monitor_init]
    by auto
qed

end
