(* ===== verification/Spec2Isabelle.thy ===== *)
theory Spec2Isabelle
  imports
    Js_Prelude Taxonomy Api_Types Js_Date Url_Encoding Http Machines
    Logger Theme_Store Version_Info Policy_Labels
    Auth_Store Monitor_Store Step_Up Router_Guard Bootstrap
    Api_Client Sse_Stream Sse_Connection Policy_Log
    Policy_Race Refinement Step_Up_Spec
    Date_Parse Screen Charts
    Sessions_View Threats_View Blocked_View Reputation_Race Alerts_View Reports_View Tokens_View Geo_View
    Events_View Audit_View Dashboard_View Policy_View Shell_View
    Console Console_Rights Console_Calls Console_Expiry Period_Race Store_Spec
    Render Json_Text Payloads
    Threats_Page Tokens_Page Geo_Page Sessions_Page Blocked_Page Alerts_Page Reports_Page
    Events_Page Audit_Page Dashboard_Page Policy_Page Shell_Page Pages Live_Feed
begin

text \<open>
  A model of the OAuth2 security monitoring console, a single-page application (Vue, Pinia) that
  holds no tokens: a backend for frontends (BFF) keeps the session in an HttpOnly cookie, and the
  console talks to it and, through it, to the admin API.  The theories model the TypeScript under
  \<open>src/src\<close>: the stores, the composables that call the API and read the event stream, the route
  guard, the start of the page, the components around the pages, and the pages themselves: the
  scripts of the views and what their templates put on the screen.

  \<^bold>\<open>Parts and theories.\<close>
  \<^item> \<open>Js_Prelude\<close>: the parts of the language and its library that the code uses (JSON values,
    truthiness, \<open>split\<close>, \<open>join\<close>, \<open>trim\<close>, \<open>findIndex\<close>, object spread, object tables with their
    inherited members).  \<open>Js_Date\<close>: \<open>toISOString\<close> and the calendar.  \<open>Url_Encoding\<close>:
    \<open>encodeURIComponent\<close> and \<open>URLSearchParams\<close>, with decoders and their round trips.  \<open>Http\<close>:
    \<open>fetch\<close>, responses, \<open>JSON.stringify\<close> and the window.  \<open>Machines\<close>: reachable states, the
    contract \<open>invariant_system\<close>, runs of actions.
  \<^item> \<open>Taxonomy\<close>, \<open>Api_Types\<close>: \<open>types/index.ts\<close>, the event types with their labels, categories and
    OAuth 2.1 signals, and the records of the API.
  \<^item> \<open>Auth_Store\<close>: \<open>stores/authStore.ts\<close>.  \<open>Monitor_Store\<close>: \<open>stores/monitorStore.ts\<close>, all of its
    state and actions.  \<open>Step_Up\<close>: \<open>stores/stepUpStore.ts\<close> and \<open>components/StepUpDialog.vue\<close> as one
    machine.  \<open>Theme_Store\<close>: \<open>stores/themeStore.ts\<close> and \<open>composables/useChartTheme.ts\<close>.
    \<open>Version_Info\<close>: \<open>stores/version.ts\<close>, \<open>useVersionInfo.ts\<close>, \<open>useVersionCheck.ts\<close> and the badge.
  \<^item> \<open>Router_Guard\<close>: \<open>router/index.ts\<close>, and the two ways of signing out (\<open>App.vue\<close>,
    \<open>UnauthorisedView.vue\<close>).  \<open>Bootstrap\<close>: \<open>main.ts\<close>.
  \<^item> \<open>Api_Client\<close>: \<open>composables/useApi.ts\<close>, every call of it.  \<open>Sse_Stream\<close> and \<open>Sse_Connection\<close>:
    \<open>composables/useSSE.ts\<close>, the line reader and the connection machine.  \<open>Policy_Labels\<close> and
    \<open>Policy_Log\<close>: \<open>utils/policy.ts\<close> and \<open>composables/usePolicyDecisions.ts\<close>; \<open>Policy_Race\<close> cuts the
    operations of the latter at their \<open>await\<close> and lets them interleave.  \<open>Logger\<close>:
    \<open>utils/logger.ts\<close>.
  \<^item> \<open>Step_Up_Spec\<close>: the abstract machine of elevation rounds that \<open>Step_Up\<close> refines, and \<open>Store_Spec\<close>: the
    tables that the lists of the store implement, both by the contract of \<open>Refinement\<close>.
  \<^item> \<open>Console\<close>: the router, the calls of the API layer cut at their \<open>await\<close>s, the step-up dialog and the
    sign-outs as one machine over one session, in which everything can happen between two promises;
    \<open>Console_Rights\<close>, \<open>Console_Calls\<close> and \<open>Console_Expiry\<close> hold its invariants.
  \<^item> \<open>Json_Text\<close>: \<open>JSON.stringify\<close> with and without a gap, and a reader of its texts; \<open>Payloads\<close>: the
    bodies of the changes that \<open>useApi.ts\<close> sends.
  \<^item> \<open>Date_Parse\<close>: reading a date, and the date library of the pages.  \<open>Screen\<close>: what the pages
    share: the server, toasts, the waiting for calls, loading that reports its failure.  \<open>Charts\<close>:
    what the pages hand to the chart library.
  \<^item> One theory for each view of \<open>views\<close>: \<open>Sessions_View\<close>, \<open>Threats_View\<close>, \<open>Blocked_View\<close>,
    \<open>Alerts_View\<close>, \<open>Reports_View\<close>, \<open>Tokens_View\<close>, \<open>Geo_View\<close>, \<open>Events_View\<close>, \<open>Audit_View\<close>,
    \<open>Dashboard_View\<close> and \<open>Policy_View\<close>; \<open>Reputation_Race\<close> lets the calls of the blocked addresses
    interleave, \<open>Period_Race\<close> those of the pages with a choice of the period (threats, tokens, places).  \<open>Shell_View\<close>: the sidebar of \<open>App.vue\<close>, the version badge,
    \<open>SettingsView.vue\<close>, \<open>LoginView.vue\<close> and \<open>ErrorBoundary.vue\<close>.
  \<^item> The templates: \<open>Render\<close> has the pieces they share (texts, tags, buttons, tables, forms, charts, rendering
    that may throw), and one theory for each template, \<open>Threats_Page\<close>, \<open>Tokens_Page\<close>, \<open>Geo_Page\<close>,
    \<open>Sessions_Page\<close>, \<open>Blocked_Page\<close>, \<open>Alerts_Page\<close>, \<open>Reports_Page\<close>, \<open>Events_Page\<close>, \<open>Audit_Page\<close>,
    \<open>Dashboard_Page\<close> and \<open>Policy_Page\<close>, is a function from the state to what is on the page; \<open>Shell_Page\<close>
    has the frame, the step-up dialog and the pages without data.  \<open>Pages\<close> puts them all into the
    error boundary, and \<open>Live_Feed\<close> follows an event from the stream to the screen.

  \<^bold>\<open>State and operations.\<close>  A store is a record and an action a function on it; a call that may throw
  returns a sum whose left side is the error; an \<open>async\<close> function that changes state after an
  \<open>await\<close> is either a function of the outcome it waits for (the session, the version, the API
  calls) or a step of a machine (the step-up dialog, the event stream), where other steps may come
  in between.  The API calls run in a small monad over the three stores and the window.  A page is a
  screen: that world, the toasts shown, and the record of the view's own refs; its operations are
  functions on screens.  The polling of reports and the life of the dashboard are machines.
  A template is a function from the state to a record of what it shows, in the order of the template, or
  the error that rendering throws.

  \<^bold>\<open>Parameters.\<close>  Code outside \<open>src/\<close> is an argument: the server (\<open>net\<close>, from the number of earlier
  requests and the request to the outcome), the router's matcher, the logging library, the
  computed style sheet, \<open>JSON.parse\<close> in the event stream, the clock, the date library with the local
  offset, the content of a downloaded response, \<open>toLocaleString\<close> and the text of a number with a fraction.  What happens while a call waits
  for an elevation is the argument \<open>el\<close>.  Theorems that need something of an argument say so in a
  named hypothesis, and a witness gives a concrete one.

  \<^bold>\<open>Contracts.\<close>  \<open>invariant_system\<close> (an invariant holds in all reachable states) is interpreted for the
  session, the store, the theme, the loggers, the step-up machine, the event stream, the polling of
  reports, the console (its rights and its calls), and for the decision log, the reputations and the
  periods of a user who waits for each answer.  \<open>forward_simulation\<close> (a machine refines another) is
  interpreted for the step-up machine and the lists of the store.  \<open>period_slot\<close> is the place in the store
  of a page with a period, with the machine of its calls as an \<open>invariant_system\<close>; it is interpreted for the
  threats, the token statistics and the places.
  \<open>keyed_list\<close>, \<open>updatable_list\<close>, \<open>removable_list\<close> and \<open>editable_list\<close> are the contracts of the lists
  that the store edits in place, interpreted for alert rules, reports and blocked addresses.
  \<open>elevation_broker\<close> is what the API layer relies on from the step-up store.  \<open>frame\<close> is a part of the
  world that a request leaves alone, interpreted for the store, its data, its loading flags and the
  threats of the dashboard.

  \<^bold>\<open>What the theorems show.\<close>  Authorisation: a page is reached only with the rights it needs, every
  navigation ends, and in the console as a whole no order of calls, expiries, elevations, sign-outs and late
  pages leaves a page on screen without the rights it needs, as long as nobody with rights signs out from
  the access-denied page; an expired session is dropped at once and nothing brings it back.  Step-up:
  concurrent calls share one elevation, the dialog is open exactly while a call waits, no call is left
  waiting behind a closed dialog, a call is sent again at most once.  Data: a failed call changes no data and leaves no loading
  flag on; accepted changes show as the store's action, and the lists behave as tables; queries decode to
  the filters, and every change carries its payload, which is read back from its JSON text.  Event
  stream: cuts between events lose nothing, at most one stream is live, reconnects are bounded.
  Paging lists every row once.  Round trips for dates, cookies and addresses.  Pages: a form sends
  the one change it is for and reloads, a selection is revoked once for each user, the parts of the
  dashboard load independently, a report has one polling timer and is polled until it is settled, a
  deep link searches for one request, data are of the selected period for a user who waits; a page is
  rendered exactly when the dates it formats are valid, and tables have a cell for each column.  Other theorems state
  behaviour that a reader may not expect: an event cut by a chunk boundary is lost, the end of a
  stream goes unnoticed, a reconnect survives a disconnect, a failed version request is never
  forgiven, signing out from the access-denied page stays there or ends on the dashboard without a session,
  one invalid date, or one live event without a time, takes every page away until a reload, quick changes of the period end with the data of
  another, acknowledging twice undercounts, a
  dashboard that is left early keeps refreshing, a failed or late reputation shows that of another
  address, impatient filters mix the rows of two queries,
  two pages show different threat levels, quick reports lose their preset.

  \<^bold>\<open>Bounds.\<close>  No fuel is used: loops are structural recursion, recursion with a measure, or, for the
  navigation with its unbounded redirects, a partial function that is proved to return.

  \<^bold>\<open>Not modelled.\<close>  The BFF in Go and the deployment files; layout and styles of the templates (the order and content of
  what they show is modelled, their classes only where they are computed); the inside of the components of
  the UI library: which tab is in front, sorting and selection within a table; build configuration; logging output other than the
  prefix.  Numbers of JSON values are integers.  The calls of a page are modelled one at a time, those
  of \<open>Promise.all\<close> one after the other, each whatever became of the others; interleavings are
  modelled for the console (router, calls, dialog, sign-outs), the event stream, the polling of reports, the
  life of the dashboard, the decision log, the reputations and the pages with a period.
\<close>

section \<open>An expired session\<close>

text \<open>Also: after a 401 nothing keeps acting as if the user were signed in: every navigation to a page
  ends on the sign-in screen (or the access-denied page, when asked for), and connecting the event
  stream sends no request.\<close>

theorem nothing_acts_signed_in_after_401:
  assumes "net (length (br_sent (aw_browser w))) (api_request (aw_auth w) url opts) = Responded r"
    and "resp_status r = 401"
    and "matcher_ok resolve" "resolve path = Some page"
    and "sse_authenticated s = isAuthenticated (aw_auth (snd (fetchWithAuth net el url opts elevated w)))"
  shows "navigate cfg resolve (aw_auth (snd (fetchWithAuth net el url opts elevated w))) path
      = Some (Some (if rt_name page = ''unauthorised'' then page else login_route))
    \<and> sse_sent (connect s) = sse_sent s"
proof -
  have out: "\<not> isAuthenticated (aw_auth (snd (fetchWithAuth net el url opts elevated w)))"
    using assms(1,2)
    by (subst fetchWithAuth.simps)
      (simp add: Let_def case_prod_beta setUnauthenticated_def isAuthenticated_def)
  have "sse_sent (disconnect s) = sse_sent s" for s
    by (simp add: disconnect_def set_connected_def Let_def split: option.splits)
  then have "sse_sent (connect s) = sse_sent s"
    using out assms(5) by (simp add: connect_def Let_def disconnect_parts)
  moreover have "navigate cfg resolve (aw_auth (snd (fetchWithAuth net el url opts elevated w))) path
      = Some (Some (if rt_name page = ''unauthorised'' then page else login_route))"
    using navigate_landing [OF assms(3,4)] out by (simp add: landing_def)
  ultimately show ?thesis by blast
qed

theorem nothing_acts_signed_in_after_401_witness:
  "\<exists>w1. fetchWithAuth (status_net 401 None ()) user_cancels ''/api/x'' no_options False sample_world
      = (Inl (Error ''Session expired''), w1)
     \<and> navigate sample_roles exact_match (aw_auth w1) ''/alerts'' = Some (Some login_route)"
proof -
  define r where "r = \<lparr>resp_status = 401, resp_error = None, resp_body = Json ()\<rparr>"
  define w1 where
    "w1 = snd (fetchWithAuth (status_net 401 None ()) user_cancels ''/api/x'' no_options False sample_world)"
  have f: "fetchWithAuth (status_net 401 None ()) user_cancels ''/api/x'' no_options False sample_world
      = (Inl (Error ''Session expired''), w1)"
    by (simp add: w1_def fetchWithAuth.simps status_net_def Let_def case_prod_beta)
  obtain page where p: "exact_match ''/alerts'' = Some page" "rt_name page = ''alerts''"
    by (simp add: exact_match_def routes_def)
  have n: "status_net 401 None () (length (br_sent (aw_browser sample_world)))
      (api_request (aw_auth sample_world) ''/api/x'' no_options) = Responded r"
    by (simp add: status_net_def r_def)
  note nothing_acts_signed_in_after_401 [where net = "status_net 401 None ()" and w = sample_world
      and url = "''/api/x''" and opts = no_options and r = r and resolve = exact_match
      and path = "''/alerts''" and page = page and el = user_cancels and elevated = False
      and cfg = sample_roles and s = "sse_init\<lparr>sse_authenticated := isAuthenticated (aw_auth w1)\<rparr>",
      OF n _ exact_match_ok p(1)]
  then
  have "navigate sample_roles exact_match (aw_auth w1) ''/alerts'' = Some (Some login_route)"
    using p(2) by (simp add: w1_def [symmetric] r_def)
  then show ?thesis using f by blast
qed

end
